(* ===== verification/Pare_Prelude.thy ===== *)
theory Pare_Prelude
  imports Main
    "HOL-Library.Word"
    "HOL-Library.Signed_Division"
    "HOL-Library.Char_ord"
    "HOL-Library.List_Lexorder"
begin

text \<open>
  Shared ground of the development: Go's \<open>int64\<close> as a 64-bit word with wrap-around, Go's truncating
  division, byte strings with the operations of Go's packages \<open>strings\<close> and \<open>strconv\<close> that the code
  uses, decimal printing and parsing, and the collections of hints the component theories extend.

  Go strings are byte sequences, so a source string is a \<open>string\<close> of HOL (a list of 8-bit
  characters) holding its UTF-8 bytes; the Swedish letters of the literals are written as their two
  UTF-8 bytes.
\<close>

named_theorems exact64 "equations that read a word operation as integer arithmetic in range"
named_theorems str_simps "simplification rules of the string operations"
named_theorems frame_simps "tables an operation does not touch"

section \<open>Machine integers\<close>

type_synonym int64 = "64 word"

abbreviation min64 :: int where "min64 \<equiv> - 9223372036854775808"
abbreviation max64 :: int where "max64 \<equiv> 9223372036854775807"

definition in64 :: "int \<Rightarrow> bool" where
  "in64 k \<longleftrightarrow> min64 \<le> k \<and> k \<le> max64"

lemma sint_in64 [simp]: "in64 (sint (a :: int64))"
  using sint_ge [of a] sint_lt [of a] by (simp add: in64_def)

lemma sint64_bounds: "min64 \<le> sint (a :: int64)" "sint (a :: int64) \<le> max64"
  using sint_in64 [of a] by (simp_all add: in64_def)

lemma signed_take_bit_in64: "in64 k \<Longrightarrow> signed_take_bit 63 k = k"
  by (rule signed_take_bit_int_eq_self) (simp_all add: in64_def)

lemma sint_of_int64: "in64 k \<Longrightarrow> sint (word_of_int k :: int64) = k"
  by (simp add: sint_sbintrunc' signed_take_bit_in64)

lemma sint_add64 [exact64]: "in64 (sint a + sint b) \<Longrightarrow> sint (a + b :: int64) = sint a + sint b"
  by (simp add: sint_word_ariths signed_take_bit_in64)

lemma sint_diff64 [exact64]: "in64 (sint a - sint b) \<Longrightarrow> sint (a - b :: int64) = sint a - sint b"
  by (simp add: sint_word_ariths signed_take_bit_in64)

lemma sint_mult64 [exact64]: "in64 (sint a * sint b) \<Longrightarrow> sint (a * b :: int64) = sint a * sint b"
  by (simp add: sint_word_ariths signed_take_bit_in64)

lemma sint_minus64 [exact64]: "in64 (- sint a) \<Longrightarrow> sint (- a :: int64) = - sint a"
  by (simp add: sint_word_ariths signed_take_bit_in64)

lemma sint64_inj: "sint a = sint b \<Longrightarrow> a = (b :: int64)"
  by (rule signed_word_eqI)

lemma sint64_eq_0 [simp]: "sint (a :: int64) = 0 \<longleftrightarrow> a = 0"
  using sint64_inj [of a 0] by auto

text \<open>
  Adding a non-negative line amount to a non-negative total either is exact or wraps to a negative
  total: the fact every overflow guard of the code rests on.
\<close>

lemma add64_nonneg_cases:
  assumes "0 \<le> sint a" and "0 \<le> sint (b :: int64)"
  shows "if sint a + sint b \<le> max64 then sint (a + b) = sint a + sint b else sint (a + b) < 0"
proof (cases "sint a + sint b \<le> max64")
  case True
  then show ?thesis using assms by (simp add: sint_add64 in64_def)
next
  case False
  have "sint (a + b) = signed_take_bit 63 (sint a + sint b)"
    by (simp add: sint_word_ariths)
  also have "\<dots> = signed_take_bit 63 (sint a + sint b - 2 ^ 64)"
    using minus_mod_self2 [of "sint a + sint b + 2 ^ 63" "2 ^ 64 :: int"]
    by (simp add: signed_take_bit_eq_take_bit_shift take_bit_eq_mod algebra_simps)
  also have "\<dots> = sint a + sint b - 2 ^ 64"
    using False sint64_bounds [of a] sint64_bounds [of b]
    by (intro signed_take_bit_in64) (simp add: in64_def)
  finally show ?thesis
    using False sint64_bounds [of a] sint64_bounds [of b] by simp
qed

text \<open>Go's \<open>/\<close> and \<open>%\<close> on \<open>int64\<close> truncate towards zero.\<close>

definition go_div :: "int64 \<Rightarrow> int64 \<Rightarrow> int64" where
  "go_div a b = word_of_int (sint a sdiv sint b)"

definition go_mod :: "int64 \<Rightarrow> int64 \<Rightarrow> int64" where
  "go_mod a b = word_of_int (sint a smod sint b)"

lemma in64_nonneg_div: "0 \<le> k \<Longrightarrow> k \<le> max64 \<Longrightarrow> 0 < d \<Longrightarrow> in64 (k div d)"
  using zdiv_mono2 [of k 1 d] pos_imp_zdiv_nonneg_iff [of d k] by (auto simp: in64_def)

lemma go_div_nonneg:
  assumes "0 \<le> sint a" and "0 < sint b"
  shows "sint (go_div a b) = sint a div sint b"
  using assms sint64_bounds [of a] in64_nonneg_div [of "sint a" "sint b"]
  by (simp add: go_div_def signed_divide_int_def sgn_if sint_of_int64 split: if_splits)

lemma go_mod_nonneg:
  assumes "0 \<le> sint a" and "0 < sint b"
  shows "sint (go_mod a b) = sint a mod sint b"
proof -
  have eq: "sint a smod sint b = sint a mod sint b"
    using assms by (simp add: signed_modulo_int_def signed_divide_int_def sgn_if
        minus_div_mult_eq_mod split: if_splits)
  have "0 \<le> sint a mod sint b" "sint a mod sint b \<le> sint a"
    using assms by (simp_all add: zmod_le_nonneg_dividend)
  then have "in64 (sint a mod sint b)"
    using sint64_bounds [of a] by (simp add: in64_def)
  then show ?thesis by (simp add: go_mod_def eq sint_of_int64)
qed

section \<open>Rounding half away from zero\<close>

text \<open>
  The idiom \<open>if n >= 0 { return (n + d/2) / d }; return (n - d/2) / d\<close> occurs three times in the code
  (\<open>moms.VAT\<close>, \<open>Line.Net\<close>, \<open>convertToSEK\<close>); \<open>h\<close> is \<open>d/2\<close> and \<open>d\<close> the divisor.
\<close>

definition round_half :: "int64 \<Rightarrow> int64 \<Rightarrow> int64 \<Rightarrow> int64" where
  "round_half n h d = (if 0 \<le> sint n then go_div (n + h) d else go_div (n - h) d)"

definition round_int :: "int \<Rightarrow> int \<Rightarrow> int" where
  "round_int n h = (if 0 \<le> n then (n + h) div (2 * h) else - ((- n + h) div (2 * h)))"

lemma go_div_neg:
  assumes "sint a \<le> 0" and "0 < sint b" and "sint a \<noteq> min64"
  shows "sint (go_div a b) = - (- sint a div sint b)"
proof (cases "sint a = 0")
  case True
  then show ?thesis by (simp add: go_div_def)
next
  case False
  then have "sint a sdiv sint b = - (- sint a div sint b)"
    using assms by (simp add: signed_divide_int_def sgn_if)
  moreover have "0 \<le> - sint a div sint b"
    using assms pos_imp_zdiv_nonneg_iff [of "sint b" "- sint a"] by simp
  moreover have "in64 (- sint a div sint b)"
    using assms sint64_bounds [of a] by (intro in64_nonneg_div) auto
  ultimately show ?thesis
    using sint_of_int64 [of "- (- sint a div sint b)"] by (simp add: go_div_def in64_def)
qed

lemma round_half_exact:
  assumes "0 < sint h" and "sint d = 2 * sint h"
    and "in64 (\<bar>sint n\<bar> + sint h)"
  shows "sint (round_half n h d) = round_int (sint n) (sint h)"
proof (cases "0 \<le> sint n")
  case True
  with assms have "sint (n + h) = sint n + sint h" by (simp add: sint_add64)
  with True assms show ?thesis
    by (simp add: round_half_def round_int_def go_div_nonneg)
next
  case False
  with assms have e: "sint (n - h) = sint n - sint h"
    by (simp add: sint_diff64 in64_def)
  have "sint (n - h) \<noteq> min64" using False assms unfolding e by (simp add: in64_def)
  moreover have "sint (n - h) \<le> 0" using False assms unfolding e by simp
  ultimately have "sint (go_div (n - h) d) = - (- (sint n - sint h) div sint d)"
    using assms go_div_neg [of "n - h" d] unfolding e by simp
  with False assms show ?thesis by (simp add: round_half_def round_int_def add.commute)
qed

text \<open>The rounded value is a nearest one: it is off by at most half a unit.\<close>

lemma round_int_nearest:
  assumes "0 < h"
  shows "\<bar>2 * h * round_int n h - n\<bar> \<le> h"
proof -
  have key: "\<bar>2 * h * ((k + h) div (2 * h)) - k\<bar> \<le> h" for k
  proof -
    have "2 * h * ((k + h) div (2 * h)) = k + h - (k + h) mod (2 * h)"
      by (rule minus_mod_eq_mult_div [symmetric])
    moreover have "0 \<le> (k + h) mod (2 * h)" "(k + h) mod (2 * h) < 2 * h"
      using assms by simp_all
    ultimately show ?thesis by linarith
  qed
  show ?thesis
    using key [of n] key [of "- n"] by (auto simp: round_int_def abs_if split: if_splits)
qed

lemma round_int_nonneg: "0 < h \<Longrightarrow> 0 \<le> n \<Longrightarrow> 0 \<le> round_int n h"
  by (simp add: round_int_def pos_imp_zdiv_nonneg_iff)

lemma round_int_exact: "0 < h \<Longrightarrow> round_int (2 * h * k) h = k"
  by (auto simp: round_int_def div_add1_eq zero_le_mult_iff mult_less_0_iff
      simp flip: mult_minus_right)

end
