(* ===== verification/Go_Strings.thy ===== *)
theory Go_Strings
  imports Pare_Prelude
begin

text \<open>
  The operations of Go's packages \<open>strings\<close>, \<open>strconv\<close>, \<open>unicode\<close> and \<open>fmt\<close> that the code calls, on
  byte strings. Each is the library's documented behaviour on the arguments the code passes;
  white space is trimmed and dropped as whole UTF-8 sequences, as the library does on runes.
\<close>

abbreviation byte :: "char \<Rightarrow> nat" where "byte c \<equiv> of_char c"

section \<open>Package strings\<close>

definition has_prefix :: "string \<Rightarrow> string \<Rightarrow> bool" where
  "has_prefix s p \<longleftrightarrow> take (length p) s = p"

definition has_suffix :: "string \<Rightarrow> string \<Rightarrow> bool" where
  "has_suffix s p \<longleftrightarrow> has_prefix (rev s) (rev p)"

fun contains_str :: "string \<Rightarrow> string \<Rightarrow> bool" where
  "contains_str [] p \<longleftrightarrow> p = []"
| "contains_str (c # s) p \<longleftrightarrow> has_prefix (c # s) p \<or> contains_str s p"

text \<open>\<open>strings.Split\<close>, \<open>strings.Cut\<close> and \<open>strings.ReplaceAll(s, sep, "")\<close> for a one-byte separator.\<close>

fun split_on :: "char \<Rightarrow> string \<Rightarrow> string list" where
  "split_on d [] = [[]]"
| "split_on d (c # s) =
     (if c = d then [] # split_on d s
      else case split_on d s of p # ps \<Rightarrow> (c # p) # ps | [] \<Rightarrow> [[c]])"

fun cut_on :: "char \<Rightarrow> string \<Rightarrow> string \<times> string" where
  "cut_on d [] = ([], [])"
| "cut_on d (c # s) = (if c = d then ([], s) else let (w, f) = cut_on d s in (c # w, f))"

definition drop_char :: "char \<Rightarrow> string \<Rightarrow> string" where
  "drop_char d s = filter (\<lambda>c. c \<noteq> d) s"

text \<open>The last position of a byte, \<open>-1\<close> if there is none.\<close>

fun last_index :: "char \<Rightarrow> string \<Rightarrow> int" where
  "last_index d [] = -1"
| "last_index d (c # s) =
     (let i = last_index d s in if 0 \<le> i then i + 1 else if c = d then 0 else -1)"

lemma split_on_nonempty [simp]: "split_on d s \<noteq> []"
  by (cases "(d, s)" rule: split_on.cases) (auto split: list.splits)

lemma split_on_absent: "d \<notin> set s \<Longrightarrow> split_on d s = [s]"
  by (induction s) auto

lemma split_on_append:
  "d \<notin> set s \<Longrightarrow> split_on d (s @ d # t) = s # split_on d t"
  by (induction s) auto

lemma concat_split_on: "concat (split_on d s) = drop_char d s"
  by (induction s) (auto simp: drop_char_def split: list.splits)

lemma cut_on_absent [simp]: "d \<notin> set s \<Longrightarrow> cut_on d s = (s, [])"
  by (induction s) auto

lemma cut_on_append [simp]: "d \<notin> set s \<Longrightarrow> cut_on d (s @ d # t) = (s, t)"
  by (induction s) auto

lemma has_prefix_append [simp]: "has_prefix (p @ s) p"
  by (simp add: has_prefix_def)

section \<open>White space\<close>

text \<open>
  \<open>unicode.IsSpace\<close>: the number of bytes of the white-space rune a string starts with, 0 if it starts
  with none. No UTF-8 sequence of another rune contains one of these byte sequences.
\<close>

definition ascii_space :: "char \<Rightarrow> bool" where
  "ascii_space c \<longleftrightarrow> byte c = 32 \<or> (9 \<le> byte c \<and> byte c \<le> 13)"

definition wide_spaces :: "nat list list" where
  "wide_spaces = [[0xC2, 0x85], [0xC2, 0xA0], [0xE1, 0x9A, 0x80], [0xE2, 0x80, 0x80],
     [0xE2, 0x80, 0x81], [0xE2, 0x80, 0x82], [0xE2, 0x80, 0x83], [0xE2, 0x80, 0x84],
     [0xE2, 0x80, 0x85], [0xE2, 0x80, 0x86], [0xE2, 0x80, 0x87], [0xE2, 0x80, 0x88],
     [0xE2, 0x80, 0x89], [0xE2, 0x80, 0x8A], [0xE2, 0x80, 0xA8], [0xE2, 0x80, 0xA9],
     [0xE2, 0x80, 0xAF], [0xE2, 0x81, 0x9F], [0xE3, 0x80, 0x80]]"

definition space_len :: "(nat list \<Rightarrow> nat list) \<Rightarrow> string \<Rightarrow> nat" where
  "space_len f s =
     (case s of [] \<Rightarrow> 0
      | c # _ \<Rightarrow> if ascii_space c then 1
               else if byte c < 128 then 0
               else (case List.find (\<lambda>w. take (length w) (map byte s) = f w) wide_spaces of
                       None \<Rightarrow> 0 | Some w \<Rightarrow> length w))"

function drop_spaces :: "(nat list \<Rightarrow> nat list) \<Rightarrow> string \<Rightarrow> string" where
  "drop_spaces f s = (let n = space_len f s in if n = 0 then s else drop_spaces f (drop n s))"
  by pat_completeness auto
termination
  by (relation "measure (\<lambda>(f, s). length s)") (auto simp: space_len_def split: list.splits)

declare drop_spaces.simps [simp del]

definition trim_space :: "string \<Rightarrow> string" where
  "trim_space s = rev (drop_spaces rev (rev (drop_spaces id s)))"

text \<open>\<open>strings.Map\<close> with \<open>unicode.IsSpace\<close> dropping: every white-space rune is left out.\<close>

function remove_spaces :: "string \<Rightarrow> string" where
  "remove_spaces s =
     (case s of [] \<Rightarrow> []
      | c # t \<Rightarrow> let n = space_len id s in
               if n = 0 then c # remove_spaces t else remove_spaces (drop n s))"
  by pat_completeness auto
termination
  by (relation "measure length") auto

declare remove_spaces.simps [simp del]

text \<open>A string of visible ASCII characters holds no white space.\<close>

definition visible :: "string \<Rightarrow> bool" where
  "visible s \<longleftrightarrow> (\<forall>c \<in> set s. 33 \<le> byte c \<and> byte c < 127)"

lemma visible_simps [simp]:
  "visible []" "visible (c # s) \<longleftrightarrow> 33 \<le> byte c \<and> byte c < 127 \<and> visible s"
  "visible (s @ t) \<longleftrightarrow> visible s \<and> visible t" "visible (rev s) \<longleftrightarrow> visible s"
  by (auto simp: visible_def)

lemma space_len_visible [simp]: "visible s \<Longrightarrow> space_len f s = 0"
  by (auto simp: space_len_def ascii_space_def split: list.splits)

lemma drop_spaces_visible [simp]: "visible s \<Longrightarrow> drop_spaces f s = s"
  by (simp add: drop_spaces.simps)

lemma trim_space_visible [simp]: "visible s \<Longrightarrow> trim_space s = s"
  by (simp add: trim_space_def)

lemma remove_spaces_visible [simp]: "visible s \<Longrightarrow> remove_spaces s = s"
proof (induction s)
  case (Cons c s)
  then show ?case by (simp add: remove_spaces.simps [of "c # s"] del: remove_spaces.simps)
qed (simp add: remove_spaces.simps)

section \<open>Lines\<close>

text \<open>
  \<open>bufio.Scanner\<close> with its default split: the input is cut at every newline, one trailing carriage
  return of each line is dropped, and an empty rest after the last newline is no line. The
  scanner's maximal line length is not modelled.
\<close>

definition drop_cr :: "string \<Rightarrow> string" where
  "drop_cr l = (if l \<noteq> [] \<and> last l = CHR 0x0D then butlast l else l)"

fun scan_lines :: "string \<Rightarrow> string list" where
  "scan_lines s = (let ls = split_on (CHR 0x0A) s in
     map drop_cr (if last ls = [] then butlast ls else ls))"

lemma drop_cr_id: "CHR 0x0D \<notin> set l \<Longrightarrow> drop_cr l = l"
  using last_in_set [of l] by (metis drop_cr_def)

text \<open>Lines written with a final newline each are read back as they were.\<close>

lemma split_on_lines:
  "\<forall>l \<in> set ls. CHR 0x0A \<notin> set l \<Longrightarrow>
     split_on (CHR 0x0A) (concat (map (\<lambda>l. l @ [CHR 0x0A]) ls)) = ls @ [[]]"
  by (induction ls) (auto simp: split_on_append)

lemma scan_lines_written:
  assumes "\<forall>l \<in> set ls. CHR 0x0A \<notin> set l \<and> CHR 0x0D \<notin> set l"
  shows "scan_lines (concat (map (\<lambda>l. l @ [CHR 0x0A]) ls)) = ls"
  using assms split_on_lines [of ls] by (auto simp: drop_cr_id intro!: map_idI)

end
