(* ===== verification/Go_Decimal.thy ===== *)
theory Go_Decimal
  imports Go_Strings
begin

text \<open>
  Decimal numbers as Go prints and parses them: \<open>fmt\<close>'s \<open>%d\<close> and \<open>%0wd\<close>, \<open>strconv.ParseInt\<close> and
  \<open>strconv.Atoi\<close> at 64 bits, with their error results, and the facts that printing and parsing are
  inverse.
\<close>

definition is_digit :: "char \<Rightarrow> bool" where
  "is_digit c \<longleftrightarrow> 48 \<le> byte c \<and> byte c \<le> 57"

definition all_digits :: "string \<Rightarrow> bool" where
  "all_digits s \<longleftrightarrow> list_all is_digit s"

definition digit :: "nat \<Rightarrow> char" where
  "digit n = char_of (48 + n)"

definition digit_val :: "char \<Rightarrow> nat" where
  "digit_val c = byte c - 48"

definition digits_val :: "string \<Rightarrow> nat" where
  "digits_val s = foldl (\<lambda>a c. 10 * a + digit_val c) 0 s"

fun fmt_nat :: "nat \<Rightarrow> string" where
  "fmt_nat n = (if n < 10 then [digit n] else fmt_nat (n div 10) @ [digit (n mod 10)])"

declare fmt_nat.simps [simp del]

definition fmt_int :: "int \<Rightarrow> string" where
  "fmt_int k = (if k < 0 then CHR ''-'' # fmt_nat (nat (- k)) else fmt_nat (nat k))"

text \<open>\<open>%0wd\<close>: zeros fill the width between the sign and the digits.\<close>

definition fmt_pad :: "nat \<Rightarrow> int \<Rightarrow> string" where
  "fmt_pad w k =
     (let ds = fmt_nat (nat \<bar>k\<bar>) in
      if k < 0 then CHR ''-'' # replicate (w - 1 - length ds) (CHR ''0'') @ ds
      else replicate (w - length ds) (CHR ''0'') @ ds)"

text \<open>
  \<open>strconv.ParseInt(s, 10, 64)\<close>: the value and whether the error is nil. A syntax error gives 0, a
  value out of range the nearest bound.
\<close>

definition sign_split :: "string \<Rightarrow> bool \<times> string" where
  "sign_split s =
     (case s of [] \<Rightarrow> (False, [])
      | c # t \<Rightarrow> if c = CHR ''-'' then (True, t) else if c = CHR ''+'' then (False, t)
               else (False, s))"

definition parse_int64 :: "string \<Rightarrow> int \<times> bool" where
  "parse_int64 s =
     (let (neg, t) = sign_split s in
      if t = [] \<or> \<not> all_digits t then (0, False)
      else let n = int (digits_val t) in
        if \<not> neg \<and> max64 < n then (max64, False)
        else if neg \<and> max64 + 1 < n then (min64, False)
        else (if neg then - n else n, True))"

section \<open>Digits\<close>

lemma byte_digit [simp]: "n < 10 \<Longrightarrow> byte (digit n) = 48 + n"
  by (simp add: digit_def)

lemma is_digit_digit [simp]: "n < 10 \<Longrightarrow> is_digit (digit n)"
  by (simp add: is_digit_def)

lemma digit_val_digit [simp]: "n < 10 \<Longrightarrow> digit_val (digit n) = n"
  by (simp add: digit_val_def)

lemma digit_val_less: "is_digit c \<Longrightarrow> digit_val c < 10"
  unfolding is_digit_def digit_val_def by arith

lemma all_digits_simps [simp]:
  "all_digits []" "all_digits (c # s) \<longleftrightarrow> is_digit c \<and> all_digits s"
  "all_digits (s @ t) \<longleftrightarrow> all_digits s \<and> all_digits t"
  "all_digits (replicate n (CHR ''0''))"
  by (auto simp: all_digits_def list_all_iff is_digit_def)

lemma digits_val_snoc [simp]: "digits_val (s @ [c]) = 10 * digits_val s + digit_val c"
  by (simp add: digits_val_def)

lemma digits_val_Nil [simp]: "digits_val [] = 0"
  by (simp add: digits_val_def)

lemma digits_val_append:
  "digits_val (s @ t) = digits_val s * 10 ^ length t + digits_val t"
proof (induction t rule: rev_induct)
  case (snoc c t)
  have "digits_val (s @ t @ [c]) = digits_val ((s @ t) @ [c])" by simp
  also have "\<dots> = 10 * digits_val (s @ t) + digit_val c" by (rule digits_val_snoc)
  finally show ?case using snoc by (simp add: algebra_simps)
qed simp

lemma digits_val_zeros [simp]: "digits_val (replicate n (CHR ''0'')) = 0"
  by (induction n) (simp_all add: digits_val_def digit_val_def)

lemma digits_val_pad: "digits_val (replicate n (CHR ''0'') @ s) = digits_val s"
  by (simp add: digits_val_append)

lemma digits_val_less: "all_digits s \<Longrightarrow> digits_val s < 10 ^ length s"
proof (induction s rule: rev_induct)
  case (snoc c s)
  then have "digits_val s + 1 \<le> 10 ^ length s" and "digit_val c < 10"
    by (simp_all add: digit_val_less)
  then have "10 * digits_val s + digit_val c < 10 * 10 ^ length s" by linarith
  then show ?case by simp
qed simp

section \<open>Printing\<close>

lemma all_digits_fmt_nat [simp]: "all_digits (fmt_nat n)"
proof (induction n rule: fmt_nat.induct)
  case (1 n)
  then show ?case by (subst fmt_nat.simps) simp
qed

lemma digits_val_fmt_nat [simp]: "digits_val (fmt_nat n) = n"
proof (induction n rule: fmt_nat.induct)
  case (1 n)
  have "n < 10 \<Longrightarrow> digits_val [digit n] = n"
    using digits_val_snoc [of "[]" "digit n"] by simp
  with 1 show ?case by (subst fmt_nat.simps) simp
qed

lemma fmt_nat_nonempty [simp]: "fmt_nat n \<noteq> []"
  by (subst fmt_nat.simps) simp

lemma fmt_nat_inj: "fmt_nat m = fmt_nat n \<Longrightarrow> m = n"
  by (metis digits_val_fmt_nat)

lemma length_fmt_nat: "n < 10 ^ k \<Longrightarrow> 0 < k \<Longrightarrow> length (fmt_nat n) \<le> k"
proof (induction n arbitrary: k rule: fmt_nat.induct)
  case (1 n)
  show ?case
  proof (cases "n < 10")
    case True
    with 1 show ?thesis by (subst fmt_nat.simps) simp
  next
    case False
    with "1.prems" obtain j where j: "k = Suc j" "0 < j"
      by (cases k; cases "k - 1") auto
    with "1.prems" have "n div 10 < 10 ^ j"
      by (simp add: less_mult_imp_div_less mult.commute)
    with 1 False j have "length (fmt_nat (n div 10)) \<le> j" by simp
    with False j show ?thesis by (subst fmt_nat.simps) simp
  qed
qed

lemma digit_not_special:
  "is_digit c \<Longrightarrow> c \<noteq> CHR ''-'' \<and> c \<noteq> CHR ''+'' \<and> c \<noteq> CHR ''.'' \<and> c \<noteq> CHR '','' \<and>
     c \<noteq> CHR ''\"'' \<and> c \<noteq> CHR ''{'' \<and> c \<noteq> CHR ''}'' \<and> c \<noteq> CHR ''#''"
  by (auto simp: is_digit_def)

lemma all_digits_notin:
  assumes "all_digits s" and "\<not> is_digit c"
  shows "c \<notin> set s"
  using assms by (auto simp: all_digits_def list_all_iff)

lemma visible_digits [simp]: "all_digits s \<Longrightarrow> visible s"
  by (auto simp: visible_def all_digits_def list_all_iff is_digit_def)

lemma sign_split_digits [simp]: "all_digits s \<Longrightarrow> sign_split s = (False, s)"
  by (cases s) (auto simp: sign_split_def dest: digit_not_special)

lemma fmt_pad_nonneg:
  "0 \<le> k \<Longrightarrow> fmt_pad w k = replicate (w - length (fmt_nat (nat k))) (CHR ''0'') @ fmt_nat (nat k)"
  by (simp add: fmt_pad_def Let_def)

lemma all_digits_fmt_pad [simp]: "0 \<le> k \<Longrightarrow> all_digits (fmt_pad w k)"
  by (simp add: fmt_pad_nonneg)

lemma digits_val_fmt_pad [simp]: "0 \<le> k \<Longrightarrow> digits_val (fmt_pad w k) = nat k"
  by (simp add: fmt_pad_nonneg digits_val_pad)

lemma length_fmt_pad:
  assumes "0 \<le> k" and "k < 10 ^ w" and "0 < w"
  shows "length (fmt_pad w k) = w"
proof -
  have "nat k < 10 ^ w" using assms by (simp add: nat_less_iff)
  then have "length (fmt_nat (nat k)) \<le> w" using assms by (intro length_fmt_nat) auto
  then show ?thesis using assms by (simp add: fmt_pad_nonneg)
qed

section \<open>Parsing what was printed\<close>

lemma parse_int64_fmt_int:
  assumes "in64 k"
  shows "parse_int64 (fmt_int k) = (k, True)"
proof (cases "k < 0")
  case True
  with assms show ?thesis
    by (auto simp: parse_int64_def fmt_int_def sign_split_def in64_def)
next
  case False
  with assms show ?thesis
    by (auto simp: parse_int64_def fmt_int_def in64_def)
qed

lemma parse_int64_fmt_pad:
  assumes "0 \<le> k" and "k \<le> max64"
  shows "parse_int64 (fmt_pad w k) = (k, True)"
proof -
  have "fmt_pad w k \<noteq> []" using assms by (simp add: fmt_pad_nonneg)
  then show ?thesis using assms by (simp add: parse_int64_def)
qed

lemma visible_fmt_int [simp]: "visible (fmt_int k)"
  by (simp add: fmt_int_def)

lemma visible_fmt_pad [simp]: "0 \<le> k \<Longrightarrow> visible (fmt_pad w k)"
  by simp

end
