(* ===== verification/Go_Time.thy ===== *)
theory Go_Time
  imports Go_Decimal
begin

text \<open>
  The part of Go's package \<open>time\<close> the code uses: calendar dates and instants in UTC, their order
  (\<open>After\<close>, \<open>Before\<close>), the zero time, formatting with numeric layouts and \<open>time.Parse\<close>. A database
  DATE holds the calendar date of an instant and is read back as its midnight.
\<close>

section \<open>Dates and instants\<close>

datatype date = Date (year: int) (month: nat) (mday: nat)

text \<open>An instant: a date and the nanoseconds since its midnight.\<close>

datatype gotime = At (date_of: date) (nanos: nat)

instantiation date :: linorder
begin

definition less_eq_date :: "date \<Rightarrow> date \<Rightarrow> bool" where
  "a \<le> b \<longleftrightarrow> year a < year b \<or> year a = year b \<and>
     (month a < month b \<or> month a = month b \<and> mday a \<le> mday b)"

definition less_date :: "date \<Rightarrow> date \<Rightarrow> bool" where
  "(a :: date) < b \<longleftrightarrow> a \<le> b \<and> \<not> b \<le> a"

instance
  by standard (auto simp: less_eq_date_def less_date_def date.expand)

end

instantiation gotime :: linorder
begin

definition less_eq_gotime :: "gotime \<Rightarrow> gotime \<Rightarrow> bool" where
  "a \<le> b \<longleftrightarrow> date_of a < date_of b \<or> date_of a = date_of b \<and> nanos a \<le> nanos b"

definition less_gotime :: "gotime \<Rightarrow> gotime \<Rightarrow> bool" where
  "(a :: gotime) < b \<longleftrightarrow> a \<le> b \<and> \<not> b \<le> a"

instance
  by standard (auto simp: less_eq_gotime_def less_gotime_def gotime.expand)

end

text \<open>Midnight of a date, the zero \<open>time.Time\<close> and \<open>IsZero\<close>.\<close>

definition midnight :: "date \<Rightarrow> gotime" where
  "midnight d = At d 0"

definition zero_time :: gotime where
  "zero_time = midnight (Date 1 1 1)"

lemma date_of_midnight [simp]: "date_of (midnight d) = d"
  by (simp add: midnight_def)

lemma midnight_less_iff [simp]: "midnight a < midnight b \<longleftrightarrow> a < b"
  by (auto simp: less_gotime_def less_eq_gotime_def midnight_def)

lemma midnight_inj [simp]: "midnight a = midnight b \<longleftrightarrow> a = b"
  by (simp add: midnight_def)

section \<open>The calendar\<close>

definition leap :: "int \<Rightarrow> bool" where
  "leap y \<longleftrightarrow> y mod 4 = 0 \<and> (y mod 100 \<noteq> 0 \<or> y mod 400 = 0)"

definition days_in :: "int \<Rightarrow> nat \<Rightarrow> nat" where
  "days_in y m =
     (if m = 2 then (if leap y then 29 else 28)
      else if m \<in> {4, 6, 9, 11} then 30 else 31)"

definition valid_date :: "date \<Rightarrow> bool" where
  "valid_date d \<longleftrightarrow> 1 \<le> month d \<and> month d \<le> 12 \<and> 1 \<le> mday d \<and> mday d \<le> days_in (year d) (month d)"

lemma days_in_le: "days_in y m \<le> 31"
  by (simp add: days_in_def)

section \<open>Layouts\<close>

text \<open>
  A layout of \<open>time.Format\<close> and \<open>time.Parse\<close>: the four-digit year, the two-digit month and day, and
  literal separators. Parsing needs exactly the digits of the layout, rejects a month or day that does
  not exist and any text left over.
\<close>

datatype elem = YYYY | MM | DD | Sep char

type_synonym layout = "elem list"

definition iso_layout :: layout where  \<comment> \<open>2006-01-02\<close>
  "iso_layout = [YYYY, Sep CHR ''-'', MM, Sep CHR ''-'', DD]"

definition compact_layout :: layout where  \<comment> \<open>20060102\<close>
  "compact_layout = [YYYY, MM, DD]"

fun format_elem :: "date \<Rightarrow> elem \<Rightarrow> string" where
  "format_elem d YYYY = fmt_pad 4 (year d)"
| "format_elem d MM = fmt_pad 2 (int (month d))"
| "format_elem d DD = fmt_pad 2 (int (mday d))"
| "format_elem d (Sep c) = [c]"

definition format_date :: "layout \<Rightarrow> date \<Rightarrow> string" where
  "format_date l d = concat (map (format_elem d) l)"

definition take_digits :: "nat \<Rightarrow> string \<Rightarrow> (nat \<times> string) option" where
  "take_digits n s =
     (if n \<le> length s \<and> all_digits (take n s) then Some (digits_val (take n s), drop n s) else None)"

fun parse_elems :: "layout \<Rightarrow> string \<Rightarrow> date \<Rightarrow> date option" where
  "parse_elems [] s d = (if s = [] \<and> 1 \<le> mday d \<and> mday d \<le> days_in (year d) (month d) then Some d else None)"
| "parse_elems (YYYY # es) s d =
     (case take_digits 4 s of None \<Rightarrow> None
      | Some (n, s') \<Rightarrow> parse_elems es s' (Date (int n) (month d) (mday d)))"
| "parse_elems (MM # es) s d =
     (case take_digits 2 s of None \<Rightarrow> None
      | Some (n, s') \<Rightarrow> if n < 1 \<or> 12 < n then None else parse_elems es s' (Date (year d) n (mday d)))"
| "parse_elems (DD # es) s d =
     (case take_digits 2 s of None \<Rightarrow> None
      | Some (n, s') \<Rightarrow> parse_elems es s' (Date (year d) (month d) n))"
| "parse_elems (Sep c # es) s d =
     (case s of [] \<Rightarrow> None | x # s' \<Rightarrow> if x = c then parse_elems es s' d else None)"

definition time_parse :: "layout \<Rightarrow> string \<Rightarrow> date option" where
  "time_parse l s = parse_elems l s (Date 1 1 1)"

section \<open>Parsing what was formatted\<close>

text \<open>Dates of four-digit years, the ones a layout prints with a fixed width.\<close>

definition printable_date :: "date \<Rightarrow> bool" where
  "printable_date d \<longleftrightarrow> valid_date d \<and> 0 \<le> year d \<and> year d \<le> 9999"

lemma take_digits_pad:
  assumes "0 \<le> k" and "k < 10 ^ w" and "0 < w"
  shows "take_digits w (fmt_pad w k @ s) = Some (nat k, s)"
  using assms length_fmt_pad [OF assms] by (simp add: take_digits_def)

lemma printable_parts:
  assumes "printable_date d"
  shows "0 \<le> year d" "year d < 10 ^ 4" "int (month d) < 10 ^ 2" "int (mday d) < 10 ^ 2"
    "0 < month d" "month d \<le> 12" "0 < mday d" "mday d \<le> days_in (year d) (month d)"
  using assms days_in_le [of "year d" "month d"] by (auto simp: printable_date_def valid_date_def)

lemma time_parse_iso:
  assumes "printable_date d"
  shows "time_parse iso_layout (format_date iso_layout d) = Some d"
  using printable_parts [OF assms]
  by (cases d) (simp add: time_parse_def iso_layout_def format_date_def take_digits_pad
      take_digits_pad [where s = "[]", simplified])

lemma time_parse_compact:
  assumes "printable_date d"
  shows "time_parse compact_layout (format_date compact_layout d) = Some d"
  using printable_parts [OF assms]
  by (cases d) (simp add: time_parse_def compact_layout_def format_date_def take_digits_pad
      take_digits_pad [where s = "[]", simplified])

lemma parse_elems_valid:
  "parse_elems l s d = Some d' \<Longrightarrow> 1 \<le> month d \<Longrightarrow> month d \<le> 12 \<Longrightarrow> valid_date d'"
  by (induction l s d rule: parse_elems.induct)
    (auto simp: valid_date_def split: option.splits if_splits list.splits)

text \<open>A parsed date exists in the calendar.\<close>

lemma time_parse_valid: "time_parse l s = Some d \<Longrightarrow> valid_date d"
  unfolding time_parse_def by (rule parse_elems_valid) auto

lemma visible_compact: "printable_date d \<Longrightarrow> visible (format_date compact_layout d)"
  using printable_parts(1) [of d] by (simp add: format_date_def compact_layout_def)

end
