(* ===== verification/Ledger.thy ===== *)
theory Ledger
  imports Go_Time
begin

text \<open>
  The double-entry engine of \<open>internal/ledger\<close>: amounts (\<open>money.go\<close>), verifications with their
  validation and reversal (\<open>ledger.go\<close>), the BAS chart and its classes (\<open>chart.go\<close>). Amounts are
  64-bit words, so every sum is the wrapping sum the code computes. The lemmas relate \<open>Validate\<close> to the
  double-entry rule over unbounded integers.
\<close>

type_synonym amount = int64

section \<open>Amounts\<close>

definition SEK :: "int64 \<Rightarrow> int64 \<Rightarrow> amount" where
  "SEK kronor ore = kronor * 100 + ore"

text \<open>\<open>Amount.String\<close>: kronor, a decimal comma and two digits; the sign comes first.\<close>

definition amount_string :: "amount \<Rightarrow> string" where
  "amount_string a =
     (let v = (if sint a < 0 then - a else a); sign = (if sint a < 0 then ''-'' else []) in
      sign @ fmt_int (sint (go_div v 100)) @ '','' @ fmt_pad 2 (sint (go_mod v 100)))"

section \<open>Verifications\<close>

datatype ledger_error = ErrUnbalanced | ErrTooFewLines | ErrLineSide | ErrNoAccount | ErrNegative
  | ErrOverflow

record line =
  account :: string
  debit :: amount
  credit :: amount
  vat_code :: string

definition debit_line :: "string \<Rightarrow> amount \<Rightarrow> line" where
  "debit_line a x = \<lparr>account = a, debit = x, credit = 0, vat_code = []\<rparr>"

definition credit_line :: "string \<Rightarrow> amount \<Rightarrow> line" where
  "credit_line a x = \<lparr>account = a, debit = 0, credit = x, vat_code = []\<rparr>"

record verification =
  series :: string
  vnumber :: int
  vdate :: gotime
  description :: string
  lines :: "line list"
  reversal_of :: string

definition verification_id :: "verification \<Rightarrow> string" where
  "verification_id v = series v @ fmt_int (vnumber v)"

fun totals_loop :: "line list \<Rightarrow> amount \<Rightarrow> amount \<Rightarrow> amount \<times> amount" where
  "totals_loop [] d c = (d, c)"
| "totals_loop (l # ls) d c = totals_loop ls (d + debit l) (c + credit l)"

definition totals :: "verification \<Rightarrow> amount \<times> amount" where
  "totals v = totals_loop (lines v) 0 0"

text \<open>\<open>Validate\<close>: \<open>None\<close> is the nil error. The loop carries the running totals.\<close>

fun validate_loop :: "line list \<Rightarrow> amount \<Rightarrow> amount \<Rightarrow> ledger_error option" where
  "validate_loop [] d c = (if d \<noteq> c then Some ErrUnbalanced else None)"
| "validate_loop (l # ls) d c =
     (if account l = [] then Some ErrNoAccount
      else if sint (debit l) < 0 \<or> sint (credit l) < 0 then Some ErrNegative
      else if (debit l = 0) = (credit l = 0) then Some ErrLineSide
      else let d' = d + debit l; c' = c + credit l in
        if sint d' < 0 \<or> sint c' < 0 then Some ErrOverflow
        else validate_loop ls d' c')"

definition validate :: "verification \<Rightarrow> ledger_error option" where
  "validate v =
     (if length (lines v) < 2 then Some ErrTooFewLines else validate_loop (lines v) 0 0)"

definition swap_line :: "line \<Rightarrow> line" where
  "swap_line l = \<lparr>account = account l, debit = credit l, credit = debit l, vat_code = vat_code l\<rparr>"

text \<open>Swedish letters of literals: the ASCII stand-ins are replaced by their UTF-8 bytes.\<close>

definition sv_char :: "char \<Rightarrow> string" where
  "sv_char c =
     (if c = CHR ''}'' then [CHR 0xC3, CHR 0xA5]
      else if c = CHR ''{'' then [CHR 0xC3, CHR 0xA4]
      else if c = CHR ''|'' then [CHR 0xC3, CHR 0xB6]
      else if c = CHR '']'' then [CHR 0xC3, CHR 0x85]
      else if c = CHR ''['' then [CHR 0xC3, CHR 0x84]
      else if c = CHR ''^'' then [CHR 0xC3, CHR 0x96]
      else [c])"

definition sv :: "string \<Rightarrow> string" where
  "sv s = concat (map sv_char s)"

definition reverse :: "verification \<Rightarrow> string \<Rightarrow> int \<Rightarrow> gotime \<Rightarrow> string \<Rightarrow> verification" where
  "reverse orig s n d reason =
     \<lparr>series = s, vnumber = n, vdate = d,
      description = (if reason = [] then sv ''R{ttelse av '' @ verification_id orig else reason),
      lines = map swap_line (lines orig), reversal_of = verification_id orig\<rparr>"

section \<open>The chart of accounts\<close>

datatype account_class = ClassUnknown | ClassAsset | ClassEquityLiability | ClassIncome
  | ClassExpense | ClassFinancial

definition classify :: "string \<Rightarrow> account_class" where
  "classify a =
     (case a of [] \<Rightarrow> ClassUnknown
      | c # _ \<Rightarrow>
        if c = CHR ''1'' then ClassAsset
        else if c = CHR ''2'' then ClassEquityLiability
        else if c = CHR ''3'' then ClassIncome
        else if c \<in> {CHR ''4'', CHR ''5'', CHR ''6'', CHR ''7''} then ClassExpense
        else if c = CHR ''8'' then ClassFinancial
        else ClassUnknown)"

definition is_result :: "account_class \<Rightarrow> bool" where
  "is_result c \<longleftrightarrow> c = ClassIncome \<or> c = ClassExpense \<or> c = ClassFinancial"

definition is_balance :: "account_class \<Rightarrow> bool" where
  "is_balance c \<longleftrightarrow> c = ClassAsset \<or> c = ClassEquityLiability"

record chart_account =
  ca_number :: string
  ca_name :: string
  default_vat_code :: string

definition chart_row :: "string \<Rightarrow> string \<Rightarrow> string \<Rightarrow> chart_account" where
  "chart_row n nm v = \<lparr>ca_number = n, ca_name = sv nm, default_vat_code = v\<rparr>"

definition core_chart :: "chart_account list" where
  "core_chart = [
    chart_row ''1510'' ''Kundfordringar'' [],
    chart_row ''1630'' ''Avr{kning f|r skatter och avgifter (skattekonto)'' [],
    chart_row ''1790'' ''^vriga f|rutbetalda kostnader och upplupna int{kter'' [],
    chart_row ''1910'' ''Kassa'' [],
    chart_row ''1930'' ''F|retagskonto/checkkonto/aff{rskonto'' [],
    chart_row ''2081'' ''Aktiekapital'' [],
    chart_row ''2091'' ''Balanserad vinst eller f|rlust'' [],
    chart_row ''2099'' '']rets resultat'' [],
    chart_row ''2440'' ''Leverant|rsskulder'' [],
    chart_row ''2611'' ''Utg}ende moms p} f|rs{ljning inom Sverige, 25 %'' [],
    chart_row ''2621'' ''Utg}ende moms p} f|rs{ljning inom Sverige, 12 %'' [],
    chart_row ''2631'' ''Utg}ende moms p} f|rs{ljning inom Sverige, 6 %'' [],
    chart_row ''2614'' ''Utg}ende moms, omv{nd betalningsskyldighet, 25 %'' [],
    chart_row ''2615'' ''Utg}ende moms import av varor, 25 %'' [],
    chart_row ''2640'' ''Ing}ende moms'' [],
    chart_row ''2641'' ''Debiterad ing}ende moms'' [],
    chart_row ''2645'' ''Ber{knad ing}ende moms p} f|rv{rv fr}n utlandet'' [],
    chart_row ''2650'' ''Redovisningskonto f|r moms'' [],
    chart_row ''2710'' ''Personalskatt'' [],
    chart_row ''2990'' ''^vriga upplupna kostnader och f|rutbetalda int{kter'' [],
    chart_row ''3001'' ''F|rs{ljning inom Sverige, 25 % moms'' ''SE25'',
    chart_row ''3002'' ''F|rs{ljning inom Sverige, 12 % moms'' ''SE12'',
    chart_row ''3003'' ''F|rs{ljning inom Sverige, 6 % moms'' ''SE06'',
    chart_row ''3305'' ''F|rs{ljning tj{nster till land utanf|r EU'' ''EXP'',
    chart_row ''3308'' ''F|rs{ljning tj{nster till annat EU-land'' ''RCEU'',
    chart_row ''3740'' ''^res- och kronutj{mning'' [],
    chart_row ''3960'' ''Valutakursvinster p} fordringar och skulder av r|relsekarakt{r'' [],
    chart_row ''4531'' ''Ink|p av tj{nster fr}n ett land utanf|r EU, 25 % moms'' [],
    chart_row ''4535'' ''Ink|p av tj{nster fr}n annat EU-land, 25 % moms'' [],
    chart_row ''5010'' ''Lokalhyra'' [],
    chart_row ''5410'' ''F|rbrukningsinventarier'' [],
    chart_row ''5460'' ''F|rbrukningsmaterial'' [],
    chart_row ''5910'' ''Annonsering'' [],
    chart_row ''6110'' ''Kontorsmateriel'' [],
    chart_row ''6212'' ''Mobiltelefon'' [],
    chart_row ''6230'' ''Datakommunikation'' [],
    chart_row ''6310'' ''F|retagsf|rs{kringar'' [],
    chart_row ''6530'' ''Redovisningstj{nster'' [],
    chart_row ''6540'' ''IT-tj{nster'' [],
    chart_row ''6550'' ''Konsultarvoden'' [],
    chart_row ''6570'' ''Bankkostnader'' [],
    chart_row ''7210'' ''L|ner till tj{nstem{n'' [],
    chart_row ''7220'' ''L|ner till f|retagsledare'' [],
    chart_row ''7510'' ''Arbetsgivaravgifter'' [],
    chart_row ''7690'' ''^vriga personalkostnader'' [],
    chart_row ''7960'' ''Valutakursf|rluster p} fordringar och skulder av r|relsekarakt{r'' [],
    chart_row ''8310'' ''R{nteint{kter fr}n oms{ttningstillg}ngar'' [],
    chart_row ''8410'' ''R{ntekostnader f|r l}ngfristiga skulder'' [],
    chart_row ''8420'' ''R{ntekostnader f|r kortfristiga skulder'' [],
    chart_row ''8910'' ''Skatt som belastar }rets resultat'' [],
    chart_row ''8999'' '']rets resultat'' []
  ]"

lemma debit_line_simps [simp]:
  "account (debit_line a x) = a" "debit (debit_line a x) = x" "credit (debit_line a x) = 0"
  "account (credit_line a x) = a" "debit (credit_line a x) = 0" "credit (credit_line a x) = x"
  "vat_code (debit_line a x) = []" "vat_code (credit_line a x) = []"
  by (simp_all add: debit_line_def credit_line_def)

section \<open>What validation guarantees\<close>

text \<open>
  The double-entry specification, over unbounded integers: at least two lines, each a debit or a
  credit of a positive amount on a named account, and equal totals that fit an \<open>int64\<close>.
\<close>

definition line_ok :: "line \<Rightarrow> bool" where
  "line_ok l \<longleftrightarrow> account l \<noteq> [] \<and> 0 \<le> sint (debit l) \<and> 0 \<le> sint (credit l) \<and>
     (debit l = 0) \<noteq> (credit l = 0)"

definition sum_debit :: "line list \<Rightarrow> int" where
  "sum_debit ls = sum_list (map (\<lambda>l. sint (debit l)) ls)"

definition sum_credit :: "line list \<Rightarrow> int" where
  "sum_credit ls = sum_list (map (\<lambda>l. sint (credit l)) ls)"

definition double_entry :: "line list \<Rightarrow> bool" where
  "double_entry ls \<longleftrightarrow> 2 \<le> length ls \<and> (\<forall>l \<in> set ls. line_ok l) \<and>
     sum_debit ls = sum_credit ls \<and> sum_debit ls \<le> max64"

lemma sum_debit_simps [simp]:
  "sum_debit [] = 0" "sum_debit (l # ls) = sint (debit l) + sum_debit ls"
  "sum_credit [] = 0" "sum_credit (l # ls) = sint (credit l) + sum_credit ls"
  "sum_debit (ls @ ms) = sum_debit ls + sum_debit ms"
  "sum_credit (ls @ ms) = sum_credit ls + sum_credit ms"
  by (simp_all add: sum_debit_def sum_credit_def)

lemma sum_debit_nonneg: "\<forall>l \<in> set ls. line_ok l \<Longrightarrow> 0 \<le> sum_debit ls"
  by (induction ls) (auto simp: line_ok_def)

lemma sum_credit_nonneg: "\<forall>l \<in> set ls. line_ok l \<Longrightarrow> 0 \<le> sum_credit ls"
  by (induction ls) (auto simp: line_ok_def)

lemma validate_loop_well_formed:
  assumes "\<forall>l \<in> set ls. line_ok l" and "0 \<le> sint d" and "0 \<le> sint c"
  shows "validate_loop ls d c =
     (if max64 < sint d + sum_debit ls \<or> max64 < sint c + sum_credit ls then Some ErrOverflow
      else if sint d + sum_debit ls \<noteq> sint c + sum_credit ls then Some ErrUnbalanced else None)"
  using assms
proof (induction ls arbitrary: d c)
  case Nil
  then show ?case using sint64_bounds [of d] sint64_bounds [of c] sint64_inj [of d c] by auto
next
  case (Cons l ls)
  then have l: "line_ok l" and ls: "\<forall>l \<in> set ls. line_ok l" by auto
  have D: "0 \<le> sint (debit l)" and C: "0 \<le> sint (credit l)" using l by (auto simp: line_ok_def)
  note d = add64_nonneg_cases [OF Cons.prems(2) D] and c = add64_nonneg_cases [OF Cons.prems(3) C]
  show ?case
  proof (cases "sint d + sint (debit l) \<le> max64 \<and> sint c + sint (credit l) \<le> max64")
    case True
    with d c have dc: "sint (d + debit l) = sint d + sint (debit l)"
      "sint (c + credit l) = sint c + sint (credit l)" by simp_all
    with Cons.IH [OF ls, of "d + debit l" "c + credit l"] Cons.prems D C l show ?thesis
      by (auto simp: line_ok_def Let_def add.assoc)
  next
    case False
    then have "sint (d + debit l) < 0 \<or> sint (c + credit l) < 0" using d c by auto
    moreover have "max64 < sint d + sum_debit (l # ls) \<or> max64 < sint c + sum_credit (l # ls)"
      using False sum_debit_nonneg [OF ls] sum_credit_nonneg [OF ls] by auto
    ultimately show ?thesis using l by (auto simp: line_ok_def Let_def)
  qed
qed

lemma validate_loop_None_lines:
  "validate_loop ls d c = None \<Longrightarrow> \<forall>l \<in> set ls. line_ok l"
  by (induction ls d c rule: validate_loop.induct)
    (auto simp: line_ok_def Let_def split: if_splits)

text \<open>A list of well-formed lines is rejected exactly for its totals, in the code's order.\<close>

lemma validate_totals:
  assumes "2 \<le> length (lines v)" and "\<forall>l \<in> set (lines v). line_ok l"
  shows "validate v =
     (if max64 < sum_debit (lines v) \<or> max64 < sum_credit (lines v) then Some ErrOverflow
      else if sum_debit (lines v) \<noteq> sum_credit (lines v) then Some ErrUnbalanced else None)"
  using assms validate_loop_well_formed [of "lines v" 0 0] by (simp add: validate_def)

lemma validate_None_iff: "validate v = None \<longleftrightarrow> double_entry (lines v)"
proof
  assume v: "validate v = None"
  then have "2 \<le> length (lines v)" and ok: "\<forall>l \<in> set (lines v). line_ok l"
    by (auto simp: validate_def split: if_splits dest: validate_loop_None_lines)
  with v show "double_entry (lines v)"
    using validate_totals [of v] by (auto simp: double_entry_def split: if_splits)
next
  assume "double_entry (lines v)"
  then show "validate v = None" using validate_totals [of v] by (auto simp: double_entry_def)
qed

lemma totals_loop_sum:
  "totals_loop ls d c = (d + sum_list (map debit ls), c + sum_list (map credit ls))"
  by (induction ls arbitrary: d c) (simp_all add: add.assoc)

lemma sum_list_sint64:
  assumes "\<forall>x \<in> set xs. 0 \<le> sint x" and "sum_list (map sint xs) \<le> max64"
  shows "sint (sum_list xs :: int64) = sum_list (map sint xs)"
  using assms
proof (induction xs)
  case (Cons x xs)
  then have nn: "0 \<le> sum_list (map sint xs)" by (intro sum_list_nonneg) auto
  with Cons have IH: "sint (sum_list xs) = sum_list (map sint xs)" by auto
  with Cons.prems nn show ?case by (simp add: sint_add64 in64_def)
qed simp

text \<open>On a validated verification the wrapping totals are the true ones.\<close>

lemma totals_exact:
  assumes "validate v = None"
  shows "sint (fst (totals v)) = sum_debit (lines v)" "snd (totals v) = fst (totals v)"
proof -
  from assms have de: "double_entry (lines v)" by (simp add: validate_None_iff)
  have D: "sint (sum_list (map debit (lines v))) = sum_debit (lines v)"
    using de sum_list_sint64 [of "map debit (lines v)"]
    by (auto simp: double_entry_def sum_debit_def line_ok_def comp_def)
  have C: "sint (sum_list (map credit (lines v))) = sum_credit (lines v)"
    using de sum_list_sint64 [of "map credit (lines v)"]
    by (auto simp: double_entry_def sum_credit_def line_ok_def comp_def)
  show "sint (fst (totals v)) = sum_debit (lines v)"
    by (simp add: totals_def totals_loop_sum D)
  have "sint (sum_list (map credit (lines v))) = sint (sum_list (map debit (lines v)))"
    using de D C by (simp add: double_entry_def)
  then show "snd (totals v) = fst (totals v)"
    by (simp add: totals_def totals_loop_sum sint64_inj)
qed

section \<open>Reversal\<close>

lemma swap_line_simps [simp]:
  "account (swap_line l) = account l" "debit (swap_line l) = credit l"
  "credit (swap_line l) = debit l" "vat_code (swap_line l) = vat_code l"
  "swap_line (swap_line l) = l"
  by (simp_all add: swap_line_def)

lemma validate_loop_swap: "validate_loop (map swap_line ls) d c = validate_loop ls c d"
  by (induction ls arbitrary: d c) (auto simp: Let_def)

lemma reverse_lines [simp]: "lines (reverse v s n d r) = map swap_line (lines v)"
  by (simp add: reverse_def)

lemma validate_reverse: "validate (reverse v s n d r) = validate v"
  by (simp add: validate_def validate_loop_swap)

lemma reverse_reverse_lines: "lines (reverse (reverse v s n d r) s' n' d' r') = lines v"
  by (simp add: comp_def)

text \<open>The fault of an ill-formed line, and a list of lines whose first ill-formed one is found.\<close>

definition line_fault :: "line \<Rightarrow> ledger_error" where
  "line_fault l = (if account l = [] then ErrNoAccount
     else if sint (debit l) < 0 \<or> sint (credit l) < 0 then ErrNegative else ErrLineSide)"

lemma validate_loop_fault:
  assumes "\<forall>x \<in> set pre. line_ok x" and "\<not> line_ok l" and "0 \<le> sint d" and "0 \<le> sint c"
    and "sint d + sum_debit pre \<le> max64" and "sint c + sum_credit pre \<le> max64"
  shows "validate_loop (pre @ l # post) d c = Some (line_fault l)"
  using assms
proof (induction pre arbitrary: d c)
  case Nil
  then show ?case by (auto simp: line_ok_def line_fault_def)
next
  case (Cons x pre)
  then have x: "line_ok x" and D: "0 \<le> sint (debit x)" and C: "0 \<le> sint (credit x)"
    and nn: "0 \<le> sum_debit pre" "0 \<le> sum_credit pre"
    by (auto simp: line_ok_def intro: sum_debit_nonneg sum_credit_nonneg)
  have "sint (d + debit x) = sint d + sint (debit x)" "sint (c + credit x) = sint c + sint (credit x)"
    using add64_nonneg_cases [OF Cons.prems(3) D] add64_nonneg_cases [OF Cons.prems(4) C] Cons.prems nn
    by auto
  with Cons.IH [of "d + debit x" "c + credit x"] Cons.prems D C x show ?case
    by (auto simp: line_ok_def Let_def add.assoc)
qed

section \<open>Properties\<close>

text \<open>C1. A verification passes \<open>Validate\<close> exactly when its lines are a double entry: at least two
  lines, each one positive side on a named account, equal totals over unbounded integers that fit an
  \<open>int64\<close>. No wrapped sum is ever taken for a balanced one.\<close>

theorem validate_iff_double_entry: "validate v = None \<longleftrightarrow> double_entry (lines v)"
  by (rule validate_None_iff)

text \<open>\<open>Validate\<close> reports the fault of the first ill-formed line, whatever follows it, as long as the
  lines before it add up within an \<open>int64\<close>.\<close>

theorem validate_first_fault:
  assumes "lines v = pre @ l # post" and "2 \<le> length (lines v)"
    and "\<forall>x \<in> set pre. line_ok x" and "\<not> line_ok l"
    and "sum_debit pre \<le> max64" and "sum_credit pre \<le> max64"
  shows "validate v = Some (line_fault l)"
  using assms(1,2) validate_loop_fault [of pre l 0 0 post] assms(3-) by (auto simp: validate_def)

definition two_faced :: line where
  "two_faced = \<lparr>account = ''3001'', debit = 5, credit = 5, vat_code = []\<rparr>"

definition sample :: "line list \<Rightarrow> verification" where
  "sample ls = \<lparr>series = ''A'', vnumber = 7, vdate = midnight (Date 2026 7 9), description = ''Hyra'',
     lines = ls, reversal_of = []\<rparr>"

theorem validate_first_fault_witness:
  "validate (sample [debit_line ''1930'' 100, two_faced, credit_line [] 9]) = Some ErrLineSide"
  using validate_first_fault [of "sample [debit_line ''1930'' 100, two_faced, credit_line [] 9]"
      "[debit_line ''1930'' 100]" two_faced "[credit_line [] 9]"]
  by (simp add: sample_def two_faced_def line_ok_def debit_line_def line_fault_def)

text \<open>The totals \<open>Totals\<close> returns for a validated verification are equal and are the true sums:
  the \<open>int64\<close> additions did not wrap.\<close>

theorem totals_of_valid:
  assumes "validate v = None"
  shows "snd (totals v) = fst (totals v) \<and> sint (fst (totals v)) = sum_debit (lines v)"
  using totals_exact [OF assms] by simp_all

theorem totals_of_valid_witness:
  "sint (fst (totals (sample [debit_line ''1930'' 100, credit_line ''3001'' 100]))) = 100"
  using totals_of_valid [of "sample [debit_line ''1930'' 100, credit_line ''3001'' 100]"]
  by (simp add: sample_def validate_def Let_def)

end
