(* ===== verification/Reports.thy ===== *)
theory Reports
  imports Ledger "HOL-Library.Multiset"
begin

text \<open>
  Balances, trial balance, period result and financial statements (\<open>internal/ledger/reports.go\<close>), and
  the accounting identities they satisfy. Sums wrap as in the code, so the identities need no bound on
  the amounts.
\<close>

section \<open>Balances and trial balance\<close>

text \<open>
  A Go map from account to amount is an association list with one entry per key; reading an absent key
  gives 0.
\<close>

type_synonym balance_map = "(string \<times> amount) list"

definition bal_get :: "balance_map \<Rightarrow> string \<Rightarrow> amount" where
  "bal_get m a = (case map_of m a of None \<Rightarrow> 0 | Some x \<Rightarrow> x)"

fun bal_add :: "string \<Rightarrow> amount \<Rightarrow> balance_map \<Rightarrow> balance_map" where
  "bal_add a x [] = [(a, x)]"
| "bal_add a x ((b, y) # m) = (if a = b then (b, y + x) # m else (b, y) # bal_add a x m)"

definition balances :: "verification list \<Rightarrow> balance_map" where
  "balances vs = foldl (\<lambda>m v. foldl (\<lambda>m l. bal_add (account l) (debit l - credit l) m) m (lines v)) [] vs"

record account_balance =
  ab_account :: string
  ab_class :: account_class
  ab_net :: amount

definition trial_balance :: "verification list \<Rightarrow> account_balance list" where
  "trial_balance vs = sort_key ab_account
     (map (\<lambda>(a, n). \<lparr>ab_account = a, ab_class = classify a, ab_net = n\<rparr>) (balances vs))"

definition result :: "verification list \<Rightarrow> amount" where
  "result vs = - foldl (\<lambda>net (a, b). if is_result (classify a) then net + b else net) 0 (balances vs)"

definition result_of :: "account_balance list \<Rightarrow> amount" where
  "result_of tb = - foldl (\<lambda>net r. if is_result (ab_class r) then net + ab_net r else net) 0 tb"

section \<open>Financial statements\<close>

record statement_row =
  sr_account :: string
  sr_name :: string
  sr_class :: account_class
  sr_amount :: amount

record statements =
  income :: "statement_row list"
  expenses :: "statement_row list"
  financial :: "statement_row list"
  income_total :: amount
  expense_total :: amount
  financial_total :: amount
  st_result :: amount
  assets :: "statement_row list"
  equity :: "statement_row list"
  liabilities :: "statement_row list"
  asset_total :: amount
  equity_total :: amount
  liability_total :: amount

definition no_statements :: statements where
  "no_statements = \<lparr>income = [], expenses = [], financial = [], income_total = 0, expense_total = 0,
     financial_total = 0, st_result = 0, assets = [], equity = [], liabilities = [],
     asset_total = 0, equity_total = 0, liability_total = 0\<rparr>"

definition row_name :: "(string \<Rightarrow> string) option \<Rightarrow> string \<Rightarrow> string" where
  "row_name f a = (case f of None \<Rightarrow> [] | Some g \<Rightarrow> g a)"

definition mk_row :: "(string \<Rightarrow> string) option \<Rightarrow> account_balance \<Rightarrow> amount \<Rightarrow> statement_row" where
  "mk_row f r x = \<lparr>sr_account = ab_account r, sr_name = row_name f (ab_account r),
     sr_class = ab_class r, sr_amount = x\<rparr>"

definition pl_step :: "(string \<Rightarrow> string) option \<Rightarrow> statements \<Rightarrow> account_balance \<Rightarrow> statements" where
  "pl_step f s r =
     (case ab_class r of
        ClassIncome \<Rightarrow> s\<lparr>income := income s @ [mk_row f r (- ab_net r)],
                         income_total := income_total s - ab_net r\<rparr>
      | ClassExpense \<Rightarrow> s\<lparr>expenses := expenses s @ [mk_row f r (ab_net r)],
                          expense_total := expense_total s + ab_net r\<rparr>
      | ClassFinancial \<Rightarrow> s\<lparr>financial := financial s @ [mk_row f r (- ab_net r)],
                            financial_total := financial_total s - ab_net r\<rparr>
      | _ \<Rightarrow> s)"

definition bs_step :: "(string \<Rightarrow> string) option \<Rightarrow> statements \<Rightarrow> account_balance \<Rightarrow> statements" where
  "bs_step f s r =
     (case ab_class r of
        ClassAsset \<Rightarrow> s\<lparr>assets := assets s @ [mk_row f r (ab_net r)],
                        asset_total := asset_total s + ab_net r\<rparr>
      | ClassEquityLiability \<Rightarrow>
          (if has_prefix (ab_account r) ''20''
           then s\<lparr>equity := equity s @ [mk_row f r (- ab_net r)],
                  equity_total := equity_total s - ab_net r\<rparr>
           else s\<lparr>liabilities := liabilities s @ [mk_row f r (- ab_net r)],
                  liability_total := liability_total s - ab_net r\<rparr>)
      | _ \<Rightarrow> s)"

definition build_statements_period ::
  "account_balance list \<Rightarrow> account_balance list \<Rightarrow> (string \<Rightarrow> string) option \<Rightarrow> statements" where
  "build_statements_period pl_tb bs_tb f =
     (let s1 = foldl (pl_step f) no_statements pl_tb;
          s2 = s1\<lparr>st_result := income_total s1 - expense_total s1 + financial_total s1\<rparr>;
          s3 = foldl (bs_step f) s2 bs_tb;
          bal = asset_total s3 - equity_total s3 - liability_total s3
      in if bal \<noteq> 0
         then s3\<lparr>equity := equity s3 @ [\<lparr>sr_account = [], sr_name = sv '']rets resultat (ber{knat)'',
                   sr_class = ClassEquityLiability, sr_amount = bal\<rparr>],
                 equity_total := equity_total s3 + bal\<rparr>
         else s3)"

definition build_statements ::
  "account_balance list \<Rightarrow> (string \<Rightarrow> string) option \<Rightarrow> statements" where
  "build_statements tb f = build_statements_period tb tb f"

section \<open>Balances\<close>

lemma foldl_add_if:
  "foldl (\<lambda>n r. if P r then n + f r else n) (a :: int64) xs = a + sum_list (map f (filter P xs))"
  by (induction xs arbitrary: a) (simp_all add: add.assoc)

lemma bal_get_add: "bal_get (bal_add a x m) b = bal_get m b + (if a = b then x else 0)"
  by (induction a x m rule: bal_add.induct) (auto simp: bal_get_def)

lemma fst_bal_add: "fst ` set (bal_add a x m) = insert a (fst ` set m)"
  by (induction a x m rule: bal_add.induct) auto

lemma distinct_bal_add: "distinct (map fst m) \<Longrightarrow> distinct (map fst (bal_add a x m))"
  by (induction a x m rule: bal_add.induct) (use fst_bal_add in auto)

lemma sum_bal_add: "sum_list (map snd (bal_add a x m)) = sum_list (map snd m) + x"
  by (induction a x m rule: bal_add.induct) (auto simp: algebra_simps)

definition line_net :: "line \<Rightarrow> amount" where
  "line_net l = debit l - credit l"

definition all_lines :: "verification list \<Rightarrow> line list" where
  "all_lines vs = concat (map lines vs)"

lemma balances_lines:
  "balances vs = foldl (\<lambda>m l. bal_add (account l) (line_net l) m) [] (all_lines vs)"
proof -
  have "foldl (\<lambda>m v. foldl (\<lambda>m l. bal_add (account l) (debit l - credit l) m) m (lines v)) m vs
      = foldl (\<lambda>m l. bal_add (account l) (line_net l) m) m (all_lines vs)" for m
    by (induction vs arbitrary: m) (simp_all add: all_lines_def line_net_def)
  then show ?thesis by (simp add: balances_def)
qed

lemma bal_get_foldl:
  "bal_get (foldl (\<lambda>m l. bal_add (account l) (line_net l) m) m ls) a =
     bal_get m a + sum_list (map line_net (filter (\<lambda>l. account l = a) ls))"
  by (induction ls arbitrary: m) (auto simp: bal_get_add)

lemma bal_get_balances:
  "bal_get (balances vs) a = sum_list (map line_net (filter (\<lambda>l. account l = a) (all_lines vs)))"
  using bal_get_foldl [of "[]" "all_lines vs" a] by (simp add: balances_lines bal_get_def)

lemma distinct_balances: "distinct (map fst (balances vs))"
proof -
  have "distinct (map fst (foldl (\<lambda>m l. bal_add (account l) (line_net l) m) m ls))"
    if "distinct (map fst m)" for m ls
    using that by (induction ls arbitrary: m) (auto intro: distinct_bal_add)
  then show ?thesis by (simp add: balances_lines)
qed

lemma sum_balances: "sum_list (map snd (balances vs)) = sum_list (map line_net (all_lines vs))"
proof -
  have "sum_list (map snd (foldl (\<lambda>m l. bal_add (account l) (line_net l) m) m ls)) =
      sum_list (map snd m) + sum_list (map line_net ls)" for m ls
    by (induction ls arbitrary: m) (simp_all add: sum_bal_add add.assoc)
  then show ?thesis by (simp add: balances_lines)
qed

lemma set_balances: "fst ` set (balances vs) = account ` set (all_lines vs)"
proof -
  have "fst ` set (foldl (\<lambda>m l. bal_add (account l) (line_net l) m) m ls) =
      fst ` set m \<union> account ` set ls" for m ls
    by (induction ls arbitrary: m) (auto simp: fst_bal_add)
  then show ?thesis by (simp add: balances_lines)
qed

lemma sum_line_net: "sum_list (map line_net ls) = sum_list (map debit ls) - sum_list (map credit ls)"
  by (induction ls) (simp_all add: line_net_def algebra_simps)

text \<open>Verifications that validate contribute nothing to the sum of all nets.\<close>

lemma net_of_valid:
  assumes "\<forall>v \<in> set vs. validate v = None"
  shows "sum_list (map line_net (all_lines vs)) = 0"
  using assms
proof (induction vs)
  case (Cons v vs)
  have "sum_list (map debit (lines v)) = sum_list (map credit (lines v))"
    using totals_exact(2) [of v] Cons.prems by (simp add: totals_def totals_loop_sum)
  with Cons show ?case by (simp add: all_lines_def sum_line_net)
qed (simp add: all_lines_def)

lemma line_net_swap: "line_net (swap_line l) = - line_net l"
  by (simp add: line_net_def)

lemma filter_swap:
  "sum_list (map line_net (filter (\<lambda>l. account l = a) (map swap_line ls))) =
     - sum_list (map line_net (filter (\<lambda>l. account l = a) ls))"
  by (induction ls) (simp_all add: line_net_swap)

lemma balances_reverse:
  "bal_get (balances (vs @ [v, reverse v s n d r])) a = bal_get (balances vs) a"
  by (simp add: bal_get_balances all_lines_def filter_swap [of a "lines v"])

section \<open>Trial balance\<close>

lemma sum_list_sort_key:
  "sum_list (map f (sort_key k xs)) = (sum_list (map f xs) :: int64)"
  by (metis mset_map mset_sort sum_mset_sum_list)

lemma trial_balance_sum:
  "sum_list (map ab_net (trial_balance vs)) = sum_list (map line_net (all_lines vs))"
  by (simp add: trial_balance_def sum_list_sort_key comp_def case_prod_unfold
      flip: sum_balances)

lemma trial_balance_sorted: "sorted_wrt (<) (map ab_account (trial_balance vs))"
proof -
  have "sorted (map ab_account (trial_balance vs))"
    by (simp add: trial_balance_def)
  moreover have "mset (map ab_account (trial_balance vs)) = mset (map fst (balances vs))"
    by (simp add: trial_balance_def case_prod_unfold image_mset.compositionality comp_def)
  then have "distinct (map ab_account (trial_balance vs))"
    using distinct_balances [of vs] by (metis mset_eq_imp_distinct_iff)
  ultimately show ?thesis by (simp add: strict_sorted_iff)
qed

section \<open>Statements\<close>

text \<open>The six pairs of a section's rows and its total, and the steps on them.\<close>

definition row_sum :: "statement_row list \<Rightarrow> amount" where
  "row_sum rs = sum_list (map sr_amount rs)"

lemma row_sum_simps [simp]: "row_sum [] = 0" "row_sum (rs @ [r]) = row_sum rs + sr_amount r"
  by (simp_all add: row_sum_def)

lemma sr_amount_mk_row [simp]: "sr_amount (mk_row f r x) = x"
  by (simp add: mk_row_def)

definition totals_agree :: "statements \<Rightarrow> bool" where
  "totals_agree s \<longleftrightarrow> income_total s = row_sum (income s) \<and> expense_total s = row_sum (expenses s) \<and>
     financial_total s = row_sum (financial s) \<and> asset_total s = row_sum (assets s) \<and>
     equity_total s = row_sum (equity s) \<and> liability_total s = row_sum (liabilities s)"

lemma totals_agree_no_statements [simp]: "totals_agree no_statements"
  by (simp add: totals_agree_def no_statements_def)

lemma totals_agree_pl_step: "totals_agree s \<Longrightarrow> totals_agree (pl_step f s r)"
  by (simp add: totals_agree_def pl_step_def split: account_class.split)

lemma totals_agree_bs_step: "totals_agree s \<Longrightarrow> totals_agree (bs_step f s r)"
  by (simp add: totals_agree_def bs_step_def split: account_class.split)

lemma totals_agree_foldl:
  "totals_agree s \<Longrightarrow> totals_agree (foldl (pl_step f) s tb)"
  "totals_agree s \<Longrightarrow> totals_agree (foldl (bs_step f) s tb)"
  by (induction tb arbitrary: s) (simp_all add: totals_agree_pl_step totals_agree_bs_step)

lemma totals_agree_build: "totals_agree (build_statements_period pl bs f)"
proof -
  have "totals_agree (s\<lparr>st_result := x\<rparr>) = totals_agree s" for s x
    by (simp add: totals_agree_def)
  then have "totals_agree (foldl (bs_step f) (foldl (pl_step f) no_statements pl\<lparr>st_result := x\<rparr>) bs)" for x
    by (simp add: totals_agree_foldl)
  then show ?thesis by (simp add: build_statements_period_def Let_def) (simp add: totals_agree_def)
qed

definition net_in :: "(account_class \<Rightarrow> bool) \<Rightarrow> account_balance list \<Rightarrow> amount" where
  "net_in P tb = sum_list (map ab_net (filter (\<lambda>r. P (ab_class r)) tb))"

lemma net_in_simps [simp]:
  "net_in P [] = 0"
  "net_in P (r # tb) = (if P (ab_class r) then ab_net r else 0) + net_in P tb"
  by (simp_all add: net_in_def)

definition pl_total :: "statements \<Rightarrow> amount" where
  "pl_total s = income_total s - expense_total s + financial_total s"

definition bs_gap :: "statements \<Rightarrow> amount" where
  "bs_gap s = asset_total s - equity_total s - liability_total s"

lemma pl_total_step: "pl_total (pl_step f s r) = pl_total s - net_in is_result [r]"
  by (simp add: pl_total_def pl_step_def is_result_def split: account_class.split)

lemma bs_gap_step: "bs_gap (bs_step f s r) = bs_gap s + net_in is_balance [r]"
  by (simp add: bs_gap_def bs_step_def is_balance_def split: account_class.split)

lemma pl_foldl_result: "pl_total (foldl (pl_step f) s tb) = pl_total s - net_in is_result tb"
  by (induction tb arbitrary: s) (simp_all add: pl_total_step)

lemma pl_foldl_bs:
  "asset_total (foldl (pl_step f) s tb) = asset_total s"
  "equity_total (foldl (pl_step f) s tb) = equity_total s"
  "liability_total (foldl (pl_step f) s tb) = liability_total s"
  by (induction tb arbitrary: s) (simp_all add: pl_step_def split: account_class.split)

lemma bs_foldl_gap: "bs_gap (foldl (bs_step f) s tb) = bs_gap s + net_in is_balance tb"
  by (induction tb arbitrary: s) (simp_all add: bs_gap_step)

lemma bs_foldl_result: "st_result (foldl (bs_step f) s tb) = st_result s"
  by (induction tb arbitrary: s) (simp_all add: bs_step_def split: account_class.split)

lemma result_of_net: "result_of tb = - net_in is_result tb"
  by (simp add: result_of_def net_in_def foldl_add_if)

lemma statements_result: "st_result (build_statements_period pl bs f) = result_of pl"
  using pl_foldl_result [of f no_statements pl]
  by (simp add: build_statements_period_def Let_def bs_foldl_result result_of_net)
    (simp add: pl_total_def no_statements_def)

lemma statements_balance:
  "asset_total s = equity_total s + liability_total s"
  if "s = build_statements_period pl bs f"
  using that by (auto simp: build_statements_period_def Let_def algebra_simps)

lemma net_in_split: "net_in is_result tb + net_in is_balance tb =
    sum_list (map ab_net (filter (\<lambda>r. ab_class r \<noteq> ClassUnknown) tb))"
proof (induction tb)
  case (Cons r tb)
  then show ?case
    by (cases "ab_class r") (simp_all add: is_result_def is_balance_def algebra_simps)
qed simp

text \<open>The gap the balance sheet shows as computed result, before the balancing row is added.\<close>

definition gap_row :: "amount \<Rightarrow> statement_row" where
  "gap_row x = \<lparr>sr_account = [], sr_name = sv '']rets resultat (ber{knat)'',
     sr_class = ClassEquityLiability, sr_amount = x\<rparr>"

definition listed_equity :: "(string \<Rightarrow> string) option \<Rightarrow> account_balance list \<Rightarrow> statement_row list" where
  "listed_equity f tb = map (\<lambda>r. mk_row f r (- ab_net r))
     (filter (\<lambda>r. ab_class r = ClassEquityLiability \<and> has_prefix (ab_account r) ''20'') tb)"

lemma bs_foldl_equity: "equity (foldl (bs_step f) s tb) = equity s @ listed_equity f tb"
  by (induction tb arbitrary: s)
    (auto simp: bs_step_def listed_equity_def split: account_class.split)

lemma pl_foldl_equity: "equity (foldl (pl_step f) s tb) = equity s"
  by (induction tb arbitrary: s) (simp_all add: pl_step_def split: account_class.split)

lemma bs_gap_result: "bs_gap (s\<lparr>st_result := x\<rparr>) = bs_gap s"
  by (simp add: bs_gap_def)

lemma pl_foldl_gap: "bs_gap (foldl (pl_step f) s tb) = bs_gap s"
  by (simp add: bs_gap_def pl_foldl_bs)

lemma statements_gap:
  "equity (build_statements_period pl bs f) = listed_equity f bs @
     (if net_in is_balance bs \<noteq> 0 then [gap_row (net_in is_balance bs)] else [])"
proof -
  let ?s1 = "foldl (pl_step f) no_statements pl"
  let ?s3 = "foldl (bs_step f)
    (?s1\<lparr>st_result := income_total ?s1 - expense_total ?s1 + financial_total ?s1\<rparr>) bs"
  have "bs_gap no_statements = 0" "equity no_statements = []"
    by (simp_all add: bs_gap_def no_statements_def)
  then have gap: "bs_gap ?s3 = net_in is_balance bs" and eq: "equity ?s3 = listed_equity f bs"
    by (simp_all add: bs_foldl_gap bs_gap_result pl_foldl_gap bs_foldl_equity pl_foldl_equity)
  have "equity (build_statements_period pl bs f) =
      equity ?s3 @ (if bs_gap ?s3 \<noteq> 0 then [gap_row (bs_gap ?s3)] else [])"
    by (simp add: build_statements_period_def Let_def bs_gap_def gap_row_def)
  then show ?thesis by (simp only: gap eq)
qed

lemma trial_balance_known:
  assumes "\<forall>l \<in> set (all_lines vs). classify (account l) \<noteq> ClassUnknown" and "r \<in> set (trial_balance vs)"
  shows "ab_class r \<noteq> ClassUnknown"
proof -
  from assms(2) obtain a n where an: "(a, n) \<in> set (balances vs)" and r: "ab_class r = classify a"
    by (auto simp: trial_balance_def)
  from an have "a \<in> account ` set (all_lines vs)" using set_balances [of vs] by force
  with assms(1) r show ?thesis by auto
qed

lemma trial_balance_gap:
  assumes "\<forall>v \<in> set vs. validate v = None"
    and "\<forall>l \<in> set (all_lines vs). classify (account l) \<noteq> ClassUnknown"
  shows "net_in is_balance (trial_balance vs) = result_of (trial_balance vs)"
proof -
  have "filter (\<lambda>r. ab_class r \<noteq> ClassUnknown) (trial_balance vs) = trial_balance vs"
    using trial_balance_known [OF assms(2)] by (simp add: filter_id_conv)
  then have "net_in is_result (trial_balance vs) + net_in is_balance (trial_balance vs) = 0"
    using net_in_split [of "trial_balance vs"] trial_balance_sum [of vs] net_of_valid [OF assms(1)] by simp
  then show ?thesis by (simp add: result_of_net) (metis add.commute eq_neg_iff_add_eq_0)
qed

lemma result_trial_balance: "result_of (trial_balance vs) = result vs"
proof -
  let ?tb = "map (\<lambda>(a, n). \<lparr>ab_account = a, ab_class = classify a, ab_net = n\<rparr>) (balances vs)"
  have "net_in is_result (sort_key ab_account ?tb) = net_in is_result ?tb"
    by (simp add: net_in_def filter_sort sum_list_sort_key)
  also have "\<dots> = sum_list (map snd (filter (\<lambda>p. is_result (classify (fst p))) (balances vs)))"
    by (simp add: net_in_def filter_map comp_def case_prod_unfold)
  finally show ?thesis
    by (simp add: result_of_net result_def case_prod_unfold foldl_add_if trial_balance_def)
qed

section \<open>Properties\<close>

text \<open>Reversal: the correcting verification passes \<open>Validate\<close> exactly when the original does, posting
  both leaves every account's balance as it was, and reversing the reversal restores the lines.\<close>

theorem reverse_cancels:
  "validate (reverse v s n d r) = validate v \<and>
   bal_get (balances (vs @ [v, reverse v s n d r])) a = bal_get (balances vs) a \<and>
   lines (reverse (reverse v s n d r) s' n' d' r') = lines v"
  by (simp only: validate_reverse balances_reverse reverse_reverse_lines simp_thms)

text \<open>C2. The trial balance of validated verifications sums to zero and lists every posted account
  once, in ascending order.\<close>

theorem trial_balance_ties_out:
  assumes "\<forall>v \<in> set vs. validate v = None"
  shows "sum_list (map ab_net (trial_balance vs)) = 0 \<and>
    sorted_wrt (<) (map ab_account (trial_balance vs)) \<and>
    set (map ab_account (trial_balance vs)) = account ` set (all_lines vs)"
proof -
  have "set (map ab_account (trial_balance vs)) = fst ` set (balances vs)"
    by (force simp: trial_balance_def)
  then show ?thesis
    using assms by (simp only: trial_balance_sum net_of_valid trial_balance_sorted set_balances simp_thms)
qed

theorem trial_balance_ties_out_witness:
  "sum_list (map ab_net (trial_balance [sample [debit_line ''1930'' 100, credit_line ''3001'' 100]])) = 0"
  using trial_balance_ties_out [of "[sample [debit_line ''1930'' 100, credit_line ''3001'' 100]]"]
  by (simp add: sample_def validate_def debit_line_def credit_line_def Let_def)

text \<open>C3. The statements are consistent whatever rows they are built from: the balance sheet balances,
  the result is the period result of the income statement's rows, and every total is the sum of the rows
  listed in its section.\<close>

theorem statements_consistent:
  "asset_total (build_statements_period pl bs f) =
     equity_total (build_statements_period pl bs f) + liability_total (build_statements_period pl bs f) \<and>
   st_result (build_statements_period pl bs f) = result_of pl \<and>
   totals_agree (build_statements_period pl bs f)"
  using statements_balance statements_result totals_agree_build by blast

text \<open>For the books of one open year, built from validated verifications on classified accounts, the
  computed row of the balance sheet is exactly the period result (\<open>Result\<close>), and it is absent when the
  result is zero.\<close>

theorem open_year_computed_result:
  assumes "\<forall>v \<in> set vs. validate v = None"
    and "\<forall>l \<in> set (all_lines vs). classify (account l) \<noteq> ClassUnknown"
  shows "equity (build_statements (trial_balance vs) f) = listed_equity f (trial_balance vs) @
    (if result vs \<noteq> 0 then [gap_row (result vs)] else [])"
  using statements_gap trial_balance_gap [OF assms] result_trial_balance
  by (simp add: build_statements_def)

theorem open_year_computed_result_witness:
  "equity (build_statements (trial_balance [sample [debit_line ''1930'' 100, credit_line ''3001'' 100]]) None) =
     [gap_row 100]"
proof -
  let ?vs = "[sample [debit_line ''1930'' 100, credit_line ''3001'' 100]]"
  have b: "balances ?vs = [(''1930'', 100), (''3001'', - 100)]"
    by (simp add: balances_def sample_def debit_line_def credit_line_def)
  have "result ?vs = 100" "listed_equity None (trial_balance ?vs) = []"
    by (simp_all add: result_def listed_equity_def trial_balance_def b is_result_def classify_def)
  then show ?thesis
    using open_year_computed_result [of ?vs None]
    by (simp add: all_lines_def sample_def validate_def debit_line_def credit_line_def classify_def Let_def)
qed

end
