(* ===== verification/Moms.thy ===== *)
theory Moms
  imports Reports
begin

text \<open>
  Swedish VAT (\<open>internal/moms\<close>): the sales codes with their rates, labels and accounts and the
  declaration boxes (\<open>moms.go\<close>), the purchase codes and the lines of a supplier cost
  (\<open>purchase.go\<close>). A code is a string, as in the source, so every function also says what an unknown
  code gives.
\<close>

section \<open>Sales codes\<close>

abbreviation SE25 :: string where "SE25 \<equiv> ''SE25''"
abbreviation SE12 :: string where "SE12 \<equiv> ''SE12''"
abbreviation SE06 :: string where "SE06 \<equiv> ''SE06''"
abbreviation RCEU :: string where "RCEU \<equiv> ''RCEU''"
abbreviation EXP :: string where "EXP \<equiv> ''EXP''"

definition code_rate :: "string \<Rightarrow> int64" where
  "code_rate c = (if c = SE25 then 25 else if c = SE12 then 12 else if c = SE06 then 6 else 0)"

definition code_label :: "string \<Rightarrow> string" where
  "code_label c =
     (if c = SE25 then ''Moms 25 %''
      else if c = SE12 then ''Moms 12 %''
      else if c = SE06 then ''Moms 6 %''
      else if c = RCEU then sv ''Omv{nd skattskyldighet''
      else if c = EXP then sv ''Export (utanf|r EU)''
      else c)"

definition line_label :: "string \<Rightarrow> string" where
  "line_label c =
     (if c = RCEU then sv ''Omv{nd''
      else if c = EXP then ''Export''
      else if c = SE25 then ''25 %''
      else if c = SE12 then ''12 %''
      else if c = SE06 then ''6 %''
      else ''0 %'')"

definition legal_note :: "string \<Rightarrow> string" where
  "legal_note c =
     (if c = RCEU then sv ''Omv{nd betalningsskyldighet. Reverse charge. K|paren redovisar moms (artikel 196, merv{rdesskattedirektivet 2006/112/EG).''
      else if c = EXP then sv ''Oms{ttning av tj{nst utanf|r EU, ingen svensk moms.''
      else [])"

definition VAT :: "amount \<Rightarrow> int64 \<Rightarrow> amount" where
  "VAT net rate = round_half (net * rate) 50 100"

definition output_account :: "int64 \<Rightarrow> string" where
  "output_account r =
     (if r = 25 then ''2611'' else if r = 12 then ''2621'' else if r = 6 then ''2631'' else [])"

definition sales_account :: "int64 \<Rightarrow> string" where
  "sales_account r =
     (if r = 25 then ''3001'' else if r = 12 then ''3002'' else if r = 6 then ''3003'' else [])"

definition sales_account_for_code :: "string \<Rightarrow> string" where
  "sales_account_for_code c =
     (if c = SE25 then ''3001''
      else if c = SE12 then ''3002''
      else if c = SE06 then ''3003''
      else if c = RCEU then ''3308''
      else if c = EXP then ''3305''
      else [])"

section \<open>The declaration\<close>

record vat_declaration =
  box05 :: amount
  box10 :: amount
  box11 :: amount
  box12 :: amount
  box20 :: amount
  box21 :: amount
  box22 :: amount
  box30 :: amount
  box31 :: amount
  box32 :: amount
  box39 :: amount
  box48 :: amount
  box49 :: amount

definition Report :: "balance_map \<Rightarrow> vat_declaration" where
  "Report bal =
     (let cr = (\<lambda>acc. - bal_get bal acc);
          dr = (\<lambda>acc. bal_get bal acc);
          d = \<lparr>box05 = cr ''3001'' + cr ''3002'' + cr ''3003'',
               box10 = cr ''2611'', box11 = cr ''2621'', box12 = cr ''2631'',
               box20 = 0, box21 = dr ''4535'', box22 = dr ''4531'',
               box30 = cr ''2614'' + cr ''2615'', box31 = 0, box32 = 0,
               box39 = cr ''3308'',
               box48 = dr ''2640'' + dr ''2641'' + dr ''2645'', box49 = 0\<rparr>
      in d\<lparr>box49 := box10 d + box11 d + box12 d + box30 d + box31 d + box32 d - box48 d\<rparr>)"

section \<open>Purchases\<close>

abbreviation PD25 :: string where "PD25 \<equiv> ''PD25''"
abbreviation PD12 :: string where "PD12 \<equiv> ''PD12''"
abbreviation PD06 :: string where "PD06 \<equiv> ''PD06''"
abbreviation PEU :: string where "PEU \<equiv> ''PEU''"
abbreviation PIMP :: string where "PIMP \<equiv> ''PIMP''"
abbreviation PNONE :: string where "PNONE \<equiv> ''PNONE''"

definition purchase_label :: "string \<Rightarrow> string" where
  "purchase_label c =
     (if c = PD25 then ''Svensk moms 25 %''
      else if c = PD12 then ''Svensk moms 12 %''
      else if c = PD06 then ''Svensk moms 6 %''
      else if c = PEU then sv ''EU-tj{nst, omv{nd moms''
      else if c = PIMP then sv ''Tj{nst utanf|r EU, omv{nd moms''
      else if c = PNONE then ''Ingen avdragsgill moms''
      else c)"

definition domestic_rate :: "string \<Rightarrow> int64 \<times> bool" where
  "domestic_rate c =
     (if c = PD25 then (25, True)
      else if c = PD12 then (12, True)
      else if c = PD06 then (6, True)
      else (0, False))"

definition purchase_lines :: "string \<Rightarrow> amount \<Rightarrow> string \<Rightarrow> line list" where
  "purchase_lines cost net c =
     (let (rate, ok) = domestic_rate c in
      if ok then
        let vat = VAT net rate in
        [debit_line cost net, debit_line ''2640'' vat, credit_line ''2440'' (net + vat)]
      else if c = PEU \<or> c = PIMP then
        let acct = (if c = PIMP then ''4531'' else ''4535''); vat = VAT net 25 in
        [debit_line acct net, credit_line ''2440'' net, credit_line ''2614'' vat,
         debit_line ''2645'' vat]
      else [debit_line cost net, credit_line ''2440'' net])"

definition payable :: "amount \<Rightarrow> string \<Rightarrow> amount" where
  "payable net c =
     (let (rate, ok) = domestic_rate c in if ok then net + VAT net rate else net)"

definition valid_purchase_code :: "string \<Rightarrow> bool" where
  "valid_purchase_code s \<longleftrightarrow> s = PD25 \<or> s = PD12 \<or> s = PD06 \<or> s = PEU \<or> s = PIMP \<or> s = PNONE"

section \<open>Rounding of VAT\<close>

lemma sint_rate [simp]:
  "sint (25 :: int64) = 25" "sint (12 :: int64) = 12" "sint (6 :: int64) = 6"
  "sint (50 :: int64) = 50" "sint (100 :: int64) = 100"
  by simp_all

lemma VAT_exact:
  assumes "\<bar>sint net\<bar> * \<bar>sint r\<bar> \<le> max64 - 50"
  shows "sint (VAT net r) = round_int (sint net * sint r) 50"
proof -
  have abs: "\<bar>sint net * sint r\<bar> \<le> max64 - 50" using assms by (simp add: abs_mult)
  then have m: "sint (net * r) = sint net * sint r"
    by (intro sint_mult64) (simp add: in64_def abs_le_iff)
  show ?thesis
    using round_half_exact [of 50 100 "net * r"] abs by (simp add: VAT_def m in64_def)
qed

lemma VAT_nearest:
  assumes "\<bar>sint net\<bar> * \<bar>sint r\<bar> \<le> max64 - 50"
  shows "\<bar>100 * sint (VAT net r) - sint net * sint r\<bar> \<le> 50"
  using round_int_nearest [of 50 "sint net * sint r"] VAT_exact [OF assms] by simp

text \<open>The bound on amounts under which no VAT computation of the code wraps.\<close>

definition vat_safe :: "amount \<Rightarrow> bool" where
  "vat_safe net \<longleftrightarrow> \<bar>sint net\<bar> \<le> 300000000000000000"

lemma round_int_le:
  assumes "0 \<le> k" and "k \<le> 100 * b"
  shows "round_int k 50 \<le> b"
proof -
  have "(k + 50) div 100 \<le> (100 * b + 50) div 100" using assms by (intro zdiv_mono1) auto
  then show ?thesis using assms by (simp add: round_int_def)
qed

lemma VAT_safe:
  assumes "vat_safe net" and "0 \<le> sint r" and "sint r \<le> 25"
  shows "sint (VAT net r) = round_int (sint net * sint r) 50"
proof (rule VAT_exact)
  have "\<bar>sint net\<bar> * \<bar>sint r\<bar> \<le> 300000000000000000 * 25"
    using assms unfolding vat_safe_def by (intro mult_mono) auto
  then show "\<bar>sint net\<bar> * \<bar>sint r\<bar> \<le> max64 - 50" by simp
qed

lemma VAT_range:
  assumes "vat_safe net" and "0 \<le> sint net" and "0 \<le> sint r" and "sint r \<le> 25"
  shows "0 \<le> sint (VAT net r)" "sint (VAT net r) \<le> sint net"
proof -
  have nr: "0 \<le> sint net * sint r" using assms by simp
  show "0 \<le> sint (VAT net r)"
    using nr VAT_safe [OF assms(1,3,4)] by (simp add: round_int_nonneg)
  have "sint net * sint r \<le> 100 * sint net"
    using mult_left_mono [of "sint r" 100 "sint net"] assms by (simp add: mult.commute)
  then show "sint (VAT net r) \<le> sint net"
    using nr VAT_safe [OF assms(1,3,4)] round_int_le by simp
qed

lemma VAT_pos:
  assumes "vat_safe net" and "0 \<le> sint r" and "sint r \<le> 25" and "50 \<le> sint net * sint r"
  shows "VAT net r \<noteq> 0"
proof -
  have "0 < round_int (sint net * sint r) 50"
    using assms(4) pos_imp_zdiv_pos_iff [of 100 "sint net * sint r + 50"] by (simp add: round_int_def)
  then show ?thesis using VAT_safe [OF assms(1-3)] by (metis less_irrefl sint_0)
qed

lemma code_rate_cases: "code_rate c = 25 \<or> code_rate c = 12 \<or> code_rate c = 6 \<or> code_rate c = 0"
  by (simp add: code_rate_def)

lemma code_rate_range: "0 \<le> sint (code_rate c)" "sint (code_rate c) \<le> 25"
  by (simp_all add: code_rate_def)

section \<open>Purchase lines\<close>

text \<open>The two sides have the same wrapping sum whatever the net and the code.\<close>

lemma purchase_lines_balance:
  "sum_list (map debit (purchase_lines cost net c)) = sum_list (map credit (purchase_lines cost net c))"
  by (simp add: purchase_lines_def Let_def debit_line_def credit_line_def split: prod.split)

definition payable_credit :: "line list \<Rightarrow> amount" where
  "payable_credit ls = sum_list (map (\<lambda>l. credit l - debit l) (filter (\<lambda>l. account l = ''2440'') ls))"

lemma payable_booked:
  assumes "cost \<noteq> ''2440''"
  shows "payable_credit (purchase_lines cost net c) = payable net c"
  using assms by (auto simp: payable_credit_def purchase_lines_def payable_def Let_def split: prod.splits)

definition purchase_rate :: "string \<Rightarrow> int64" where
  "purchase_rate c = (let (r, ok) = domestic_rate c in
     if ok then r else if c = PEU \<or> c = PIMP then 25 else 0)"

lemma purchase_rate_range: "0 \<le> sint (purchase_rate c)" "sint (purchase_rate c) \<le> 25"
  by (auto simp: purchase_rate_def domestic_rate_def)

lemma purchase_code_cases:
  obtains (dom) r where "domestic_rate c = (r, True)" "purchase_rate c = r" "r \<noteq> 0"
  | (rev) "domestic_rate c = (0, False)" "c = PEU \<or> c = PIMP" "purchase_rate c = 25"
  | (none) "domestic_rate c = (0, False)" "c \<noteq> PEU" "c \<noteq> PIMP" "purchase_rate c = 0"
proof -
  have "(\<exists>r. domestic_rate c = (r, True) \<and> purchase_rate c = r \<and> r \<noteq> 0) \<or>
      domestic_rate c = (0, False) \<and> (c = PEU \<or> c = PIMP) \<and> purchase_rate c = 25 \<or>
      domestic_rate c = (0, False) \<and> c \<noteq> PEU \<and> c \<noteq> PIMP \<and> purchase_rate c = 0"
    by (cases "c = PD25"; cases "c = PD12"; cases "c = PD06")
      (simp_all add: purchase_rate_def domestic_rate_def)
  then show thesis using that by metis
qed

text \<open>
  A cost whose VAT does not round to zero is accepted by the ledger; a treatment that carries VAT on
  a net so small that the VAT is 0 \<open>ore\<close> makes a line without an amount, which the ledger rejects.
\<close>

lemma word_pos_neq0: "0 < sint (n :: int64) \<Longrightarrow> n \<noteq> 0"
  by auto

lemma add64_exact_small:
  assumes "0 \<le> sint (a :: int64)" "0 \<le> sint b" "sint a \<le> 4000000000000000000" "sint b \<le> 4000000000000000000"
  shows "sint (a + b) = sint a + sint b"
  using assms by (intro sint_add64) (simp add: in64_def)

lemma purchase_lines_valid:
  assumes "lines v = purchase_lines cost net c" and "cost \<noteq> []" and "0 < sint net" and "vat_safe net"
    and "purchase_rate c = 0 \<or> VAT net (purchase_rate c) \<noteq> 0"
  shows "validate v = None"
proof -
  let ?r = "purchase_rate c"
  note rng = purchase_rate_range [of c]
  have V: "0 \<le> sint (VAT net ?r)" "sint (VAT net ?r) \<le> sint net"
    using VAT_range [OF assms(4)] assms(3) rng by auto
  have small: "sint net \<le> 300000000000000000" using assms(4) by (simp add: vat_safe_def)
  have add: "sint (net + VAT net ?r) = sint net + sint (VAT net ?r)"
    using V small assms(3) by (intro add64_exact_small) auto
  then have nz: "net + VAT net ?r \<noteq> 0" using V assms(3) by (intro word_pos_neq0) simp
  have net: "net \<noteq> 0" using assms(3) by (intro word_pos_neq0)
  have "double_entry (purchase_lines cost net c)"
  proof (cases c rule: purchase_code_cases)
    case (dom r)
    with assms V add nz net small show ?thesis
      by (simp add: double_entry_def line_ok_def purchase_lines_def Let_def)
  next
    case rev
    with assms V add nz net small show ?thesis
      by (auto simp: double_entry_def line_ok_def purchase_lines_def Let_def)
  next
    case none
    with assms net small show ?thesis
      by (simp add: double_entry_def line_ok_def purchase_lines_def Let_def)
  qed
  then show ?thesis by (simp add: validate_None_iff assms(1))
qed

lemma purchase_lines_zero_vat:
  assumes "lines v = purchase_lines cost net c" and "cost \<noteq> []" and "0 < sint net"
    and "purchase_rate c \<noteq> 0" and "VAT net (purchase_rate c) = 0"
  shows "validate v = Some ErrLineSide"
proof -
  have net: "net \<noteq> 0" using assms(3) by (intro word_pos_neq0)
  show ?thesis
  proof (cases c rule: purchase_code_cases)
    case (dom r)
    with assms net show ?thesis by (simp add: validate_def purchase_lines_def Let_def)
  next
    case rev
    with assms net show ?thesis by (auto simp: validate_def purchase_lines_def Let_def)
  next
    case none
    with assms show ?thesis by simp
  qed
qed

section \<open>The declaration and the books\<close>

lemma Report_box49:
  "box49 (Report bal) = - sum_list (map (bal_get bal)
     [''2611'', ''2621'', ''2631'', ''2614'', ''2615'', ''2640'', ''2641'', ''2645''])"
  by (simp add: Report_def Let_def)

lemma bal_get_post:
  "bal_get (balances (vs @ [v])) a = bal_get (balances vs) a +
     sum_list (map line_net (filter (\<lambda>l. account l = a) (lines v)))"
  by (simp add: bal_get_balances all_lines_def)

text \<open>
  A reverse-charge purchase moves boxes 21 (or 22), 30 and 48 and leaves the VAT to pay as it was.
\<close>

lemma Report_reverse_charge:
  fixes vs :: "verification list"
  assumes "lines v = purchase_lines cost net PEU"
  defines "old \<equiv> Report (balances vs)" and "new \<equiv> Report (balances (vs @ [v]))"
  shows "box49 new = box49 old" "box21 new = box21 old + net" "box30 new = box30 old + VAT net 25"
    "box48 new = box48 old + VAT net 25" "box22 new = box22 old" "box05 new = box05 old"
  unfolding new_def old_def Report_def Let_def bal_get_post assms(1)
  by (simp_all add: purchase_lines_def domestic_rate_def line_net_def Let_def)

lemma Report_domestic_purchase:
  fixes vs :: "verification list"
  assumes "lines v = purchase_lines cost net PD25" and "classify cost = ClassExpense"
  defines "old \<equiv> Report (balances vs)" and "new \<equiv> Report (balances (vs @ [v]))"
  shows "box49 new = box49 old - VAT net 25" "box48 new = box48 old + VAT net 25"
proof -
  have "classify x = ClassEquityLiability \<Longrightarrow> cost \<noteq> x" for x
    using assms(2) by auto
  then have "cost \<noteq> ''2611''" "cost \<noteq> ''2621''" "cost \<noteq> ''2631''" "cost \<noteq> ''2614''" "cost \<noteq> ''2615''"
    "cost \<noteq> ''2640''" "cost \<noteq> ''2641''" "cost \<noteq> ''2645''"
    by (simp_all add: classify_def)
  then show "box49 new = box49 old - VAT net 25" "box48 new = box48 old + VAT net 25"
    unfolding new_def old_def Report_def Let_def bal_get_post assms(1)
    by (simp_all add: purchase_lines_def domestic_rate_def line_net_def Let_def)
qed

section \<open>Properties\<close>

text \<open>C4. Output VAT is rounded to the nearest \<open>ore\<close>: as long as the product does not overflow, the
  amount is off by at most half an \<open>ore\<close> from net * rate / 100.\<close>

theorem vat_to_nearest_ore:
  assumes "\<bar>sint net\<bar> * \<bar>sint rate\<bar> \<le> max64 - 50"
  shows "\<bar>100 * sint (VAT net rate) - sint net * sint rate\<bar> \<le> 50"
  using assms by (rule VAT_nearest)

theorem vat_to_nearest_ore_witness: "\<bar>100 * sint (VAT (-1999) 25) - (-1999) * 25\<bar> \<le> 50"
  using vat_to_nearest_ore [of "-1999" 25] by simp

text \<open>C5. The lines of a supplier cost are accepted by the ledger exactly when the treatment's VAT does not
  round to zero; a cost so small that it does is rejected as a line without a side. The amount credited
  to 2440 is what \<open>Payable\<close> returns.\<close>

theorem purchase_books:
  assumes "lines v = purchase_lines cost net c" and "cost \<noteq> []" and "cost \<noteq> ''2440''" and "0 < sint net"
    and "vat_safe net"
  shows "payable_credit (lines v) = payable net c \<and>
    validate v = (if purchase_rate c \<noteq> 0 \<and> VAT net (purchase_rate c) = 0 then Some ErrLineSide else None)"
  using assms purchase_lines_valid [OF assms(1,2,4,5)] purchase_lines_zero_vat [OF assms(1,2,4)]
  by (auto simp: payable_booked)

theorem purchase_books_witness:
  "validate (sample (purchase_lines ''5410'' 1 PD25)) = Some ErrLineSide \<and>
   validate (sample (purchase_lines ''5410'' 10000 PD25)) = None"
proof -
  have "purchase_rate PD25 = 25" by (simp add: purchase_rate_def domestic_rate_def)
  moreover have "VAT 1 25 = 0" "VAT 10000 25 \<noteq> 0"
    by (simp_all add: VAT_def round_half_def go_div_def signed_divide_int_def)
  ultimately show ?thesis
    using purchase_books [of "sample (purchase_lines ''5410'' 1 PD25)" "''5410''" 1 PD25]
      purchase_books [of "sample (purchase_lines ''5410'' 10000 PD25)" "''5410''" 10000 PD25]
    by (simp add: sample_def vat_safe_def)
qed



end
