(* ===== verification/Invoice.thy ===== *)
theory Invoice
  imports Moms
begin

text \<open>
  The customer invoice (\<open>internal/invoice/invoice.go\<close>): net and VAT of a line, totals, conversion to
  SEK and the lines of its verification. The Go map from VAT code to aggregate is an association list
  in order of first use; the only loop over the map adds amounts, so its order does not matter.
\<close>

section \<open>Lines and totals\<close>

record invoice_line =
  il_description :: string
  quantity_milli :: int64
  unit_price :: amount
  il_code :: string

definition il_net :: "invoice_line \<Rightarrow> amount" where
  "il_net l = round_half (unit_price l * quantity_milli l) 500 1000"

definition il_vat :: "invoice_line \<Rightarrow> amount" where
  "il_vat l = VAT (il_net l) (code_rate (il_code l))"

record invoice =
  inv_number :: string
  inv_date :: gotime
  inv_due :: gotime
  inv_currency :: string
  rate_ppm :: int64
  inv_lines :: "invoice_line list"

definition invoice_ppm :: "invoice \<Rightarrow> int64" where
  "invoice_ppm i = (if rate_ppm i = 0 then 1000000 else rate_ppm i)"

definition convert_to_sek :: "amount \<Rightarrow> int64 \<Rightarrow> amount" where
  "convert_to_sek x ppm =
     (let r = (if ppm = 0 then 1000000 else ppm) in round_half (x * r) 500000 1000000)"

type_synonym aggregates = "(string \<times> amount \<times> amount) list"

fun agg_add :: "string \<Rightarrow> amount \<Rightarrow> amount \<Rightarrow> aggregates \<Rightarrow> aggregates" where
  "agg_add c n v [] = [(c, n, v)]"
| "agg_add c n v ((d, m, w) # agg) =
     (if c = d then (d, m + n, w + v) # agg else (d, m, w) # agg_add c n v agg)"

definition aggregate :: "invoice_line list \<Rightarrow> aggregates" where
  "aggregate ls = foldl (\<lambda>agg l. agg_add (il_code l) (il_net l) (il_vat l) agg) [] ls"

definition gross_sek :: "invoice \<Rightarrow> amount" where
  "gross_sek i = foldl (\<lambda>g (c, n, v).
      g + (convert_to_sek n (invoice_ppm i) + convert_to_sek v (invoice_ppm i)))
    0 (aggregate (inv_lines i))"

definition code_order :: "string list" where
  "code_order = [SE25, SE12, SE06, RCEU, EXP]"

definition invoice_net :: "invoice \<Rightarrow> amount" where
  "invoice_net i = foldl (\<lambda>t l. t + il_net l) 0 (inv_lines i)"

definition invoice_vat :: "invoice \<Rightarrow> amount" where
  "invoice_vat i = foldl (\<lambda>t l. t + il_vat l) 0 (inv_lines i)"

definition invoice_total :: "invoice \<Rightarrow> amount" where
  "invoice_total i = invoice_net i + invoice_vat i"

section \<open>The verification of an invoice\<close>

fun sales_loop :: "string list \<Rightarrow> aggregates \<Rightarrow> int64 \<Rightarrow> line list \<Rightarrow> amount \<Rightarrow> line list \<times> amount" where
  "sales_loop [] agg ppm sales gross = (sales, gross)"
| "sales_loop (c # cs) agg ppm sales gross =
     (case map_of agg c of
        None \<Rightarrow> sales_loop cs agg ppm sales gross
      | Some (n, v) \<Rightarrow>
          let net_sek = convert_to_sek n ppm; vat_sek = convert_to_sek v ppm;
              sales1 = sales @ [\<lparr>account = sales_account_for_code c, debit = 0, credit = net_sek, vat_code = c\<rparr>];
              sales2 = (if vat_sek \<noteq> 0 then sales1 @ [credit_line (output_account (code_rate c)) vat_sek]
                        else sales1)
          in sales_loop cs agg ppm sales2 (gross + (net_sek + vat_sek)))"

definition verification_lines :: "invoice \<Rightarrow> line list" where
  "verification_lines i =
     (let (sales, gross) = sales_loop code_order (aggregate (inv_lines i)) (invoice_ppm i) [] 0
      in debit_line ''1510'' gross # sales)"

section \<open>Aggregates\<close>

definition code_lines :: "string \<Rightarrow> invoice_line list \<Rightarrow> invoice_line list" where
  "code_lines c ls = filter (\<lambda>l. il_code l = c) ls"

definition code_net :: "string \<Rightarrow> invoice_line list \<Rightarrow> amount" where
  "code_net c ls = sum_list (map il_net (code_lines c ls))"

definition code_vat :: "string \<Rightarrow> invoice_line list \<Rightarrow> amount" where
  "code_vat c ls = sum_list (map il_vat (code_lines c ls))"

lemma map_of_agg_add: "map_of (agg_add c n v agg) d =
    (if d = c then Some (case map_of agg c of None \<Rightarrow> (n, v) | Some (m, w) \<Rightarrow> (m + n, w + v))
     else map_of agg d)"
  by (induction c n v agg rule: agg_add.induct) auto

lemma fst_agg_add: "fst ` set (agg_add c n v agg) = insert c (fst ` set agg)"
  by (induction c n v agg rule: agg_add.induct) auto

lemma distinct_agg_add: "distinct (map fst agg) \<Longrightarrow> distinct (map fst (agg_add c n v agg))"
  by (induction c n v agg rule: agg_add.induct) (use fst_agg_add in auto)

lemma aggregate_snoc:
  "aggregate (ls @ [l]) = agg_add (il_code l) (il_net l) (il_vat l) (aggregate ls)"
  by (simp add: aggregate_def)

lemma aggregate_Nil [simp]: "aggregate [] = []"
  by (simp add: aggregate_def)

lemma code_lines_none: "c \<notin> il_code ` set ls \<Longrightarrow> code_lines c ls = []"
  by (auto simp: code_lines_def filter_empty_conv)

lemma code_lines_snoc:
  "code_lines c (ls @ [l]) = code_lines c ls @ (if il_code l = c then [l] else [])"
  by (simp add: code_lines_def)

text \<open>An entry of the map holds the sums of the lines that carry its code.\<close>

lemma map_of_aggregate:
  "map_of (aggregate ls) c =
     (if c \<in> il_code ` set ls then Some (code_net c ls, code_vat c ls) else None)"
  by (induction ls rule: rev_induct)
    (auto simp: aggregate_snoc map_of_agg_add code_net_def code_vat_def code_lines_snoc code_lines_none)

lemma distinct_aggregate: "distinct (map fst (aggregate ls))"
  by (induction ls rule: rev_induct) (simp_all add: aggregate_snoc distinct_agg_add)

lemma fst_aggregate: "fst ` set (aggregate ls) = il_code ` set ls"
  by (induction ls rule: rev_induct) (simp_all add: aggregate_snoc fst_agg_add)

section \<open>Balance\<close>

definition sales_lines :: "int64 \<Rightarrow> aggregates \<Rightarrow> string \<Rightarrow> line list" where
  "sales_lines ppm agg c =
     (case map_of agg c of
        None \<Rightarrow> []
      | Some (n, v) \<Rightarrow>
          \<lparr>account = sales_account_for_code c, debit = 0, credit = convert_to_sek n ppm, vat_code = c\<rparr>
          # (if convert_to_sek v ppm \<noteq> 0
             then [credit_line (output_account (code_rate c)) (convert_to_sek v ppm)] else []))"

lemma sales_loop_eq:
  "sales_loop cs agg ppm sales gross =
     (sales @ concat (map (sales_lines ppm agg) cs),
      gross + sum_list (map credit (concat (map (sales_lines ppm agg) cs))))"
  by (induction cs arbitrary: sales gross)
    (auto simp: sales_lines_def Let_def add.assoc split: option.splits)

lemma verification_lines_eq:
  "verification_lines i =
     (let sales = concat (map (sales_lines (invoice_ppm i) (aggregate (inv_lines i))) code_order)
      in debit_line ''1510'' (sum_list (map credit sales)) # sales)"
  by (simp add: verification_lines_def sales_loop_eq Let_def)

lemma sales_lines_debit: "l \<in> set (sales_lines ppm agg c) \<Longrightarrow> debit l = 0"
  by (auto simp: sales_lines_def split: option.splits if_splits)

lemma verification_lines_balance:
  "sum_list (map debit (verification_lines i)) = sum_list (map credit (verification_lines i))"
proof -
  let ?s = "concat (map (sales_lines (invoice_ppm i) (aggregate (inv_lines i))) code_order)"
  have "\<forall>l \<in> set ?s. debit l = 0" using sales_lines_debit by auto
  then have "sum_list (map debit ?s) = sum_list (map (\<lambda>_. 0) ?s)"
    by (intro arg_cong [where f = sum_list] map_cong) auto
  then show ?thesis by (simp add: verification_lines_eq Let_def)
qed

text \<open>The SEK value an aggregate contributes.\<close>

definition sek_of :: "int64 \<Rightarrow> amount \<times> amount \<Rightarrow> amount" where
  "sek_of ppm nv = convert_to_sek (fst nv) ppm + convert_to_sek (snd nv) ppm"

lemma credit_sales_lines:
  "sum_list (map credit (sales_lines ppm agg c)) =
     (case map_of agg c of None \<Rightarrow> 0 | Some nv \<Rightarrow> sek_of ppm nv)"
  by (auto simp: sales_lines_def sek_of_def split: option.splits)

lemma sum_list_concat_credit:
  "sum_list (map credit (concat (map f cs))) = sum_list (map (\<lambda>c. sum_list (map credit (f c))) cs)"
  by (induction cs) simp_all

lemma foldl_plus: "foldl (\<lambda>g x. g + f x) (a :: int64) xs = a + sum_list (map f xs)"
  by (induction xs arbitrary: a) (simp_all add: add.assoc)

lemma gross_sek_sum:
  "gross_sek i = sum_list (map (\<lambda>cnv. sek_of (invoice_ppm i) (snd cnv)) (aggregate (inv_lines i)))"
  by (simp add: gross_sek_def sek_of_def case_prod_unfold foldl_plus)

lemma sum_keys:
  assumes "distinct (map fst agg)" and "distinct cs" and "fst ` set agg \<subseteq> set cs"
  shows "sum_list (map (\<lambda>c. case map_of agg c of None \<Rightarrow> 0 | Some nv \<Rightarrow> sek_of ppm nv) cs) =
    sum_list (map (\<lambda>cnv. sek_of ppm (snd cnv)) agg)"
proof -
  let ?f = "\<lambda>c. case map_of agg c of None \<Rightarrow> 0 | Some nv \<Rightarrow> sek_of ppm nv"
  have "sum_list (map ?f cs) = sum ?f (set cs)"
    using assms(2) by (simp add: sum_list_distinct_conv_sum_set)
  also have "\<dots> = sum ?f (fst ` set agg)"
  proof (rule sum.mono_neutral_right)
    show "\<forall>c \<in> set cs - fst ` set agg. ?f c = 0"
    proof
      fix c
      assume "c \<in> set cs - fst ` set agg"
      then have "map_of agg c = None" by (simp add: map_of_eq_None_iff)
      then show "?f c = 0" by simp
    qed
  qed (use assms(3) in auto)
  also have "\<dots> = sum_list (map ?f (map fst agg))"
    using assms(1) sum_list_distinct_conv_sum_set [of "map fst agg" ?f] by (simp only: set_map)
  also have "map ?f (map fst agg) = map (\<lambda>cnv. sek_of ppm (snd cnv)) agg"
    using assms(1) by (auto simp: map_of_is_SomeI)
  finally show ?thesis .
qed

lemma distinct_code_order: "distinct code_order"
  by (simp add: code_order_def)

lemma receivable_is_gross:
  assumes "\<forall>l \<in> set (inv_lines i). il_code l \<in> set code_order"
  shows "debit (hd (verification_lines i)) = gross_sek i"
proof -
  have "fst ` set (aggregate (inv_lines i)) \<subseteq> set code_order"
    using assms by (auto simp: fst_aggregate)
  then have "sum_list (map (\<lambda>c. case map_of (aggregate (inv_lines i)) c of None \<Rightarrow> 0
        | Some nv \<Rightarrow> sek_of (invoice_ppm i) nv) code_order) = gross_sek i"
    using sum_keys [OF distinct_aggregate distinct_code_order] by (simp add: gross_sek_sum)
  then show ?thesis
    by (simp add: verification_lines_eq Let_def sum_list_concat_credit credit_sales_lines)
qed

section \<open>An ordinary invoice is accepted by the ledger\<close>

text \<open>
  The net of a line over unbounded integers, and the invoices for which no step of the code wraps:
  known codes, positive amounts that do not round to nothing, and a SEK total below 4 * 10^16 kronor.
\<close>

definition true_net :: "invoice_line \<Rightarrow> int" where
  "true_net l = round_int (sint (unit_price l) * sint (quantity_milli l)) 500"

definition ordinary_line :: "int64 \<Rightarrow> invoice_line \<Rightarrow> bool" where
  "ordinary_line ppm l \<longleftrightarrow> il_code l \<in> set code_order \<and>
     \<bar>sint (unit_price l) * sint (quantity_milli l)\<bar> \<le> max64 - 500 \<and>
     500000 \<le> true_net l * sint ppm \<and> 0 < true_net l"

definition ordinary_invoice :: "invoice \<Rightarrow> bool" where
  "ordinary_invoice i \<longleftrightarrow> inv_lines i \<noteq> [] \<and> 0 < sint (invoice_ppm i) \<and>
     (\<forall>l \<in> set (inv_lines i). ordinary_line (invoice_ppm i) l) \<and>
     sum_list (map true_net (inv_lines i)) \<le> 300000000000000000 \<and>
     sum_list (map true_net (inv_lines i)) * sint (invoice_ppm i) \<le> 4000000000000000000"

lemma il_net_exact:
  assumes "\<bar>sint (unit_price l) * sint (quantity_milli l)\<bar> \<le> max64 - 500"
  shows "sint (il_net l) = true_net l"
proof -
  have m: "sint (unit_price l * quantity_milli l) = sint (unit_price l) * sint (quantity_milli l)"
    using assms by (intro sint_mult64) (simp add: in64_def abs_le_iff)
  show ?thesis
    using round_half_exact [of 500 1000 "unit_price l * quantity_milli l"] assms
    by (simp add: il_net_def true_net_def m in64_def)
qed

lemma il_net_nearest:
  assumes "\<bar>sint (unit_price l) * sint (quantity_milli l)\<bar> \<le> max64 - 500"
  shows "\<bar>1000 * sint (il_net l) - sint (unit_price l) * sint (quantity_milli l)\<bar> \<le> 500"
  using round_int_nearest [of 500 "sint (unit_price l) * sint (quantity_milli l)"]
  by (simp add: il_net_exact [OF assms] true_net_def)

lemma convert_exact:
  assumes "0 \<le> sint x" and "0 < sint ppm" and "sint x * sint ppm \<le> 4000000000000000000"
  shows "sint (convert_to_sek x ppm) = round_int (sint x * sint ppm) 500000"
proof -
  have nn: "0 \<le> sint x * sint ppm" using assms by simp
  then have m: "sint (x * ppm) = sint x * sint ppm"
    using assms by (intro sint_mult64) (unfold in64_def, linarith)
  have "ppm \<noteq> 0" using assms(2) by auto
  then show ?thesis
    using round_half_exact [of 500000 1000000 "x * ppm"] assms nn
    by (simp add: convert_to_sek_def m in64_def)
qed

lemma round_int_shrinks: "0 \<le> k \<Longrightarrow> round_int k 500000 \<le> k"
  unfolding round_int_def by simp

lemma convert_bounds:
  assumes "0 \<le> sint x" and "0 < sint ppm" and "sint x * sint ppm \<le> 4000000000000000000"
  shows "0 \<le> sint (convert_to_sek x ppm)" "sint (convert_to_sek x ppm) \<le> sint x * sint ppm"
    "500000 \<le> sint x * sint ppm \<Longrightarrow> 0 < sint (convert_to_sek x ppm)"
proof -
  have nn: "0 \<le> sint x * sint ppm" using assms by simp
  show "0 \<le> sint (convert_to_sek x ppm)"
    using nn by (simp only: convert_exact [OF assms]) (simp add: round_int_nonneg)
  show "sint (convert_to_sek x ppm) \<le> sint x * sint ppm"
    using nn by (simp only: convert_exact [OF assms] round_int_shrinks)
  assume "500000 \<le> sint x * sint ppm"
  then have "1 \<le> (sint x * sint ppm + 500000) div 1000000" by linarith
  then show "0 < sint (convert_to_sek x ppm)"
    using nn by (simp only: convert_exact [OF assms]) (simp only: round_int_def, simp)
qed

text \<open>Per-code sums of an ordinary invoice.\<close>

definition code_true :: "string \<Rightarrow> invoice_line list \<Rightarrow> int" where
  "code_true c ls = sum_list (map true_net (code_lines c ls))"

lemma ordinary_line_net:
  assumes "ordinary_line ppm l" and "true_net l \<le> 300000000000000000"
  shows "sint (il_net l) = true_net l" "0 \<le> sint (il_vat l)" "sint (il_vat l) \<le> true_net l"
proof -
  show n: "sint (il_net l) = true_net l"
    using assms(1) by (simp add: ordinary_line_def il_net_exact)
  have "0 < true_net l" using assms(1) by (simp add: ordinary_line_def)
  then have "vat_safe (il_net l)" "0 \<le> sint (il_net l)"
    using assms(2) by (simp_all add: vat_safe_def n)
  then show "0 \<le> sint (il_vat l)" "sint (il_vat l) \<le> true_net l"
    using VAT_range [of "il_net l" "code_rate (il_code l)"] code_rate_range [of "il_code l"]
    by (simp_all add: il_vat_def n)
qed

lemma sum_list_mono_sub:
  fixes f :: "'a \<Rightarrow> int"
  assumes "\<forall>x \<in> set xs. 0 \<le> f x"
  shows "sum_list (map f (filter P xs)) \<le> sum_list (map f xs)" "0 \<le> sum_list (map f (filter P xs))"
  using assms by (induction xs) auto

lemma member_le_sum:
  fixes f :: "'a \<Rightarrow> int"
  assumes "\<forall>x \<in> set xs. 0 \<le> f x" and "y \<in> set xs"
  shows "f y \<le> sum_list (map f xs)"
  using assms
proof (induction xs)
  case (Cons x xs)
  then have "0 \<le> sum_list (map f xs)" by (intro sum_list_nonneg) auto
  with Cons show ?case by fastforce
qed simp

lemma ordinary_lines:
  assumes "ordinary_invoice i"
  shows "\<forall>l \<in> set (inv_lines i). 0 \<le> true_net l"
    "\<forall>l \<in> set (inv_lines i). sint (il_net l) = true_net l \<and> 0 \<le> sint (il_vat l) \<and>
       sint (il_vat l) \<le> true_net l"
proof -
  have ol: "ordinary_line (invoice_ppm i) l" if "l \<in> set (inv_lines i)" for l
    using assms that by (simp add: ordinary_invoice_def)
  then show nn: "\<forall>l \<in> set (inv_lines i). 0 \<le> true_net l"
    by (meson ordinary_line_def less_imp_le)
  show "\<forall>l \<in> set (inv_lines i). sint (il_net l) = true_net l \<and> 0 \<le> sint (il_vat l) \<and>
       sint (il_vat l) \<le> true_net l"
  proof
    fix l
    assume l: "l \<in> set (inv_lines i)"
    have "true_net l \<le> 300000000000000000"
      using member_le_sum [OF nn l] assms by (simp add: ordinary_invoice_def)
    then show "sint (il_net l) = true_net l \<and> 0 \<le> sint (il_vat l) \<and> sint (il_vat l) \<le> true_net l"
      using ordinary_line_net [OF ol [OF l]] by simp
  qed
qed

lemma code_sums:
  assumes "ordinary_invoice i"
  defines "ls \<equiv> inv_lines i"
  shows "sint (code_net c ls) = code_true c ls" "0 \<le> sint (code_vat c ls)"
    "sint (code_vat c ls) \<le> code_true c ls" "0 \<le> code_true c ls"
    "code_true c ls \<le> sum_list (map true_net ls)"
proof -
  note nn = ordinary_lines(1) [OF assms(1), folded ls_def]
  note ex = ordinary_lines(2) [OF assms(1), folded ls_def]
  show le: "code_true c ls \<le> sum_list (map true_net ls)" "0 \<le> code_true c ls"
    using sum_list_mono_sub [OF nn] by (simp_all add: code_true_def code_lines_def)
  have S: "sum_list (map true_net ls) \<le> 300000000000000000"
    using assms(1) by (simp add: ordinary_invoice_def ls_def)
  have sub: "set (code_lines c ls) \<subseteq> set ls" by (auto simp: code_lines_def)
  have nets: "map sint (map il_net (code_lines c ls)) = map true_net (code_lines c ls)"
    using ex sub by auto
  have vats: "sum_list (map sint (map il_vat (code_lines c ls))) \<le> code_true c ls"
    unfolding code_true_def map_map using ex sub by (intro sum_list_mono) auto
  have "\<forall>x \<in> set (map il_net (code_lines c ls)). 0 \<le> sint x" using ex nn sub by auto
  then show "sint (code_net c ls) = code_true c ls"
    using sum_list_sint64 [of "map il_net (code_lines c ls)"] le S
    by (simp only: nets code_net_def) (simp add: code_true_def)
  have vnn: "\<forall>x \<in> set (map il_vat (code_lines c ls)). 0 \<le> sint x" using ex sub by auto
  have v: "sint (code_vat c ls) = sum_list (map sint (map il_vat (code_lines c ls)))"
    using sum_list_sint64 [OF vnn] vats le S by (simp only: code_vat_def)
  show "sint (code_vat c ls) \<le> code_true c ls" using v vats by simp
  show "0 \<le> sint (code_vat c ls)" unfolding v using vnn by (intro sum_list_nonneg) auto
qed

lemma code_true_rate0:
  assumes "code_rate c = 0"
  shows "code_vat c ls = 0"
proof -
  have "il_vat l = 0" if "il_code l = c" for l
    using assms that by (simp add: il_vat_def VAT_def round_half_def go_div_def)
  then have "map il_vat (code_lines c ls) = map (\<lambda>_. 0) (code_lines c ls)"
    by (auto simp: code_lines_def)
  then show ?thesis unfolding code_vat_def by (simp only: sum_list_0)
qed

lemma sum_code_true:
  assumes "\<forall>l \<in> set ls. 0 \<le> true_net l" and "distinct cs"
  shows "sum_list (map (\<lambda>c. code_true c ls) cs) \<le> sum_list (map true_net ls)"
  using assms(1)
proof (induction ls)
  case (Cons l ls)
  have "sum_list (map (\<lambda>c. code_true c (l # ls)) cs) =
      sum_list (map (\<lambda>c. if c = il_code l then true_net l else 0) cs) + sum_list (map (\<lambda>c. code_true c ls) cs)"
    unfolding sum_list_addf [symmetric]
    by (intro arg_cong [where f = sum_list] map_cong) (auto simp: code_true_def code_lines_def)
  moreover have "sum_list (map (\<lambda>c. if c = il_code l then true_net l else 0) cs) \<le> true_net l"
    using assms(2) Cons.prems
    by (simp add: sum_list_distinct_conv_sum_set sum.delta)
  ultimately show ?case using Cons by simp
qed (simp add: code_true_def code_lines_def)

lemma known_code_accounts:
  assumes "c \<in> set code_order"
  shows "sales_account_for_code c \<noteq> []" "code_rate c \<noteq> 0 \<Longrightarrow> output_account (code_rate c) \<noteq> []"
proof -
  have "\<forall>c \<in> set code_order. sales_account_for_code c \<noteq> [] \<and>
      (code_rate c \<noteq> 0 \<longrightarrow> output_account (code_rate c) \<noteq> [])"
    by (simp add: code_order_def sales_account_for_code_def code_rate_def output_account_def)
  then show "sales_account_for_code c \<noteq> []" "code_rate c \<noteq> 0 \<Longrightarrow> output_account (code_rate c) \<noteq> []"
    using assms by auto
qed

lemma code_present:
  assumes "ordinary_invoice i" and "c \<in> il_code ` set (inv_lines i)"
  shows "500000 \<le> code_true c (inv_lines i) * sint (invoice_ppm i)"
proof -
  from assms(2) obtain l where l: "l \<in> set (inv_lines i)" "il_code l = c" by auto
  with assms(1) have b: "500000 \<le> true_net l * sint (invoice_ppm i)" and p: "0 < sint (invoice_ppm i)"
    by (auto simp: ordinary_invoice_def ordinary_line_def)
  have "true_net l \<le> code_true c (inv_lines i)"
    unfolding code_true_def using l ordinary_lines(1) [OF assms(1)]
    by (intro member_le_sum) (auto simp: code_lines_def)
  then have "true_net l * sint (invoice_ppm i) \<le> code_true c (inv_lines i) * sint (invoice_ppm i)"
    using p by (intro mult_right_mono) auto
  with b show ?thesis by linarith
qed

text \<open>The sales lines of one code are well-formed and their credits stay below twice its SEK product.\<close>

lemma sales_lines_ok:
  assumes "ordinary_invoice i" and "c \<in> set code_order"
  defines "ls \<equiv> sales_lines (invoice_ppm i) (aggregate (inv_lines i)) c"
  shows "\<forall>l \<in> set ls. line_ok l"
    "sum_credit ls \<le> 2 * (code_true c (inv_lines i) * sint (invoice_ppm i))"
    "c \<in> il_code ` set (inv_lines i) \<Longrightarrow> 0 < sum_credit ls \<and> ls \<noteq> []"
proof -
  let ?n = "code_net c (inv_lines i)" and ?v = "code_vat c (inv_lines i)" and ?p = "invoice_ppm i"
  let ?t = "code_true c (inv_lines i)"
  note cs = code_sums [OF assms(1), of c]
  have p: "0 < sint ?p" using assms(1) by (simp add: ordinary_invoice_def)
  have "?t * sint ?p \<le> sum_list (map true_net (inv_lines i)) * sint ?p"
    using cs(5) p by (intro mult_right_mono) auto
  then have tp: "?t * sint ?p \<le> 4000000000000000000"
    using assms(1) unfolding ordinary_invoice_def by linarith
  have vt: "sint ?v * sint ?p \<le> ?t * sint ?p" using cs(3) p by (intro mult_right_mono) auto
  have n: "0 \<le> sint (convert_to_sek ?n ?p)" "sint (convert_to_sek ?n ?p) \<le> ?t * sint ?p"
    "500000 \<le> ?t * sint ?p \<Longrightarrow> 0 < sint (convert_to_sek ?n ?p)"
    using convert_bounds [of ?n ?p] cs p tp by simp_all
  have v: "0 \<le> sint (convert_to_sek ?v ?p)" "sint (convert_to_sek ?v ?p) \<le> ?t * sint ?p"
    using convert_bounds(1,2) [of ?v ?p] cs(2) p tp vt by linarith+
  have rate: "code_rate c \<noteq> 0" if "convert_to_sek ?v ?p \<noteq> 0"
  proof
    assume "code_rate c = 0"
    then have "?v = 0" by (rule code_true_rate0)
    with that show False by (simp add: convert_to_sek_def Let_def round_half_def go_div_def)
  qed
  show "\<forall>l \<in> set ls. line_ok l"
  proof (cases "c \<in> il_code ` set (inv_lines i)")
    case True
    then have "convert_to_sek ?n ?p \<noteq> 0" using n(3) code_present [OF assms(1)] by force
    with True n v rate known_code_accounts [OF assms(2)] show ?thesis
      by (auto simp: ls_def sales_lines_def map_of_aggregate line_ok_def)
  qed (simp add: ls_def sales_lines_def map_of_aggregate)
  show "sum_credit ls \<le> 2 * (?t * sint ?p)"
    using n v cs(4) p by (auto simp: ls_def sales_lines_def map_of_aggregate)
  assume "c \<in> il_code ` set (inv_lines i)"
  then show "0 < sum_credit ls \<and> ls \<noteq> []"
    using n(3) v(1) code_present [OF assms(1)] by (auto simp: ls_def sales_lines_def map_of_aggregate)
qed

lemma sum_credit_concat: "sum_credit (concat (map f cs)) = sum_list (map (\<lambda>c. sum_credit (f c)) cs)"
  by (induction cs) simp_all

lemma sum_debit_zero: "\<forall>l \<in> set ls. debit l = 0 \<Longrightarrow> sum_debit ls = 0"
  by (induction ls) simp_all

lemma ordinary_invoice_valid:
  assumes ord: "ordinary_invoice i" and v: "lines v = verification_lines i"
  shows "validate v = None"
proof -
  let ?f = "sales_lines (invoice_ppm i) (aggregate (inv_lines i))"
  let ?s = "concat (map ?f code_order)" and ?t = "\<lambda>c. code_true c (inv_lines i)"
  note ok = sales_lines_ok [OF ord]
  have lok: "\<forall>l \<in> set ?s. line_ok l" using ok(1) by auto
  have p: "0 < sint (invoice_ppm i)" using ord by (simp add: ordinary_invoice_def)
  have "sum_credit ?s \<le> sum_list (map (\<lambda>c. 2 * (?t c * sint (invoice_ppm i))) code_order)"
    unfolding sum_credit_concat using ok(2) by (intro sum_list_mono)
  also have "\<dots> = 2 * (sum_list (map ?t code_order) * sint (invoice_ppm i))"
    by (simp add: sum_list_const_mult sum_list_mult_const)
  also have "\<dots> \<le> 2 * (sum_list (map true_net (inv_lines i)) * sint (invoice_ppm i))"
    using sum_code_true [OF ordinary_lines(1) [OF ord] distinct_code_order] p
    by (intro mult_left_mono mult_right_mono) auto
  also have "\<dots> \<le> max64" using ord by (simp add: ordinary_invoice_def)
  finally have bound: "sum_credit ?s \<le> max64" .
  have "\<forall>x \<in> set (map credit ?s). 0 \<le> sint x" using lok by (auto simp: line_ok_def)
  then have g: "sint (sum_list (map credit ?s)) = sum_credit ?s"
    using sum_list_sint64 [of "map credit ?s"] bound by (simp add: sum_credit_def comp_def)
  obtain l where l: "l \<in> set (inv_lines i)"
    using ord unfolding ordinary_invoice_def by (meson list.set_sel(1))
  then have c: "il_code l \<in> set code_order"
    using ord by (simp add: ordinary_invoice_def ordinary_line_def)
  have pos: "0 < sum_credit (?f (il_code l))" and ne: "?f (il_code l) \<noteq> []"
    using ok(3) [OF c] l by auto
  have "\<forall>c \<in> set code_order. 0 \<le> sum_credit (?f c)" using ok(1) by (auto intro: sum_credit_nonneg)
  then have "0 < sum_credit ?s"
    unfolding sum_credit_concat using member_le_sum [OF _ c] pos by fastforce
  moreover have "sum_debit ?s = 0"
    by (rule sum_debit_zero) (auto dest: sales_lines_debit)
  moreover have "?s \<noteq> []" using ne c by auto
  ultimately show ?thesis
    using lok bound g unfolding validate_None_iff v
    by (auto simp: verification_lines_eq Let_def double_entry_def line_ok_def Suc_le_eq
        simp del: concat.simps)
qed

section \<open>Properties\<close>

text \<open>C7. The verification of an ordinary invoice (known codes, positive amounts, no overflow) passes
  \<open>Validate\<close>, and its receivable on 1510 is exactly \<open>GrossSEK\<close>.\<close>

theorem invoice_books:
  assumes "ordinary_invoice i" and "lines v = verification_lines i"
  shows "validate v = None \<and> account (hd (lines v)) = ''1510'' \<and> debit (hd (lines v)) = gross_sek i"
proof -
  have "\<forall>l \<in> set (inv_lines i). il_code l \<in> set code_order"
    using assms(1) by (simp add: ordinary_invoice_def ordinary_line_def)
  then show ?thesis
    using ordinary_invoice_valid [OF assms] receivable_is_gross [of i] assms(2)
    by (simp add: verification_lines_eq Let_def)
qed

definition sample_invoice :: "invoice_line list \<Rightarrow> invoice" where
  "sample_invoice ls = \<lparr>inv_number = ''F-1'', inv_date = midnight (Date 2026 7 9),
     inv_due = midnight (Date 2026 8 8), inv_currency = ''EUR'', rate_ppm = 11250000, inv_lines = ls\<rparr>"

definition sample_row :: invoice_line where
  "sample_row = \<lparr>il_description = ''Konsult'', quantity_milli = 1500, unit_price = 100000, il_code = SE25\<rparr>"

theorem invoice_books_witness:
  "validate (sample (verification_lines (sample_invoice [sample_row]))) = None"
  using invoice_books [of "sample_invoice [sample_row]" "sample (verification_lines (sample_invoice [sample_row]))"]
  by (simp add: ordinary_invoice_def sample_invoice_def sample_row_def ordinary_line_def code_order_def
      true_net_def round_int_def invoice_ppm_def sample_def)

text \<open>For any invoice, whatever its codes and amounts, the two sides of its verification have the
  same (wrapping) sum; and the net of a line is the product of quantity and price to the nearest \<open>ore\<close>
  when that product does not overflow.\<close>

theorem invoice_balances:
  "sum_list (map debit (verification_lines i)) = sum_list (map credit (verification_lines i)) \<and>
   (\<bar>sint (unit_price l) * sint (quantity_milli l)\<bar> \<le> max64 - 500 \<longrightarrow>
    \<bar>1000 * sint (il_net l) - sint (unit_price l) * sint (quantity_milli l)\<bar> \<le> 500)"
  using verification_lines_balance il_net_nearest by blast

theorem invoice_balances_witness: "\<bar>1000 * sint (il_net sample_row) - 100000 * 1500\<bar> \<le> 500"
  using invoice_balances [of undefined sample_row] by (simp add: sample_row_def)

end
