(* ===== verification/Db.thy ===== *)
theory Db
  imports Invoice
begin

text \<open>
  The database: one record of tables (\<open>internal/db/migrations\<close>, the row types of
  \<open>internal/db/generated/models.go\<close>) and the database programs, functions that take the tables to a
  result and the new tables. A table is the list of its rows in insertion order, so \<open>ORDER BY\<close> a serial
  id or a creation time is the order of the list. \<open>gen_random_uuid()\<close> draws the next unused id. Text
  columns hold any byte string; the NUL byte, which PostgreSQL refuses, is excluded where the code
  relies on it (the audit log).
\<close>

section \<open>Errors\<close>

datatype err = LedgerErr ledger_error | NoRows | Constraint | OutOfRange | ErrDEKUnusable | ErrKeySize | ErrCiphertext | ErrBase64 | ErrGcm
  | ErrForeignCompany | ErrUnknownAccount string | ErrPeriodClosed | ErrNotDraft | ErrNotFinalized
  | ErrPaymentMismatch | ErrInvoiceNotFound | ErrTxnNotOpen | ErrYearClosed | ErrNothingToClose
  | ErrRetentionBlocked | ErrCounterpartyErased | ErrDocumentAttached | ErrLedgerNotEmpty
  | ErrNoCompany | OtherErr string

section \<open>Tables\<close>

type_synonym uuid = nat  \<comment> \<open>0 is \<open>uuid.Nil\<close>\<close>

record company =
  co_id :: uuid
  co_name :: string
  co_orgnr :: string
  dek_wrapped :: string
  locked_through :: "date option"
  momsregnr :: string
  co_address :: string
  postal_code :: string
  city :: string
  bankgiro :: string
  co_iban :: string
  fskatt :: bool
  key_id :: string

record account_row =
  ac_company :: uuid
  ac_number :: string
  ac_name :: string
  ac_class :: int
  ac_vat_code :: string

record ver_row =
  v_id :: uuid
  v_company :: uuid
  v_series :: string
  v_number :: int
  v_date :: date
  v_description :: string
  v_reversal_of :: "uuid option"
  v_posted_at :: "gotime option"

record vline_row =
  vl_verification :: uuid
  vl_account :: string
  vl_debit :: amount
  vl_credit :: amount
  vl_vat_code :: string

record counterparty_row =
  cp_id :: uuid
  cp_company :: uuid
  cp_kind :: string
  name_enc :: string
  orgnr_enc :: string
  personnummer_enc :: string
  address_enc :: string
  iban_enc :: string
  email_enc :: string
  erased_at :: "gotime option"

datatype invoice_status = Draft | Finalized | Paid | Cancelled | Credited

record invoice_row =
  iv_id :: uuid
  iv_company :: uuid
  iv_counterparty :: uuid
  iv_number :: string
  iv_status :: invoice_status
  iv_date :: "date option"
  iv_due :: "date option"
  iv_currency :: string
  iv_rate :: int64
  iv_ocr :: string
  iv_verification :: "uuid option"
  iv_paid_at :: "date option"
  iv_payment :: "uuid option"
  iv_credits :: "uuid option"
  iv_amount_paid :: amount

record invoice_line_row =
  ir_invoice :: uuid
  ir_line_no :: int
  ir_description :: string
  ir_quantity :: int64
  ir_price :: amount
  ir_code :: string

datatype supplier_status = SDraft | SFinalized | SPaid

record supplier_row =
  su_id :: uuid
  su_company :: uuid
  su_counterparty :: uuid
  su_number :: string
  su_date :: "date option"
  su_due :: "date option"
  su_cost :: string
  su_net :: amount
  su_code :: string
  su_description :: string
  su_status :: supplier_status
  su_verification :: "uuid option"
  su_payment :: "uuid option"
  su_paid_at :: "date option"

datatype txn_status = Unmatched | Booking | Booked | Ignored

record bank_row =
  bt_id :: uuid
  bt_company :: uuid
  bt_date :: date
  bt_amount :: amount
  bt_text_enc :: string
  bt_ref :: string
  bt_account :: string
  bt_fingerprint :: string
  bt_status :: txn_status
  bt_invoice :: "uuid option"
  bt_verification :: "uuid option"
  bt_created :: gotime

record fiscal_row =
  fy_id :: uuid
  fy_company :: uuid
  fy_label :: string
  fy_start :: date
  fy_end :: date
  fy_closed :: "gotime option"

record audit_row =
  au_id :: nat
  au_company :: uuid
  au_actor :: string
  au_actor_detail :: string
  au_action :: string
  au_target_type :: string
  au_target_id :: string
  au_detail :: string
  au_prev :: string
  au_hash :: string
  au_at :: gotime

record document_row =
  dc_id :: uuid
  dc_company :: uuid
  dc_mime :: string
  dc_size :: int
  dc_content :: string
  dc_sha :: string
  dc_filename_enc :: string
  dc_note_enc :: string
  dc_filename :: string
  dc_note :: string
  dc_supplier :: "uuid option"
  dc_verification :: "uuid option"
  dc_created :: gotime

record shield_row =
  sh_session :: string
  sh_token :: string
  sh_kind :: string
  sh_ciphertext :: string
  sh_created :: gotime

record user_row =
  us_id :: uuid
  us_email :: string
  us_password :: string
  us_role :: string

record session_row =
  se_token :: string
  se_user :: uuid
  se_expires :: gotime

record db =
  companies :: "company list"
  accounts :: "account_row list"
  verifications :: "ver_row list"
  vlines :: "vline_row list"
  counterparties :: "counterparty_row list"
  invoices :: "invoice_row list"
  invoice_rows :: "invoice_line_row list"
  invoice_seq :: "((uuid \<times> int) \<times> int) list"
  suppliers :: "supplier_row list"
  bank_txns :: "bank_row list"
  fiscal_years :: "fiscal_row list"
  audit_log :: "audit_row list"
  documents :: "document_row list"
  shield_tokens :: "shield_row list"
  users :: "user_row list"
  sessions :: "session_row list"
  next_id :: nat

definition empty_db :: db where
  "empty_db = \<lparr>companies = [], accounts = [], verifications = [], vlines = [], counterparties = [],
     invoices = [], invoice_rows = [], invoice_seq = [], suppliers = [], bank_txns = [],
     fiscal_years = [], audit_log = [], documents = [], shield_tokens = [], users = [], sessions = [],
     next_id = 1\<rparr>"

section \<open>Database programs\<close>

text \<open>
  A program returns an error or a value, and the tables. What ran before an error stays, unless
  \<open>in_tx\<close> rolls it back.
\<close>

type_synonym 'a io = "db \<Rightarrow> (err + 'a) \<times> db"

definition ret :: "'a \<Rightarrow> 'a io" where
  "ret x = (\<lambda>s. (Inr x, s))"

definition fail :: "err \<Rightarrow> 'a io" where
  "fail e = (\<lambda>s. (Inl e, s))"

definition andthen :: "'a io \<Rightarrow> ('a \<Rightarrow> 'b io) \<Rightarrow> 'b io" where
  "andthen m f = (\<lambda>s. case m s of (Inl e, s') \<Rightarrow> (Inl e, s') | (Inr x, s') \<Rightarrow> f x s')"

definition attempt :: "'a io \<Rightarrow> (err + 'a) io" where
  "attempt m = (\<lambda>s. case m s of (r, s') \<Rightarrow> (Inr r, s'))"

definition require :: "bool \<Rightarrow> err \<Rightarrow> unit io" where
  "require b e = (if b then ret () else fail e)"

definition reads :: "(db \<Rightarrow> err + 'a) \<Rightarrow> 'a io" where
  "reads f = (\<lambda>s. (f s, s))"

definition writes :: "(db \<Rightarrow> db) \<Rightarrow> unit io" where
  "writes f = (\<lambda>s. (Inr (), f s))"

definition fresh_id :: "uuid io" where
  "fresh_id = (\<lambda>s. (Inr (next_id s), s\<lparr>next_id := Suc (next_id s)\<rparr>))"

fun each :: "('a \<Rightarrow> unit io) \<Rightarrow> 'a list \<Rightarrow> unit io" where
  "each f [] = ret ()"
| "each f (x # xs) = andthen (f x) (\<lambda>_. each f xs)"

fun collect :: "('a \<Rightarrow> 'b io) \<Rightarrow> 'a list \<Rightarrow> 'b list io" where
  "collect f [] = ret []"
| "collect f (x # xs) = andthen (f x) (\<lambda>y. andthen (collect f xs) (\<lambda>ys. ret (y # ys)))"

text \<open>\<open>Store.inTx\<close>: the changes of a program that fails are rolled back.\<close>

definition in_tx :: "'a io \<Rightarrow> 'a io" where
  "in_tx m = (\<lambda>s. case m s of (Inl e, _) \<Rightarrow> (Inl e, s) | (Inr x, s') \<Rightarrow> (Inr x, s'))"

text \<open>\<open>:one\<close> queries, and the rows an \<open>UPDATE\<close> changes with their number.\<close>

definition fetch :: "(db \<Rightarrow> 'r list) \<Rightarrow> 'r io" where
  "fetch f = reads (\<lambda>s. case f s of [] \<Rightarrow> Inl NoRows | r # _ \<Rightarrow> Inr r)"

definition fetch_all :: "(db \<Rightarrow> 'r list) \<Rightarrow> 'r list io" where
  "fetch_all f = reads (\<lambda>s. Inr (f s))"

definition update_rows ::
  "(db \<Rightarrow> 'r list) \<Rightarrow> ('r list \<Rightarrow> db \<Rightarrow> db) \<Rightarrow> ('r \<Rightarrow> bool) \<Rightarrow> ('r \<Rightarrow> 'r) \<Rightarrow> nat io" where
  "update_rows get put P f = (\<lambda>s. (Inr (length (filter P (get s))),
     put (map (\<lambda>r. if P r then f r else r) (get s)) s))"

definition delete_rows ::
  "(db \<Rightarrow> 'r list) \<Rightarrow> ('r list \<Rightarrow> db \<Rightarrow> db) \<Rightarrow> ('r \<Rightarrow> bool) \<Rightarrow> nat io" where
  "delete_rows get put P = (\<lambda>s. (Inr (length (filter P (get s))),
     put (filter (\<lambda>r. \<not> P r) (get s)) s))"

text \<open>Nullable values: \<open>pgUUID\<close>, \<open>uuidFromPg\<close>, \<open>pgDateOrNull\<close> and the time read from a DATE.\<close>

definition pg_uuid :: "uuid \<Rightarrow> uuid option" where
  "pg_uuid i = (if i = 0 then None else Some i)"

definition uuid_from_pg :: "uuid option \<Rightarrow> uuid" where
  "uuid_from_pg v = (case v of None \<Rightarrow> 0 | Some i \<Rightarrow> i)"

definition pg_date_or_null :: "gotime \<Rightarrow> date option" where
  "pg_date_or_null t = (if t = zero_time then None else Some (date_of t))"

definition date_time :: "date option \<Rightarrow> gotime" where
  "date_time d = (case d of None \<Rightarrow> zero_time | Some x \<Rightarrow> midnight x)"

section \<open>Laws of programs\<close>

lemma io_simps [simp]:
  "ret x s = (Inr x, s)" "fail e s = (Inl e, s)" "reads f s = (f s, s)" "writes g s = (Inr (), g s)"
  "fresh_id s = (Inr (next_id s), s\<lparr>next_id := Suc (next_id s)\<rparr>)"
  "fetch_all h s = (Inr (h s), s)" "require b e s = (if b then Inr () else Inl e, s)"
  by (simp_all add: ret_def fail_def reads_def writes_def fresh_id_def fetch_all_def require_def)

lemma andthen_simps:
  "m s = (Inl e, s') \<Longrightarrow> andthen m f s = (Inl e, s')"
  "m s = (Inr x, s') \<Longrightarrow> andthen m f s = f x s'"
  by (simp_all add: andthen_def)

lemma andthen_io [simp]:
  "andthen (ret x) f = f x" "andthen (fail e) f = fail e"
  "andthen (writes g) k s = k () (g s)" "andthen (fetch_all h) q s = q (h s) s"
  "andthen fresh_id u s = u (next_id s) (s\<lparr>next_id := Suc (next_id s)\<rparr>)"
  "andthen (require b e) k s = (if b then k () s else (Inl e, s))"
  "andthen (reads g2) f2 s = (case g2 s of Inl e \<Rightarrow> (Inl e, s) | Inr x \<Rightarrow> f2 x s)"
  by (simp_all add: andthen_def fun_eq_iff split: sum.split)

lemma andthen_ok:
  "andthen m f s = (Inr y, s'') \<longleftrightarrow> (\<exists>x s'. m s = (Inr x, s') \<and> f x s' = (Inr y, s''))"
  by (auto simp: andthen_def split: prod.splits sum.splits)

lemma andthen_assoc: "andthen (andthen m f) g = andthen m (\<lambda>x. andthen (f x) g)"
  by (auto simp: andthen_def fun_eq_iff split: prod.splits sum.splits)

lemma in_tx_ok: "in_tx m s = (Inr x, s') \<longleftrightarrow> m s = (Inr x, s')"
  by (auto simp: in_tx_def split: prod.splits sum.splits)

lemma in_tx_error: "in_tx m s = (Inl e, s') \<longleftrightarrow> (\<exists>s''. m s = (Inl e, s'')) \<and> s' = s"
  by (auto simp: in_tx_def split: prod.splits sum.splits)

lemma fetch_ok: "fetch f s = (Inr r, s') \<longleftrightarrow> (\<exists>rs. f s = r # rs) \<and> s' = s"
  by (auto simp: fetch_def split: list.splits)

lemma fetch_state [simp]: "snd (fetch f s) = s"
  by (simp add: fetch_def)

lemma require_ok: "require b e s = (Inr x, s') \<longleftrightarrow> b \<and> s' = s"
  by auto

section \<open>What a program may change\<close>

text \<open>
  A relation between the tables before and after that is reflexive and transitive is kept by a program
  when every step of it keeps it, whether or not the program fails. The locale is the interface between
  the programs and what is claimed of them: append-only tables, untouched tables, invariants.
\<close>

named_theorems keeps_intros "steps that keep a relation on the tables"

definition keeps :: "(db \<Rightarrow> db \<Rightarrow> bool) \<Rightarrow> 'a io \<Rightarrow> bool" where
  "keeps R m \<longleftrightarrow> (\<forall>s. R s (snd (m s)))"

locale change =
  fixes R :: "db \<Rightarrow> db \<Rightarrow> bool"
  assumes change_refl: "R s s"
    and change_trans: "R s t \<Longrightarrow> R t u \<Longrightarrow> R s u"
begin

lemma keeps_pure: "keeps R (ret x)" "keeps R (fail e)" "keeps R (reads f)" "keeps R (fetch g)"
    "keeps R (fetch_all g)" "keeps R (require b e)"
  by (simp_all add: keeps_def change_refl)

lemma keeps_andthen:
  assumes "keeps R m" and "\<And>x. keeps R (f x)"
  shows "keeps R (andthen m f)"
  unfolding keeps_def
proof
  fix s
  obtain r s' where m: "m s = (r, s')" by (cases "m s")
  then have "R s s'" using assms(1) by (metis keeps_def snd_conv)
  moreover have "R s' (snd (f x s'))" for x using assms(2) by (simp add: keeps_def)
  ultimately show "R s (snd (andthen m f s))"
    using m by (cases r) (auto simp: andthen_def intro: change_trans)
qed

lemma keeps_attempt: "keeps R m \<Longrightarrow> keeps R (attempt m)"
  by (simp add: keeps_def attempt_def case_prod_unfold)

lemma keeps_in_tx: "keeps R m \<Longrightarrow> keeps R (in_tx m)"
  unfolding keeps_def in_tx_def by (metis (mono_tags, lifting) change_refl case_prod_unfold
      old.sum.simps(5,6) snd_conv sumE)

lemma keeps_each: "(\<And>x. keeps R (f x)) \<Longrightarrow> keeps R (each f xs)"
  by (induction xs) (simp_all add: keeps_pure keeps_andthen)

lemma keeps_collect: "(\<And>x. keeps R (f x)) \<Longrightarrow> keeps R (collect f xs)"
  by (induction xs) (simp_all add: keeps_pure keeps_andthen)

lemma keeps_writes: "(\<And>s. R s (g s)) \<Longrightarrow> keeps R (writes g)"
  by (simp add: keeps_def)

lemma keeps_fresh: "(\<And>s. R s (s\<lparr>next_id := Suc (next_id s)\<rparr>)) \<Longrightarrow> keeps R fresh_id"
  by (simp add: keeps_def)

lemma keeps_update: "(\<And>s rs. R s (put rs s)) \<Longrightarrow> keeps R (update_rows get put P f)"
  by (simp add: keeps_def update_rows_def)

lemma keeps_delete: "(\<And>s rs. R s (put rs s)) \<Longrightarrow> keeps R (delete_rows get put P)"
  by (simp add: keeps_def delete_rows_def)

lemma keeps_if: "(b \<Longrightarrow> keeps R m) \<Longrightarrow> (\<not> b \<Longrightarrow> keeps R n) \<Longrightarrow> keeps R (if b then m else n)"
  by simp

lemma keeps_case_option:
  "(x = None \<Longrightarrow> keeps R m) \<Longrightarrow> (\<And>y. x = Some y \<Longrightarrow> keeps R (n y)) \<Longrightarrow>
   keeps R (case x of None \<Rightarrow> m | Some y \<Rightarrow> n y)"
  by (cases x) simp_all

lemma keeps_case_sum:
  "(\<And>a. x = Inl a \<Longrightarrow> keeps R (m a)) \<Longrightarrow> (\<And>b. x = Inr b \<Longrightarrow> keeps R (n b)) \<Longrightarrow>
   keeps R (case x of Inl a \<Rightarrow> m a | Inr b \<Rightarrow> n b)"
  by (cases x) simp_all

lemma keeps_case_prod: "(\<And>a b. p = (a, b) \<Longrightarrow> keeps R (m a b)) \<Longrightarrow> keeps R (case p of (a, b) \<Rightarrow> m a b)"
  by (cases p) simp

lemmas keeps_rules = keeps_if keeps_case_option keeps_case_sum keeps_case_prod keeps_writes keeps_fresh keeps_update keeps_delete keeps_pure keeps_andthen keeps_attempt keeps_in_tx keeps_each keeps_collect

lemma keeps_state: "keeps R m \<Longrightarrow> m s = (r, s') \<Longrightarrow> R s s'"
  by (metis keeps_def snd_conv)

end

lemma keeps_weaken: "keeps R m \<Longrightarrow> (\<And>s t. R s t \<Longrightarrow> R' s t) \<Longrightarrow> keeps R' m"
  by (simp add: keeps_def)

end
