(* ===== verification/Crypto.thy ===== *)
theory Crypto
  imports Db
begin

text \<open>
  Envelope encryption (\<open>internal/crypto/envelope.go\<close>): hexadecimal and base64 as Go's packages
  \<open>encoding/hex\<close> and \<open>encoding/base64\<close> define them, and the keys and field operations over the primitives.
  AES-GCM, HMAC-SHA256, SHA-256 and the random reader are fields of the environment; what the code
  relies on is the predicate \<open>aead_ok\<close>: opening what was sealed under the same key and nonce gives the
  plaintext back, and a draw has the length asked for.
\<close>

section \<open>The environment of a request\<close>

record env =
  e_now :: gotime
  e_actor_kind :: string
  e_actor_detail :: string
  e_kek :: string
  e_uuid_text :: "uuid \<Rightarrow> string"
  e_rand :: "nat \<Rightarrow> nat \<Rightarrow> string"
  gcm_seal :: "string \<Rightarrow> string \<Rightarrow> string \<Rightarrow> string"
  gcm_open :: "string \<Rightarrow> string \<Rightarrow> string \<Rightarrow> string option"
  hmac_sha256 :: "string \<Rightarrow> string \<Rightarrow> string"
  sha256 :: "string \<Rightarrow> string"

section \<open>Hexadecimal and base64\<close>

definition hex_digit :: "nat \<Rightarrow> char" where
  "hex_digit n = char_of (if n < 10 then 48 + n else 87 + n)"

definition hex_encode :: "string \<Rightarrow> string" where
  "hex_encode s = concat (map (\<lambda>c. [hex_digit (byte c div 16), hex_digit (byte c mod 16)]) s)"

definition b64_char :: "nat \<Rightarrow> char" where
  "b64_char n = char_of (if n < 26 then 65 + n else if n < 52 then 71 + n else if n < 62 then n - 4
     else if n = 62 then 43 else (47 :: nat))"

definition b64_val :: "char \<Rightarrow> nat option" where
  "b64_val c = (let n = byte c in
     if 65 \<le> n \<and> n \<le> 90 then Some (n - 65)
     else if 97 \<le> n \<and> n \<le> 122 then Some (n - 71)
     else if 48 \<le> n \<and> n \<le> 57 then Some (n + 4)
     else if n = 43 then Some 62
     else if n = 47 then Some 63 else None)"

abbreviation pad_char :: char where "pad_char \<equiv> CHR ''=''"

fun b64_encode :: "string \<Rightarrow> string" where
  "b64_encode [] = []"
| "b64_encode [a] = [b64_char (byte a div 4), b64_char (byte a mod 4 * 16), pad_char, pad_char]"
| "b64_encode [a, b] = [b64_char (byte a div 4), b64_char (byte a mod 4 * 16 + byte b div 16),
     b64_char (byte b mod 16 * 4), pad_char]"
| "b64_encode (a # b # c # r) = b64_char (byte a div 4)
     # b64_char (byte a mod 4 * 16 + byte b div 16)
     # b64_char (byte b mod 16 * 4 + byte c div 64)
     # b64_char (byte c mod 64) # b64_encode r"

fun b64_quads :: "string \<Rightarrow> string option" where
  "b64_quads [] = Some []"
| "b64_quads (w # x # y # z # r) =
     (case (b64_val w, b64_val x) of
        (Some p, Some q) \<Rightarrow>
          if y = pad_char then
            (if z = pad_char \<and> r = [] then Some [char_of (p * 4 + q div 16)] else None)
          else
            (case b64_val y of
               None \<Rightarrow> None
             | Some u \<Rightarrow>
                 if z = pad_char then
                   (if r = [] then Some [char_of (p * 4 + q div 16), char_of (q mod 16 * 16 + u div 4)] else None)
                 else
                   (case b64_val z of
                      None \<Rightarrow> None
                    | Some t \<Rightarrow> map_option (\<lambda>bs. char_of (p * 4 + q div 16)
                        # char_of (q mod 16 * 16 + u div 4) # char_of (u mod 4 * 64 + t) # bs) (b64_quads r)))
      | _ \<Rightarrow> None)"
| "b64_quads _ = None"

text \<open>The decoder skips line breaks.\<close>

definition b64_decode :: "string \<Rightarrow> string option" where
  "b64_decode s = b64_quads (filter (\<lambda>c. c \<noteq> char_of (10 :: nat) \<and> c \<noteq> char_of (13 :: nat)) s)"

lemma byte_char_of: "n < 256 \<Longrightarrow> byte (char_of n) = n"
  by simp

lemma byte_b64: "n < 64 \<Longrightarrow> byte (b64_char n) =
    (if n < 26 then 65 + n else if n < 52 then 71 + n else if n < 62 then n - 4 else if n = 62 then 43 else 47)"
  unfolding b64_char_def by (subst byte_char_of) auto

lemma b64_val_char: "n < 64 \<Longrightarrow> b64_val (b64_char n) = Some n"
  unfolding b64_val_def Let_def by (simp only: byte_b64) auto

lemma b64_char_plain: "n < 64 \<Longrightarrow>
    b64_char n \<noteq> pad_char \<and> b64_char n \<noteq> char_of (10 :: nat) \<and> b64_char n \<noteq> char_of (13 :: nat)"
proof -
  assume n: "n < 64"
  have "byte (b64_char n) \<noteq> 61" "byte (b64_char n) \<noteq> 10" "byte (b64_char n) \<noteq> 13"
    unfolding byte_b64 [OF n] by auto
  then show ?thesis by auto
qed

lemma byte_less: "byte c < 256"
  using of_char_of [of "byte c"] by (metis char_of_char mod_less_divisor of_char_of zero_less_numeral)

lemma six_bits:
  "byte a div 4 < 64" "byte a mod 4 * 16 < 64" "byte a mod 4 * 16 + byte b div 16 < 64"
  "byte b mod 16 * 4 < 64" "byte b mod 16 * 4 + byte c div 64 < 64" "byte c mod 64 < 64"
proof -
  have "byte a mod 4 < 4" "byte b div 16 < 16" "byte b mod 16 < 16" "byte c div 64 < 4"
    using byte_less [of b] byte_less [of c] by (simp_all add: less_mult_imp_div_less)
  then show "byte a mod 4 * 16 < 64" "byte a mod 4 * 16 + byte b div 16 < 64"
    "byte b mod 16 * 4 < 64" "byte b mod 16 * 4 + byte c div 64 < 64" by linarith+
  show "byte a div 4 < 64" using byte_less [of a] by (simp add: less_mult_imp_div_less)
  show "byte c mod 64 < 64" by simp
qed

lemma recombine:
  "byte a div 4 * 4 + (byte a mod 4 * 16 + byte b div 16) div 16 = byte a"
  "byte a div 4 * 4 + (byte a mod 4 * 16) div 16 = byte a"
  "(byte a mod 4 * 16 + byte b div 16) mod 16 * 16 + (byte b mod 16 * 4 + byte c div 64) div 4 = byte b"
  "(byte a mod 4 * 16 + byte b div 16) mod 16 * 16 + (byte b mod 16 * 4) div 4 = byte b"
  "(byte b mod 16 * 4 + byte c div 64) mod 4 * 64 + byte c mod 64 = byte c"
proof -
  have q: "byte b div 16 < 16" "byte c div 64 < 4"
    using byte_less [of b] byte_less [of c] by (simp_all add: less_mult_imp_div_less)
  then have z: "byte b div 16 div 16 = 0" "byte b div 16 mod 16 = byte b div 16"
    "byte c div 64 div 4 = 0" "byte c div 64 mod 4 = byte c div 64"
    by (simp_all only: div_less mod_less)
  show "byte a div 4 * 4 + (byte a mod 4 * 16 + byte b div 16) div 16 = byte a"
    "(byte a mod 4 * 16 + byte b div 16) mod 16 * 16 + (byte b mod 16 * 4 + byte c div 64) div 4 = byte b"
    "(byte b mod 16 * 4 + byte c div 64) mod 4 * 64 + byte c mod 64 = byte c"
    "(byte a mod 4 * 16 + byte b div 16) mod 16 * 16 + (byte b mod 16 * 4) div 4 = byte b"
    by (simp_all add: z)
  show "byte a div 4 * 4 + (byte a mod 4 * 16) div 16 = byte a" by simp
qed

lemma b64_quads_step:
  "p < 64 \<Longrightarrow> q < 64 \<Longrightarrow> u < 64 \<Longrightarrow> t < 64 \<Longrightarrow>
    b64_quads (b64_char p # b64_char q # b64_char u # b64_char t # r) =
      map_option (\<lambda>bs. char_of (p * 4 + q div 16) # char_of (q mod 16 * 16 + u div 4) # char_of (u mod 4 * 64 + t) # bs)
        (b64_quads r)"
  "p < 64 \<Longrightarrow> q < 64 \<Longrightarrow> u < 64 \<Longrightarrow>
    b64_quads [b64_char p, b64_char q, b64_char u, pad_char] =
      Some [char_of (p * 4 + q div 16), char_of (q mod 16 * 16 + u div 4)]"
  "p < 64 \<Longrightarrow> q < 64 \<Longrightarrow>
    b64_quads [b64_char p, b64_char q, pad_char, pad_char] = Some [char_of (p * 4 + q div 16)]"
  by (simp_all add: b64_val_char b64_char_plain)

lemma b64_quads_encode: "b64_quads (b64_encode s) = Some s"
proof (induction s rule: b64_encode.induct)
  case (2 a)
  show ?case using six_bits by (simp only: b64_encode.simps b64_quads_step recombine char_of_char)
next
  case (3 a b)
  show ?case using six_bits
    by (simp only: b64_encode.simps b64_quads_step recombine char_of_char)
next
  case (4 a b c r)
  show ?case using six_bits 4
    by (simp only: b64_encode.simps b64_quads_step recombine char_of_char option.map)
qed simp

lemma pad_char_plain: "pad_char \<noteq> char_of (10 :: nat)" "pad_char \<noteq> char_of (13 :: nat)"
  by (auto dest: arg_cong [where f = byte])

lemma b64_encode_plain:
  "c \<in> set (b64_encode s) \<Longrightarrow> c \<noteq> char_of (10 :: nat) \<and> c \<noteq> char_of (13 :: nat)"
  by (induction s rule: b64_encode.induct) (auto simp: b64_char_plain six_bits pad_char_plain)

lemma b64_decode_encode [simp]: "b64_decode (b64_encode s) = Some s"
proof -
  have "filter (\<lambda>c. c \<noteq> char_of (10 :: nat) \<and> c \<noteq> char_of (13 :: nat)) (b64_encode s) = b64_encode s"
    using b64_encode_plain by (auto simp: filter_id_conv)
  then show ?thesis by (simp add: b64_decode_def b64_quads_encode)
qed

lemma byte_hex: "n < 16 \<Longrightarrow> byte (hex_digit n) = (if n < 10 then 48 + n else 87 + n)"
  unfolding hex_digit_def by (subst byte_char_of) auto

lemma hex_digit_inj:
  assumes "m < 16" and "n < 16" and "hex_digit m = hex_digit n"
  shows "m = n"
proof -
  have "byte (hex_digit m) = byte (hex_digit n)" using assms(3) by simp
  then show ?thesis unfolding byte_hex [OF assms(1)] byte_hex [OF assms(2)] by (auto split: if_splits)
qed

lemma hex_encode_Cons:
  "hex_encode (c # s) = hex_digit (byte c div 16) # hex_digit (byte c mod 16) # hex_encode s"
  by (simp add: hex_encode_def)

lemma hex_encode_Nil [simp]: "hex_encode [] = []"
  by (simp add: hex_encode_def)

lemma hex_encode_inj: "hex_encode s = hex_encode t \<Longrightarrow> s = t"
proof (induction s arbitrary: t)
  case Nil
  then show ?case by (cases t) (simp_all add: hex_encode_Cons)
next
  case (Cons c s)
  then obtain d u where t: "t = d # u" by (cases t) (simp_all add: hex_encode_Cons)
  have lt: "byte c div 16 < 16" "byte d div 16 < 16"
    using byte_less [of c] byte_less [of d] by (simp_all add: less_mult_imp_div_less)
  have "hex_digit (byte c div 16) = hex_digit (byte d div 16)"
    "hex_digit (byte c mod 16) = hex_digit (byte d mod 16)" "hex_encode s = hex_encode u"
    using Cons.prems by (simp_all add: t hex_encode_Cons)
  then have "byte c div 16 = byte d div 16" "byte c mod 16 = byte d mod 16" "s = u"
    using lt hex_digit_inj Cons.IH by auto
  then have "byte c = byte d" by (metis div_mult_mod_eq)
  with t \<open>s = u\<close> show ?case by (metis char_of_char)
qed

lemma hex_encode_eq [simp]: "hex_encode s = hex_encode t \<longleftrightarrow> s = t"
  using hex_encode_inj by blast

section \<open>Keys\<close>

definition key_size :: nat where
  "key_size = 32"

text \<open>\<open>NewKEK\<close>, \<open>Fingerprint\<close> and \<open>DeriveKey\<close>.\<close>

definition new_kek :: "string \<Rightarrow> err + string" where
  "new_kek master = (if length master \<noteq> key_size then Inl ErrKeySize else Inr master)"

definition kek_fingerprint :: "env \<Rightarrow> string" where
  "kek_fingerprint e = take 16 (hex_encode (hmac_sha256 e (e_kek e) ''pare/kek/fingerprint/v1''))"

definition derive_key :: "env \<Rightarrow> string \<Rightarrow> string" where
  "derive_key e label = hmac_sha256 e (e_kek e) label"

text \<open>\<open>rand.Reader\<close>: each draw takes the next number of the generator.\<close>

definition draw :: "env \<Rightarrow> nat \<Rightarrow> string io" where
  "draw e n = andthen fresh_id (\<lambda>i. ret (e_rand e n i))"

definition new_dek :: "env \<Rightarrow> string io" where
  "new_dek e = draw e key_size"

definition new_gcm :: "string \<Rightarrow> err + string" where
  "new_gcm key = (if length key = 16 \<or> length key = 24 \<or> length key = 32 then Inr key else Inl ErrKeySize)"

definition nonce_size :: nat where
  "nonce_size = 12"

definition seal_bytes :: "env \<Rightarrow> string \<Rightarrow> string \<Rightarrow> string io" where
  "seal_bytes e key plaintext =
     andthen (reads (\<lambda>_. new_gcm key)) (\<lambda>k.
     andthen (draw e nonce_size) (\<lambda>nonce.
     ret (nonce @ gcm_seal e k nonce plaintext)))"

definition seal :: "env \<Rightarrow> string \<Rightarrow> string \<Rightarrow> string io" where
  "seal e key plaintext = andthen (seal_bytes e key plaintext) (\<lambda>ct. ret (b64_encode ct))"

definition open_bytes :: "env \<Rightarrow> string \<Rightarrow> string \<Rightarrow> err + string" where
  "open_bytes e key raw =
     (case new_gcm key of Inl x \<Rightarrow> Inl x
      | Inr k \<Rightarrow>
        if length raw < nonce_size then Inl ErrCiphertext
        else (case gcm_open e k (take nonce_size raw) (drop nonce_size raw) of
                None \<Rightarrow> Inl ErrGcm | Some p \<Rightarrow> Inr p))"

definition open_text :: "env \<Rightarrow> string \<Rightarrow> string \<Rightarrow> err + string" where
  "open_text e key encoded =
     (case new_gcm key of Inl x \<Rightarrow> Inl x
      | Inr k \<Rightarrow>
        (case b64_decode encoded of None \<Rightarrow> Inl ErrBase64 | Some raw \<Rightarrow> open_bytes e key raw))"

definition wrap_dek :: "env \<Rightarrow> string \<Rightarrow> string io" where
  "wrap_dek e dek = (if length dek \<noteq> key_size then fail ErrKeySize else seal e (e_kek e) dek)"

definition unwrap_dek :: "env \<Rightarrow> string \<Rightarrow> err + string" where
  "unwrap_dek e wrapped = open_text e (e_kek e) wrapped"

definition new_dek_from :: "string \<Rightarrow> err + string" where
  "new_dek_from raw = (if length raw \<noteq> key_size then Inl ErrKeySize else Inr raw)"

definition encrypt_field :: "env \<Rightarrow> string \<Rightarrow> string \<Rightarrow> string io" where
  "encrypt_field e dek plaintext = seal e dek plaintext"

definition decrypt_field :: "env \<Rightarrow> string \<Rightarrow> string \<Rightarrow> err + string" where
  "decrypt_field e dek ciphertext = open_text e dek ciphertext"

definition encrypt_bytes :: "env \<Rightarrow> string \<Rightarrow> string \<Rightarrow> string io" where
  "encrypt_bytes e dek plaintext = seal_bytes e dek plaintext"

definition decrypt_bytes :: "env \<Rightarrow> string \<Rightarrow> string \<Rightarrow> err + string" where
  "decrypt_bytes e dek raw = open_bytes e dek raw"

section \<open>Round trips\<close>

text \<open>What the code relies on of AES-256-GCM and of the random reader.\<close>

definition aead_ok :: "env \<Rightarrow> bool" where
  "aead_ok e \<longleftrightarrow>
     (\<forall>key nonce p. length key = 32 \<longrightarrow> length nonce = 12 \<longrightarrow>
        gcm_open e key nonce (gcm_seal e key nonce p) = Some p) \<and>
     (\<forall>n i. length (e_rand e n i) = n)"

lemma draw_ok: "draw e n s = (Inr (e_rand e n (next_id s)), s\<lparr>next_id := Suc (next_id s)\<rparr>)"
  by (simp add: draw_def)

lemma seal_bytes_ok:
  assumes "length key = 32"
  shows "seal_bytes e key p s =
    (Inr (e_rand e 12 (next_id s) @ gcm_seal e key (e_rand e 12 (next_id s)) p), s\<lparr>next_id := Suc (next_id s)\<rparr>)"
  using assms by (simp add: seal_bytes_def new_gcm_def andthen_simps(2) [OF draw_ok] nonce_size_def)

lemma open_seal_bytes:
  assumes "aead_ok e" and "length key = 32" and "seal_bytes e key p s = (Inr ct, s')"
  shows "open_bytes e key ct = Inr p"
  using assms by (auto simp: seal_bytes_ok open_bytes_def new_gcm_def nonce_size_def aead_ok_def)

lemma open_seal:
  assumes "aead_ok e" and "length key = 32" and "seal e key p s = (Inr ct, s')"
  shows "open_text e key ct = Inr p"
proof -
  from assms(3) obtain raw where raw: "seal_bytes e key p s = (Inr raw, s')" and ct: "ct = b64_encode raw"
    by (auto simp: seal_def andthen_ok)
  from open_seal_bytes [OF assms(1,2) raw] show ?thesis
    using assms(2) by (simp add: open_text_def ct new_gcm_def)
qed

lemma decrypt_encrypt:
  "aead_ok e \<Longrightarrow> length dek = 32 \<Longrightarrow> encrypt_field e dek p s = (Inr ct, s') \<Longrightarrow> decrypt_field e dek ct = Inr p"
  "aead_ok e \<Longrightarrow> length dek = 32 \<Longrightarrow> encrypt_bytes e dek p s = (Inr raw, s') \<Longrightarrow> decrypt_bytes e dek raw = Inr p"
  by (simp_all add: encrypt_field_def decrypt_field_def encrypt_bytes_def decrypt_bytes_def
      open_seal open_seal_bytes)

lemma unwrap_wrap:
  assumes "aead_ok e" and "length (e_kek e) = 32" and "wrap_dek e dek s = (Inr w, s')"
  shows "unwrap_dek e w = Inr dek" "length dek = 32"
  using assms by (auto simp: wrap_dek_def unwrap_dek_def key_size_def open_seal split: if_splits)

text \<open>Sealing draws randomness and touches no table.\<close>

definition draws_only :: "db \<Rightarrow> db \<Rightarrow> bool" where
  "draws_only s t \<longleftrightarrow> (\<exists>n \<ge> next_id s. t = s\<lparr>next_id := n\<rparr>)"

lemma draws_only_refl: "draws_only s s"
  unfolding draws_only_def by (rule exI [of _ "next_id s"]) simp

interpretation draws: change draws_only
proof
  show "draws_only s s" for s by (rule draws_only_refl)
  show "draws_only s t \<Longrightarrow> draws_only t u \<Longrightarrow> draws_only s u" for s t u
  proof -
    assume "draws_only s t" and "draws_only t u"
    then obtain m n where "next_id s \<le> m" "t = s\<lparr>next_id := m\<rparr>" "m \<le> n" "u = s\<lparr>next_id := n\<rparr>"
      by (auto simp: draws_only_def)
    then show "draws_only s u" unfolding draws_only_def by (intro exI [of _ n]) simp
  qed
qed

lemma keeps_draws [keeps_intros]:
  "keeps draws_only (draw e n)" "keeps draws_only (seal_bytes e k p)" "keeps draws_only (seal e k p)"
  "keeps draws_only (new_dek e)" "keeps draws_only (wrap_dek e d)"
  "keeps draws_only (encrypt_field e d p)" "keeps draws_only (encrypt_bytes e d p)"
proof -
  have d: "keeps draws_only (draw e n)" for n
    unfolding keeps_def draw_ok by (auto simp: draws_only_def intro!: exI [of _ "Suc _"])
  then show "keeps draws_only (draw e n)" "keeps draws_only (new_dek e)" by (simp_all add: new_dek_def)
  have b: "keeps draws_only (seal_bytes e k p)" for k p
    unfolding seal_bytes_def by (intro draws.keeps_rules d)
  then show "keeps draws_only (seal_bytes e k p)" "keeps draws_only (encrypt_bytes e d p)"
    by (simp_all add: encrypt_bytes_def)
  have t: "keeps draws_only (seal e k p)" for k p
    unfolding seal_def by (intro draws.keeps_rules b)
  then show "keeps draws_only (seal e k p)" "keeps draws_only (encrypt_field e d p)"
    by (simp_all add: encrypt_field_def)
  show "keeps draws_only (wrap_dek e d)"
    using t by (simp add: wrap_dek_def draws.keeps_pure)
qed

end
