(* ===== verification/Queries.thy ===== *)
theory Queries
  imports Crypto
begin

text \<open>
  The queries of \<open>internal/db/generated\<close>, one definition per query under the query's name: its row
  selection and order, its conflict clause, the constraints of the tables that it can violate
  (\<open>internal/db/migrations\<close>), and the rows it writes. A foreign key is checked where the id comes from a
  caller. \<open>now\<close> is the time of the statement. Texts are ordered bytewise. No query updates or deletes
  a verification or one of its lines, so the triggers that forbid it have nothing to do here.
\<close>

section \<open>Companies and accounts (ledger.sql.go)\<close>

definition company_exists :: "uuid \<Rightarrow> db \<Rightarrow> bool" where
  "company_exists c s \<longleftrightarrow> list_ex (\<lambda>r. co_id r = c) (companies s)"

definition InsertCompany :: "string \<Rightarrow> string \<Rightarrow> string \<Rightarrow> string \<Rightarrow> company io" where
  "InsertCompany nm orgnr wrapped kid =
     andthen (reads (\<lambda>s. if companies s \<noteq> [] then Inl Constraint else Inr ())) (\<lambda>_.
     andthen fresh_id (\<lambda>i.
     let r = \<lparr>co_id = i, co_name = nm, co_orgnr = orgnr, dek_wrapped = wrapped, locked_through = None,
              momsregnr = [], co_address = [], postal_code = [], city = [], bankgiro = [], co_iban = [],
              fskatt = False, key_id = kid\<rparr>
     in andthen (writes (\<lambda>s. s\<lparr>companies := companies s @ [r]\<rparr>)) (\<lambda>_. ret r)))"

definition GetCompany :: "uuid \<Rightarrow> company io" where
  "GetCompany c = fetch (\<lambda>s. filter (\<lambda>r. co_id r = c) (companies s))"

definition ListCompanies :: "company list io" where
  "ListCompanies = fetch_all companies"

definition UpdateCompanyProfile :: "company \<Rightarrow> unit io" where
  "UpdateCompanyProfile p =
     andthen (update_rows companies (\<lambda>rs s. s\<lparr>companies := rs\<rparr>) (\<lambda>r. co_id r = co_id p)
       (\<lambda>r. r\<lparr>co_name := co_name p, co_orgnr := co_orgnr p, momsregnr := momsregnr p,
               co_address := co_address p, postal_code := postal_code p, city := city p,
               bankgiro := bankgiro p, co_iban := co_iban p, fskatt := fskatt p\<rparr>)) (\<lambda>_. ret ())"

definition SetLockedThrough :: "uuid \<Rightarrow> date option \<Rightarrow> unit io" where
  "SetLockedThrough c d =
     andthen (update_rows companies (\<lambda>rs s. s\<lparr>companies := rs\<rparr>) (\<lambda>r. co_id r = c)
       (\<lambda>r. r\<lparr>locked_through := d\<rparr>)) (\<lambda>_. ret ())"

definition same_account :: "account_row \<Rightarrow> account_row \<Rightarrow> bool" where
  "same_account a b \<longleftrightarrow> ac_company a = ac_company b \<and> ac_number a = ac_number b"

definition UpsertAccount :: "account_row \<Rightarrow> unit io" where
  "UpsertAccount a =
     andthen (reads (\<lambda>s. if company_exists (ac_company a) s then Inr () else Inl Constraint)) (\<lambda>_.
     writes (\<lambda>s. s\<lparr>accounts :=
       (if list_ex (same_account a) (accounts s)
        then map (\<lambda>r. if same_account a r then a else r) (accounts s)
        else accounts s @ [a])\<rparr>))"

definition ListAccounts :: "uuid \<Rightarrow> account_row list io" where
  "ListAccounts c = fetch_all (\<lambda>s. sort_key ac_number (filter (\<lambda>r. ac_company r = c) (accounts s)))"

section \<open>Verifications (ledger.sql.go, audit.sql.go)\<close>

definition series_numbers :: "uuid \<Rightarrow> string \<Rightarrow> db \<Rightarrow> int list" where
  "series_numbers c sr s = map v_number (filter (\<lambda>v. v_company v = c \<and> v_series v = sr) (verifications s))"

definition NextVerificationNumber :: "uuid \<Rightarrow> string \<Rightarrow> int io" where
  "NextVerificationNumber c sr = reads (\<lambda>s.
     let n = fold max (series_numbers c sr s) 0 + 1 in
     if 2147483647 < n then Inl OutOfRange else Inr n)"

definition ver_exists :: "uuid \<Rightarrow> db \<Rightarrow> bool" where
  "ver_exists i s \<longleftrightarrow> list_ex (\<lambda>v. v_id v = i) (verifications s)"

definition InsertVerification ::
  "uuid \<Rightarrow> string \<Rightarrow> int \<Rightarrow> date \<Rightarrow> string \<Rightarrow> uuid option \<Rightarrow> gotime option \<Rightarrow> ver_row io" where
  "InsertVerification c sr n d desc rv posted =
     andthen (reads (\<lambda>s.
       if \<not> company_exists c s \<or> n \<in> set (series_numbers c sr s) \<or>
          (case rv of None \<Rightarrow> False | Some i \<Rightarrow> \<not> ver_exists i s)
       then Inl Constraint else Inr ())) (\<lambda>_.
     andthen fresh_id (\<lambda>i.
     let r = \<lparr>v_id = i, v_company = c, v_series = sr, v_number = n, v_date = d, v_description = desc,
              v_reversal_of = rv, v_posted_at = posted\<rparr>
     in andthen (writes (\<lambda>s. s\<lparr>verifications := verifications s @ [r]\<rparr>)) (\<lambda>_. ret r)))"

definition InsertVerificationLine :: "vline_row \<Rightarrow> unit io" where
  "InsertVerificationLine l =
     andthen (reads (\<lambda>s.
       if sint (vl_debit l) < 0 \<or> sint (vl_credit l) < 0 \<or> (vl_debit l = 0) = (vl_credit l = 0) \<or>
          \<not> ver_exists (vl_verification l) s
       then Inl Constraint else Inr ())) (\<lambda>_.
     writes (\<lambda>s. s\<lparr>vlines := vlines s @ [l]\<rparr>))"

text \<open>\<open>ORDER BY vdate, series, number\<close>: three stable sorts, least significant key first.\<close>

definition ListVerifications :: "uuid \<Rightarrow> ver_row list io" where
  "ListVerifications c = fetch_all (\<lambda>s.
     sort_key v_date (sort_key v_series (sort_key v_number
       (filter (\<lambda>v. v_company v = c) (verifications s)))))"

definition CountVerifications :: "uuid \<Rightarrow> nat io" where
  "CountVerifications c = reads (\<lambda>s. Inr (length (filter (\<lambda>v. v_company v = c) (verifications s))))"

definition GetVerification :: "uuid \<Rightarrow> ver_row io" where
  "GetVerification i = fetch (\<lambda>s. filter (\<lambda>v. v_id v = i) (verifications s))"

definition ListVerificationLinesByVerification :: "uuid \<Rightarrow> vline_row list io" where
  "ListVerificationLinesByVerification i = fetch_all (\<lambda>s. filter (\<lambda>l. vl_verification l = i) (vlines s))"

text \<open>The lines whose verification satisfies a condition: the join of the balance queries.\<close>

definition joined_lines :: "(ver_row \<Rightarrow> bool) \<Rightarrow> db \<Rightarrow> vline_row list" where
  "joined_lines P s = filter (\<lambda>l. list_ex (\<lambda>v. v_id v = vl_verification l \<and> P v) (verifications s)) (vlines s)"

definition ListLinesForCompany :: "uuid \<Rightarrow> vline_row list io" where
  "ListLinesForCompany c = fetch_all (joined_lines (\<lambda>v. v_company v = c))"

definition vl_net :: "vline_row \<Rightarrow> int" where
  "vl_net l = sint (vl_debit l) - sint (vl_credit l)"

text \<open>\<open>SUM(debit_ore - credit_ore)::BIGINT ... GROUP BY account ORDER BY account\<close>: the sum is exact and
  the cast fails when it does not fit.\<close>

definition account_sums :: "vline_row list \<Rightarrow> (string \<times> int) list" where
  "account_sums ls = map (\<lambda>a. (a, sum_list (map vl_net (filter (\<lambda>l. vl_account l = a) ls))))
     (sort (remdups (map vl_account ls)))"

definition net_rows :: "(ver_row \<Rightarrow> bool) \<Rightarrow> (string \<times> amount) list io" where
  "net_rows P = reads (\<lambda>s.
     let rows = account_sums (joined_lines P s) in
     if list_all (\<lambda>(a, n). in64 n) rows then Inr (map (\<lambda>(a, n). (a, word_of_int n)) rows)
     else Inl OutOfRange)"

definition q_TrialBalance :: "uuid \<Rightarrow> (string \<times> amount) list io" where
  "q_TrialBalance c = net_rows (\<lambda>v. v_company v = c)"

definition q_TrialBalanceBetween :: "uuid \<Rightarrow> date \<Rightarrow> date \<Rightarrow> (string \<times> amount) list io" where
  "q_TrialBalanceBetween c d1 d2 = net_rows (\<lambda>v. v_company v = c \<and> d1 \<le> v_date v \<and> v_date v \<le> d2)"

definition q_TrialBalanceAsOf :: "uuid \<Rightarrow> date \<Rightarrow> (string \<times> amount) list io" where
  "q_TrialBalanceAsOf c d = net_rows (\<lambda>v. v_company v = c \<and> v_date v \<le> d)"

definition q_TrialBalanceBetweenExclSeries ::
  "uuid \<Rightarrow> date \<Rightarrow> date \<Rightarrow> string \<Rightarrow> (string \<times> amount) list io" where
  "q_TrialBalanceBetweenExclSeries c d1 d2 sr =
     net_rows (\<lambda>v. v_company v = c \<and> d1 \<le> v_date v \<and> v_date v \<le> d2 \<and> v_series v \<noteq> sr)"

section \<open>Counterparties (ledger.sql.go)\<close>

definition valid_kind :: "string \<Rightarrow> bool" where
  "valid_kind k \<longleftrightarrow> k = ''customer'' \<or> k = ''supplier''"

definition InsertCounterparty :: "counterparty_row \<Rightarrow> counterparty_row io" where
  "InsertCounterparty p =
     andthen (reads (\<lambda>s. if \<not> company_exists (cp_company p) s \<or> \<not> valid_kind (cp_kind p)
       then Inl Constraint else Inr ())) (\<lambda>_.
     andthen fresh_id (\<lambda>i.
     let r = p\<lparr>cp_id := i, erased_at := None\<rparr>
     in andthen (writes (\<lambda>s. s\<lparr>counterparties := counterparties s @ [r]\<rparr>)) (\<lambda>_. ret r)))"

definition q_GetCounterparty :: "uuid \<Rightarrow> counterparty_row io" where
  "q_GetCounterparty i = fetch (\<lambda>s. filter (\<lambda>r. cp_id r = i) (counterparties s))"

definition q_ListCounterparties :: "uuid \<Rightarrow> counterparty_row list io" where
  "q_ListCounterparties c = fetch_all (\<lambda>s. filter (\<lambda>r. cp_company r = c) (counterparties s))"

definition live_counterparty :: "uuid \<Rightarrow> uuid \<Rightarrow> counterparty_row \<Rightarrow> bool" where
  "live_counterparty c i r \<longleftrightarrow> cp_id r = i \<and> cp_company r = c \<and> erased_at r = None"

definition q_UpdateCounterparty :: "uuid \<Rightarrow> uuid \<Rightarrow> counterparty_row \<Rightarrow> unit io" where
  "q_UpdateCounterparty c i p =
     andthen (reads (\<lambda>s. if list_ex (live_counterparty c i) (counterparties s) \<and> \<not> valid_kind (cp_kind p)
       then Inl Constraint else Inr ())) (\<lambda>_.
     andthen (update_rows counterparties (\<lambda>rs s. s\<lparr>counterparties := rs\<rparr>) (live_counterparty c i)
       (\<lambda>r. r\<lparr>cp_kind := cp_kind p, name_enc := name_enc p, orgnr_enc := orgnr_enc p,
               personnummer_enc := personnummer_enc p, address_enc := address_enc p,
               iban_enc := iban_enc p, email_enc := email_enc p\<rparr>)) (\<lambda>_. ret ()))"

definition q_EraseCounterparty :: "gotime \<Rightarrow> uuid \<Rightarrow> uuid \<Rightarrow> string \<Rightarrow> unit io" where
  "q_EraseCounterparty nw c i tomb =
     andthen (update_rows counterparties (\<lambda>rs s. s\<lparr>counterparties := rs\<rparr>) (live_counterparty c i)
       (\<lambda>r. r\<lparr>name_enc := tomb, orgnr_enc := [], personnummer_enc := [], address_enc := [],
               iban_enc := [], email_enc := [], erased_at := Some nw\<rparr>)) (\<lambda>_. ret ())"

definition CountRetainedInvoices :: "uuid \<Rightarrow> uuid \<Rightarrow> nat io" where
  "CountRetainedInvoices c p = reads (\<lambda>s. Inr (length (filter (\<lambda>r. iv_company r = c \<and> iv_counterparty r = p \<and>
     iv_status r \<noteq> Draft) (invoices s))))"

section \<open>Audit log (audit.sql.go)\<close>

definition no_nul :: "string \<Rightarrow> bool" where
  "no_nul s \<longleftrightarrow> CHR 0x00 \<notin> set s"

definition company_audit :: "uuid \<Rightarrow> db \<Rightarrow> audit_row list" where
  "company_audit c s = filter (\<lambda>r. au_company r = c) (audit_log s)"

definition GetLastAuditHash :: "uuid \<Rightarrow> string io" where
  "GetLastAuditHash c = fetch (\<lambda>s. map au_hash (rev (company_audit c s)))"

definition InsertAuditLog :: "audit_row \<Rightarrow> unit io" where
  "InsertAuditLog r =
     andthen (reads (\<lambda>s.
       if \<not> company_exists (au_company r) s \<or> au_actor r \<notin> {''user'', ''ai'', ''system''} \<or>
          \<not> list_all no_nul [au_actor_detail r, au_action r, au_target_type r, au_target_id r, au_detail r] \<or>
          au_prev r \<in> set (map au_prev (company_audit (au_company r) s))
       then Inl Constraint else Inr ())) (\<lambda>_.
     andthen fresh_id (\<lambda>i.
     writes (\<lambda>s. s\<lparr>audit_log := audit_log s @ [r\<lparr>au_id := i\<rparr>]\<rparr>)))"

text \<open>\<open>ORDER BY at DESC, id DESC LIMIT n\<close>.\<close>

definition ListAuditLog :: "uuid \<Rightarrow> nat \<Rightarrow> audit_row list io" where
  "ListAuditLog c n = fetch_all (\<lambda>s. take n (rev (sort_key au_at (company_audit c s))))"

definition ListAuditChain :: "uuid \<Rightarrow> audit_row list io" where
  "ListAuditChain c = fetch_all (company_audit c)"

section \<open>Invoices (invoice.sql.go)\<close>

definition counterparty_exists :: "uuid \<Rightarrow> db \<Rightarrow> bool" where
  "counterparty_exists i s \<longleftrightarrow> list_ex (\<lambda>r. cp_id r = i) (counterparties s)"

definition InsertInvoice ::
  "uuid \<Rightarrow> uuid \<Rightarrow> date option \<Rightarrow> date option \<Rightarrow> string \<Rightarrow> int64 \<Rightarrow> invoice_row io" where
  "InsertInvoice c cp d due cur ppm =
     andthen (reads (\<lambda>s. if \<not> company_exists c s \<or> \<not> counterparty_exists cp s
       then Inl Constraint else Inr ())) (\<lambda>_.
     andthen fresh_id (\<lambda>i.
     let r = \<lparr>iv_id = i, iv_company = c, iv_counterparty = cp, iv_number = [], iv_status = Draft,
              iv_date = d, iv_due = due, iv_currency = cur, iv_rate = ppm, iv_ocr = [],
              iv_verification = None, iv_paid_at = None, iv_payment = None, iv_credits = None,
              iv_amount_paid = 0\<rparr>
     in andthen (writes (\<lambda>s. s\<lparr>invoices := invoices s @ [r]\<rparr>)) (\<lambda>_. ret r)))"

definition invoice_exists :: "uuid \<Rightarrow> db \<Rightarrow> bool" where
  "invoice_exists i s \<longleftrightarrow> list_ex (\<lambda>r. iv_id r = i) (invoices s)"

definition InsertInvoiceLine :: "invoice_line_row \<Rightarrow> unit io" where
  "InsertInvoiceLine l =
     andthen (reads (\<lambda>s. if \<not> invoice_exists (ir_invoice l) s then Inl Constraint else Inr ())) (\<lambda>_.
     writes (\<lambda>s. s\<lparr>invoice_rows := invoice_rows s @ [l]\<rparr>))"

definition GetInvoice :: "uuid \<Rightarrow> invoice_row io" where
  "GetInvoice i = fetch (\<lambda>s. filter (\<lambda>r. iv_id r = i) (invoices s))"

text \<open>The upsert that hands out invoice numbers: 1 for the first of a year, then one more each time.\<close>

definition AllocInvoiceNumber :: "uuid \<Rightarrow> int \<Rightarrow> int io" where
  "AllocInvoiceNumber c y = (\<lambda>s.
     case map_of (invoice_seq s) (c, y) of
       None \<Rightarrow>
         if \<not> company_exists c s then (Inl Constraint, s)
         else (Inr 1, s\<lparr>invoice_seq := invoice_seq s @ [((c, y), 1)]\<rparr>)
     | Some n \<Rightarrow>
         if max64 < n + 1 then (Inl OutOfRange, s)
         else (Inr (n + 1), s\<lparr>invoice_seq :=
           map (\<lambda>(k, m). if k = (c, y) then (k, m + 1) else (k, m)) (invoice_seq s)\<rparr>))"

definition GetInvoiceByNumber :: "uuid \<Rightarrow> string \<Rightarrow> invoice_row io" where
  "GetInvoiceByNumber c n = fetch (\<lambda>s. filter (\<lambda>r. iv_company r = c \<and> iv_number r = n) (invoices s))"

definition ListInvoiceLines :: "uuid \<Rightarrow> invoice_line_row list io" where
  "ListInvoiceLines i = fetch_all (\<lambda>s. sort_key ir_line_no (filter (\<lambda>l. ir_invoice l = i) (invoice_rows s)))"

definition ListInvoices :: "uuid \<Rightarrow> invoice_row list io" where
  "ListInvoices c = fetch_all (\<lambda>s. filter (\<lambda>r. iv_company r = c) (invoices s))"

abbreviation put_invoices :: "invoice_row list \<Rightarrow> db \<Rightarrow> db" where
  "put_invoices rs s \<equiv> s\<lparr>invoices := rs\<rparr>"

definition finalizable :: "uuid \<Rightarrow> uuid \<Rightarrow> invoice_row \<Rightarrow> bool" where
  "finalizable c i r \<longleftrightarrow> iv_id r = i \<and> iv_company r = c \<and> iv_status r = Draft"

definition q_FinalizeInvoice ::
  "uuid \<Rightarrow> uuid \<Rightarrow> string \<Rightarrow> date option \<Rightarrow> date option \<Rightarrow> uuid option \<Rightarrow> unit io" where
  "q_FinalizeInvoice c i n d due ver =
     andthen (reads (\<lambda>s.
       if list_ex (finalizable c i) (invoices s) \<and> n \<noteq> [] \<and>
          list_ex (\<lambda>r. iv_id r \<noteq> i \<and> iv_company r = c \<and> iv_number r = n) (invoices s)
       then Inl Constraint else Inr ())) (\<lambda>_.
     andthen (update_rows invoices put_invoices (finalizable c i)
       (\<lambda>r. r\<lparr>iv_status := Finalized, iv_number := n, iv_date := d, iv_due := due, iv_verification := ver\<rparr>))
       (\<lambda>_. ret ()))"

definition q_DeleteDraftInvoice :: "uuid \<Rightarrow> uuid \<Rightarrow> nat io" where
  "q_DeleteDraftInvoice c i = (\<lambda>s.
     if \<not> list_ex (finalizable c i) (invoices s) then (Inr 0, s)
     else if list_ex (\<lambda>r. iv_credits r = Some i) (invoices s) \<or>
             list_ex (\<lambda>b. bt_invoice b = Some i) (bank_txns s)
     then (Inl Constraint, s)
     else (Inr (length (filter (finalizable c i) (invoices s))),
           s\<lparr>invoices := filter (\<lambda>r. \<not> finalizable c i r) (invoices s),
             invoice_rows := filter (\<lambda>l. ir_invoice l \<noteq> i) (invoice_rows s)\<rparr>))"

definition SetInvoiceCredits :: "uuid \<Rightarrow> uuid option \<Rightarrow> unit io" where
  "SetInvoiceCredits i orig =
     andthen (update_rows invoices put_invoices (\<lambda>r. iv_id r = i) (\<lambda>r. r\<lparr>iv_credits := orig\<rparr>)) (\<lambda>_. ret ())"

definition MarkInvoiceCancelled :: "uuid \<Rightarrow> uuid \<Rightarrow> nat io" where
  "MarkInvoiceCancelled c i = update_rows invoices put_invoices
     (\<lambda>r. iv_id r = i \<and> iv_company r = c \<and> iv_status r = Finalized) (\<lambda>r. r\<lparr>iv_status := Cancelled\<rparr>)"

definition MarkInvoiceCredited :: "uuid \<Rightarrow> uuid \<Rightarrow> nat io" where
  "MarkInvoiceCredited c i = update_rows invoices put_invoices
     (\<lambda>r. iv_id r = i \<and> iv_company r = c \<and> (iv_status r = Finalized \<or> iv_status r = Paid))
     (\<lambda>r. r\<lparr>iv_status := Credited\<rparr>)"

definition AddInvoicePayment :: "uuid \<Rightarrow> uuid \<Rightarrow> amount \<Rightarrow> unit io" where
  "AddInvoicePayment c i x =
     andthen (reads (\<lambda>s. if list_ex (\<lambda>r. iv_id r = i \<and> iv_company r = c \<and>
         \<not> in64 (sint (iv_amount_paid r) + sint x)) (invoices s)
       then Inl OutOfRange else Inr ())) (\<lambda>_.
     andthen (update_rows invoices put_invoices (\<lambda>r. iv_id r = i \<and> iv_company r = c)
       (\<lambda>r. r\<lparr>iv_amount_paid := iv_amount_paid r + x\<rparr>)) (\<lambda>_. ret ()))"

definition MarkInvoicePaid :: "uuid \<Rightarrow> uuid \<Rightarrow> date option \<Rightarrow> uuid option \<Rightarrow> nat io" where
  "MarkInvoicePaid c i d ver = update_rows invoices put_invoices
     (\<lambda>r. iv_id r = i \<and> iv_company r = c \<and> iv_status r = Finalized)
     (\<lambda>r. r\<lparr>iv_status := Paid, iv_paid_at := d, iv_payment := ver\<rparr>)"

section \<open>Supplier invoices (supplier\_invoice.sql.go)\<close>

definition InsertSupplierInvoice :: "supplier_row \<Rightarrow> supplier_row io" where
  "InsertSupplierInvoice p =
     andthen (reads (\<lambda>s. if \<not> company_exists (su_company p) s \<or> \<not> counterparty_exists (su_counterparty p) s
       then Inl Constraint else Inr ())) (\<lambda>_.
     andthen fresh_id (\<lambda>i.
     let r = p\<lparr>su_id := i, su_status := SDraft, su_verification := None, su_payment := None, su_paid_at := None\<rparr>
     in andthen (writes (\<lambda>s. s\<lparr>suppliers := suppliers s @ [r]\<rparr>)) (\<lambda>_. ret r)))"

definition GetSupplierInvoice :: "uuid \<Rightarrow> supplier_row io" where
  "GetSupplierInvoice i = fetch (\<lambda>s. filter (\<lambda>r. su_id r = i) (suppliers s))"

definition ListSupplierInvoices :: "uuid \<Rightarrow> supplier_row list io" where
  "ListSupplierInvoices c = fetch_all (\<lambda>s. rev (filter (\<lambda>r. su_company r = c) (suppliers s)))"

definition q_FinalizeSupplierInvoice :: "uuid \<Rightarrow> uuid \<Rightarrow> uuid option \<Rightarrow> nat io" where
  "q_FinalizeSupplierInvoice c i ver = update_rows suppliers (\<lambda>rs s. s\<lparr>suppliers := rs\<rparr>)
     (\<lambda>r. su_id r = i \<and> su_company r = c \<and> su_status r = SDraft)
     (\<lambda>r. r\<lparr>su_status := SFinalized, su_verification := ver\<rparr>)"

definition MarkSupplierInvoicePaid :: "uuid \<Rightarrow> uuid \<Rightarrow> date option \<Rightarrow> uuid option \<Rightarrow> nat io" where
  "MarkSupplierInvoicePaid c i d ver = update_rows suppliers (\<lambda>rs s. s\<lparr>suppliers := rs\<rparr>)
     (\<lambda>r. su_id r = i \<and> su_company r = c \<and> su_status r = SFinalized)
     (\<lambda>r. r\<lparr>su_status := SPaid, su_paid_at := d, su_payment := ver\<rparr>)"

section \<open>Bank transactions (bank.sql.go)\<close>

definition InsertBankTxn :: "bank_row \<Rightarrow> unit io" where
  "InsertBankTxn p =
     andthen (reads (\<lambda>s. if \<not> company_exists (bt_company p) s then Inl Constraint else Inr ())) (\<lambda>_.
     andthen (fetch_all bank_txns) (\<lambda>bs.
     if list_ex (\<lambda>r. bt_company r = bt_company p \<and> bt_fingerprint r = bt_fingerprint p) bs then ret ()
     else andthen fresh_id (\<lambda>i. writes (\<lambda>s. s\<lparr>bank_txns := bank_txns s @
       [p\<lparr>bt_id := i, bt_status := Unmatched, bt_invoice := None, bt_verification := None\<rparr>]\<rparr>))))"

text \<open>\<open>ORDER BY txn_date DESC, created_at DESC\<close>.\<close>

definition ListBankTxns :: "uuid \<Rightarrow> bank_row list io" where
  "ListBankTxns c = fetch_all (\<lambda>s. rev (sort_key bt_date (filter (\<lambda>r. bt_company r = c) (bank_txns s))))"

definition GetBankTxn :: "uuid \<Rightarrow> bank_row io" where
  "GetBankTxn i = fetch (\<lambda>s. filter (\<lambda>r. bt_id r = i) (bank_txns s))"

abbreviation put_bank :: "bank_row list \<Rightarrow> db \<Rightarrow> db" where
  "put_bank rs s \<equiv> s\<lparr>bank_txns := rs\<rparr>"

definition txn_in :: "uuid \<Rightarrow> uuid \<Rightarrow> txn_status list \<Rightarrow> bank_row \<Rightarrow> bool" where
  "txn_in c i sts r \<longleftrightarrow> bt_id r = i \<and> bt_company r = c \<and> bt_status r \<in> set sts"

definition ClaimBankTxn :: "uuid \<Rightarrow> uuid \<Rightarrow> nat io" where
  "ClaimBankTxn c i = update_rows bank_txns put_bank (txn_in c i [Unmatched]) (\<lambda>r. r\<lparr>bt_status := Booking\<rparr>)"

definition UnclaimBankTxn :: "uuid \<Rightarrow> uuid \<Rightarrow> nat io" where
  "UnclaimBankTxn c i = update_rows bank_txns put_bank (txn_in c i [Booking]) (\<lambda>r. r\<lparr>bt_status := Unmatched\<rparr>)"

definition MarkBankTxnBooked :: "uuid \<Rightarrow> uuid \<Rightarrow> uuid option \<Rightarrow> uuid option \<Rightarrow> nat io" where
  "MarkBankTxnBooked c i ver im = update_rows bank_txns put_bank (txn_in c i [Unmatched, Booking])
     (\<lambda>r. r\<lparr>bt_status := Booked, bt_verification := ver, bt_invoice := im\<rparr>)"

definition MarkBankTxnIgnored :: "uuid \<Rightarrow> uuid \<Rightarrow> nat io" where
  "MarkBankTxnIgnored c i = update_rows bank_txns put_bank (txn_in c i [Unmatched]) (\<lambda>r. r\<lparr>bt_status := Ignored\<rparr>)"

definition stale_bank :: "uuid \<Rightarrow> gotime \<Rightarrow> bank_row \<Rightarrow> bool" where
  "stale_bank c before r \<longleftrightarrow> bt_company r = c \<and> (bt_status r = Unmatched \<or> bt_status r = Ignored) \<and>
     bt_verification r = None \<and> bt_invoice r = None \<and> bt_text_enc r \<noteq> [] \<and> bt_created r < before"

definition AnonymizeNonRetainedBankTxns :: "uuid \<Rightarrow> gotime \<Rightarrow> nat io" where
  "AnonymizeNonRetainedBankTxns c before = update_rows bank_txns put_bank (stale_bank c before) (\<lambda>r. r\<lparr>bt_text_enc := []\<rparr>)"

section \<open>Fiscal years (fiscal\_year.sql.go)\<close>

text \<open>\<open>ON CONFLICT DO NOTHING RETURNING\<close>: no row when the year already exists.\<close>

definition InsertFiscalYear :: "uuid \<Rightarrow> string \<Rightarrow> date \<Rightarrow> date \<Rightarrow> fiscal_row io" where
  "InsertFiscalYear c lbl d1 d2 =
     andthen (reads (\<lambda>s. if \<not> company_exists c s then Inl Constraint
       else if list_ex (\<lambda>r. fy_company r = c \<and> fy_start r = d1) (fiscal_years s) then Inl NoRows
       else Inr ())) (\<lambda>_.
     andthen fresh_id (\<lambda>i.
     let r = \<lparr>fy_id = i, fy_company = c, fy_label = lbl, fy_start = d1, fy_end = d2, fy_closed = None\<rparr>
     in andthen (writes (\<lambda>s. s\<lparr>fiscal_years := fiscal_years s @ [r]\<rparr>)) (\<lambda>_. ret r)))"

definition q_ListFiscalYears :: "uuid \<Rightarrow> fiscal_row list io" where
  "q_ListFiscalYears c = fetch_all (\<lambda>s. sort_key fy_start (filter (\<lambda>r. fy_company r = c) (fiscal_years s)))"

definition GetFiscalYear :: "uuid \<Rightarrow> fiscal_row io" where
  "GetFiscalYear i = fetch (\<lambda>s. filter (\<lambda>r. fy_id r = i) (fiscal_years s))"

definition q_CloseFiscalYear :: "gotime \<Rightarrow> uuid \<Rightarrow> uuid \<Rightarrow> nat io" where
  "q_CloseFiscalYear nw c i = update_rows fiscal_years (\<lambda>rs s. s\<lparr>fiscal_years := rs\<rparr>)
     (\<lambda>r. fy_id r = i \<and> fy_company r = c \<and> fy_closed r = None) (\<lambda>r. r\<lparr>fy_closed := Some nw\<rparr>)"

definition CountFiscalYears :: "uuid \<Rightarrow> nat io" where
  "CountFiscalYears c = reads (\<lambda>s. Inr (length (filter (\<lambda>r. fy_company r = c) (fiscal_years s))))"

section \<open>Documents (document.sql.go)\<close>

abbreviation put_documents :: "document_row list \<Rightarrow> db \<Rightarrow> db" where
  "put_documents rs s \<equiv> s\<lparr>documents := rs\<rparr>"

definition InsertDocument :: "document_row \<Rightarrow> uuid io" where
  "InsertDocument p =
     andthen (reads (\<lambda>s. if \<not> company_exists (dc_company p) s then Inl Constraint else Inr ())) (\<lambda>_.
     andthen fresh_id (\<lambda>i.
     andthen (writes (\<lambda>s. s\<lparr>documents := documents s @
       [p\<lparr>dc_id := i, dc_filename := [], dc_note := [], dc_supplier := None, dc_verification := None\<rparr>]\<rparr>)) (\<lambda>_.
     ret i)))"

definition q_GetDocumentContent :: "uuid \<Rightarrow> document_row io" where
  "q_GetDocumentContent i = fetch (\<lambda>s. filter (\<lambda>r. dc_id r = i) (documents s))"

definition ListDocumentMeta :: "uuid \<Rightarrow> document_row list io" where
  "ListDocumentMeta c = fetch_all (\<lambda>s. rev (filter (\<lambda>r. dc_company r = c) (documents s)))"

definition q_ListDocumentsForSupplier :: "uuid \<Rightarrow> uuid option \<Rightarrow> document_row list io" where
  "q_ListDocumentsForSupplier c su = fetch_all (\<lambda>s.
     filter (\<lambda>r. dc_company r = c \<and> su \<noteq> None \<and> dc_supplier r = su) (documents s))"

definition q_AttachDocumentToSupplier :: "uuid \<Rightarrow> uuid \<Rightarrow> uuid option \<Rightarrow> nat io" where
  "q_AttachDocumentToSupplier c i su =
     andthen (reads (\<lambda>s. if list_ex (\<lambda>r. dc_id r = i \<and> dc_company r = c) (documents s) \<and>
         (case su of None \<Rightarrow> False | Some j \<Rightarrow> \<not> list_ex (\<lambda>r. su_id r = j) (suppliers s))
       then Inl Constraint else Inr ())) (\<lambda>_.
     update_rows documents put_documents (\<lambda>r. dc_id r = i \<and> dc_company r = c) (\<lambda>r. r\<lparr>dc_supplier := su\<rparr>))"

definition orphan_document :: "document_row \<Rightarrow> bool" where
  "orphan_document r \<longleftrightarrow> dc_supplier r = None \<and> dc_verification r = None"

definition q_DeleteDocument :: "uuid \<Rightarrow> uuid \<Rightarrow> nat io" where
  "q_DeleteDocument c i = delete_rows documents put_documents
     (\<lambda>r. dc_id r = i \<and> dc_company r = c \<and> orphan_document r)"

definition ListDocumentsForPIIBackfill :: "document_row list io" where
  "ListDocumentsForPIIBackfill = fetch_all (\<lambda>s.
     filter (\<lambda>r. dc_filename_enc r = [] \<and> (dc_filename r \<noteq> [] \<or> dc_note r \<noteq> [])) (documents s))"

definition SetDocumentPIIEnc :: "uuid \<Rightarrow> string \<Rightarrow> string \<Rightarrow> unit io" where
  "SetDocumentPIIEnc i f n =
     andthen (update_rows documents put_documents (\<lambda>r. dc_id r = i)
       (\<lambda>r. r\<lparr>dc_filename_enc := f, dc_note_enc := n, dc_filename := [], dc_note := []\<rparr>)) (\<lambda>_. ret ())"

definition stale_document :: "uuid \<Rightarrow> gotime \<Rightarrow> document_row \<Rightarrow> bool" where
  "stale_document c before r \<longleftrightarrow> dc_company r = c \<and> orphan_document r \<and>
     (dc_filename_enc r \<noteq> [] \<or> dc_note_enc r \<noteq> [] \<or> dc_filename r \<noteq> [] \<or> dc_note r \<noteq> []) \<and>
     dc_created r < before"

definition AnonymizeOrphanDocuments :: "uuid \<Rightarrow> gotime \<Rightarrow> nat io" where
  "AnonymizeOrphanDocuments c before = update_rows documents put_documents (stale_document c before)
     (\<lambda>r. r\<lparr>dc_filename_enc := [], dc_note_enc := [], dc_filename := [], dc_note := []\<rparr>)"

section \<open>Shield tokens (shield.sql.go)\<close>

definition UpsertShieldToken :: "shield_row \<Rightarrow> unit io" where
  "UpsertShieldToken p = writes (\<lambda>s.
     if list_ex (\<lambda>r. sh_session r = sh_session p \<and> sh_token r = sh_token p) (shield_tokens s) then s
     else s\<lparr>shield_tokens := shield_tokens s @ [p]\<rparr>)"

definition GetShieldToken :: "string \<Rightarrow> string \<Rightarrow> string io" where
  "GetShieldToken sess tok = fetch (\<lambda>s. map sh_ciphertext
     (filter (\<lambda>r. sh_session r = sess \<and> sh_token r = tok) (shield_tokens s)))"

definition DeleteAllShieldTokens :: "nat io" where
  "DeleteAllShieldTokens = delete_rows shield_tokens (\<lambda>rs s. s\<lparr>shield_tokens := rs\<rparr>) (\<lambda>_. True)"

definition DeleteOldShieldTokens :: "gotime \<Rightarrow> nat io" where
  "DeleteOldShieldTokens before = delete_rows shield_tokens (\<lambda>rs s. s\<lparr>shield_tokens := rs\<rparr>)
     (\<lambda>r. sh_created r < before)"

section \<open>Users and sessions (auth.sql.go)\<close>

definition CountUsers :: "nat io" where
  "CountUsers = reads (\<lambda>s. Inr (length (users s)))"

definition InsertUser :: "string \<Rightarrow> string \<Rightarrow> string \<Rightarrow> user_row io" where
  "InsertUser email hash role =
     andthen (reads (\<lambda>s. if list_ex (\<lambda>r. us_email r = email) (users s) \<or> role \<notin> {''owner'', ''viewer''}
       then Inl Constraint else Inr ())) (\<lambda>_.
     andthen fresh_id (\<lambda>i.
     let r = \<lparr>us_id = i, us_email = email, us_password = hash, us_role = role\<rparr>
     in andthen (writes (\<lambda>s. s\<lparr>users := users s @ [r]\<rparr>)) (\<lambda>_. ret r)))"

definition GetUserByEmail :: "string \<Rightarrow> user_row io" where
  "GetUserByEmail email = fetch (\<lambda>s. filter (\<lambda>r. us_email r = email) (users s))"

definition InsertSession :: "session_row \<Rightarrow> unit io" where
  "InsertSession p =
     andthen (reads (\<lambda>s. if list_ex (\<lambda>r. se_token r = se_token p) (sessions s) \<or>
         \<not> list_ex (\<lambda>u. us_id u = se_user p) (users s) then Inl Constraint else Inr ())) (\<lambda>_.
     writes (\<lambda>s. s\<lparr>sessions := sessions s @ [p]\<rparr>))"

text \<open>The session joined with its user.\<close>

definition q_GetSession :: "string \<Rightarrow> (session_row \<times> user_row) io" where
  "q_GetSession tok = fetch (\<lambda>s. concat (map (\<lambda>r. map (\<lambda>u. (r, u))
     (filter (\<lambda>u. us_id u = se_user r) (users s))) (filter (\<lambda>r. se_token r = tok) (sessions s))))"

definition DeleteSession :: "string \<Rightarrow> unit io" where
  "DeleteSession tok =
     andthen (delete_rows sessions (\<lambda>rs s. s\<lparr>sessions := rs\<rparr>) (\<lambda>r. se_token r = tok)) (\<lambda>_. ret ())"

definition DeleteExpiredSessions :: "gotime \<Rightarrow> nat io" where
  "DeleteExpiredSessions nw = delete_rows sessions (\<lambda>rs s. s\<lparr>sessions := rs\<rparr>) (\<lambda>r. se_expires r < nw)"

section \<open>What the queries leave alone\<close>

text \<open>
  Relations between the tables before and after: the ledger (verifications and their lines) is untouched
  and no account disappears, the audit log is untouched, both only grow. Each is an instance of the locale
  \<open>change\<close>.
\<close>

definition account_keys :: "db \<Rightarrow> (uuid \<times> string) set" where
  "account_keys s = (\<lambda>a. (ac_company a, ac_number a)) ` set (accounts s)"

definition same_ledger :: "db \<Rightarrow> db \<Rightarrow> bool" where
  "same_ledger s t \<longleftrightarrow> verifications t = verifications s \<and> vlines t = vlines s \<and>
     next_id s \<le> next_id t \<and> account_keys s \<subseteq> account_keys t"

definition same_audit :: "db \<Rightarrow> db \<Rightarrow> bool" where
  "same_audit s t \<longleftrightarrow> audit_log t = audit_log s"

definition ledger_grows :: "db \<Rightarrow> db \<Rightarrow> bool" where
  "ledger_grows s t \<longleftrightarrow> (\<exists>vs ls. verifications t = verifications s @ vs \<and> vlines t = vlines s @ ls)"

definition audit_grows :: "db \<Rightarrow> db \<Rightarrow> bool" where
  "audit_grows s t \<longleftrightarrow> (\<exists>rs. audit_log t = audit_log s @ rs)"

interpretation same_ledger: change same_ledger
  by unfold_locales (auto simp: same_ledger_def)

interpretation same_audit: change same_audit
  by unfold_locales (simp_all add: same_audit_def)

interpretation ledger_grows: change ledger_grows
  by unfold_locales (auto simp: ledger_grows_def)

interpretation audit_grows: change audit_grows
  by unfold_locales (auto simp: audit_grows_def)

lemma same_grows: "same_ledger s t \<Longrightarrow> ledger_grows s t" "same_audit s t \<Longrightarrow> audit_grows s t"
  by (simp_all add: same_ledger_def ledger_grows_def same_audit_def audit_grows_def)

lemma draws_frame: "draws_only s t \<Longrightarrow> same_ledger s t" "draws_only s t \<Longrightarrow> same_audit s t"
  by (auto simp: draws_only_def same_ledger_def same_audit_def account_keys_def)

lemmas query_defs =
  InsertCompany_def UpdateCompanyProfile_def SetLockedThrough_def UpsertAccount_def
  InsertVerification_def InsertVerificationLine_def InsertCounterparty_def
  q_UpdateCounterparty_def q_EraseCounterparty_def InsertAuditLog_def InsertInvoice_def
  InsertInvoiceLine_def q_FinalizeInvoice_def SetInvoiceCredits_def MarkInvoiceCancelled_def
  MarkInvoiceCredited_def AddInvoicePayment_def MarkInvoicePaid_def InsertSupplierInvoice_def
  q_FinalizeSupplierInvoice_def MarkSupplierInvoicePaid_def InsertBankTxn_def ClaimBankTxn_def
  UnclaimBankTxn_def MarkBankTxnBooked_def MarkBankTxnIgnored_def
  AnonymizeNonRetainedBankTxns_def InsertFiscalYear_def q_CloseFiscalYear_def InsertDocument_def
  q_AttachDocumentToSupplier_def q_DeleteDocument_def SetDocumentPIIEnc_def
  AnonymizeOrphanDocuments_def UpsertShieldToken_def DeleteAllShieldTokens_def
  DeleteOldShieldTokens_def InsertUser_def InsertSession_def DeleteSession_def
  DeleteExpiredSessions_def

lemmas read_defs =
  GetCompany_def ListCompanies_def ListAccounts_def NextVerificationNumber_def
  ListVerifications_def CountVerifications_def GetVerification_def
  ListVerificationLinesByVerification_def ListLinesForCompany_def net_rows_def
  q_TrialBalance_def q_TrialBalanceBetween_def q_TrialBalanceAsOf_def
  q_TrialBalanceBetweenExclSeries_def q_GetCounterparty_def q_ListCounterparties_def
  CountRetainedInvoices_def GetLastAuditHash_def ListAuditLog_def ListAuditChain_def
  GetInvoice_def GetInvoiceByNumber_def ListInvoiceLines_def ListInvoices_def
  GetSupplierInvoice_def ListSupplierInvoices_def ListBankTxns_def GetBankTxn_def
  q_ListFiscalYears_def GetFiscalYear_def CountFiscalYears_def q_GetDocumentContent_def
  ListDocumentMeta_def q_ListDocumentsForSupplier_def ListDocumentsForPIIBackfill_def
  GetShieldToken_def CountUsers_def GetUserByEmail_def q_GetSession_def

context change
begin

lemma keeps_reading:
  "keeps R (GetCompany a0)"
  "keeps R ListCompanies"
  "keeps R (ListAccounts a2)"
  "keeps R (NextVerificationNumber a3 b3)"
  "keeps R (ListVerifications a4)"
  "keeps R (CountVerifications a5)"
  "keeps R (GetVerification a6)"
  "keeps R (ListVerificationLinesByVerification a7)"
  "keeps R (ListLinesForCompany a8)"
  "keeps R (net_rows a9)"
  "keeps R (q_TrialBalance a10)"
  "keeps R (q_TrialBalanceBetween a11 b11 c11)"
  "keeps R (q_TrialBalanceAsOf a12 b12)"
  "keeps R (q_TrialBalanceBetweenExclSeries a13 b13 c13 d13)"
  "keeps R (q_GetCounterparty a14)"
  "keeps R (q_ListCounterparties a15)"
  "keeps R (CountRetainedInvoices a16 b16)"
  "keeps R (GetLastAuditHash a17)"
  "keeps R (ListAuditLog a18 b18)"
  "keeps R (ListAuditChain a19)"
  "keeps R (GetInvoice a20)"
  "keeps R (GetInvoiceByNumber a21 b21)"
  "keeps R (ListInvoiceLines a22)"
  "keeps R (ListInvoices a23)"
  "keeps R (GetSupplierInvoice a24)"
  "keeps R (ListSupplierInvoices a25)"
  "keeps R (ListBankTxns a26)"
  "keeps R (GetBankTxn a27)"
  "keeps R (q_ListFiscalYears a28)"
  "keeps R (GetFiscalYear a29)"
  "keeps R (CountFiscalYears a30)"
  "keeps R (q_GetDocumentContent a31)"
  "keeps R (ListDocumentMeta a32)"
  "keeps R (q_ListDocumentsForSupplier a33 b33)"
  "keeps R ListDocumentsForPIIBackfill"
  "keeps R (GetShieldToken a35 b35)"
  "keeps R CountUsers"
  "keeps R (GetUserByEmail a37)"
  "keeps R (q_GetSession a38)"
  unfolding read_defs by (rule keeps_pure)+

end

lemma UpsertAccount_same_ledger [keeps_intros]: "keeps same_ledger (UpsertAccount a)"
proof -
  let ?up = "\<lambda>r. if same_account a r then a else r"
  have key: "(ac_company (?up r), ac_number (?up r)) = (ac_company r, ac_number r)" for r
    by (simp add: same_account_def)
  have "account_keys (s\<lparr>accounts := map ?up (accounts s)\<rparr>) = account_keys s" for s
  proof -
    have "(\<lambda>a. (ac_company a, ac_number a)) ` (?up ` set (accounts s)) =
        (\<lambda>a. (ac_company a, ac_number a)) ` set (accounts s)"
      by (simp only: image_image key)
    moreover have "accounts (s\<lparr>accounts := map ?up (accounts s)\<rparr>) = map ?up (accounts s)" by simp
    ultimately show ?thesis by (simp only: account_keys_def set_map)
  qed
  moreover have "account_keys s \<subseteq> account_keys (s\<lparr>accounts := accounts s @ [a]\<rparr>)" for s
    by (auto simp: account_keys_def)
  ultimately show ?thesis
    unfolding UpsertAccount_def
    by (intro same_ledger.keeps_rules) (simp_all add: same_ledger_def)
qed

lemma queries_same_ledger [keeps_intros]:
  "keeps same_ledger (InsertCompany a0 b0 c0 d0)"
  "keeps same_ledger (UpdateCompanyProfile a1)"
  "keeps same_ledger (SetLockedThrough a2 b2)"
  "keeps same_ledger (InsertCounterparty a4)"
  "keeps same_ledger (q_UpdateCounterparty a5 b5 c5)"
  "keeps same_ledger (q_EraseCounterparty a6 b6 c6 d6)"
  "keeps same_ledger (InsertAuditLog a7)"
  "keeps same_ledger (InsertInvoice a8 b8 c8 d8 e8 f8)"
  "keeps same_ledger (InsertInvoiceLine a9)"
  "keeps same_ledger (q_FinalizeInvoice a11 b11 c11 d11 e11 f11)"
  "keeps same_ledger (SetInvoiceCredits a13 b13)"
  "keeps same_ledger (MarkInvoiceCancelled a14 b14)"
  "keeps same_ledger (MarkInvoiceCredited a15 b15)"
  "keeps same_ledger (AddInvoicePayment a16 b16 c16)"
  "keeps same_ledger (MarkInvoicePaid a17 b17 c17 d17)"
  "keeps same_ledger (InsertSupplierInvoice a18)"
  "keeps same_ledger (q_FinalizeSupplierInvoice a19 b19 c19)"
  "keeps same_ledger (MarkSupplierInvoicePaid a20 b20 c20 d20)"
  "keeps same_ledger (InsertBankTxn a21)"
  "keeps same_ledger (ClaimBankTxn a22 b22)"
  "keeps same_ledger (UnclaimBankTxn a23 b23)"
  "keeps same_ledger (MarkBankTxnBooked a24 b24 c24 d24)"
  "keeps same_ledger (MarkBankTxnIgnored a25 b25)"
  "keeps same_ledger (AnonymizeNonRetainedBankTxns a26 b26)"
  "keeps same_ledger (InsertFiscalYear a27 b27 c27 d27)"
  "keeps same_ledger (q_CloseFiscalYear a28 b28 c28)"
  "keeps same_ledger (InsertDocument a29)"
  "keeps same_ledger (q_AttachDocumentToSupplier a30 b30 c30)"
  "keeps same_ledger (q_DeleteDocument a31 b31)"
  "keeps same_ledger (SetDocumentPIIEnc a32 b32 c32)"
  "keeps same_ledger (AnonymizeOrphanDocuments a33 b33)"
  "keeps same_ledger (UpsertShieldToken a34)"
  "keeps same_ledger DeleteAllShieldTokens"
  "keeps same_ledger (DeleteOldShieldTokens a36)"
  "keeps same_ledger (InsertUser a37 b37 c37)"
  "keeps same_ledger (InsertSession a38)"
  "keeps same_ledger (DeleteSession a39)"
  "keeps same_ledger (DeleteExpiredSessions a40)"
  unfolding query_defs Let_def
  by ((intro same_ledger.keeps_rules; simp add: same_ledger_def account_keys_def)+)

lemma queries_same_audit [keeps_intros]:
  "keeps same_audit (InsertCompany a0 b0 c0 d0)"
  "keeps same_audit (UpdateCompanyProfile a1)"
  "keeps same_audit (SetLockedThrough a2 b2)"
  "keeps same_audit (UpsertAccount a3)"
  "keeps same_audit (InsertVerification a4 b4 c4 d4 e4 f4 g4)"
  "keeps same_audit (InsertVerificationLine a5)"
  "keeps same_audit (InsertCounterparty a6)"
  "keeps same_audit (q_UpdateCounterparty a7 b7 c7)"
  "keeps same_audit (q_EraseCounterparty a8 b8 c8 d8)"
  "keeps same_audit (InsertInvoice a9 b9 c9 d9 e9 f9)"
  "keeps same_audit (InsertInvoiceLine a10)"
  "keeps same_audit (q_FinalizeInvoice a12 b12 c12 d12 e12 f12)"
  "keeps same_audit (SetInvoiceCredits a14 b14)"
  "keeps same_audit (MarkInvoiceCancelled a15 b15)"
  "keeps same_audit (MarkInvoiceCredited a16 b16)"
  "keeps same_audit (AddInvoicePayment a17 b17 c17)"
  "keeps same_audit (MarkInvoicePaid a18 b18 c18 d18)"
  "keeps same_audit (InsertSupplierInvoice a19)"
  "keeps same_audit (q_FinalizeSupplierInvoice a20 b20 c20)"
  "keeps same_audit (MarkSupplierInvoicePaid a21 b21 c21 d21)"
  "keeps same_audit (InsertBankTxn a22)"
  "keeps same_audit (ClaimBankTxn a23 b23)"
  "keeps same_audit (UnclaimBankTxn a24 b24)"
  "keeps same_audit (MarkBankTxnBooked a25 b25 c25 d25)"
  "keeps same_audit (MarkBankTxnIgnored a26 b26)"
  "keeps same_audit (AnonymizeNonRetainedBankTxns a27 b27)"
  "keeps same_audit (InsertFiscalYear a28 b28 c28 d28)"
  "keeps same_audit (q_CloseFiscalYear a29 b29 c29)"
  "keeps same_audit (InsertDocument a30)"
  "keeps same_audit (q_AttachDocumentToSupplier a31 b31 c31)"
  "keeps same_audit (q_DeleteDocument a32 b32)"
  "keeps same_audit (SetDocumentPIIEnc a33 b33 c33)"
  "keeps same_audit (AnonymizeOrphanDocuments a34 b34)"
  "keeps same_audit (UpsertShieldToken a35)"
  "keeps same_audit DeleteAllShieldTokens"
  "keeps same_audit (DeleteOldShieldTokens a37)"
  "keeps same_audit (InsertUser a38 b38 c38)"
  "keeps same_audit (InsertSession a39)"
  "keeps same_audit (DeleteSession a40)"
  "keeps same_audit (DeleteExpiredSessions a41)"
  unfolding query_defs Let_def
  by ((intro same_audit.keeps_rules; simp add: same_audit_def)+)

lemma special_same_ledger [keeps_intros]:
  "keeps same_ledger (AllocInvoiceNumber c y)" "keeps same_ledger (q_DeleteDraftInvoice c i)"
  by (simp_all add: keeps_def same_ledger_def account_keys_def AllocInvoiceNumber_def q_DeleteDraftInvoice_def split: option.split)

lemma special_same_audit [keeps_intros]:
  "keeps same_audit (AllocInvoiceNumber c y)" "keeps same_audit (q_DeleteDraftInvoice c i)"
  by (simp_all add: keeps_def same_audit_def AllocInvoiceNumber_def q_DeleteDraftInvoice_def split: option.split)

lemma keeps_grow [keeps_intros]:
  "keeps ledger_grows (InsertVerification c sr n d x rv pt)" "keeps ledger_grows (InsertVerificationLine l)"
  "keeps audit_grows (InsertAuditLog r)"
  unfolding query_defs Let_def
  by ((intro ledger_grows.keeps_rules audit_grows.keeps_rules; simp add: ledger_grows_def audit_grows_def)+)

end
