(* ===== verification/Audit_Trail.thy ===== *)
theory Audit_Trail
  imports Queries
begin

text \<open>
  The audit trail and the period lock (\<open>internal/store/store_audit.go\<close>): the HMAC chain over the log, its
  verification, lock and unlock. The chain invariant is stated and shown to be kept by every program
  that only appends through \<open>log_audit\<close>.
\<close>

section \<open>The chain\<close>

definition actor_from :: "env \<Rightarrow> string \<times> string" where
  "actor_from e = (if e_actor_kind e \<noteq> [] then (e_actor_kind e, e_actor_detail e) else (''system'', []))"

definition audit_key :: "env \<Rightarrow> string" where
  "audit_key e = derive_key e ''pare/audit/hmac/v1''"

definition audit_input :: "string \<Rightarrow> string list \<Rightarrow> string" where
  "audit_input prev flds = prev @ concat (map (\<lambda>f. CHR 0x00 # f) flds)"

definition audit_hash :: "env \<Rightarrow> string \<Rightarrow> string list \<Rightarrow> string" where
  "audit_hash e prev flds = hex_encode (hmac_sha256 e (audit_key e) (audit_input prev flds))"

definition log_audit :: "env \<Rightarrow> uuid \<Rightarrow> string \<Rightarrow> string \<Rightarrow> string \<Rightarrow> string \<Rightarrow> unit io" where
  "log_audit e c action ttype tid detail =
     (let (kind, kdetail) = actor_from e in
      andthen (attempt (GetLastAuditHash c)) (\<lambda>r.
      andthen (case r of Inl x \<Rightarrow> if x = NoRows then ret [] else fail x | Inr p \<Rightarrow> ret p) (\<lambda>prev.
      InsertAuditLog \<lparr>au_id = 0, au_company = c, au_actor = kind, au_actor_detail = kdetail,
        au_action = action, au_target_type = ttype, au_target_id = tid, au_detail = detail, au_prev = prev,
        au_hash = audit_hash e prev [kind, kdetail, action, ttype, tid, detail], au_at = e_now e\<rparr>)))"

definition row_hash :: "env \<Rightarrow> string \<Rightarrow> audit_row \<Rightarrow> string" where
  "row_hash e prev r = audit_hash e prev [au_actor r, au_actor_detail r, au_action r, au_target_type r,
     au_target_id r, au_detail r]"

text \<open>The loop of \<open>VerifyAuditChain\<close>: \<open>None\<close> is an intact chain, otherwise the first broken entry.\<close>

fun chain_loop :: "env \<Rightarrow> string \<Rightarrow> audit_row list \<Rightarrow> audit_row option" where
  "chain_loop e prev [] = None"
| "chain_loop e prev (r # rs) =
     (if au_prev r \<noteq> prev \<or> au_hash r \<noteq> row_hash e prev r then Some r else chain_loop e (au_hash r) rs)"

definition VerifyAuditChain :: "env \<Rightarrow> uuid \<Rightarrow> (bool \<times> nat) io" where
  "VerifyAuditChain e c = andthen (ListAuditChain c) (\<lambda>rows.
     ret (case chain_loop e [] rows of None \<Rightarrow> (True, 0) | Some r \<Rightarrow> (False, au_id r)))"

section \<open>Period lock and log access\<close>

definition LockedThrough :: "uuid \<Rightarrow> (gotime \<times> bool) io" where
  "LockedThrough c = andthen (GetCompany c) (\<lambda>co.
     ret (date_time (locked_through co), locked_through co \<noteq> None))"

definition LockPeriod :: "env \<Rightarrow> uuid \<Rightarrow> gotime \<Rightarrow> string \<Rightarrow> unit io" where
  "LockPeriod e c through reason = in_tx (
     andthen (SetLockedThrough c (Some (date_of through))) (\<lambda>_.
     log_audit e c ''lock_period'' ''period'' (format_date iso_layout (date_of through)) reason))"

definition UnlockPeriod :: "env \<Rightarrow> uuid \<Rightarrow> string \<Rightarrow> unit io" where
  "UnlockPeriod e c reason = in_tx (
     andthen (SetLockedThrough c None) (\<lambda>_. log_audit e c ''unlock_period'' ''period'' [] reason))"

definition LogUserAction :: "env \<Rightarrow> uuid \<Rightarrow> string \<Rightarrow> string \<Rightarrow> string \<Rightarrow> string \<Rightarrow> unit io" where
  "LogUserAction e c action ttype tid detail = log_audit e c action ttype tid detail"

record audit_entry =
  ae_at :: gotime
  ae_actor :: string
  ae_actor_detail :: string
  ae_action :: string
  ae_target_type :: string
  ae_target_id :: string
  ae_detail :: string

definition ListAudit :: "uuid \<Rightarrow> nat \<Rightarrow> audit_entry list io" where
  "ListAudit c n = andthen (ListAuditLog c n) (\<lambda>rows. ret (map (\<lambda>r.
     \<lparr>ae_at = au_at r, ae_actor = au_actor r, ae_actor_detail = au_actor_detail r, ae_action = au_action r,
      ae_target_type = au_target_type r, ae_target_id = au_target_id r, ae_detail = au_detail r\<rparr>) rows))"

section \<open>Frames\<close>

lemma log_audit_same_ledger [keeps_intros]: "keeps same_ledger (log_audit e c a tt ti d)"
  unfolding log_audit_def Let_def
  by (intro same_ledger.keeps_rules same_ledger.keeps_reading keeps_intros)

lemma log_audit_grows [keeps_intros]: "keeps audit_grows (log_audit e c a tt ti d)"
  unfolding log_audit_def Let_def
  by (intro audit_grows.keeps_rules audit_grows.keeps_reading keeps_intros)

section \<open>The chain invariant\<close>

text \<open>
  The log of every company verifies. Programs that do not touch the log keep it, and so does
  \<open>log_audit\<close>: it chains to the last entry.
\<close>

definition chain_ok :: "env \<Rightarrow> db \<Rightarrow> bool" where
  "chain_ok e s \<longleftrightarrow> (\<forall>c. chain_loop e [] (company_audit c s) = None)"

definition last_hash :: "string \<Rightarrow> audit_row list \<Rightarrow> string" where
  "last_hash p rs = (if rs = [] then p else au_hash (last rs))"

lemma last_hash_Cons: "last_hash p (r # rs) = last_hash (au_hash r) rs"
  by (simp add: last_hash_def)

lemma chain_loop_append:
  "chain_loop e p (rs @ [r]) = None \<longleftrightarrow> chain_loop e p rs = None \<and>
     au_prev r = last_hash p rs \<and> au_hash r = row_hash e (last_hash p rs) r"
proof (induction rs arbitrary: p)
  case Nil
  then show ?case by (simp add: last_hash_def)
next
  case (Cons x rs)
  then show ?case by (simp add: last_hash_Cons)
qed

lemma row_hash_id: "row_hash e p (r\<lparr>au_id := i\<rparr>) = row_hash e p r"
  by (simp add: row_hash_def)

lemma company_audit_snoc:
  "company_audit c (s\<lparr>audit_log := audit_log s @ [r], next_id := n\<rparr>) =
     company_audit c s @ (if au_company r = c then [r] else [])"
  by (simp add: company_audit_def)

lemma last_audit_hash:
  "attempt (GetLastAuditHash c) s =
     (Inr (if company_audit c s = [] then Inl NoRows else Inr (last_hash [] (company_audit c s))), s)"
  by (cases "company_audit c s" rule: rev_cases)
    (simp_all add: attempt_def GetLastAuditHash_def fetch_def reads_def last_hash_def)

text \<open>What \<open>log_audit\<close> appends.\<close>

definition audit_entry_row :: "env \<Rightarrow> uuid \<Rightarrow> string \<Rightarrow> string \<Rightarrow> string \<Rightarrow> string \<Rightarrow> db \<Rightarrow> audit_row" where
  "audit_entry_row e c a tt ti d s =
     (let p = last_hash [] (company_audit c s); (kind, kdetail) = actor_from e in
      \<lparr>au_id = next_id s, au_company = c, au_actor = kind, au_actor_detail = kdetail, au_action = a,
       au_target_type = tt, au_target_id = ti, au_detail = d, au_prev = p,
       au_hash = audit_hash e p [kind, kdetail, a, tt, ti, d], au_at = e_now e\<rparr>)"

lemma log_audit_result:
  "log_audit e c a tt ti d s = (Inr (), s') \<Longrightarrow>
     s' = s\<lparr>audit_log := audit_log s @ [audit_entry_row e c a tt ti d s], next_id := Suc (next_id s)\<rparr>"
  unfolding log_audit_def Let_def case_prod_unfold
  by (auto simp: andthen_simps(2) [OF last_audit_hash] InsertAuditLog_def audit_entry_row_def Let_def
      last_hash_def case_prod_unfold split: if_splits)

lemma log_audit_error: "log_audit e c a tt ti d s = (Inl x, s') \<Longrightarrow> s' = s"
  unfolding log_audit_def Let_def case_prod_unfold
  by (auto simp: andthen_simps(2) [OF last_audit_hash] InsertAuditLog_def split: if_splits)

definition keeps_chain :: "env \<Rightarrow> db \<Rightarrow> db \<Rightarrow> bool" where
  "keeps_chain e s t \<longleftrightarrow> (chain_ok e s \<longrightarrow> chain_ok e t)"

interpretation chain: change "keeps_chain e" for e
  by unfold_locales (simp_all add: keeps_chain_def)

lemma same_audit_chain: "same_audit s t \<Longrightarrow> keeps_chain e s t"
  by (simp add: same_audit_def keeps_chain_def chain_ok_def company_audit_def)

lemma audit_entry_row_simps:
  "au_company (audit_entry_row e c a tt ti d s) = c"
  "au_prev (audit_entry_row e c a tt ti d s) = last_hash [] (company_audit c s)"
  "au_hash (audit_entry_row e c a tt ti d s) =
     row_hash e (last_hash [] (company_audit c s)) (audit_entry_row e c a tt ti d s)"
  by (simp_all add: audit_entry_row_def row_hash_def Let_def case_prod_unfold)

lemma log_audit_chain: "keeps (keeps_chain e) (log_audit e c a tt ti d)"
  unfolding keeps_def keeps_chain_def
proof (intro allI impI)
  fix s
  assume ok: "chain_ok e s"
  obtain r s' where r: "log_audit e c a tt ti d s = (r, s')" by (cases "log_audit e c a tt ti d s")
  show "chain_ok e (snd (log_audit e c a tt ti d s))"
  proof (cases r)
    case (Inl x)
    with r log_audit_error [of e c a tt ti d s x s'] ok show ?thesis by simp
  next
    case (Inr u)
    with r log_audit_result [of e c a tt ti d s s'] ok show ?thesis
      by (simp add: chain_ok_def company_audit_snoc chain_loop_append audit_entry_row_simps)
  qed
qed

lemma keeps_chain_same: "keeps same_audit m \<Longrightarrow> keeps (keeps_chain e) m"
  by (erule keeps_weaken) (rule same_audit_chain)

lemma VerifyAuditChain_ok:
  "chain_ok e s \<Longrightarrow> VerifyAuditChain e c s = (Inr (True, 0), s)"
  by (simp add: VerifyAuditChain_def ListAuditChain_def chain_ok_def)

lemma company_audit_fields: "company_audit c s = filter (\<lambda>r. au_company r = c) (audit_log s)"
  by (rule company_audit_def)

section \<open>Tampering\<close>

text \<open>
  The hash input determines the fields when none of them contains NUL, which the text columns
  guarantee. An entry altered in place that still verifies therefore is a collision of the keyed
  hash: two different inputs with one digest.
\<close>

definition hash_fields :: "audit_row \<Rightarrow> string list" where
  "hash_fields r = [au_actor r, au_actor_detail r, au_action r, au_target_type r, au_target_id r, au_detail r]"

lemma sep_split:
  assumes "CHR 0x00 \<notin> set a" and "CHR 0x00 \<notin> set b"
    and "a @ CHR 0x00 # x = b @ CHR 0x00 # y"
  shows "a = b \<and> x = y"
  using assms
proof (induction a arbitrary: b)
  case Nil
  then show ?case by (cases b) auto
next
  case (Cons z a)
  then show ?case by (cases b) auto
qed

lemma audit_input_inj:
  assumes "list_all no_nul fs" and "list_all no_nul gs" and "length fs = length gs"
    and "no_nul p" and "no_nul q" and "audit_input p fs = audit_input q gs"
  shows "p = q \<and> fs = gs"
  using assms
proof (induction fs arbitrary: gs p q)
  case Nil
  then show ?case by (simp add: audit_input_def)
next
  case (Cons f fs)
  then obtain g gs' where gs: "gs = g # gs'" by (cases gs) auto
  from Cons.prems gs have "p = q \<and> audit_input f fs = audit_input g gs'"
    using sep_split [of p q] by (simp add: audit_input_def no_nul_def)
  with Cons.IH [of gs' f g] Cons.prems gs show ?case by simp
qed

definition collision :: "env \<Rightarrow> bool" where
  "collision e \<longleftrightarrow> (\<exists>x y. x \<noteq> y \<and> hmac_sha256 e (audit_key e) x = hmac_sha256 e (audit_key e) y)"

lemma row_hash_collision:
  assumes "row_hash e p r = row_hash e q r'" and "p \<noteq> q \<or> hash_fields r \<noteq> hash_fields r'"
    and "list_all no_nul (p # q # hash_fields r @ hash_fields r')"
  shows "collision e"
proof -
  have "audit_input p (hash_fields r) \<noteq> audit_input q (hash_fields r')"
    using audit_input_inj [of "hash_fields r" "hash_fields r'" p q] assms(2,3)
    by (auto simp: hash_fields_def)
  moreover have "hmac_sha256 e (audit_key e) (audit_input p (hash_fields r)) =
      hmac_sha256 e (audit_key e) (audit_input q (hash_fields r'))"
    using assms(1) by (simp add: row_hash_def audit_hash_def hash_fields_def)
  ultimately show ?thesis unfolding collision_def by blast
qed

lemma chain_loop_split:
  "chain_loop e p (xs @ r # ys) = None \<longleftrightarrow> chain_loop e p xs = None \<and>
     au_prev r = last_hash p xs \<and> au_hash r = row_hash e (last_hash p xs) r \<and>
     chain_loop e (au_hash r) ys = None"
proof (induction xs arbitrary: p)
  case Nil
  then show ?case by (auto simp: last_hash_def)
next
  case (Cons x xs)
  then show ?case by (auto simp: last_hash_Cons)
qed

text \<open>Every row of a verified chain is followed by one that names its hash, so replacing a row that is
  not the last by one with another hash breaks the next link.\<close>

lemma tampered_row:
  assumes "chain_loop e p (xs @ r # ys) = None" and "chain_loop e p (xs @ r' # ys) = None"
    and "hash_fields r' \<noteq> hash_fields r" and "ys \<noteq> [] \<or> au_hash r' = au_hash r"
    and "list_all no_nul (last_hash p xs # hash_fields r @ hash_fields r')"
  shows "collision e"
proof -
  note a = assms(1) [unfolded chain_loop_split] and b = assms(2) [unfolded chain_loop_split]
  have "au_hash r = au_hash r'"
  proof (cases ys)
    case Nil
    with assms(4) show ?thesis by simp
  next
    case (Cons y zs)
    have "au_prev y = au_hash r" using a unfolding Cons by (simp split: if_splits)
    moreover have "au_prev y = au_hash r'" using b unfolding Cons by (simp split: if_splits)
    ultimately show ?thesis by simp
  qed
  then have "row_hash e (last_hash p xs) r = row_hash e (last_hash p xs) r'"
    by (metis a b)
  then show ?thesis
  proof (rule row_hash_collision)
    show "last_hash p xs \<noteq> last_hash p xs \<or> hash_fields r \<noteq> hash_fields r'" using assms(3) by metis
    show "list_all no_nul (last_hash p xs # last_hash p xs # hash_fields r @ hash_fields r')"
      using assms(5) by simp
  qed
qed

end
