(* ===== verification/Store.thy ===== *)
theory Store
  imports Audit_Trail
begin

text \<open>
  The ledger store (\<open>internal/store/store.go\<close>, with \<open>store_counterparty.go\<close>, \<open>store_web.go\<close> and the
  balance readers of \<open>store_mcp.go\<close>): company set-up, the posting of verifications, trial balances and
  counterparties with encrypted identities. \<open>post_verification\<close> is the one program that writes the ledger.
\<close>

section \<open>Companies\<close>

definition kontoklass :: "string \<Rightarrow> int" where
  "kontoklass n = (case n of [] \<Rightarrow> 0 | c # _ \<Rightarrow> (int (byte c) - 48) mod 256)"

definition chart_entry :: "uuid \<Rightarrow> string \<Rightarrow> string \<Rightarrow> string \<Rightarrow> account_row" where
  "chart_entry c number nm code = \<lparr>ac_company = c, ac_number = number, ac_name = nm,
     ac_class = kontoklass number, ac_vat_code = code\<rparr>"

definition seed_chart :: "uuid \<Rightarrow> unit io" where
  "seed_chart c = each (\<lambda>a. UpsertAccount (chart_entry c (ca_number a) (ca_name a) (default_vat_code a))) core_chart"

definition EnsureFiscalYear :: "uuid \<Rightarrow> int \<Rightarrow> unit io" where
  "EnsureFiscalYear c y =
     andthen (attempt (InsertFiscalYear c (fmt_int y) (Date y 1 1) (Date y 12 31))) (\<lambda>r.
     case r of Inl x \<Rightarrow> if x = NoRows then ret () else fail x | Inr _ \<Rightarrow> ret ())"

definition BootstrapCompany :: "env \<Rightarrow> string \<Rightarrow> string \<Rightarrow> uuid io" where
  "BootstrapCompany e nm orgnr =
     andthen (new_dek e) (\<lambda>dek.
     andthen (wrap_dek e dek) (\<lambda>wrapped.
     andthen (InsertCompany nm orgnr wrapped (kek_fingerprint e)) (\<lambda>co.
     andthen (seed_chart (co_id co)) (\<lambda>_.
     andthen (attempt (EnsureFiscalYear (co_id co) (year (date_of (e_now e))))) (\<lambda>_.
     ret (co_id co))))))"

definition SyncChart :: "unit io" where
  "SyncChart = andthen ListCompanies (\<lambda>cs. each (\<lambda>co. seed_chart (co_id co)) cs)"

definition dek_from_wrapped :: "env \<Rightarrow> string \<Rightarrow> err + string" where
  "dek_from_wrapped e wrapped =
     (case unwrap_dek e wrapped of
        Inl _ \<Rightarrow> Inl ErrDEKUnusable
      | Inr raw \<Rightarrow> (case new_dek_from raw of Inl _ \<Rightarrow> Inl ErrDEKUnusable | Inr d \<Rightarrow> Inr d))"

definition company_dek :: "env \<Rightarrow> uuid \<Rightarrow> string io" where
  "company_dek e c = andthen (GetCompany c) (\<lambda>co. reads (\<lambda>_. dek_from_wrapped e (dek_wrapped co)))"

definition DefaultCompany :: "uuid io" where
  "DefaultCompany = andthen ListCompanies (\<lambda>cs. case cs of [] \<Rightarrow> fail ErrNoCompany | co # _ \<Rightarrow> ret (co_id co))"

definition ChartAccounts :: "uuid \<Rightarrow> chart_account list io" where
  "ChartAccounts c = andthen (ListAccounts c) (\<lambda>rows. ret (map (\<lambda>r.
     \<lparr>ca_number = ac_number r, ca_name = ac_name r, default_vat_code = ac_vat_code r\<rparr>) rows))"

definition UpdateCompanyProfile_op :: "env \<Rightarrow> company \<Rightarrow> unit io" where
  "UpdateCompanyProfile_op e ci =
     (if co_name ci = [] then fail (OtherErr ''store: company name required'')
      else andthen (UpdateCompanyProfile ci) (\<lambda>_.
        log_audit e (co_id ci) ''update_company_profile'' ''company'' (e_uuid_text e (co_id ci)) (co_name ci)))"

section \<open>Posting\<close>

definition line_row :: "uuid \<Rightarrow> line \<Rightarrow> vline_row" where
  "line_row i l = \<lparr>vl_verification = i, vl_account = account l, vl_debit = debit l, vl_credit = credit l,
     vl_vat_code = vat_code l\<rparr>"

definition post_verification ::
  "env \<Rightarrow> uuid \<Rightarrow> string \<Rightarrow> gotime \<Rightarrow> string \<Rightarrow> line list \<Rightarrow> uuid \<Rightarrow> uuid io" where
  "post_verification e c sr d desc ls rv =
     (case validate \<lparr>series = sr, vnumber = 0, vdate = d, description = desc, lines = ls, reversal_of = []\<rparr> of
        Some x \<Rightarrow> fail (LedgerErr x)
      | None \<Rightarrow>
        andthen (GetCompany c) (\<lambda>co.
        andthen (require (case locked_through co of None \<Rightarrow> True | Some lt \<Rightarrow> midnight lt < d) ErrPeriodClosed) (\<lambda>_.
        andthen (ListAccounts c) (\<lambda>accts.
        andthen (each (\<lambda>l. require (account l \<in> set (map ac_number accts)) (ErrUnknownAccount (account l))) ls) (\<lambda>_.
        andthen (NextVerificationNumber c sr) (\<lambda>num.
        andthen (InsertVerification c sr num (date_of d) desc (pg_uuid rv) (Some (e_now e))) (\<lambda>ver.
        andthen (each (\<lambda>l. InsertVerificationLine (line_row (v_id ver) l)) ls) (\<lambda>_.
        ret (v_id ver)))))))))"

definition PostVerification ::
  "env \<Rightarrow> uuid \<Rightarrow> string \<Rightarrow> gotime \<Rightarrow> string \<Rightarrow> line list \<Rightarrow> uuid \<Rightarrow> uuid io" where
  "PostVerification e c sr d desc ls rv =
     (let total = foldl (\<lambda>t l. t + debit l) 0 ls in
      in_tx (
        andthen (post_verification e c sr d desc ls rv) (\<lambda>i.
        andthen (log_audit e c ''post_verification'' ''verification'' (e_uuid_text e i)
                  (sr @ '' '' @ amount_string total)) (\<lambda>_.
        ret i))))"

definition lines_of :: "vline_row list \<Rightarrow> line list" where
  "lines_of = map (\<lambda>l. \<lparr>account = vl_account l, debit = vl_debit l, credit = vl_credit l, vat_code = vl_vat_code l\<rparr>)"

text \<open>\<open>UndoVerification\<close> posts the reversal in series R, dated now.\<close>

definition UndoVerification :: "env \<Rightarrow> uuid \<Rightarrow> uuid \<Rightarrow> uuid io" where
  "UndoVerification e c i =
     andthen (GetVerification i) (\<lambda>ver.
     andthen (require (v_company ver = c) ErrForeignCompany) (\<lambda>_.
     andthen (ListVerificationLinesByVerification i) (\<lambda>rows.
     let orig = \<lparr>series = v_series ver, vnumber = v_number ver, vdate = zero_time, description = [],
                 lines = lines_of rows, reversal_of = []\<rparr>;
         rv = reverse orig ''R'' 0 (e_now e) (sv ''^ngra '' @ verification_id orig)
     in in_tx (
       andthen (post_verification e c ''R'' (e_now e) (description rv) (lines rv) i) (\<lambda>j.
       andthen (log_audit e c ''undo'' ''verification'' (e_uuid_text e i) (sv ''r{ttelse '' @ e_uuid_text e j)) (\<lambda>_.
       ret j))))))"

section \<open>Readers\<close>

definition to_balance :: "string \<times> amount \<Rightarrow> account_balance" where
  "to_balance r = \<lparr>ab_account = fst r, ab_class = classify (fst r), ab_net = snd r\<rparr>"

definition TrialBalance :: "uuid \<Rightarrow> account_balance list io" where
  "TrialBalance c = andthen (q_TrialBalance c) (\<lambda>rows. ret (map to_balance rows))"

definition TrialBalanceBetween :: "uuid \<Rightarrow> gotime \<Rightarrow> gotime \<Rightarrow> account_balance list io" where
  "TrialBalanceBetween c t1 t2 =
     andthen (q_TrialBalanceBetween c (date_of t1) (date_of t2)) (\<lambda>rows. ret (map to_balance rows))"

definition TrialBalanceBetweenExclSeries ::
  "uuid \<Rightarrow> gotime \<Rightarrow> gotime \<Rightarrow> string \<Rightarrow> account_balance list io" where
  "TrialBalanceBetweenExclSeries c t1 t2 sr =
     andthen (q_TrialBalanceBetweenExclSeries c (date_of t1) (date_of t2) sr) (\<lambda>rows. ret (map to_balance rows))"

definition TrialBalanceAsOf :: "uuid \<Rightarrow> gotime \<Rightarrow> account_balance list io" where
  "TrialBalanceAsOf c t = andthen (q_TrialBalanceAsOf c (date_of t)) (\<lambda>rows. ret (map to_balance rows))"

definition BalancesMap :: "uuid \<Rightarrow> balance_map io" where
  "BalancesMap c = andthen (TrialBalance c) (\<lambda>tb. ret (map (\<lambda>r. (ab_account r, ab_net r)) tb))"

record verification_summary =
  vs_id :: uuid
  vs_series :: string
  vs_number :: int
  vs_date :: string
  vs_description :: string
  vs_is_reversal :: bool
  vs_lines :: "(string \<times> amount \<times> amount) list"

definition ListVerificationSummaries :: "uuid \<Rightarrow> verification_summary list io" where
  "ListVerificationSummaries c =
     andthen (ListVerifications c) (\<lambda>vers. collect (\<lambda>v.
       andthen (ListVerificationLinesByVerification (v_id v)) (\<lambda>rows.
       ret \<lparr>vs_id = v_id v, vs_series = v_series v, vs_number = v_number v,
            vs_date = format_date iso_layout (v_date v), vs_description = v_description v,
            vs_is_reversal = (v_reversal_of v \<noteq> None),
            vs_lines = map (\<lambda>l. (vl_account l, vl_debit l, vl_credit l)) rows\<rparr>)) vers)"

section \<open>Counterparties\<close>

record counterparty =
  c_id :: uuid
  c_kind :: string
  c_name :: string
  c_orgnr :: string
  c_personnummer :: string
  c_address :: string
  c_iban :: string
  c_email :: string
  c_erased :: bool

definition enc_field :: "env \<Rightarrow> string \<Rightarrow> string \<Rightarrow> string io" where
  "enc_field e dek v = (if v = [] then ret [] else encrypt_field e dek v)"

definition identity_fields :: "counterparty \<Rightarrow> string list" where
  "identity_fields cp = [c_name cp, c_orgnr cp, c_personnummer cp, c_address cp, c_iban cp, c_email cp]"

definition identity_row :: "uuid \<Rightarrow> string \<Rightarrow> string list \<Rightarrow> counterparty_row" where
  "identity_row c kind fs = \<lparr>cp_id = 0, cp_company = c, cp_kind = kind, name_enc = fs ! 0, orgnr_enc = fs ! 1,
     personnummer_enc = fs ! 2, address_enc = fs ! 3, iban_enc = fs ! 4, email_enc = fs ! 5,
     erased_at = None\<rparr>"

definition CreateCounterparty :: "env \<Rightarrow> uuid \<Rightarrow> counterparty \<Rightarrow> uuid io" where
  "CreateCounterparty e c cp =
     (if c_name cp = [] then fail (OtherErr ''store: counterparty name required'')
      else andthen (company_dek e c) (\<lambda>dek.
        andthen (collect (enc_field e dek) (identity_fields cp)) (\<lambda>fs.
        andthen (InsertCounterparty (identity_row c (c_kind cp) fs)) (\<lambda>row.
        andthen (log_audit e c ''create_counterparty'' ''counterparty'' (e_uuid_text e (cp_id row)) (c_kind cp)) (\<lambda>_.
        ret (cp_id row))))))"

definition dec_field :: "env \<Rightarrow> string \<Rightarrow> string \<Rightarrow> string io" where
  "dec_field e dek v = (if v = [] then ret [] else reads (\<lambda>_. decrypt_field e dek v))"

definition GetCounterparty :: "env \<Rightarrow> uuid \<Rightarrow> uuid \<Rightarrow> counterparty io" where
  "GetCounterparty e c i =
     andthen (q_GetCounterparty i) (\<lambda>row.
     andthen (require (cp_company row = c) ErrForeignCompany) (\<lambda>_.
     andthen (company_dek e c) (\<lambda>dek.
     andthen (collect (dec_field e dek) [name_enc row, orgnr_enc row, personnummer_enc row, address_enc row,
                iban_enc row, email_enc row]) (\<lambda>fs.
     ret \<lparr>c_id = cp_id row, c_kind = cp_kind row, c_name = fs ! 0, c_orgnr = fs ! 1, c_personnummer = fs ! 2,
          c_address = fs ! 3, c_iban = fs ! 4, c_email = fs ! 5, c_erased = (erased_at row \<noteq> None)\<rparr>))))"

definition ListCounterparties :: "env \<Rightarrow> uuid \<Rightarrow> counterparty list io" where
  "ListCounterparties e c =
     andthen (q_ListCounterparties c) (\<lambda>rows. collect (\<lambda>r. GetCounterparty e c (cp_id r)) rows)"

definition UpdateCounterparty :: "env \<Rightarrow> uuid \<Rightarrow> uuid \<Rightarrow> counterparty \<Rightarrow> unit io" where
  "UpdateCounterparty e c i cp =
     (if c_name cp = [] then fail (OtherErr ''store: counterparty name required'')
      else andthen (GetCounterparty e c i) (\<lambda>existing.
        andthen (require (\<not> c_erased existing) ErrCounterpartyErased) (\<lambda>_.
        andthen (company_dek e c) (\<lambda>dek.
        andthen (collect (enc_field e dek) (identity_fields cp)) (\<lambda>fs.
        let kind = (if c_kind cp \<noteq> ''supplier'' then ''customer'' else c_kind cp) in
        andthen (q_UpdateCounterparty c i (identity_row c kind fs)) (\<lambda>_.
        log_audit e c ''update_counterparty'' ''counterparty'' (e_uuid_text e i) (c_kind cp)))))))"

definition erasure_tombstone :: string where
  "erasure_tombstone = ''[raderad enligt GDPR]''"

definition EraseCounterparty :: "env \<Rightarrow> uuid \<Rightarrow> uuid \<Rightarrow> unit io" where
  "EraseCounterparty e c i =
     andthen (GetCounterparty e c i) (\<lambda>cp.
     if c_erased cp then ret ()
     else
       andthen (CountRetainedInvoices c i) (\<lambda>retained.
       andthen (require (retained = 0) ErrRetentionBlocked) (\<lambda>_.
       andthen (company_dek e c) (\<lambda>dek.
       andthen (encrypt_field e dek erasure_tombstone) (\<lambda>tomb.
       andthen (q_EraseCounterparty (e_now e) c i tomb) (\<lambda>_.
       andthen DeleteAllShieldTokens (\<lambda>_.
       log_audit e c ''erase_counterparty'' ''counterparty'' (e_uuid_text e i) (c_kind cp))))))))"

end
