(* ===== verification/Posting.thy ===== *)
theory Posting
  imports Store
begin

text \<open>
  What posting guarantees. The outcome of \<open>post_verification\<close> is given in closed form on every branch;
  from it follow the invariant of the books (every verification on record is a double entry on known
  accounts, numbered without gaps), that the ledger only grows, and the period lock.
\<close>

section \<open>The outcome of a posting\<close>

lemma each_require:
  "each (\<lambda>x. require (P x) (f x)) xs s =
     (case find (\<lambda>x. \<not> P x) xs of None \<Rightarrow> (Inr (), s) | Some x \<Rightarrow> (Inl (f x), s))"
  by (induction xs) (simp_all add: andthen_def)

lemma each_insert_lines:
  assumes "\<forall>l \<in> set ls. line_ok l" and "ver_exists i s"
  shows "each (\<lambda>l. InsertVerificationLine (line_row i l)) ls s =
    (Inr (), s\<lparr>vlines := vlines s @ map (line_row i) ls\<rparr>)"
  using assms
proof (induction ls arbitrary: s)
  case (Cons l ls)
  then have l: "line_ok l" by simp
  then have "InsertVerificationLine (line_row i l) s = (Inr (), s\<lparr>vlines := vlines s @ [line_row i l]\<rparr>)"
    using Cons.prems by (auto simp: InsertVerificationLine_def line_row_def line_ok_def)
  moreover have "ver_exists i (s\<lparr>vlines := vlines s @ [line_row i l]\<rparr>)"
    using Cons.prems by (simp add: ver_exists_def)
  ultimately show ?case using Cons by (simp add: andthen_simps(2))
qed simp

lemma fold_max_start: "a \<le> fold max xs (a :: int)"
  by (induction xs arbitrary: a) (auto intro: order_trans [OF max.cobounded2])

lemma fold_max_upper: "x \<in> set xs \<Longrightarrow> x \<le> fold max xs (a :: int)"
proof (induction xs arbitrary: a)
  case (Cons y xs)
  then show ?case using fold_max_start [of "max y a" xs] by (cases "x = y") auto
qed simp

definition next_number :: "uuid \<Rightarrow> string \<Rightarrow> db \<Rightarrow> int" where
  "next_number c sr s = fold max (series_numbers c sr s) 0 + 1"

lemma next_number_fresh: "next_number c sr s \<notin> set (series_numbers c sr s)"
  using fold_max_upper [of _ "series_numbers c sr s" 0] by (force simp: next_number_def)

definition posted_row :: "env \<Rightarrow> uuid \<Rightarrow> string \<Rightarrow> gotime \<Rightarrow> string \<Rightarrow> uuid \<Rightarrow> db \<Rightarrow> ver_row" where
  "posted_row e c sr d desc rv s = \<lparr>v_id = next_id s, v_company = c, v_series = sr,
     v_number = next_number c sr s, v_date = date_of d, v_description = desc,
     v_reversal_of = pg_uuid rv, v_posted_at = Some (e_now e)\<rparr>"

definition posted ::
  "env \<Rightarrow> uuid \<Rightarrow> string \<Rightarrow> gotime \<Rightarrow> string \<Rightarrow> line list \<Rightarrow> uuid \<Rightarrow> db \<Rightarrow> db" where
  "posted e c sr d desc ls rv s = s\<lparr>verifications := verifications s @ [posted_row e c sr d desc rv s],
     vlines := vlines s @ map (line_row (next_id s)) ls, next_id := Suc (next_id s)\<rparr>"

definition bare :: "line list \<Rightarrow> verification" where
  "bare ls = \<lparr>series = [], vnumber = 0, vdate = zero_time, description = [], lines = ls, reversal_of = []\<rparr>"

definition company_accounts :: "uuid \<Rightarrow> db \<Rightarrow> string set" where
  "company_accounts c s = ac_number ` {a \<in> set (accounts s). ac_company a = c}"

definition period_open :: "company \<Rightarrow> gotime \<Rightarrow> bool" where
  "period_open co d = (case locked_through co of None \<Rightarrow> True | Some lt \<Rightarrow> midnight lt < d)"

lemma validate_bare:
  "validate \<lparr>series = a, vnumber = b, vdate = d, description = x, lines = ls, reversal_of = r\<rparr> = validate (bare ls)"
  by (simp add: validate_def bare_def)

lemma ListAccounts_set:
  "ListAccounts c s = (Inr rows, s') \<Longrightarrow> ac_number ` set rows = company_accounts c s \<and> s' = s"
  by (auto simp: ListAccounts_def company_accounts_def)

text \<open>Every branch of \<open>post_verification\<close>, in the order of the code. All failures leave the tables as
  they were: a validated line never violates the constraints of its table.\<close>

lemma post_verification_eq:
  "post_verification e c sr d desc ls rv s =
    (case validate (bare ls) of
       Some x \<Rightarrow> (Inl (LedgerErr x), s)
     | None \<Rightarrow>
       (case filter (\<lambda>r. co_id r = c) (companies s) of
          [] \<Rightarrow> (Inl NoRows, s)
        | co # _ \<Rightarrow>
          if \<not> period_open co d then (Inl ErrPeriodClosed, s)
          else (case find (\<lambda>l. account l \<notin> company_accounts c s) ls of
             Some l \<Rightarrow> (Inl (ErrUnknownAccount (account l)), s)
           | None \<Rightarrow>
             if 2147483647 < next_number c sr s then (Inl OutOfRange, s)
             else if (case pg_uuid rv of None \<Rightarrow> False | Some i \<Rightarrow> \<not> ver_exists i s) then (Inl Constraint, s)
             else (Inr (next_id s), posted e c sr d desc ls rv s))))"
proof (cases "validate (bare ls)")
  case (Some x)
  then show ?thesis by (simp add: post_verification_def validate_bare)
next
  case None
  show ?thesis
  proof (cases "filter (\<lambda>r. co_id r = c) (companies s)")
    case Nil
    with None show ?thesis
      by (simp add: post_verification_def validate_bare andthen_def GetCompany_def fetch_def)
  next
    case (Cons co cos)
    then have ex: "company_exists c s"
      by (auto simp: company_exists_def list_ex_iff filter_eq_Cons_iff)
    have get: "GetCompany c s = (Inr co, s)" using Cons by (simp add: GetCompany_def fetch_def)
    have accts: "set (map ac_number (sort_key ac_number (filter (\<lambda>r. ac_company r = c) (accounts s)))) =
        company_accounts c s"
      by (auto simp: company_accounts_def)
    have ok: "\<forall>l \<in> set ls. line_ok l" using None validate_None_iff [of "bare ls"]
      by (simp add: double_entry_def bare_def)
    let ?s = "s\<lparr>next_id := Suc (next_id s), verifications := verifications s @ [posted_row e c sr d desc rv s]\<rparr>"
    have ins: "each (\<lambda>l. InsertVerificationLine (line_row (next_id s) l)) ls ?s =
        (Inr (), ?s\<lparr>vlines := vlines ?s @ map (line_row (next_id s)) ls\<rparr>)"
      by (rule each_insert_lines [OF ok]) (simp add: ver_exists_def posted_row_def)
    show ?thesis
      using None Cons get ex accts next_number_fresh [of c sr s] ins
      by (auto simp: post_verification_def validate_bare ListAccounts_def
          each_require andthen_def period_open_def NextVerificationNumber_def InsertVerification_def Let_def
          posted_def posted_row_def next_number_def split: option.splits)
  qed
qed

lemma post_verification_ok:
  assumes "post_verification e c sr d desc ls rv s = (Inr i, s')"
  shows "i = next_id s" "s' = posted e c sr d desc ls rv s" "double_entry ls"
    "account ` set ls \<subseteq> company_accounts c s" "next_number c sr s \<le> 2147483647"
    "\<exists>co cos. filter (\<lambda>r. co_id r = c) (companies s) = co # cos \<and> period_open co d"
  using assms validate_None_iff [of "bare ls"]
  by (auto simp: post_verification_eq bare_def find_None_iff split: option.splits list.splits if_splits)

lemma post_verification_error:
  "post_verification e c sr d desc ls rv s = (Inl x, s') \<Longrightarrow> s' = s"
  by (auto simp: post_verification_eq split: option.splits list.splits if_splits)

section \<open>The invariant of the books\<close>

definition ver_lines :: "uuid \<Rightarrow> db \<Rightarrow> line list" where
  "ver_lines i s = lines_of (filter (\<lambda>l. vl_verification l = i) (vlines s))"

definition books_ok :: "db \<Rightarrow> bool" where
  "books_ok s \<longleftrightarrow>
     (\<forall>v \<in> set (verifications s). v_posted_at v \<noteq> None \<and> v_id v < next_id s \<and>
        double_entry (ver_lines (v_id v) s) \<and>
        account ` set (ver_lines (v_id v) s) \<subseteq> company_accounts (v_company v) s) \<and>
     distinct (map v_id (verifications s)) \<and>
     (\<forall>l \<in> set (vlines s). \<exists>v \<in> set (verifications s). v_id v = vl_verification l) \<and>
     (\<forall>c sr. \<exists>n. series_numbers c sr s = map int [1..<Suc n])"

lemma lines_of_rows: "lines_of (map (line_row i) ls) = ls"
  by (induction ls) (simp_all add: lines_of_def line_row_def)

lemma company_accounts_keys: "company_accounts c s = {n. (c, n) \<in> account_keys s}"
  by (auto simp: company_accounts_def account_keys_def image_iff)

lemma series_numbers_posted:
  "series_numbers c' sr' (posted e c sr d desc ls rv s) =
     series_numbers c' sr' s @ (if c' = c \<and> sr' = sr then [next_number c sr s] else [])"
  by (auto simp: series_numbers_def posted_def posted_row_def)

lemma fold_max_upt: "fold max (map int [1..<Suc n]) 0 = int n"
  by (induction n) auto

lemma ver_lines_posted:
  assumes "books_ok s"
  shows "v_id v < next_id s \<Longrightarrow> ver_lines (v_id v) (posted e c sr d desc ls rv s) = ver_lines (v_id v) s"
    "ver_lines (next_id s) (posted e c sr d desc ls rv s) = ls"
proof -
  have old: "filter (\<lambda>l. vl_verification l = next_id s) (vlines s) = []"
    using assms by (fastforce simp: books_ok_def filter_empty_conv)
  have new: "filter (\<lambda>l. vl_verification l = next_id s) (map (line_row (next_id s)) ls) = map (line_row (next_id s)) ls"
    by (simp add: filter_id_conv line_row_def)
  show "ver_lines (next_id s) (posted e c sr d desc ls rv s) = ls"
    by (simp add: ver_lines_def posted_def old new lines_of_rows)
  assume v: "v_id v < next_id s"
  then have "filter (\<lambda>l. vl_verification l = v_id v) (map (line_row (next_id s)) ls) = []"
    by (simp add: filter_empty_conv line_row_def)
  then show "ver_lines (v_id v) (posted e c sr d desc ls rv s) = ver_lines (v_id v) s"
    by (simp add: ver_lines_def posted_def)
qed

lemma books_ok_posted:
  assumes ok: "books_ok s" and de: "double_entry ls" and known: "account ` set ls \<subseteq> company_accounts c s"
  shows "books_ok (posted e c sr d desc ls rv s)"
proof -
  let ?t = "posted e c sr d desc ls rv s"
  have vs: "verifications ?t = verifications s @ [posted_row e c sr d desc rv s]"
    and vl: "vlines ?t = vlines s @ map (line_row (next_id s)) ls"
    and nx: "next_id ?t = Suc (next_id s)" and ac: "company_accounts c' ?t = company_accounts c' s" for c'
    by (simp_all add: posted_def company_accounts_def)
  have row: "v_id (posted_row e c sr d desc rv s) = next_id s" "v_company (posted_row e c sr d desc rv s) = c"
    "v_posted_at (posted_row e c sr d desc rv s) \<noteq> None"
    by (simp_all add: posted_row_def)
  note old = ok [unfolded books_ok_def]
  have nums: "\<exists>n. series_numbers c' sr' ?t = map int [1..<Suc n]" for c' sr'
  proof -
    from old obtain n where n: "series_numbers c' sr' s = map int [1..<Suc n]" by metis
    show ?thesis
    proof (cases "c' = c \<and> sr' = sr")
      case True
      with n have "next_number c sr s = int (Suc n)"
        unfolding next_number_def using fold_max_upt [of n] by simp
      with True n have "series_numbers c' sr' ?t = map int [1..<Suc (Suc n)]"
        by (simp add: series_numbers_posted)
      then show ?thesis by blast
    next
      case False
      with n show ?thesis unfolding series_numbers_posted by auto
    qed
  qed
  have "\<forall>v \<in> set (verifications ?t). v_posted_at v \<noteq> None \<and> v_id v < next_id ?t \<and>
      double_entry (ver_lines (v_id v) ?t) \<and> account ` set (ver_lines (v_id v) ?t) \<subseteq> company_accounts (v_company v) ?t"
  proof
    fix v
    assume "v \<in> set (verifications ?t)"
    then consider "v \<in> set (verifications s)" | "v = posted_row e c sr d desc rv s" unfolding vs by auto
    then show "v_posted_at v \<noteq> None \<and> v_id v < next_id ?t \<and> double_entry (ver_lines (v_id v) ?t) \<and>
        account ` set (ver_lines (v_id v) ?t) \<subseteq> company_accounts (v_company v) ?t"
    proof cases
      case 1
      with old have v: "v_id v < next_id s" by blast
      from 1 old v show ?thesis unfolding ver_lines_posted(1) [OF ok v] nx ac by (simp add: less_SucI)
    next
      case 2
      with row de known show ?thesis unfolding nx ac by (simp add: ver_lines_posted(2) [OF ok])
    qed
  qed
  moreover have "distinct (map v_id (verifications ?t))" using old unfolding vs by (auto simp: row)
  moreover have "\<forall>l \<in> set (vlines ?t). \<exists>v \<in> set (verifications ?t). v_id v = vl_verification l"
    using old unfolding vs vl by (auto simp: line_row_def row)
  ultimately show ?thesis using nums unfolding books_ok_def by blast
qed

lemma books_ok_same_ledger:
  assumes "same_ledger s t" and "books_ok s"
  shows "books_ok t"
proof -
  have "company_accounts c s \<subseteq> company_accounts c t" for c
    using assms(1) by (auto simp: same_ledger_def company_accounts_keys)
  moreover have "series_numbers c sr t = series_numbers c sr s" "ver_lines i t = ver_lines i s" for c sr i
    using assms(1) by (simp_all add: same_ledger_def series_numbers_def ver_lines_def)
  moreover have "verifications t = verifications s" "vlines t = vlines s" "next_id s \<le> next_id t"
    using assms(1) by (simp_all add: same_ledger_def)
  ultimately show ?thesis
    using assms(2) unfolding books_ok_def by (simp add: subset_iff) (meson less_le_trans)
qed

section \<open>What every program of the store respects\<close>

text \<open>
  The four guarantees in one relation: the ledger and the audit log only grow, the invariant of the
  books and the audit chain are kept.
\<close>

definition sound :: "env \<Rightarrow> db \<Rightarrow> db \<Rightarrow> bool" where
  "sound e s t \<longleftrightarrow> ledger_grows s t \<and> audit_grows s t \<and> (books_ok s \<longrightarrow> books_ok t) \<and> keeps_chain e s t"

interpretation sound: change "sound e" for e
proof
  show "sound e s s" for s
    by (simp add: sound_def ledger_grows.change_refl audit_grows.change_refl chain.change_refl)
  show "sound e s t \<Longrightarrow> sound e t u \<Longrightarrow> sound e s u" for s t u
    unfolding sound_def using ledger_grows.change_trans audit_grows.change_trans chain.change_trans by blast
qed

lemma sound_quiet:
  assumes "keeps same_ledger m" and "keeps same_audit m"
  shows "keeps (sound e) m"
  using assms books_ok_same_ledger
  by (auto simp: keeps_def sound_def same_grows same_audit_chain)

lemma sound_draws: "keeps draws_only m \<Longrightarrow> keeps (sound e) m"
  by (rule sound_quiet; erule keeps_weaken; rule draws_frame)

lemma post_sound: "keeps (sound e') (post_verification e c sr d desc ls rv)"
  unfolding keeps_def
proof
  fix s
  obtain r s' where r: "post_verification e c sr d desc ls rv s = (r, s')"
    by (cases "post_verification e c sr d desc ls rv s")
  show "sound e' s (snd (post_verification e c sr d desc ls rv s))"
  proof (cases r)
    case (Inl x)
    have "s' = s" by (rule post_verification_error [OF r [unfolded Inl]])
    with r show ?thesis by (simp add: sound.change_refl)
  next
    case (Inr i)
    note ok = post_verification_ok [OF r [unfolded Inr]]
    have "same_audit s s'" "ledger_grows s s'"
      unfolding ok(2) by (simp_all add: same_audit_def posted_def ledger_grows_def)
    moreover have "books_ok s \<longrightarrow> books_ok s'"
      unfolding ok(2) using books_ok_posted [OF _ ok(3,4)] by blast
    ultimately show ?thesis using r by (simp add: sound_def same_grows same_audit_chain)
  qed
qed

lemma log_audit_sound: "keeps (sound e) (log_audit e c a tt ti d)"
proof -
  have "keeps (\<lambda>s t. same_ledger s t \<and> audit_grows s t \<and> keeps_chain e s t) (log_audit e c a tt ti d)"
    using log_audit_same_ledger [of e c a tt ti d] log_audit_grows [of e c a tt ti d]
      log_audit_chain [of e c a tt ti d] by (simp add: keeps_def)
  then show ?thesis
    by (rule keeps_weaken) (auto simp: sound_def same_grows intro: books_ok_same_ledger)
qed

text \<open>The steps of a program, one rule per kind: structure, reading, posting, logging, other queries.\<close>

lemmas sound_steps = sound.keeps_rules sound.keeps_reading post_sound log_audit_sound

lemma company_dek_sound: "keeps (sound e') (company_dek e c)"
  unfolding company_dek_def by (rule sound_steps)+

lemma GetCounterparty_sound: "keeps (sound e') (GetCounterparty e c i)"
  unfolding GetCounterparty_def dec_field_def by (rule sound_steps company_dek_sound)+

lemma enc_field_sound: "keeps (sound e') (enc_field e dek v)"
  unfolding enc_field_def by (rule sound_steps | (rule sound_draws, rule keeps_intros))+

lemma seed_chart_sound: "keeps (sound e) (seed_chart c)"
  unfolding seed_chart_def by (rule sound_steps | (rule sound_quiet; rule keeps_intros))+

lemma EnsureFiscalYear_sound: "keeps (sound e) (EnsureFiscalYear c y)"
  unfolding EnsureFiscalYear_def by (rule sound_steps | (rule sound_quiet; rule keeps_intros))+

lemmas sound_parts = sound_steps company_dek_sound GetCounterparty_sound enc_field_sound seed_chart_sound
  EnsureFiscalYear_sound

lemma store_sound:
  "keeps (sound e) (BootstrapCompany e nm orgnr)"
  "keeps (sound e) SyncChart"
  "keeps (sound e) (UpdateCompanyProfile_op e ci)"
  "keeps (sound e) (PostVerification e c sr d desc ls rv)"
  "keeps (sound e) (UndoVerification e c i)"
  "keeps (sound e) (CreateCounterparty e c cp)"
  "keeps (sound e) (UpdateCounterparty e c i cp)"
  "keeps (sound e) (EraseCounterparty e c i)"
  "keeps (sound e) (LockPeriod e c through reason)"
  "keeps (sound e) (UnlockPeriod e c reason)"
  "keeps (sound e) (LogUserAction e c a tt ti dt)"
  unfolding BootstrapCompany_def SyncChart_def UpdateCompanyProfile_op_def PostVerification_def
    UndoVerification_def CreateCounterparty_def UpdateCounterparty_def EraseCounterparty_def
    LockPeriod_def UnlockPeriod_def LogUserAction_def Let_def
  by (rule sound_parts | (rule sound_draws, rule keeps_intros) | (rule sound_quiet; rule keeps_intros))+

end
