(* ===== verification/Store_Invoice.thy ===== *)
theory Store_Invoice
  imports Posting
begin

text \<open>
  Customer invoices in the store (\<open>internal/store/store_invoice.go\<close>) and their payment
  (\<open>store_payment.go\<close>), with the invoice lists of \<open>store_web.go\<close> and \<open>store_mcp.go\<close>. Reads made before a
  transaction opens are made before it here too; what another request may do in between is the
  subject of theory \<open>Concurrency\<close>.
\<close>

section \<open>Drafts\<close>

fun numbered_lines :: "uuid \<Rightarrow> int \<Rightarrow> invoice_line list \<Rightarrow> invoice_line_row list" where
  "numbered_lines i n [] = []"
| "numbered_lines i n (l # ls) = \<lparr>ir_invoice = i, ir_line_no = n, ir_description = il_description l,
     ir_quantity = quantity_milli l, ir_price = unit_price l, ir_code = il_code l\<rparr> # numbered_lines i (n + 1) ls"

definition CreateInvoice :: "env \<Rightarrow> uuid \<Rightarrow> uuid \<Rightarrow> invoice \<Rightarrow> uuid io" where
  "CreateInvoice e c p i =
     andthen (q_GetCounterparty p) (\<lambda>cp.
     andthen (require (cp_company cp = c) ErrForeignCompany) (\<lambda>_.
     in_tx (
       andthen (InsertInvoice c p (pg_date_or_null (inv_date i)) (pg_date_or_null (inv_due i))
         (if inv_currency i = [] then ''SEK'' else inv_currency i)
         (if rate_ppm i = 0 then 1000000 else rate_ppm i)) (\<lambda>row.
       andthen (each InsertInvoiceLine (numbered_lines (iv_id row) 1 (inv_lines i))) (\<lambda>_.
       andthen (log_audit e c ''create_invoice'' ''invoice'' (e_uuid_text e (iv_id row))
         (amount_string (invoice_total i))) (\<lambda>_.
       ret (iv_id row)))))))"

definition DeleteDraftInvoice :: "env \<Rightarrow> uuid \<Rightarrow> uuid \<Rightarrow> unit io" where
  "DeleteDraftInvoice e c i =
     andthen (q_DeleteDraftInvoice c i) (\<lambda>n.
     andthen (require (n \<noteq> 0) ErrNotDraft) (\<lambda>_.
     log_audit e c ''delete_draft_invoice'' ''invoice'' (e_uuid_text e i) []))"

section \<open>Finalization and credit\<close>

definition row_line :: "invoice_line_row \<Rightarrow> invoice_line" where
  "row_line r = \<lparr>il_description = ir_description r, quantity_milli = ir_quantity r, unit_price = ir_price r,
     il_code = ir_code r\<rparr>"

definition invoice_number :: "int \<Rightarrow> int \<Rightarrow> string" where
  "invoice_number y n = fmt_int y @ ''-'' @ fmt_pad 4 n"

definition db_invoice :: "string \<Rightarrow> gotime \<Rightarrow> gotime \<Rightarrow> invoice_row \<Rightarrow> invoice_line_row list \<Rightarrow> invoice" where
  "db_invoice n d due row rows = \<lparr>inv_number = n, inv_date = d, inv_due = due, inv_currency = iv_currency row,
     rate_ppm = iv_rate row, inv_lines = map row_line rows\<rparr>"

definition finalize_tx ::
  "env \<Rightarrow> uuid \<Rightarrow> uuid \<Rightarrow> gotime \<Rightarrow> gotime \<Rightarrow> invoice_row \<Rightarrow> invoice_line_row list \<Rightarrow> (uuid \<times> string) io" where
  "finalize_tx e c i d due row rows = in_tx (
     andthen (AllocInvoiceNumber c (year (date_of d))) (\<lambda>sq.
     let number = invoice_number (year (date_of d)) sq; inv' = db_invoice number d due row rows in
     andthen (post_verification e c ''F'' d (''Faktura '' @ number) (verification_lines inv') 0) (\<lambda>ver.
     andthen (q_FinalizeInvoice c i number (Some (date_of d)) (pg_date_or_null due) (pg_uuid ver)) (\<lambda>_.
     andthen (log_audit e c ''finalize_invoice'' ''invoice'' (e_uuid_text e i)
       (number @ '' '' @ amount_string (gross_sek inv') @ '' SEK'')) (\<lambda>_.
     ret (ver, number))))))"

definition FinalizeInvoice :: "env \<Rightarrow> uuid \<Rightarrow> uuid \<Rightarrow> gotime \<Rightarrow> gotime \<Rightarrow> (uuid \<times> string) io" where
  "FinalizeInvoice e c i d due =
     andthen (GetInvoice i) (\<lambda>row.
     andthen (require (iv_company row = c) ErrForeignCompany) (\<lambda>_.
     andthen (require (iv_status row = Draft) ErrNotDraft) (\<lambda>_.
     andthen (ListInvoiceLines i) (\<lambda>rows.
     finalize_tx e c i d due row rows))))"

definition credit_tx ::
  "env \<Rightarrow> uuid \<Rightarrow> uuid \<Rightarrow> uuid \<Rightarrow> invoice_row \<Rightarrow> line list \<Rightarrow> string io" where
  "credit_tx e c i cred orig rv_lines = in_tx (
     let d = e_now e in
     andthen (AllocInvoiceNumber c (year (date_of d))) (\<lambda>sq.
     let number = invoice_number (year (date_of d)) sq in
     andthen (post_verification e c ''F'' d (''Kreditfaktura '' @ number @ '' avser '' @ iv_number orig)
       rv_lines (uuid_from_pg (iv_verification orig))) (\<lambda>ver.
     andthen (q_FinalizeInvoice c cred number (Some (date_of d)) (pg_date_or_null d) (pg_uuid ver)) (\<lambda>_.
     andthen (MarkInvoiceCredited c i) (\<lambda>_.
     andthen (log_audit e c ''credit_invoice'' ''invoice'' (e_uuid_text e i) (''kreditfaktura '' @ number)) (\<lambda>_.
     ret number))))))"

definition CreditInvoice :: "env \<Rightarrow> uuid \<Rightarrow> uuid \<Rightarrow> (uuid \<times> string) io" where
  "CreditInvoice e c i =
     andthen (GetInvoice i) (\<lambda>orig.
     andthen (require (iv_company orig = c) ErrForeignCompany) (\<lambda>_.
     andthen (require (iv_status orig = Finalized \<or> iv_status orig = Paid) ErrNotFinalized) (\<lambda>_.
     andthen (ListInvoiceLines i) (\<lambda>rows.
     andthen (CreateInvoice e c (iv_counterparty orig) (db_invoice [] zero_time zero_time orig rows)) (\<lambda>cred.
     andthen (SetInvoiceCredits cred (pg_uuid i)) (\<lambda>_.
     andthen (ListVerificationLinesByVerification (uuid_from_pg (iv_verification orig))) (\<lambda>ls.
     andthen (credit_tx e c i cred orig (map swap_line (lines_of ls))) (\<lambda>number.
     ret (cred, number)))))))))"

section \<open>The resolved invoice\<close>

record view_line =
  vw_description :: string
  vw_quantity :: int64
  vw_price :: amount
  vw_label :: string
  vw_net :: amount
  vw_vat :: amount

record summary_row =
  sm_label :: string
  sm_net :: amount
  sm_vat :: amount

record invoice_view =
  iw_number :: string
  iw_status :: invoice_status
  iw_date :: gotime
  iw_due :: gotime
  iw_company :: company
  iw_postal :: string
  iw_customer :: counterparty
  iw_lines :: "view_line list"
  iw_summary :: "(string \<times> summary_row) list"
  iw_notes :: "string list"
  iw_net :: amount
  iw_vat :: amount
  iw_total :: amount
  iw_currency :: string
  iw_total_sek :: amount
  iw_paid :: amount
  iw_ocr :: string
  iw_is_credit :: bool
  iw_credits_number :: string

definition outstanding :: "invoice_view \<Rightarrow> amount" where
  "outstanding v = iw_total_sek v - iw_paid v"

fun summary_add :: "string \<Rightarrow> amount \<Rightarrow> amount \<Rightarrow> (string \<times> summary_row) list \<Rightarrow> (string \<times> summary_row) list" where
  "summary_add c n v [] = [(c, \<lparr>sm_label = code_label c, sm_net = n, sm_vat = v\<rparr>)]"
| "summary_add c n v ((d, r) # rs) =
     (if c = d then (d, r\<lparr>sm_net := sm_net r + n, sm_vat := sm_vat r + v\<rparr>) # rs
      else (d, r) # summary_add c n v rs)"

definition view_step :: "invoice_view \<Rightarrow> invoice_line_row \<Rightarrow> invoice_view" where
  "view_step w r =
     (let l = row_line r; n = il_net l; v = il_vat l; note = legal_note (ir_code r) in
      w\<lparr>iw_lines := iw_lines w @ [\<lparr>vw_description = ir_description r, vw_quantity = ir_quantity r,
           vw_price = ir_price r, vw_label = line_label (ir_code r), vw_net = n, vw_vat = v\<rparr>],
        iw_net := iw_net w + n, iw_vat := iw_vat w + v,
        iw_summary := summary_add (ir_code r) n v (iw_summary w),
        iw_notes := (if note \<noteq> [] \<and> note \<notin> set (iw_notes w) then iw_notes w @ [note] else iw_notes w)\<rparr>)"

definition InvoiceForRender :: "env \<Rightarrow> uuid \<Rightarrow> uuid \<Rightarrow> invoice_view io" where
  "InvoiceForRender e c i =
     andthen (GetInvoice i) (\<lambda>row.
     andthen (require (iv_company row = c) ErrForeignCompany) (\<lambda>_.
     andthen (GetCompany c) (\<lambda>co.
     andthen (GetCounterparty e c (iv_counterparty row)) (\<lambda>cust.
     andthen (ListInvoiceLines i) (\<lambda>rows.
     let w0 = \<lparr>iw_number = iv_number row, iw_status = iv_status row, iw_date = date_time (iv_date row),
           iw_due = date_time (iv_due row), iw_company = co,
           iw_postal = trim_space (postal_code co @ '' '' @ city co), iw_customer = cust, iw_lines = [],
           iw_summary = [], iw_notes = [], iw_net = 0, iw_vat = 0, iw_total = 0,
           iw_currency = iv_currency row, iw_total_sek = 0, iw_paid = 0, iw_ocr = iv_ocr row,
           iw_is_credit = False, iw_credits_number = []\<rparr>;
         w1 = foldl view_step w0 rows;
         w2 = w1\<lparr>iw_total := iw_net w1 + iw_vat w1,
                 iw_total_sek := gross_sek (db_invoice [] zero_time zero_time row rows),
                 iw_paid := iv_amount_paid row\<rparr>
     in case iv_credits row of
          None \<Rightarrow> ret w2
        | Some o' \<Rightarrow> andthen (attempt (GetInvoice o')) (\<lambda>r.
            ret (w2\<lparr>iw_is_credit := True,
              iw_credits_number := (case r of Inl _ \<Rightarrow> [] | Inr orig \<Rightarrow> iv_number orig)\<rparr>)))))))"

section \<open>Payment\<close>

definition ores_rounding_threshold :: amount where
  "ores_rounding_threshold = 100"

definition abs_amount :: "amount \<Rightarrow> amount" where
  "abs_amount a = (if sint a < 0 then - a else a)"

text \<open>
  The lines of a payment and whether it settles the invoice: \<open>cur\<close> the currency, \<open>paid\<close> what was paid
  before, \<open>gross\<close> the receivable in SEK, \<open>pay\<close> the payment into \<open>acct\<close>.
\<close>

definition payment_plan ::
  "string \<Rightarrow> amount \<Rightarrow> amount \<Rightarrow> string \<Rightarrow> amount \<Rightarrow> err + line list \<times> bool" where
  "payment_plan cur paid gross acct pay =
     (if cur \<noteq> ''SEK'' then
        (if paid \<noteq> 0 then Inl ErrPaymentMismatch
         else let diff = pay - gross; base = [debit_line acct pay, credit_line ''1510'' gross] in
           if 0 < sint diff then Inr (base @ [credit_line ''3960'' diff], True)
           else if sint diff < 0 then Inr (base @ [debit_line ''7960'' (- diff)], True)
           else Inr (base, True))
      else
        let base = [debit_line acct pay, credit_line ''1510'' pay]; residual = gross - (paid + pay) in
        if residual = 0 then Inr (base, True)
        else if sint (abs_amount residual) < sint ores_rounding_threshold then
          (if 0 < sint residual
           then Inr (base @ [credit_line ''1510'' residual, debit_line ''3740'' residual], True)
           else Inr (base @ [debit_line ''1510'' (- residual), credit_line ''3740'' (- residual)], True))
        else if sint residual < 0 then Inl ErrPaymentMismatch
        else Inr (base, False))"

definition payment_tx ::
  "env \<Rightarrow> uuid \<Rightarrow> uuid \<Rightarrow> gotime \<Rightarrow> amount \<Rightarrow> string \<Rightarrow> line list \<Rightarrow> bool \<Rightarrow> uuid io" where
  "payment_tx e c i d pay number ls settled = in_tx (
     andthen (post_verification e c ''B'' d (''Betalning faktura '' @ number) ls 0) (\<lambda>ver.
     andthen (AddInvoicePayment c i pay) (\<lambda>_.
     andthen (if settled
              then andthen (MarkInvoicePaid c i (Some (date_of d)) (pg_uuid ver)) (\<lambda>n. require (n \<noteq> 0) ErrNotFinalized)
              else ret ()) (\<lambda>_.
     andthen (log_audit e c ''record_payment'' ''invoice'' (e_uuid_text e i)
       (number @ '' '' @ amount_string pay @ '' SEK'')) (\<lambda>_.
     ret ver)))))"

definition RecordPayment :: "env \<Rightarrow> uuid \<Rightarrow> uuid \<Rightarrow> gotime \<Rightarrow> string \<Rightarrow> amount \<Rightarrow> uuid io" where
  "RecordPayment e c i d acct pay =
     andthen (GetInvoice i) (\<lambda>row.
     andthen (require (iv_company row = c) ErrForeignCompany) (\<lambda>_.
     andthen (require (iv_status row = Finalized) ErrNotFinalized) (\<lambda>_.
     andthen (require (0 < sint pay) ErrPaymentMismatch) (\<lambda>_.
     andthen (InvoiceForRender e c i) (\<lambda>view.
     case payment_plan (iv_currency row) (iv_amount_paid row) (iw_total_sek view) acct pay of
       Inl x \<Rightarrow> fail x
     | Inr (ls, settled) \<Rightarrow> payment_tx e c i d pay (iv_number row) ls settled)))))"

definition RecordPaymentByNumber ::
  "env \<Rightarrow> uuid \<Rightarrow> string \<Rightarrow> gotime \<Rightarrow> string \<Rightarrow> amount \<Rightarrow> uuid io" where
  "RecordPaymentByNumber e c number d acct pay =
     andthen (attempt (GetInvoiceByNumber c number)) (\<lambda>r.
     case r of Inl _ \<Rightarrow> fail ErrInvoiceNotFound | Inr row \<Rightarrow> RecordPayment e c (iv_id row) d acct pay)"

section \<open>Lists\<close>

record invoice_summary =
  is_id :: uuid
  is_number :: string
  is_customer :: string
  is_orgnr :: string
  is_total :: amount
  is_currency :: string
  is_total_sek :: amount
  is_paid :: amount
  is_due :: string
  is_status :: invoice_status
  is_overdue :: bool
  is_is_credit :: bool

definition fmt_date :: "gotime \<Rightarrow> string" where
  "fmt_date t = (if t = zero_time then [] else format_date iso_layout (date_of t))"

definition partly_paid :: "invoice_summary \<Rightarrow> bool" where
  "partly_paid s \<longleftrightarrow> is_status s = Finalized \<and> 0 < sint (is_paid s) \<and> sint (is_paid s) < sint (is_total_sek s)"

definition UnpaidInvoices :: "env \<Rightarrow> uuid \<Rightarrow> invoice_summary list io" where
  "UnpaidInvoices e c =
     andthen (ListInvoices c) (\<lambda>rows. collect (\<lambda>r.
       andthen (InvoiceForRender e c (iv_id r)) (\<lambda>v.
       ret \<lparr>is_id = iv_id r, is_number = iw_number v, is_customer = c_name (iw_customer v),
            is_orgnr = c_orgnr (iw_customer v), is_total = iw_total v, is_currency = iw_currency v,
            is_total_sek = iw_total_sek v, is_paid = 0, is_due = fmt_date (iw_due v),
            is_status = iv_status r, is_overdue = False, is_is_credit = False\<rparr>))
       (filter (\<lambda>r. iv_status r = Finalized \<and> iv_credits r = None) rows))"

definition ListInvoiceSummaries :: "env \<Rightarrow> uuid \<Rightarrow> invoice_summary list io" where
  "ListInvoiceSummaries e c =
     andthen (ListInvoices c) (\<lambda>rows. collect (\<lambda>r.
       andthen (InvoiceForRender e c (iv_id r)) (\<lambda>v.
       ret \<lparr>is_id = iv_id r, is_number = iw_number v, is_customer = c_name (iw_customer v),
            is_orgnr = c_orgnr (iw_customer v), is_total = iw_total v, is_currency = iw_currency v,
            is_total_sek = iw_total_sek v, is_paid = iw_paid v, is_due = fmt_date (iw_due v),
            is_status = iv_status r,
            is_overdue = (iv_status r = Finalized \<and> iv_credits r = None \<and> iw_due v \<noteq> zero_time \<and>
              iw_due v < midnight (date_of (e_now e))),
            is_is_credit = (iv_credits r \<noteq> None)\<rparr>)) rows)"

definition open_diff :: "amount \<Rightarrow> invoice_summary \<Rightarrow> amount" where
  "open_diff x s = (is_total_sek s - is_paid s) - x"

definition open_receivable :: "invoice_summary \<Rightarrow> bool" where
  "open_receivable s \<longleftrightarrow> is_status s = Finalized \<and> \<not> is_is_credit s"

definition MatchOpenInvoices :: "env \<Rightarrow> uuid \<Rightarrow> amount \<Rightarrow> invoice_summary list io" where
  "MatchOpenInvoices e c x =
     andthen (ListInvoiceSummaries e c) (\<lambda>all.
     ret (filter (\<lambda>s. open_receivable s \<and> open_diff x s = 0) all @
          filter (\<lambda>s. open_receivable s \<and> open_diff x s \<noteq> 0 \<and>
            sint (abs_amount (open_diff x s)) < sint ores_rounding_threshold) all))"

text \<open>\<open>milliStr\<close>: a quantity with up to three decimals, trailing zeros trimmed.\<close>

definition trim_right_zeros :: "string \<Rightarrow> string" where
  "trim_right_zeros s = rev (dropWhile (\<lambda>c. c = CHR ''0'') (rev s))"

definition milli_str :: "int64 \<Rightarrow> string" where
  "milli_str m =
     (if go_mod m 1000 = 0 then fmt_int (sint (go_div m 1000))
      else trim_right_zeros (fmt_int (sint (go_div m 1000)) @ '','' @ fmt_pad 3 (sint (go_mod m 1000))))"

end
