(* ===== verification/Receivables.thy ===== *)
theory Receivables
  imports Store_Invoice
begin

text \<open>
  What the invoice programs guarantee: soundness of each, the effect of finalizing an invoice, the
  gap-free numbers, and the settlement of the receivable by payments.
\<close>

section \<open>Soundness\<close>

lemma CreateInvoice_sound: "keeps (sound e') (CreateInvoice e' c p i)"
  unfolding CreateInvoice_def Let_def by (rule sound_parts | (rule sound_quiet; rule keeps_intros))+

lemma InvoiceForRender_sound: "keeps (sound e') (InvoiceForRender e c i)"
  unfolding InvoiceForRender_def Let_def by (rule sound_parts)+

lemma finalize_tx_sound: "keeps (sound e) (finalize_tx e c i d due row rows)"
  unfolding finalize_tx_def Let_def by (rule sound_parts | (rule sound_quiet; rule keeps_intros))+

lemma RecordPayment_sound: "keeps (sound e) (RecordPayment e c i d acct pay)"
  unfolding RecordPayment_def payment_tx_def
  by (rule sound_parts InvoiceForRender_sound | (rule sound_quiet; rule keeps_intros))+

lemma invoice_sound:
  "keeps (sound e) (CreateInvoice e c p i)"
  "keeps (sound e) (DeleteDraftInvoice e c j)"
  "keeps (sound e) (FinalizeInvoice e c j d due)"
  "keeps (sound e) (CreditInvoice e c j)"
  "keeps (sound e) (RecordPayment e c j d acct pay)"
  "keeps (sound e) (RecordPaymentByNumber e c number d acct pay)"
proof -
  show "keeps (sound e) (CreateInvoice e c p i)" by (rule CreateInvoice_sound)
  show "keeps (sound e) (RecordPayment e c j d acct pay)" by (rule RecordPayment_sound)
  show "keeps (sound e) (DeleteDraftInvoice e c j)"
    unfolding DeleteDraftInvoice_def by (rule sound_parts | (rule sound_quiet; rule keeps_intros))+
  show "keeps (sound e) (FinalizeInvoice e c j d due)"
    unfolding FinalizeInvoice_def by (rule sound_parts finalize_tx_sound)+
  show "keeps (sound e) (CreditInvoice e c j)"
    unfolding CreditInvoice_def credit_tx_def Let_def
    by (rule sound_parts CreateInvoice_sound | (rule sound_quiet; rule keeps_intros))+
  show "keeps (sound e) (RecordPaymentByNumber e c number d acct pay)"
    unfolding RecordPaymentByNumber_def by (rule sound_parts RecordPayment_sound)+
qed

section \<open>Numbers\<close>

definition seq_last :: "uuid \<Rightarrow> int \<Rightarrow> db \<Rightarrow> int" where
  "seq_last c y s = (case map_of (invoice_seq s) (c, y) of None \<Rightarrow> 0 | Some n \<Rightarrow> n)"

lemma map_of_bump:
  "map_of (map (\<lambda>(k, m). if k = q then (k, m + 1) else (k, m)) xs) k' =
     (case map_of xs k' of None \<Rightarrow> None | Some m \<Rightarrow> Some (if k' = q then m + (1 :: int) else m))"
  by (induction xs) auto

lemma AllocInvoiceNumber_ok:
  assumes "AllocInvoiceNumber c y s = (Inr n, s')"
  shows "n = seq_last c y s + 1" "\<exists>sq. s' = s\<lparr>invoice_seq := sq\<rparr>"
    "seq_last c' y' s' = (if c' = c \<and> y' = y then n else seq_last c' y' s)"
  using assms
  by (auto simp: AllocInvoiceNumber_def seq_last_def map_of_bump map_add_def split: option.splits if_splits)

section \<open>Finalization\<close>

definition finalized_row :: "string \<Rightarrow> gotime \<Rightarrow> gotime \<Rightarrow> uuid \<Rightarrow> invoice_row \<Rightarrow> invoice_row" where
  "finalized_row number d due ver r = r\<lparr>iv_status := Finalized, iv_number := number,
     iv_date := Some (date_of d), iv_due := pg_date_or_null due, iv_verification := pg_uuid ver\<rparr>"

lemma q_FinalizeInvoice_ok:
  assumes "q_FinalizeInvoice c i n (Some (date_of d)) (pg_date_or_null due) (pg_uuid ver) s = (Inr u, s')"
  shows "s' = s\<lparr>invoices := map (\<lambda>r. if finalizable c i r then finalized_row n d due ver r else r) (invoices s)\<rparr>"
  using assms unfolding q_FinalizeInvoice_def finalized_row_def update_rows_def
  by (auto simp: andthen_def split: if_splits)

lemma finalize_tx_ok:
  assumes "finalize_tx e c i d due row rows s = (Inr (ver, number), s')"
  defines "ls \<equiv> verification_lines (db_invoice number d due row rows)"
  shows "number = invoice_number (year (date_of d)) (seq_last c (year (date_of d)) s + 1)"
    "ver = next_id s" "double_entry ls"
    "verifications s' = verifications s @ [posted_row e c ''F'' d (''Faktura '' @ number) 0 s]"
    "vlines s' = vlines s @ map (line_row ver) ls"
    "invoices s' = map (\<lambda>r. if finalizable c i r then finalized_row number d due ver r else r) (invoices s)"
    "seq_last c' y' s' = (if c' = c \<and> y' = year (date_of d) then seq_last c y' s + 1 else seq_last c' y' s)"
proof -
  let ?y = "year (date_of d)"
  from assms(1) obtain n s1 s2 s3 u where
    alloc: "AllocInvoiceNumber c ?y s = (Inr n, s1)" and number: "number = invoice_number ?y n" and
    post: "post_verification e c ''F'' d (''Faktura '' @ number) ls 0 s1 = (Inr ver, s2)" and
    fin: "q_FinalizeInvoice c i number (Some (date_of d)) (pg_date_or_null due) (pg_uuid ver) s2 = (Inr u, s3)" and
    log: "\<exists>x w. log_audit e c ''finalize_invoice'' ''invoice'' (e_uuid_text e i) x s3 = (Inr w, s')"
    unfolding finalize_tx_def in_tx_ok andthen_ok Let_def ls_def ret_def prod.inject sum.inject
    by (elim exE conjE) blast
  note a = AllocInvoiceNumber_ok [OF alloc] and p = post_verification_ok [OF post]
  from a(2) obtain sq where s1: "s1 = s\<lparr>invoice_seq := sq\<rparr>" by blast
  have s3: "s3 = s2\<lparr>invoices := map (\<lambda>r. if finalizable c i r then finalized_row number d due ver r else r) (invoices s2)\<rparr>"
    using q_FinalizeInvoice_ok [OF fin] .
  from log obtain rw where s': "s' = s3\<lparr>audit_log := audit_log s3 @ [rw], next_id := Suc (next_id s3)\<rparr>"
    using log_audit_result by (metis old.unit.exhaust)
  have pr: "posted_row e c ''F'' d (''Faktura '' @ number) 0 s1 = posted_row e c ''F'' d (''Faktura '' @ number) 0 s"
    by (simp add: posted_row_def s1 next_number_def series_numbers_def)
  show "number = invoice_number ?y (seq_last c ?y s + 1)" using a(1) number by simp
  show v: "ver = next_id s" using p(1) s1 by simp
  show "double_entry ls" by (rule p(3))
  show "verifications s' = verifications s @ [posted_row e c ''F'' d (''Faktura '' @ number) 0 s]"
    unfolding s' s3 p(2) using pr by (simp add: posted_def) (simp add: s1)
  show "vlines s' = vlines s @ map (line_row ver) ls"
    unfolding s' s3 p(2) by (simp add: posted_def v) (simp add: s1)
  show "invoices s' = map (\<lambda>r. if finalizable c i r then finalized_row number d due ver r else r) (invoices s)"
    unfolding s' s3 p(2) by (simp add: posted_def) (simp add: s1)
  show "seq_last c' y' s' = (if c' = c \<and> y' = ?y then seq_last c y' s + 1 else seq_last c' y' s)"
    using a(1) a(3) [of c' y'] unfolding s' s3 p(2) by (simp add: posted_def seq_last_def)
qed

lemma finalize_tx_error: "finalize_tx e c i d due row rows s = (Inl x, s') \<Longrightarrow> s' = s"
  by (simp add: finalize_tx_def in_tx_error)

lemma FinalizeInvoice_ok:
  assumes "FinalizeInvoice e c i d due s = (Inr (ver, number), s')"
  obtains row rows where "finalizable c i row" "row \<in> set (invoices s)"
    "rows = sort_key ir_line_no (filter (\<lambda>l. ir_invoice l = i) (invoice_rows s))"
    "finalize_tx e c i d due row rows s = (Inr (ver, number), s')"
proof -
  from assms obtain row where get: "GetInvoice i s = (Inr row, s)" and c: "iv_company row = c" "iv_status row = Draft"
    and fin: "finalize_tx e c i d due row (sort_key ir_line_no (filter (\<lambda>l. ir_invoice l = i) (invoice_rows s))) s =
        (Inr (ver, number), s')"
    unfolding FinalizeInvoice_def andthen_ok by (auto simp: GetInvoice_def fetch_ok ListInvoiceLines_def split: if_splits)
  from get have "row \<in> set (filter (\<lambda>r. iv_id r = i) (invoices s))"
    unfolding GetInvoice_def fetch_ok by (metis list.set_intros(1))
  then show thesis using that [OF _ _ refl fin] c by (simp add: finalizable_def)
qed

lemma FinalizeInvoice_error: "FinalizeInvoice e c i d due s = (Inl x, s') \<Longrightarrow> s' = s"
  unfolding FinalizeInvoice_def
  by (auto simp: andthen_def GetInvoice_def fetch_def ListInvoiceLines_def finalize_tx_error
      split: list.splits if_splits)

section \<open>Payment\<close>

text \<open>What the lines of a payment take off the receivable account.\<close>

definition receivable_credit :: "line list \<Rightarrow> amount" where
  "receivable_credit ls = sum_list (map (\<lambda>l. credit l - debit l) (filter (\<lambda>l. account l = ''1510'') ls))"

lemma payment_plan_settles:
  assumes "payment_plan cur paid gross acct pay = Inr (ls, True)" and "acct \<noteq> ''1510''"
  shows "paid + receivable_credit ls = gross"
  using assms
  by (auto simp: payment_plan_def receivable_credit_def Let_def split: if_splits)

lemma payment_plan_open:
  assumes "payment_plan cur paid gross acct pay = Inr (ls, False)" and "acct \<noteq> ''1510''"
  shows "receivable_credit ls = pay" "cur = ''SEK''" "100 \<le> sint (gross - (paid + pay))"
  using assms
  by (auto simp: payment_plan_def receivable_credit_def Let_def abs_amount_def ores_rounding_threshold_def
      split: if_splits)

text \<open>The lines of a payment are accepted by the ledger: amounts up to 4 * 10^16 kronor do not wrap.\<close>

definition sane_amount :: "amount \<Rightarrow> bool" where
  "sane_amount x \<longleftrightarrow> 0 \<le> sint x \<and> sint x \<le> 4000000000000000000"

lemma sint_sub_sane: "sane_amount x \<Longrightarrow> sane_amount y \<Longrightarrow> sint (x - y) = sint x - sint y"
  unfolding sane_amount_def by (intro sint_diff64) (simp add: in64_def)

lemma sint_neg_small: "in64 (- sint x) \<Longrightarrow> sint (- x) = - sint (x :: int64)"
  by (rule sint_minus64)

lemma payment_plan_valid:
  assumes plan: "payment_plan cur paid gross acct pay = Inr (ls, settled)"
    and acct: "acct \<noteq> []" and pay: "0 < sint pay" "sane_amount pay"
    and gross: "0 < sint gross" "sane_amount gross" and paid: "sane_amount paid" and v: "lines v = ls"
  shows "validate v = None"
proof -
  have nz: "pay \<noteq> 0" "gross \<noteq> 0" using pay(1) gross(1) by auto
  have le: "sint pay \<le> 4000000000000000000" "sint gross \<le> 4000000000000000000"
    "0 \<le> sint paid" "sint paid \<le> 4000000000000000000"
    using pay(2) gross(2) paid by (simp_all add: sane_amount_def)
  define x where "x = pay - gross"
  have x: "sint x = sint pay - sint gross" unfolding x_def using sint_sub_sane pay(2) gross(2) by blast
  have nx: "sint (- x) = sint gross - sint pay"
    using sint_neg_small [of x] le pay(1) gross(1) unfolding x by (simp add: in64_def)
  define r where "r = gross - (paid + pay)"
  have sum: "sint (paid + pay) = sint paid + sint pay"
    using le pay(1) by (intro sint_add64) (simp add: in64_def)
  have r: "sint r = sint gross - (sint paid + sint pay)"
    using le pay(1) gross(1) sint_diff64 [of gross "paid + pay"] unfolding sum r_def by (simp add: in64_def)
  have nr: "sint (- r) = - sint r"
    using le pay(1) gross(1) sint_neg_small [of r] unfolding r by (simp add: in64_def)
  have small: "sint (abs_amount r) = \<bar>sint r\<bar>"
    using nr by (simp add: abs_amount_def abs_if)
  show ?thesis
  proof (cases "cur = ''SEK''")
    case False
    let ?base = "[debit_line acct pay, credit_line ''1510'' gross]"
    consider (gain) "ls = ?base @ [credit_line ''3960'' x]" "0 < sint x"
      | (loss) "ls = ?base @ [debit_line ''7960'' (- x)]" "sint x < 0"
      | (even) "ls = ?base" "sint x = 0"
    proof -
      have "(if 0 < sint x then Inr (?base @ [credit_line ''3960'' x], True)
          else if sint x < 0 then Inr (?base @ [debit_line ''7960'' (- x)], True)
          else Inr (?base, True)) = Inr (ls, settled)"
        using plan False unfolding payment_plan_def Let_def x_def [symmetric] by (auto split: if_splits)
      then show thesis using that by (auto split: if_splits)
    qed
    then show ?thesis
    proof cases
      case gain
      then have "x \<noteq> 0" by auto
      with gain acct pay(1) gross(1) nz le x show ?thesis
        unfolding validate_None_iff v by (simp add: double_entry_def line_ok_def)
    next
      case loss
      then have "x \<noteq> 0" by auto
      with loss acct pay(1) gross(1) nz le x nx show ?thesis
        unfolding validate_None_iff v by (simp add: double_entry_def line_ok_def)
    next
      case even
      with acct pay(1) gross(1) nz le x show ?thesis
        unfolding validate_None_iff v by (simp add: double_entry_def line_ok_def)
    qed
  next
    case True
    consider (exact) "ls = [debit_line acct pay, credit_line ''1510'' pay]"
      | (under) "ls = [debit_line acct pay, credit_line ''1510'' pay, credit_line ''1510'' r, debit_line ''3740'' r]"
          "0 < sint r" "sint r < 100"
      | (over) "ls = [debit_line acct pay, credit_line ''1510'' pay, debit_line ''1510'' (- r), credit_line ''3740'' (- r)]"
          "sint r < 0" "- 100 < sint r"
    proof -
      have s100: "sint (100 :: int64) = 100" by simp
      have p: "(if r = 0 then Inr ([debit_line acct pay, credit_line ''1510'' pay], True)
          else if sint (abs_amount r) < 100 then
            (if 0 < sint r
             then Inr ([debit_line acct pay, credit_line ''1510'' pay, credit_line ''1510'' r, debit_line ''3740'' r], True)
             else Inr ([debit_line acct pay, credit_line ''1510'' pay, debit_line ''1510'' (- r), credit_line ''3740'' (- r)], True))
          else if sint r < 0 then Inl ErrPaymentMismatch
          else Inr ([debit_line acct pay, credit_line ''1510'' pay], False)) = Inr (ls, settled)"
        using plan unfolding payment_plan_def Let_def True ores_rounding_threshold_def r_def [symmetric] s100
        by (simp only: simp_thms if_False if_True append_Cons append_Nil)
      show thesis
      proof (cases "r = 0 \<or> \<not> sint (abs_amount r) < 100")
        case True
        with p that(1) show thesis by (auto split: if_splits)
      next
        case False
        then have "sint r \<noteq> 0" by (simp only: sint64_eq_0) simp
        with False p small that(2,3) show thesis by (cases "0 < sint r") auto
      qed
    qed
    then show ?thesis
    proof cases
      case exact
      with acct pay(1) nz le show ?thesis
        unfolding validate_None_iff v by (simp add: double_entry_def line_ok_def)
    next
      case under
      then have "r \<noteq> 0" by (metis less_irrefl sint_0)
      with under acct pay(1) nz le show ?thesis
        unfolding validate_None_iff v
        by (simp add: double_entry_def line_ok_def)
    next
      case over
      then have "- r \<noteq> 0" by (metis less_irrefl sint_0 neg_equal_0_iff_equal)
      with over acct pay(1) nz le nr show ?thesis
        unfolding validate_None_iff v by (simp add: double_entry_def line_ok_def)
    qed
  qed
qed

end
