(* ===== verification/Store_Purchase.thy ===== *)
theory Store_Purchase
  imports Receivables
begin

text \<open>
  Supplier invoices (\<open>internal/store/store_supplier.go\<close>) and fiscal years with the year-end close
  (\<open>store_fiscalyear.go\<close>): the programs, their soundness, and the laws of settlement and close.
\<close>

section \<open>Supplier invoices\<close>

record supplier_view =
  sv_id :: uuid
  sv_name :: string
  sv_orgnr :: string
  sv_number :: string
  sv_date :: gotime
  sv_due :: gotime
  sv_cost :: string
  sv_net :: amount
  sv_code :: string
  sv_label :: string
  sv_description :: string
  sv_status :: supplier_status
  sv_payable :: amount

definition supplier_view_of :: "env \<Rightarrow> uuid \<Rightarrow> supplier_row \<Rightarrow> supplier_view io" where
  "supplier_view_of e c r =
     andthen (GetCounterparty e c (su_counterparty r)) (\<lambda>cp.
     ret \<lparr>sv_id = su_id r, sv_name = c_name cp, sv_orgnr = c_orgnr cp, sv_number = su_number r,
          sv_date = date_time (su_date r), sv_due = date_time (su_due r), sv_cost = su_cost r,
          sv_net = su_net r, sv_code = su_code r, sv_label = purchase_label (su_code r),
          sv_description = su_description r, sv_status = su_status r,
          sv_payable = payable (su_net r) (su_code r)\<rparr>)"

definition CreateSupplierInvoice ::
  "env \<Rightarrow> uuid \<Rightarrow> uuid \<Rightarrow> string \<Rightarrow> gotime \<Rightarrow> gotime \<Rightarrow> string \<Rightarrow> amount \<Rightarrow> string \<Rightarrow> string \<Rightarrow> uuid io" where
  "CreateSupplierInvoice e c p number d due cost net code desc =
     andthen (require (valid_purchase_code code) (OtherErr ''store: unknown purchase VAT code'')) (\<lambda>_.
     andthen (require (0 < sint net) (OtherErr ''store: net amount must be positive'')) (\<lambda>_.
     andthen (q_GetCounterparty p) (\<lambda>cp.
     andthen (require (cp_company cp = c) ErrForeignCompany) (\<lambda>_.
     andthen (InsertSupplierInvoice \<lparr>su_id = 0, su_company = c, su_counterparty = p, su_number = number,
        su_date = pg_date_or_null d, su_due = pg_date_or_null due, su_cost = cost, su_net = net,
        su_code = code, su_description = desc, su_status = SDraft, su_verification = None,
        su_payment = None, su_paid_at = None\<rparr>) (\<lambda>row.
     andthen (log_audit e c ''create_supplier_invoice'' ''supplier_invoice'' (e_uuid_text e (su_id row)) code) (\<lambda>_.
     ret (su_id row)))))))"

definition with_number :: "string \<Rightarrow> string \<Rightarrow> string" where
  "with_number desc number = (if number \<noteq> [] then desc @ '' '' @ number else desc)"

definition FinalizeSupplierInvoice :: "env \<Rightarrow> uuid \<Rightarrow> uuid \<Rightarrow> uuid io" where
  "FinalizeSupplierInvoice e c i =
     andthen (GetSupplierInvoice i) (\<lambda>row.
     andthen (require (su_company row = c) ErrForeignCompany) (\<lambda>_.
     andthen (require (su_status row = SDraft) ErrNotDraft) (\<lambda>_.
     in_tx (
       andthen (post_verification e c ''L'' (date_time (su_date row))
         (with_number (sv ''Leverant|rsfaktura'') (su_number row))
         (purchase_lines (su_cost row) (su_net row) (su_code row)) 0) (\<lambda>ver.
       andthen (q_FinalizeSupplierInvoice c i (pg_uuid ver)) (\<lambda>n.
       andthen (require (n \<noteq> 0) ErrNotDraft) (\<lambda>_.
       andthen (log_audit e c ''finalize_supplier_invoice'' ''supplier_invoice'' (e_uuid_text e i) (su_code row)) (\<lambda>_.
       ret ver))))))))"

text \<open>The lines of a supplier payment: the liability, the bank and at most one krona of rounding.\<close>

definition supplier_plan :: "amount \<Rightarrow> string \<Rightarrow> amount \<Rightarrow> err + line list" where
  "supplier_plan gross acct pay =
     (let base = [debit_line ''2440'' gross, credit_line acct pay]; diff = gross - pay in
      if diff \<noteq> 0 then
        (if sint ores_rounding_threshold \<le> sint (abs_amount diff) then Inl ErrPaymentMismatch
         else if 0 < sint diff then Inr (base @ [credit_line ''3740'' diff])
         else Inr (base @ [debit_line ''3740'' (- diff)]))
      else Inr base)"

definition RecordSupplierPayment :: "env \<Rightarrow> uuid \<Rightarrow> uuid \<Rightarrow> gotime \<Rightarrow> string \<Rightarrow> amount \<Rightarrow> uuid io" where
  "RecordSupplierPayment e c i d acct pay =
     andthen (GetSupplierInvoice i) (\<lambda>row.
     andthen (require (su_company row = c) ErrForeignCompany) (\<lambda>_.
     andthen (require (su_status row = SFinalized) ErrNotFinalized) (\<lambda>_.
     let gross = payable (su_net row) (su_code row) in
     andthen (require (0 < sint pay) ErrPaymentMismatch) (\<lambda>_.
     case supplier_plan gross acct pay of
       Inl x \<Rightarrow> fail x
     | Inr ls \<Rightarrow> in_tx (
         andthen (post_verification e c ''LB'' d
           (with_number (sv ''Betalning leverant|rsfaktura'') (su_number row)) ls 0) (\<lambda>ver.
         andthen (MarkSupplierInvoicePaid c i (Some (date_of d)) (pg_uuid ver)) (\<lambda>n.
         andthen (require (n \<noteq> 0) ErrNotFinalized) (\<lambda>_.
         andthen (log_audit e c ''record_supplier_payment'' ''supplier_invoice'' (e_uuid_text e i)
           (amount_string gross @ '' SEK'')) (\<lambda>_.
         ret ver)))))))))"

definition SupplierInvoiceForView :: "env \<Rightarrow> uuid \<Rightarrow> uuid \<Rightarrow> supplier_view io" where
  "SupplierInvoiceForView e c i =
     andthen (GetSupplierInvoice i) (\<lambda>row.
     andthen (require (su_company row = c) ErrForeignCompany) (\<lambda>_. supplier_view_of e c row))"

definition ListSupplierInvoiceViews :: "env \<Rightarrow> uuid \<Rightarrow> supplier_view list io" where
  "ListSupplierInvoiceViews e c = andthen (ListSupplierInvoices c) (\<lambda>rows. collect (supplier_view_of e c) rows)"

section \<open>Fiscal years\<close>

definition close_series :: string where
  "close_series = ''O''"

record fiscal_year =
  f_id :: uuid
  f_label :: string
  f_starts :: gotime
  f_ends :: gotime
  f_closed :: bool

definition fiscal_year_from :: "fiscal_row \<Rightarrow> fiscal_year" where
  "fiscal_year_from r = \<lparr>f_id = fy_id r, f_label = fy_label r, f_starts = midnight (fy_start r),
     f_ends = midnight (fy_end r), f_closed = (fy_closed r \<noteq> None)\<rparr>"

definition ListFiscalYears :: "uuid \<Rightarrow> fiscal_year list io" where
  "ListFiscalYears c = andthen (q_ListFiscalYears c) (\<lambda>rows. ret (map fiscal_year_from rows))"

text \<open>The lines that zero the result accounts, and the one that books the result on 2099.\<close>

definition closing_line :: "account_balance \<Rightarrow> line" where
  "closing_line r = (if 0 < sint (ab_net r) then credit_line (ab_account r) (ab_net r)
     else debit_line (ab_account r) (- ab_net r))"

definition zeroing_lines :: "account_balance list \<Rightarrow> line list" where
  "zeroing_lines tb = map closing_line (filter (\<lambda>r. is_result (ab_class r) \<and> ab_net r \<noteq> 0) tb)"

definition result_line :: "amount \<Rightarrow> line" where
  "result_line x = (if 0 < sint x then credit_line ''2099'' x else debit_line ''2099'' (- x))"

definition CloseFiscalYear :: "env \<Rightarrow> uuid \<Rightarrow> uuid \<Rightarrow> uuid io" where
  "CloseFiscalYear e c i =
     andthen (GetFiscalYear i) (\<lambda>fy.
     andthen (require (fy_company fy = c) ErrForeignCompany) (\<lambda>_.
     andthen (require (fy_closed fy = None) ErrYearClosed) (\<lambda>_.
     andthen (TrialBalanceBetweenExclSeries c (midnight (fy_start fy)) (midnight (fy_end fy)) close_series) (\<lambda>tb.
     let ls = zeroing_lines tb; res = result_of tb in
     andthen (require (ls \<noteq> []) ErrNothingToClose) (\<lambda>_.
     in_tx (
       andthen (post_verification e c close_series (midnight (fy_end fy)) (''Bokslut '' @ fy_label fy)
         (ls @ [result_line res]) 0) (\<lambda>ver.
       andthen (q_CloseFiscalYear (e_now e) c i) (\<lambda>n.
       andthen (require (n \<noteq> 0) ErrYearClosed) (\<lambda>_.
       andthen (SetLockedThrough c (Some (fy_end fy))) (\<lambda>_.
       andthen (log_audit e c ''close_fiscal_year'' ''fiscal_year'' (e_uuid_text e i)
         (''bokslut '' @ fy_label fy @ '', resultat '' @ amount_string res)) (\<lambda>_.
       ret ver)))))))))))"

section \<open>Soundness\<close>

lemma purchase_sound:
  "keeps (sound e) (CreateSupplierInvoice e c p number d due cost net code desc)"
  "keeps (sound e) (FinalizeSupplierInvoice e c i)"
  "keeps (sound e) (RecordSupplierPayment e c i d acct pay)"
  unfolding CreateSupplierInvoice_def FinalizeSupplierInvoice_def RecordSupplierPayment_def Let_def
  by (rule sound_parts | (rule sound_quiet; rule keeps_intros))+

lemma TrialBalanceBetweenExclSeries_sound: "keeps (sound e) (TrialBalanceBetweenExclSeries c t1 t2 sr)"
  unfolding TrialBalanceBetweenExclSeries_def by (rule sound_parts)+

lemma fiscal_sound: "keeps (sound e) (CloseFiscalYear e c i)"
  unfolding CloseFiscalYear_def Let_def
  by (rule sound_parts TrialBalanceBetweenExclSeries_sound | (rule sound_quiet; rule keeps_intros))+

section \<open>Settlement of a supplier\<close>

lemma supplier_plan_settles:
  assumes "supplier_plan gross acct pay = Inr ls" and "acct \<noteq> ''2440''"
  shows "payable_credit ls = - gross"
    "sum_list (map debit ls) = sum_list (map credit ls)" "\<bar>sint (gross - pay)\<bar> < 100 \<or> sint (gross - pay) = min64"
proof -
  define diff where "diff = gross - pay"
  have gp: "gross = pay + diff" by (simp add: diff_def)
  have p: "(if diff \<noteq> 0 then
      if 100 \<le> sint (abs_amount diff) then Inl ErrPaymentMismatch
      else if 0 < sint diff then Inr [debit_line ''2440'' gross, credit_line acct pay, credit_line ''3740'' diff]
      else Inr [debit_line ''2440'' gross, credit_line acct pay, debit_line ''3740'' (- diff)]
      else Inr [debit_line ''2440'' gross, credit_line acct pay]) = Inr ls"
    using assms(1) by (simp add: supplier_plan_def Let_def ores_rounding_threshold_def diff_def split: if_splits)
  show "payable_credit ls = - gross" using p assms(2) by (auto simp: payable_credit_def split: if_splits)
  show "sum_list (map debit ls) = sum_list (map credit ls)" using p gp by (auto split: if_splits)
  show "\<bar>sint (gross - pay)\<bar> < 100 \<or> sint (gross - pay) = min64"
    unfolding diff_def [symmetric]
  proof (cases "sint diff = min64")
    case False
    then have "sint (- diff) = - sint diff"
      using sint64_bounds [of diff] by (intro sint_minus64) (simp add: in64_def)
    then have "sint (abs_amount diff) = \<bar>sint diff\<bar>" by (simp add: abs_amount_def abs_if)
    with p show "\<bar>sint diff\<bar> < 100 \<or> sint diff = min64" by (auto split: if_splits)
  qed simp
qed

section \<open>The close\<close>

lemma sum_closing:
  "sum_list (map line_net (zeroing_lines tb)) = - net_in is_result tb"
proof -
  have "line_net (closing_line r) = - ab_net r" for r
    by (simp add: closing_line_def line_net_def)
  then show ?thesis by (simp add: zeroing_lines_def comp_def) (induction tb; auto)
qed

text \<open>
  A year whose revenues and costs are equal has result accounts to close but no result: the line for
  2099 has neither side, so the posting is refused and the year stays open.
\<close>

lemma zeroing_line_ok:
  assumes "l \<in> set (zeroing_lines tb)" and "\<forall>r \<in> set tb. ab_account r \<noteq> [] \<and> sint (ab_net r) \<noteq> min64"
  shows "line_ok l"
proof -
  from assms(1) obtain r where r: "r \<in> set tb" "ab_net r \<noteq> 0" "l = closing_line r"
    by (auto simp: zeroing_lines_def)
  have nz: "sint (ab_net r) \<noteq> 0" using r(2) by simp
  have "sint (- ab_net r) = - sint (ab_net r)"
    using assms(2) r(1) sint64_bounds [of "ab_net r"] by (intro sint_minus64) (auto simp: in64_def)
  then show ?thesis using r assms(2) nz by (auto simp: closing_line_def line_ok_def)
qed

lemma validate_close_zero:
  assumes "result_of tb = 0" and "zeroing_lines tb \<noteq> []"
    and "\<forall>r \<in> set tb. ab_account r \<noteq> [] \<and> sint (ab_net r) \<noteq> min64"
    and "sum_debit (zeroing_lines tb) \<le> max64" and "sum_credit (zeroing_lines tb) \<le> max64"
    and "lines v = zeroing_lines tb @ [result_line (result_of tb)]"
  shows "validate v = Some ErrLineSide"
proof -
  have rl: "result_line 0 = debit_line ''2099'' 0" by (simp add: result_line_def)
  have "validate_loop (zeroing_lines tb @ result_line 0 # []) 0 0 = Some (line_fault (result_line 0))"
    using zeroing_line_ok assms(3-5)
    by (intro validate_loop_fault) (auto simp: rl line_ok_def)
  then show ?thesis
    using assms(1,2,6) by (cases "zeroing_lines tb") (auto simp: validate_def rl line_fault_def)
qed

end
