(* ===== verification/Bank.thy ===== *)
theory Bank
  imports Go_Time
begin

text \<open>
  Parsing of bank statements (\<open>internal/bank\<close>): the two amount grammars over one normalizer, dates, the
  CSV reader and the camt.053 reader after XML decoding. A parser that accepts nothing returns \<open>None\<close>.
\<close>

section \<open>Amounts (bank.go)\<close>

definition is_amount_rune :: "char \<Rightarrow> bool" where
  "is_amount_rune c \<longleftrightarrow> is_digit c \<or> c = CHR ''.'' \<or> c = CHR '',''"

definition is_sign_rune :: "char \<Rightarrow> bool" where
  "is_sign_rune c \<longleftrightarrow> c = CHR ''-'' \<or> c = CHR ''+'' \<or> c = CHR ''('' \<or> c = CHR '')''"

text \<open>
  \<open>strings.TrimFunc\<close> with a predicate that holds for every non-ASCII rune trims bytewise, since every byte
  of such a rune is above 127.
\<close>

definition trim_func :: "(char \<Rightarrow> bool) \<Rightarrow> string \<Rightarrow> string" where
  "trim_func P s = rev (dropWhile P (rev (dropWhile P s)))"

text \<open>The sign of a token: parentheses, a leading sign, a trailing minus.\<close>

definition strip_parens :: "bool \<times> string \<Rightarrow> bool \<times> string" where
  "strip_parens p = (let (neg, s) = p in
     if has_prefix s ''('' \<and> has_suffix s '')'' then (True, butlast (tl s)) else (neg, s))"

definition strip_lead :: "bool \<times> string \<Rightarrow> bool \<times> string" where
  "strip_lead p = (let (neg, s) = p in
     if has_prefix s ''-'' then (True, tl s) else if has_prefix s ''+'' then (neg, tl s) else (neg, s))"

definition strip_trail :: "bool \<times> string \<Rightarrow> bool \<times> string" where
  "strip_trail p = (let (neg, s) = p in if has_suffix s ''-'' then (True, butlast s) else (neg, s))"

definition normalize_amount :: "string \<Rightarrow> (string \<times> bool) option" where
  "normalize_amount raw =
     (let s = trim_func (\<lambda>c. \<not> is_amount_rune c \<and> \<not> is_sign_rune c) (remove_spaces raw);
          (neg, s) = strip_trail (strip_lead (strip_parens (False, s)))
      in if s = [] then None
         else if \<not> list_all is_amount_rune s then None
         else if \<not> is_digit (hd s) \<or> \<not> is_digit (last s) then None
         else Some (s, neg))"

definition is_grouped :: "string \<Rightarrow> char \<Rightarrow> bool" where
  "is_grouped s sep =
     (case split_on sep s of
        [] \<Rightarrow> False
      | p # ps \<Rightarrow> ps \<noteq> [] \<and> p \<noteq> [] \<and> length p \<le> 3 \<and> all_digits p \<and> hd p \<noteq> CHR ''0'' \<and>
          list_all (\<lambda>q. length q = 3 \<and> all_digits q) ps)"

text \<open>The accumulation of the whole part: \<open>None\<close> when the guard against overflow fires.\<close>

fun acc_digits :: "string \<Rightarrow> int64 \<Rightarrow> int64 option" where
  "acc_digits [] ore = Some ore"
| "acc_digits (c # cs) ore =
     (if sint (go_div (9223372036854775807 - 9) 10) < sint ore then None
      else acc_digits cs (ore * 10 + of_nat (digit_val c)))"

definition ore_from_parts :: "string \<Rightarrow> string \<Rightarrow> bool \<Rightarrow> int64 option" where
  "ore_from_parts whole frac neg =
     (if whole = [] \<or> \<not> all_digits whole \<or> \<not> all_digits frac then None
      else case acc_digits whole 0 of
        None \<Rightarrow> None
      | Some ore \<Rightarrow>
          if sint (go_div (9223372036854775807 - 99) 100) < sint ore then None
          else
            let f = take 2 (frac @ ''00'');
                r = ore * 100 + of_nat (digit_val (f ! 0)) * 10 + of_nat (digit_val (f ! 1))
            in Some (if neg then - r else r))"

definition parse_amount_iso :: "string \<Rightarrow> int64 option" where
  "parse_amount_iso s =
     (case normalize_amount s of None \<Rightarrow> None
      | Some (tok, neg) \<Rightarrow>
          if 1 < count_list tok (CHR ''.'') + count_list tok (CHR '','') then None
          else if CHR '','' \<in> set tok \<and> is_grouped tok (CHR '','') then None
          else
            let whole = takeWhile (\<lambda>c. c \<noteq> CHR ''.'' \<and> c \<noteq> CHR '','') tok;
                frac = tl (dropWhile (\<lambda>c. c \<noteq> CHR ''.'' \<and> c \<noteq> CHR '','') tok)
            in ore_from_parts whole frac neg)"

definition parse_amount_swedish :: "string \<Rightarrow> int64 option" where
  "parse_amount_swedish s =
     (case normalize_amount s of None \<Rightarrow> None
      | Some (tok, neg) \<Rightarrow>
          let dots = count_list tok (CHR ''.''); commas = count_list tok (CHR '','') in
          if dots = 0 \<and> commas = 0 then ore_from_parts tok [] neg
          else if 0 < dots \<and> 0 < commas then
            let (dec, grp) = (if last_index (CHR '','') tok < last_index (CHR ''.'') tok
                              then (CHR ''.'', CHR '','') else (CHR '','', CHR ''.'')) in
            if count_list tok dec \<noteq> 1 then None
            else let (whole, frac) = cut_on dec tok in
              if \<not> is_grouped whole grp then None
              else ore_from_parts (drop_char grp whole) frac neg
          else if commas = 1 then
            if is_grouped tok (CHR '','') then None
            else let (whole, frac) = cut_on (CHR '','') tok in ore_from_parts whole frac neg
          else if dots = 1 then
            if is_grouped tok (CHR ''.'') then ore_from_parts (drop_char (CHR ''.'') tok) [] neg
            else let (whole, frac) = cut_on (CHR ''.'') tok in ore_from_parts whole frac neg
          else
            let sep = (if 1 < commas then CHR '','' else CHR ''.'') in
            if \<not> is_grouped tok sep then None else ore_from_parts (drop_char sep tok) [] neg)"

definition date_layouts :: "layout list" where
  "date_layouts =
     [iso_layout, [YYYY, Sep CHR ''/'', MM, Sep CHR ''/'', DD], [DD, Sep CHR ''.'', MM, Sep CHR ''.'', YYYY],
      [DD, Sep CHR ''/'', MM, Sep CHR ''/'', YYYY], compact_layout]"

fun first_layout :: "layout list \<Rightarrow> string \<Rightarrow> date option" where
  "first_layout [] s = None"
| "first_layout (l # ls) s = (case time_parse l s of Some d \<Rightarrow> Some d | None \<Rightarrow> first_layout ls s)"

definition parse_date :: "string \<Rightarrow> gotime option" where
  "parse_date raw =
     (let s = trim_space raw; s = (if 10 \<le> length s then take 10 s else s)
      in map_option midnight (first_layout date_layouts s))"

section \<open>Entries and the CSV reader (csv.go)\<close>

record bank_entry =
  be_date :: gotime
  be_amount :: int64
  be_text :: string
  be_ref :: string

text \<open>
  \<open>splitCSV\<close>: the field under construction is kept reversed.
\<close>

fun split_csv_loop :: "char \<Rightarrow> bool \<Rightarrow> string \<Rightarrow> string \<Rightarrow> string list" where
  "split_csv_loop d q cur [] = [trim_space (rev cur)]"
| "split_csv_loop d q cur (c # s) =
     (if c = CHR 0x22 then split_csv_loop d (\<not> q) cur s
      else if c = d \<and> \<not> q then trim_space (rev cur) # split_csv_loop d q [] s
      else split_csv_loop d q (c # cur) s)"

definition split_csv :: "string \<Rightarrow> char \<Rightarrow> string list" where
  "split_csv l d = split_csv_loop d False [] l"

text \<open>
  \<open>strings.ToLower\<close> on the runes whose lower case occurs in a column keyword: the ASCII letters, the
  Kelvin sign (k), I with a dot above (i) and capital A with diaeresis. Any other rune becomes one
  that is in no keyword, so it is left as it is.
\<close>

fun to_lower :: "string \<Rightarrow> string" where
  "to_lower [] = []"
| "to_lower (c # s) =
     (if 65 \<le> byte c \<and> byte c \<le> 90 then char_of (byte c + 32) # to_lower s
      else if byte c = 0xE2 \<and> map byte (take 2 s) = [0x84, 0xAA] then CHR ''k'' # to_lower (drop 2 s)
      else if byte c = 0xC4 \<and> map byte (take 1 s) = [0xB0] then CHR ''i'' # to_lower (drop 1 s)
      else if byte c = 0xC3 \<and> map byte (take 1 s) = [0x84] then c # char_of (0xA4 :: nat) # to_lower (drop 1 s)
      else c # to_lower s)"

definition date_keys :: "string list" where
  "date_keys = [''datum'', ''date'', ''bokf'']"

definition amount_keys :: "string list" where
  "amount_keys = [''belopp'', ''amount'', ''summa'']"

definition text_keys :: "string list" where
  "text_keys = [''text'', ''meddel'', ''referens'', ''mottagare'',
     ''avs'' @ [char_of (0xC3 :: nat), char_of (0xA4 :: nat)] @ ''ndare'', ''description'']"

definition has_key :: "string list \<Rightarrow> string \<Rightarrow> bool" where
  "has_key ks lc = list_ex (contains_str lc) ks"

text \<open>The columns found so far: \<open>None\<close> is the code's \<open>-1\<close>.\<close>

record csv_columns =
  date_col :: "nat option"
  amount_col :: "nat option"
  text_col :: "nat option"

fun find_columns :: "nat \<Rightarrow> string list \<Rightarrow> csv_columns \<Rightarrow> csv_columns" where
  "find_columns i [] k = k"
| "find_columns i (c # cs) k =
     (let lc = to_lower (trim_space c) in
      find_columns (Suc i) cs
        (if date_col k = None \<and> has_key date_keys lc then k\<lparr>date_col := Some i\<rparr>
         else if amount_col k = None \<and> has_key amount_keys lc then k\<lparr>amount_col := Some i\<rparr>
         else if text_col k = None \<and> has_key text_keys lc then k\<lparr>text_col := Some i\<rparr>
         else k))"

definition csv_row :: "nat \<Rightarrow> nat \<Rightarrow> nat option \<Rightarrow> string list \<Rightarrow> bank_entry option" where
  "csv_row d a t f =
     (if length f \<le> a \<or> length f \<le> d then None
      else case parse_amount_swedish (f ! a) of None \<Rightarrow> None
      | Some x \<Rightarrow> (case parse_date (f ! d) of None \<Rightarrow> None
        | Some dt \<Rightarrow> Some \<lparr>be_date = dt, be_amount = x,
            be_text = (case t of None \<Rightarrow> [] | Some i \<Rightarrow> if i < length f then trim_space (f ! i) else []),
            be_ref = []\<rparr>))"

definition ParseCSV :: "string \<Rightarrow> bank_entry list" where
  "ParseCSV input =
     (case scan_lines input of
        [] \<Rightarrow> []
      | header # rows \<Rightarrow>
          let delim = (if count_list header (CHR '','') \<le> count_list header (CHR '';'')
                       then CHR '';'' else CHR '','');
              k = find_columns 0 (split_csv header delim) \<lparr>date_col = None, amount_col = None, text_col = None\<rparr>;
              (d, a, t) = (case (date_col k, amount_col k) of (Some d, Some a) \<Rightarrow> (d, a, text_col k) | _ \<Rightarrow> (0, 1, Some 2))
          in List.map_filter (\<lambda>l. csv_row d a t (split_csv l delim)) rows)"

section \<open>The camt.053 reader (camt.go)\<close>

record camt_entry =
  amt_value :: string
  cdt_dbt :: string
  bookg_dt :: string
  bookg_dttm :: string
  val_dt :: string
  val_dttm :: string
  addtl_inf :: string
  ustrd :: "string list"
  cdtr_ref :: string
  dbtr_nm :: string
  cdtr_nm :: string

fun first_nonempty :: "string list \<Rightarrow> string" where
  "first_nonempty [] = []"
| "first_nonempty (v # vs) = (if trim_space v \<noteq> [] then trim_space v else first_nonempty vs)"

text \<open>\<open>strings.EqualFold\<close> against an ASCII word without \<open>k\<close> or \<open>s\<close> compares ASCII letters only.\<close>

definition ascii_upper :: "char \<Rightarrow> char" where
  "ascii_upper c = (if 97 \<le> byte c \<and> byte c \<le> 122 then char_of (byte c - 32) else c)"

definition equal_fold :: "string \<Rightarrow> string \<Rightarrow> bool" where
  "equal_fold s t \<longleftrightarrow> map ascii_upper s = map ascii_upper t"

fun join_with :: "string \<Rightarrow> string list \<Rightarrow> string" where
  "join_with sep [] = []"
| "join_with sep [s] = s"
| "join_with sep (s # t # ts) = s @ sep @ join_with sep (t # ts)"

definition camt_row :: "camt_entry \<Rightarrow> bank_entry option" where
  "camt_row e =
     (case parse_amount_iso (amt_value e) of None \<Rightarrow> None
      | Some ore \<Rightarrow>
          let ore = (if equal_fold (cdt_dbt e) ''DBIT'' then - ore else ore);
              d = (case parse_date (first_nonempty [bookg_dt e, bookg_dttm e, val_dt e, val_dttm e]) of
                     None \<Rightarrow> zero_time | Some t \<Rightarrow> t);
              txt = trim_space (join_with '' '' (ustrd e))
          in Some \<lparr>be_date = d, be_amount = ore,
               be_text = (if txt = [] then first_nonempty [dbtr_nm e, cdtr_nm e, addtl_inf e] else txt),
               be_ref = trim_space (cdtr_ref e)\<rparr>)"

text \<open>The decoder of \<open>encoding/xml\<close> is the argument: it fails or yields the entries in document order.\<close>

definition ParseCAMT :: "(string \<Rightarrow> camt_entry list option) \<Rightarrow> string \<Rightarrow> bank_entry list option" where
  "ParseCAMT decode input = map_option (List.map_filter camt_row) (decode input)"

end
