(* ===== verification/Bank_Laws.thy ===== *)
theory Bank_Laws
  imports Bank Ledger
begin

text \<open>
  Laws of the statement parsers: the ore value is exact and never wraps, an accepted amount is made of
  the digits of its token, printed amounts are read back, and what the CSV reader keeps of a file.
\<close>

section \<open>The value of two digit strings\<close>

definition ore_bound :: int where
  "ore_bound = 92233720368547757"

definition cents :: "string \<Rightarrow> nat" where
  "cents f = digits_val (take 2 (f @ ''00''))"

lemma digits_val_Cons: "digits_val (c # cs) = digit_val c * 10 ^ length cs + digits_val cs"
  using digits_val_append [of "[c]" cs] by (simp add: digits_val_def)

lemma acc_limits [simp]:
  "sint (go_div (9223372036854775798 :: int64) 10) = 922337203685477579"
  "sint (go_div (9223372036854775708 :: int64) 100) = ore_bound"
  by (simp_all add: go_div_def signed_divide_int_def ore_bound_def)

lemma sint_digit: "is_digit c \<Longrightarrow> sint (of_nat (digit_val c) :: int64) = int (digit_val c)"
  using digit_val_less [of c] sint_of_int64 [of "int (digit_val c)"] by (simp add: in64_def)

lemma acc_step:
  assumes "0 \<le> sint ore" and "sint ore \<le> 922337203685477579" and "is_digit c"
  shows "sint (ore * 10 + of_nat (digit_val c) :: int64) = sint ore * 10 + int (digit_val c)"
proof -
  have d: "digit_val c < 10" by (rule digit_val_less [OF assms(3)])
  have m: "sint (ore * 10) = sint ore * 10"
    using sint_mult64 [of ore 10] assms(1,2) by (simp add: in64_def)
  show ?thesis
    using sint_add64 [of "ore * 10" "of_nat (digit_val c)"] assms(1,2) d
    unfolding m sint_digit [OF assms(3)] by (simp add: in64_def)
qed

lemma acc_digits_value:
  assumes "all_digits cs" and "0 \<le> sint ore" and "acc_digits cs ore = Some r"
  shows "sint r = sint ore * 10 ^ length cs + int (digits_val cs)"
  using assms
proof (induction cs arbitrary: ore)
  case (Cons c cs)
  then have g: "sint ore \<le> 922337203685477579" and d: "is_digit c" by (auto split: if_splits)
  have s: "sint (ore * 10 + of_nat (digit_val c)) = sint ore * 10 + int (digit_val c)"
    by (rule acc_step [OF Cons.prems(2) g d])
  have "sint r = sint (ore * 10 + of_nat (digit_val c)) * 10 ^ length cs + int (digits_val cs)"
    using Cons g s by (intro Cons.IH) (auto split: if_splits)
  then show ?case unfolding s by (simp add: digits_val_Cons algebra_simps)
qed simp

lemma acc_digits_ok:
  assumes "all_digits cs" and "0 \<le> sint ore"
    and "sint ore * 10 ^ length cs + int (digits_val cs) \<le> ore_bound"
  shows "\<exists>r. acc_digits cs ore = Some r"
  using assms
proof (induction cs arbitrary: ore)
  case (Cons c cs)
  have d: "is_digit c" using Cons.prems by simp
  have le: "(sint ore * 10 + int (digit_val c)) * 10 ^ length cs + int (digits_val cs) \<le> ore_bound"
    using Cons.prems(3) by (simp add: digits_val_Cons algebra_simps)
  have "sint ore * 1 \<le> sint ore * 10 ^ length (c # cs)"
    using Cons.prems(2) one_le_power [of "10 :: int" "length (c # cs)"] by (intro mult_left_mono) simp_all
  then have g: "sint ore \<le> 922337203685477579" using Cons.prems(3) by (simp add: ore_bound_def)
  note s = acc_step [OF Cons.prems(2) g d]
  show ?case
    using Cons.IH [of "ore * 10 + of_nat (digit_val c)"] Cons.prems(1,2) le g unfolding s by simp
qed simp

lemma two_digits:
  assumes "all_digits f"
  obtains a b where "take 2 (f @ ''00'') = [a, b]" "is_digit a" "is_digit b"
    "cents f = 10 * digit_val a + digit_val b" "cents f < 100"
proof -
  have z: "is_digit CHR ''0''" by (simp add: is_digit_def)
  obtain a b where t: "take 2 (f @ ''00'') = [a, b]" and d: "is_digit a" "is_digit b"
  proof (cases f)
    case Nil
    with that [of "CHR ''0''" "CHR ''0''"] z show thesis by (simp add: numeral_2_eq_2)
  next
    case (Cons x xs)
    with that [of x "case xs of [] \<Rightarrow> CHR ''0'' | y # _ \<Rightarrow> y"] assms z show thesis
      by (cases xs) (simp_all add: numeral_2_eq_2)
  qed
  have "cents f = 10 * digit_val a + digit_val b" 
    unfolding cents_def t by (simp add: digits_val_def)
  with that [OF t d] digit_val_less [OF d(1)] digit_val_less [OF d(2)] show thesis by simp
qed

text \<open>The exact value of \<open>oreFromParts\<close>, and exactly when it refuses.\<close>

lemma ore_from_parts_value:
  "ore_from_parts w f neg =
     (if w = [] \<or> \<not> all_digits w \<or> \<not> all_digits f \<or> ore_bound < int (digits_val w) then None
      else Some (word_of_int ((if neg then - 1 else 1) * (int (digits_val w) * 100 + int (cents f)))))"
proof (cases "w = [] \<or> \<not> all_digits w \<or> \<not> all_digits f")
  case True
  then show ?thesis by (auto simp: ore_from_parts_def)
next
  case False
  then have w: "all_digits w" "w \<noteq> []" and f: "all_digits f" by auto
  obtain a b where t: "take 2 (f @ ''00'') = [a, b]" and d: "is_digit a" "is_digit b"
    and c: "cents f = 10 * digit_val a + digit_val b" "cents f < 100"
    by (rule two_digits [OF f])
  show ?thesis
  proof (cases "ore_bound < int (digits_val w)")
    case True
    then show ?thesis
      using w f acc_digits_value [OF w(1), of 0]
      by (auto simp: ore_from_parts_def split: option.splits)
  next
    case le: False
    obtain r where r: "acc_digits w 0 = Some r" using acc_digits_ok [OF w(1), of 0] le by auto
    have v: "sint r = int (digits_val w)" using acc_digits_value [OF w(1) _ r] by simp
    have rw: "r = word_of_int (int (digits_val w))"
      using le sint_of_int64 [of "int (digits_val w)"]
      by (intro sint64_inj) (simp add: v in64_def ore_bound_def)
    have "(of_nat (digit_val a) * 10 + of_nat (digit_val b) :: int64) = of_nat (cents f)"
      by (simp add: c(1) mult.commute)
    then have "r * 100 + of_nat (digit_val a) * 10 + of_nat (digit_val b) =
        word_of_int (int (digits_val w) * 100 + int (cents f))"
      unfolding rw by (simp add: algebra_simps)
    moreover have "take 2 f @ take (2 - length f) ''00'' = [a, b]" using t by simp
    ultimately show ?thesis
      using w f le v by (simp add: ore_from_parts_def r Let_def)
  qed
qed

lemma ore_range:
  assumes "\<not> ore_bound < int (digits_val w)" and "all_digits f"
  shows "in64 (int (digits_val w) * 100 + int (cents f))" "in64 (- (int (digits_val w) * 100 + int (cents f)))"
    "int (digits_val w) * 100 + int (cents f) \<le> 9223372036854775799"
proof -
  have "cents f < 100" by (rule two_digits [OF assms(2)]) 
  then show "in64 (int (digits_val w) * 100 + int (cents f))"
    "in64 (- (int (digits_val w) * 100 + int (cents f)))"
    "int (digits_val w) * 100 + int (cents f) \<le> 9223372036854775799"
    using assms(1) by (simp_all add: in64_def ore_bound_def)
qed

section \<open>Accepted amounts\<close>

text \<open>
  What \<open>normalizeAmount\<close> lets through: digits and separators, starting and ending with a digit.
\<close>

lemma normalize_amount_shape:
  assumes "normalize_amount s = Some (tok, neg)"
  shows "list_all is_amount_rune tok" "tok \<noteq> []" "is_digit (hd tok)" "is_digit (last tok)"
  using assms by (auto simp: normalize_amount_def Let_def split: prod.splits if_splits)

text \<open>The digits of a token, separators left out.\<close>

definition token_digits :: "string \<Rightarrow> string" where
  "token_digits tok = filter is_digit tok"

lemma token_digits_simps [simp]:
  "token_digits (s @ t) = token_digits s @ token_digits t" "token_digits [] = []"
  "all_digits s \<Longrightarrow> token_digits s = s"
  by (auto simp: token_digits_def all_digits_def list_all_iff filter_id_conv)

lemma cut_on_parts:
  assumes "cut_on d s = (w, f)"
  shows "d \<notin> set w" "s = w \<or> s = w @ d # f"
proof -
  have "d \<notin> set w \<and> (s = w \<or> s = w @ d # f)"
    using assms by (induction s arbitrary: w f) (auto split: if_splits prod.splits)
  then show "d \<notin> set w" "s = w \<or> s = w @ d # f" by auto
qed

lemma drop_char_digits: "\<not> is_digit d \<Longrightarrow> token_digits (drop_char d s) = token_digits s"
  by (induction s) (auto simp: token_digits_def drop_char_def)

lemma cut_digits:
  assumes "cut_on d s = (w, f)" and "\<not> is_digit d"
  shows "token_digits w @ token_digits f = token_digits s"
proof -
  have "s = w @ d # f \<or> s = w \<and> f = []"
    using assms(1) by (induction s arbitrary: w f) (auto split: if_splits prod.splits)
  then show ?thesis using assms(2) by (auto simp: token_digits_def)
qed

lemma ore_from_parts_Some:
  assumes "ore_from_parts w f neg = Some r"
  shows "all_digits w" "w \<noteq> []" "all_digits f" "\<not> ore_bound < int (digits_val w)"
    "sint r = (if neg then - 1 else 1) * (int (digits_val w) * 100 + int (cents f))"
proof -
  note v = assms [unfolded ore_from_parts_value]
  from v show d: "all_digits w" "w \<noteq> []" "all_digits f" "\<not> ore_bound < int (digits_val w)"
    by (auto split: if_splits)
  with v have "r = word_of_int ((if neg then - 1 else 1) * (int (digits_val w) * 100 + int (cents f)))"
    by simp
  then show "sint r = (if neg then - 1 else 1) * (int (digits_val w) * 100 + int (cents f))"
    using ore_range(1,2) [OF d(4,3)] by (cases neg) (simp_all only: sint_of_int64 if_True if_False
        mult_1 mult_minus1)
qed

lemma sep_not_digit [simp]: "\<not> is_digit CHR ''.''" "\<not> is_digit CHR '',''"
  by (simp_all add: is_digit_def)

text \<open>Every branch of the Swedish grammar hands a split of the digits of the token to the valuation.\<close>

lemma swedish_parts:
  assumes "parse_amount_swedish s = Some r"
  shows "\<exists>tok neg w f. normalize_amount s = Some (tok, neg) \<and> w @ f = token_digits tok \<and>
     ore_from_parts w f neg = Some r"
proof -
  from assms obtain tok neg where n: "normalize_amount s = Some (tok, neg)"
    unfolding parse_amount_swedish_def by (auto split: option.splits)
  have none: "ore_from_parts w f neg = Some r \<Longrightarrow> w @ f = token_digits w @ token_digits f" for w f
    using ore_from_parts_Some [of w f neg r] by simp
  have drop: "ore_from_parts (drop_char g w) f neg = Some r \<Longrightarrow> \<not> is_digit g \<Longrightarrow>
      drop_char g w @ f = token_digits w @ token_digits f" for g w f
    using none [of "drop_char g w" f] by (simp add: drop_char_digits)
  have "\<exists>w f. w @ f = token_digits tok \<and> ore_from_parts w f neg = Some r"
    using assms none [of tok "[]"] drop [of _ tok "[]"] none drop cut_digits
    unfolding parse_amount_swedish_def n
    by (auto simp: Let_def split: if_splits prod.splits) (metis sep_not_digit)+
  then show ?thesis using n by blast
qed

section \<open>Reading back printed amounts\<close>

lemma trim_func_id:
  assumes "s \<noteq> []" and "\<not> P (hd s)" and "\<not> P (last s)"
  shows "trim_func P s = s"
proof -
  have "dropWhile P s = s" using assms(1,2) by (cases s) auto
  moreover have "dropWhile P (rev s) = rev s" using assms(1,3) by (cases s rule: rev_cases) auto
  ultimately show ?thesis by (simp add: trim_func_def)
qed

lemma has_prefix_one [simp]: "has_prefix s [c] \<longleftrightarrow> s \<noteq> [] \<and> hd s = c"
  by (cases s) (auto simp: has_prefix_def)

lemma has_suffix_one [simp]: "has_suffix s [c] \<longleftrightarrow> s \<noteq> [] \<and> last s = c"
  by (simp add: has_suffix_def hd_rev)

lemma normalize_signed:
  assumes "list_all is_amount_rune t" and "t \<noteq> []" and "is_digit (hd t)" and "is_digit (last t)"
  shows "normalize_amount ((if neg then ''-'' else []) @ t) = Some (t, neg)"
proof -
  let ?s = "(if neg then ''-'' else []) @ t"
  have "visible t" using assms(1)
    by (auto simp: visible_def list_all_iff is_amount_rune_def is_digit_def)
  then have rs: "remove_spaces ?s = ?s" by (intro remove_spaces_visible) simp
  have tf: "trim_func (\<lambda>c. \<not> is_amount_rune c \<and> \<not> is_sign_rune c) ?s = ?s"
    using assms by (intro trim_func_id) (auto simp: is_amount_rune_def is_sign_rune_def)
  have "strip_trail (strip_lead (strip_parens (False, ?s))) = (neg, t)"
    using assms digit_not_special [of "hd t"] digit_not_special [of "last t"]
    by (cases neg) (auto simp: strip_trail_def strip_lead_def strip_parens_def is_digit_def)
  then show ?thesis using assms by (simp add: normalize_amount_def rs tf)
qed

lemma not_grouped_two:
  assumes "all_digits k" and "length o' = 2" and "all_digits o'"
  shows "\<not> is_grouped (k @ CHR '','' # o') (CHR '','')"
  using assms all_digits_notin [OF assms(1), of "CHR '',''"] all_digits_notin [OF assms(3), of "CHR '',''"]
  by (simp add: is_grouped_def split_on_append split_on_absent)

lemma count_list_digits: "all_digits s \<Longrightarrow> \<not> is_digit c \<Longrightarrow> count_list s c = 0"
  using all_digits_notin by (simp add: count_list_0_iff)

text \<open>A whole part, a comma and two digits are read the same way by both grammars.\<close>

lemma parse_plain:
  assumes "all_digits k" and "k \<noteq> []" and "length o' = 2" and "all_digits o'"
  shows "parse_amount_swedish ((if neg then ''-'' else []) @ k @ CHR '','' # o') = ore_from_parts k o' neg"
    "parse_amount_iso ((if neg then ''-'' else []) @ k @ CHR '','' # o') = ore_from_parts k o' neg"
proof -
  let ?t = "k @ CHR '','' # o'"
  have o0: "o' \<noteq> []" using assms(3) by auto
  have n: "normalize_amount ((if neg then ''-'' else []) @ ?t) = Some (?t, neg)"
    using assms o0 by (intro normalize_signed)
      (auto simp: list_all_iff all_digits_def is_amount_rune_def)
  have c: "count_list ?t (CHR ''.'') = 0" "count_list ?t (CHR '','') = 1"
    using assms by (simp_all add: count_list_digits)
  have cut: "cut_on (CHR '','') ?t = (k, o')"
    using all_digits_notin [OF assms(1), of "CHR '',''"] by simp
  have g: "\<not> is_grouped ?t (CHR '','')" by (rule not_grouped_two [OF assms(1,3,4)])
  show "parse_amount_swedish ((if neg then ''-'' else []) @ ?t) = ore_from_parts k o' neg"
    unfolding parse_amount_swedish_def n by (simp add: c cut g del: count_list_append)
  have sep: "\<forall>x \<in> set k. x \<noteq> CHR ''.'' \<and> x \<noteq> CHR '',''"
    using all_digits_notin [OF assms(1)] by auto
  then have "takeWhile (\<lambda>c. c \<noteq> CHR ''.'' \<and> c \<noteq> CHR '','') ?t = k"
    "dropWhile (\<lambda>c. c \<noteq> CHR ''.'' \<and> c \<noteq> CHR '','') ?t = CHR '','' # o'"
    by (simp_all add: takeWhile_append2 dropWhile_append2)
  then show "parse_amount_iso ((if neg then ''-'' else []) @ ?t) = ore_from_parts k o' neg"
    unfolding parse_amount_iso_def n by (simp add: c g del: count_list_append)
qed

lemma amount_string_parts:
  assumes "\<bar>sint a\<bar> \<le> 9223372036854775799"
  defines "v \<equiv> \<bar>sint a\<bar>"
  shows "amount_string a = (if sint a < 0 then ''-'' else []) @ fmt_nat (nat (v div 100)) @ CHR '','' # fmt_pad 2 (v mod 100)"
proof -
  let ?w = "if sint a < 0 then - a else a"
  have w: "sint ?w = v"
    using assms(1) sint_minus64 [of a] by (auto simp: v_def in64_def)
  have s100: "sint (100 :: int64) = 100" by simp
  have "sint (go_div ?w 100) = v div 100" "sint (go_mod ?w 100) = v mod 100"
    using go_div_nonneg [of ?w 100] go_mod_nonneg [of ?w 100] unfolding w s100 by (simp_all add: v_def)
  moreover have "fmt_int (v div 100) = fmt_nat (nat (v div 100))"
    by (simp add: fmt_int_def v_def pos_imp_zdiv_neg_iff)
  ultimately show ?thesis by (simp add: amount_string_def Let_def)
qed

lemma cents_two: "length o' = 2 \<Longrightarrow> cents o' = digits_val o'"
  by (simp add: cents_def)

lemma amount_string_parses:
  assumes "\<bar>sint a\<bar> \<le> 9223372036854775799"
  shows "parse_amount_swedish (amount_string a) = Some a" "parse_amount_iso (amount_string a) = Some a"
proof -
  define v where "v = \<bar>sint a\<bar>"
  let ?k = "fmt_nat (nat (v div 100))" and ?o = "fmt_pad 2 (v mod 100)" and ?neg = "sint a < 0"
  have v0: "0 \<le> v div 100" "0 \<le> v mod 100" "v mod 100 < 10 ^ 2" by (simp_all add: v_def)
  have o2: "length ?o = 2" using length_fmt_pad [OF v0(2,3)] by simp
  have d: "all_digits ?k" "?k \<noteq> []" "all_digits ?o" "int (digits_val ?k) = v div 100" "int (digits_val ?o) = v mod 100"
    using v0 by (simp_all del: fmt_nat.simps)
  have b: "\<not> ore_bound < v div 100"
    using assms zdiv_mono1 [of v "9223372036854775799" 100] by (simp add: ore_bound_def v_def)
  have "(if ?neg then - 1 else 1) * (v div 100 * 100 + v mod 100) = sint a"
    by (simp add: v_def)
  then have "ore_from_parts ?k ?o ?neg = Some a"
    using b d by (simp add: ore_from_parts_value cents_two [OF o2] del: fmt_nat.simps)
  then show "parse_amount_swedish (amount_string a) = Some a" "parse_amount_iso (amount_string a) = Some a"
    unfolding amount_string_parts [OF assms] v_def [symmetric]
    using parse_plain [OF d(1,2) o2 d(3), of ?neg] by metis+
qed

section \<open>Reading back a written statement\<close>

text \<open>A statement as an export writes it: a line per entry with date, amount and text.\<close>

definition csv_line :: "date \<times> amount \<times> string \<Rightarrow> string" where
  "csv_line e = (case e of (d, a, t) \<Rightarrow> format_date iso_layout d @ '';'' @ amount_string a @ '';'' @ t)"

definition csv_header :: string where
  "csv_header = ''Datum;Belopp;Text''"

definition csv_file :: "string list \<Rightarrow> string" where
  "csv_file ls = concat (map (\<lambda>l. l @ [CHR 0x0A]) ls)"

definition csv_text :: "string \<Rightarrow> bool" where
  "csv_text t \<longleftrightarrow> trim_space t = t \<and> set t \<inter> {CHR '';'', CHR 0x22, CHR 0x0A, CHR 0x0D} = {}"

definition csv_ok :: "date \<times> amount \<times> string \<Rightarrow> bool" where
  "csv_ok e \<longleftrightarrow> (case e of (d, a, t) \<Rightarrow> printable_date d \<and> \<bar>sint a\<bar> \<le> 9223372036854775799 \<and> csv_text t)"

definition csv_entry :: "date \<times> amount \<times> string \<Rightarrow> bank_entry" where
  "csv_entry e = (case e of (d, a, t) \<Rightarrow> \<lparr>be_date = midnight d, be_amount = a, be_text = t, be_ref = []\<rparr>)"

lemma split_csv_step:
  "d \<notin> set f \<Longrightarrow> CHR 0x22 \<notin> set f \<Longrightarrow> d \<noteq> CHR 0x22 \<Longrightarrow>
     split_csv_loop d False cur (f @ d # s) = trim_space (rev cur @ f) # split_csv_loop d False [] s"
  by (induction f arbitrary: cur) auto

lemma split_csv_end:
  "d \<notin> set f \<Longrightarrow> CHR 0x22 \<notin> set f \<Longrightarrow> split_csv_loop d False cur f = [trim_space (rev cur @ f)]"
  by (induction f arbitrary: cur) auto

lemma visible_iso: "printable_date d \<Longrightarrow> visible (format_date iso_layout d)"
  using printable_parts(1) [of d] by (simp add: format_date_def iso_layout_def)

lemma length_iso: "printable_date d \<Longrightarrow> length (format_date iso_layout d) = 10"
  using printable_parts [of d] length_fmt_pad [of "year d" 4] length_fmt_pad [of "int (month d)" 2]
    length_fmt_pad [of "int (mday d)" 2]
  by (simp add: format_date_def iso_layout_def)

lemma visible_amount: "\<bar>sint a\<bar> \<le> 9223372036854775799 \<Longrightarrow> visible (amount_string a)"
  by (simp add: amount_string_parts del: fmt_nat.simps)

lemma parse_date_iso: "printable_date d \<Longrightarrow> parse_date (format_date iso_layout d) = Some (midnight d)"
  by (simp add: parse_date_def visible_iso length_iso date_layouts_def time_parse_iso)

lemma digits_set: "all_digits s \<Longrightarrow> set s \<subseteq> {c. is_digit c}"
  by (auto simp: all_digits_def list_all_iff)

lemma set_iso:
  assumes "printable_date d"
  shows "set (format_date iso_layout d) \<subseteq> {c. is_digit c} \<union> {CHR ''-''}"
proof -
  have p: "set (fmt_pad 4 (year d)) \<subseteq> {c. is_digit c}" "set (fmt_pad 2 (int (month d))) \<subseteq> {c. is_digit c}"
    "set (fmt_pad 2 (int (mday d))) \<subseteq> {c. is_digit c}"
    using printable_parts(1) [OF assms] by (simp_all add: digits_set)
  have "format_date iso_layout d = fmt_pad 4 (year d) @ CHR ''-'' # fmt_pad 2 (int (month d)) @
      CHR ''-'' # fmt_pad 2 (int (mday d))"
    by (simp add: format_date_def iso_layout_def)
  then show ?thesis using p by auto
qed

lemma set_amount:
  assumes "\<bar>sint a\<bar> \<le> 9223372036854775799"
  shows "set (amount_string a) \<subseteq> {c. is_digit c} \<union> {CHR ''-'', CHR '',''}"
  using digits_set [of "fmt_nat (nat (\<bar>sint a\<bar> div 100))"] digits_set [of "fmt_pad 2 (\<bar>sint a\<bar> mod 100)"]
  by (auto simp: amount_string_parts [OF assms] simp del: fmt_nat.simps split: if_splits)

lemma csv_parts_plain:
  assumes "set f \<subseteq> {c. is_digit c} \<union> {CHR ''-'', CHR '',''}"
  shows "CHR '';'' \<notin> set f" "CHR 0x22 \<notin> set f" "CHR 0x0A \<notin> set f" "CHR 0x0D \<notin> set f"
  using assms by (auto simp: is_digit_def)

lemma split_csv_line:
  assumes "csv_ok (d, a, t)"
  shows "split_csv (csv_line (d, a, t)) (CHR '';'') = [format_date iso_layout d, amount_string a, t]"
    "CHR 0x0A \<notin> set (csv_line (d, a, t)) \<and> CHR 0x0D \<notin> set (csv_line (d, a, t))"
proof -
  have p: "printable_date d" "\<bar>sint a\<bar> \<le> 9223372036854775799" "csv_text t"
    using assms by (simp_all add: csv_ok_def)
  have fd: "set (format_date iso_layout d) \<subseteq> {c. is_digit c} \<union> {CHR ''-'', CHR '',''}"
    using set_iso [OF p(1)] by auto
  note x = csv_parts_plain [OF fd] and y = csv_parts_plain [OF set_amount [OF p(2)]]
  have t: "trim_space t = t" "CHR '';'' \<notin> set t" "CHR 0x22 \<notin> set t" "CHR 0x0A \<notin> set t" "CHR 0x0D \<notin> set t"
    using p(3) by (auto simp: csv_text_def)
  show "split_csv (csv_line (d, a, t)) (CHR '';'') = [format_date iso_layout d, amount_string a, t]"
    using x y t split_csv_end [of "CHR '';''" t "[]"] visible_iso [OF p(1)] visible_amount [OF p(2)]
    by (simp add: split_csv_def csv_line_def split_csv_step)
  show "CHR 0x0A \<notin> set (csv_line (d, a, t)) \<and> CHR 0x0D \<notin> set (csv_line (d, a, t))"
    using x y t by (auto simp: csv_line_def)
qed

lemma csv_row_line:
  assumes "csv_ok (d, a, t)"
  shows "csv_row 0 1 (Some 2) [format_date iso_layout d, amount_string a, t] = Some (csv_entry (d, a, t))"
  using assms parse_date_iso [of d] amount_string_parses(1) [of a]
  by (simp add: csv_row_def csv_ok_def csv_entry_def csv_text_def)

lemma csv_rows:
  assumes "list_all csv_ok es"
  shows "List.map_filter (\<lambda>l. csv_row 0 1 (Some 2) (split_csv l (CHR '';''))) (map csv_line es) = map csv_entry es"
  using assms
proof (induction es)
  case (Cons e es)
  obtain d a t where e: "e = (d, a, t)" by (cases e)
  then have "csv_row 0 1 (Some 2) (split_csv (csv_line e) (CHR '';'')) = Some (csv_entry e)"
    using Cons.prems csv_row_line [of d a t] split_csv_line(1) [of d a t] by simp
  then show ?case using Cons by (simp add: List.map_filter_simps)
qed (simp add: List.map_filter_simps)

lemma csv_lines_clean:
  "list_all csv_ok es \<Longrightarrow> \<forall>l \<in> set (map csv_line es). CHR 0x0A \<notin> set l \<and> CHR 0x0D \<notin> set l"
  using split_csv_line(2) by (auto simp: list_all_iff)

lemma scan_csv_file:
  "\<forall>l \<in> set ls. CHR 0x0A \<notin> set l \<and> CHR 0x0D \<notin> set l \<Longrightarrow> scan_lines (csv_file ls) = ls"
  unfolding csv_file_def by (rule scan_lines_written)

lemma header_columns:
  "find_columns 0 (split_csv csv_header (CHR '';'')) \<lparr>date_col = None, amount_col = None, text_col = None\<rparr> =
     \<lparr>date_col = Some 0, amount_col = Some 1, text_col = Some 2\<rparr>"
  by code_simp

lemma header_clean: "CHR 0x0A \<notin> set csv_header \<and> CHR 0x0D \<notin> set csv_header"
  "count_list csv_header (CHR '','') \<le> count_list csv_header (CHR '';'')"
  by code_simp+

text \<open>With a header, and without one: the first line is then consumed and no entry comes from it.\<close>

lemma ParseCSV_header:
  assumes "list_all csv_ok es"
  shows "ParseCSV (csv_file (csv_header # map csv_line es)) = map csv_entry es"
proof -
  have "scan_lines (csv_file (csv_header # map csv_line es)) = csv_header # map csv_line es"
    using csv_lines_clean [OF assms] header_clean(1) by (intro scan_csv_file) auto
  then show ?thesis
    using csv_rows [OF assms] header_clean(2) by (simp add: ParseCSV_def header_columns)
qed

lemma amount_commas:
  "\<bar>sint a\<bar> \<le> 9223372036854775799 \<Longrightarrow> count_list (amount_string a) (CHR '','') = 1"
  by (simp add: amount_string_parts count_list_digits del: fmt_nat.simps)

lemma ParseCSV_headerless:
  assumes "csv_ok e" and "list_all csv_ok es" and "count_list (snd (snd e)) (CHR '','') \<le> 1"
    and "find_columns 0 (split_csv (csv_line e) (CHR '';'')) \<lparr>date_col = None, amount_col = None, text_col = None\<rparr> = k"
    and "date_col k = None \<or> amount_col k = None"
  shows "ParseCSV (csv_file (csv_line e # map csv_line es)) = map csv_entry es"
proof -
  obtain d a t where e: "e = (d, a, t)" by (cases e)
  have p: "printable_date d" "\<bar>sint a\<bar> \<le> 9223372036854775799"
    using assms(1) by (simp_all add: csv_ok_def e)
  have c: "count_list (csv_line e) (CHR '','') \<le> count_list (csv_line e) (CHR '';'')"
  proof -
    have "count_list (format_date iso_layout d) (CHR '','') = 0"
      using set_iso [OF p(1)] by (auto simp: count_list_0_iff is_digit_def)
    then show ?thesis using assms(3) amount_commas [OF p(2)] by (simp add: csv_line_def e)
  qed
  have "scan_lines (csv_file (csv_line e # map csv_line es)) = csv_line e # map csv_line es"
    using csv_lines_clean [OF assms(2)] csv_lines_clean [of "[e]"] assms(1) by (intro scan_csv_file) auto
  then show ?thesis
    using c csv_rows [OF assms(2)] assms(4,5) by (auto simp: ParseCSV_def split: option.splits)
qed

section \<open>Properties\<close>


lemma swedish_sample: "parse_amount_swedish ''-1.234,56 kr'' = Some (- 123456)"
  by code_simp


text \<open>An amount printed by \<open>Amount.String\<close> is read back by both amount grammars, up to the largest
  one they accept.\<close>

theorem printed_amounts_read_back:
  assumes "\<bar>sint a\<bar> \<le> 9223372036854775799"
  shows "parse_amount_swedish (amount_string a) = Some a \<and> parse_amount_iso (amount_string a) = Some a"
  using amount_string_parses [OF assms] by simp

theorem printed_amounts_read_back_witness:
  "parse_amount_swedish (amount_string (- 1250)) = Some (- 1250) \<and>
   parse_amount_iso (amount_string (- 1250)) = Some (- 1250)"
  by (rule printed_amounts_read_back) simp

text \<open>C9. A statement written with the header \<open>Datum;Belopp;Text\<close> and one line per entry is read back as
  the entries, in order; the same lines without a header lose their first entry, since the line taken
  for a header is not parsed again.\<close>

theorem csv_statement_reads_back:
  assumes "list_all csv_ok (e # es)" and "count_list (snd (snd e)) (CHR '','') \<le> 1"
    and "find_columns 0 (split_csv (csv_line e) (CHR '';'')) \<lparr>date_col = None, amount_col = None, text_col = None\<rparr> = k"
    and "date_col k = None \<or> amount_col k = None"
  shows "ParseCSV (csv_file (csv_header # map csv_line (e # es))) = map csv_entry (e # es) \<and>
    ParseCSV (csv_file (map csv_line (e # es))) = map csv_entry es"
  using ParseCSV_header [OF assms(1)] ParseCSV_headerless [OF _ _ assms(2-4), of es] assms(1) by simp

lemma csv_sample_texts: "trim_space ''Faktura 2026-0001'' = ''Faktura 2026-0001''" "trim_space ''Kort'' = ''Kort''"
  by code_simp+

lemma csv_sample_ok:
  "list_all csv_ok [(Date 2026 3 5, 1250, ''Faktura 2026-0001''), (Date 2026 3 6, - 250000, ''Kort'')]"
  by (simp add: csv_ok_def csv_text_def csv_sample_texts printable_date_def valid_date_def days_in_def)

lemma csv_sample_cells:
  "format_date iso_layout (Date 2026 3 5) = ''2026-03-05''" "amount_string 1250 = ''12,50''"
proof -
  show "format_date iso_layout (Date 2026 3 5) = ''2026-03-05''" by code_simp
  have "amount_string 1250 = fmt_nat 12 @ CHR '','' # fmt_pad 2 50"
    by (subst amount_string_parts) simp_all
  also have "\<dots> = ''12,50''" by code_simp
  finally show "amount_string 1250 = ''12,50''" .
qed

lemma csv_sample_columns:
  "find_columns 0 (split_csv (csv_line (Date 2026 3 5, 1250, ''Faktura 2026-0001'')) (CHR '';''))
     \<lparr>date_col = None, amount_col = None, text_col = None\<rparr> = \<lparr>date_col = None, amount_col = None, text_col = None\<rparr>"
proof -
  have ok: "csv_ok (Date 2026 3 5, 1250, ''Faktura 2026-0001'')" using csv_sample_ok by simp
  have "find_columns 0 [''2026-03-05'', ''12,50'', ''Faktura 2026-0001'']
      \<lparr>date_col = None, amount_col = None, text_col = None\<rparr> = \<lparr>date_col = None, amount_col = None, text_col = None\<rparr>"
    by code_simp
  then show ?thesis unfolding split_csv_line(1) [OF ok] csv_sample_cells .
qed

theorem csv_statement_reads_back_witness:
  "ParseCSV (csv_file (csv_header # map csv_line [(Date 2026 3 5, 1250, ''Faktura 2026-0001''),
     (Date 2026 3 6, - 250000, ''Kort'')])) = map csv_entry [(Date 2026 3 5, 1250, ''Faktura 2026-0001''),
     (Date 2026 3 6, - 250000, ''Kort'')] \<and>
   ParseCSV (csv_file (map csv_line [(Date 2026 3 5, 1250, ''Faktura 2026-0001''),
     (Date 2026 3 6, - 250000, ''Kort'')])) = map csv_entry [(Date 2026 3 6, - 250000, ''Kort'')]"
  by (rule csv_statement_reads_back [OF csv_sample_ok _ csv_sample_columns]) simp_all

end
