(* ===== verification/Store_Bank.thy ===== *)
theory Store_Bank
  imports Store_Purchase Bank_Laws
begin

text \<open>
  Bank reconciliation in the store (\<open>internal/store/store_bank.go\<close>): importing a statement once, the
  list with its suggestions, and the three ways a transaction leaves the open state.
\<close>

section \<open>Import\<close>

definition bank_series :: string where
  "bank_series = ''BK''"

definition bank_fingerprint :: "env \<Rightarrow> bank_entry \<Rightarrow> string" where
  "bank_fingerprint e b = hex_encode (sha256 e (format_date iso_layout (date_of (be_date b)) @ ''|'' @
     fmt_int (sint (be_amount b)) @ ''|'' @ be_text b @ ''|'' @ be_ref b))"

definition import_entry :: "env \<Rightarrow> uuid \<Rightarrow> string \<Rightarrow> string \<Rightarrow> bank_entry \<Rightarrow> unit io" where
  "import_entry e c dek acct b =
     (if be_date b = zero_time then ret ()
      else andthen (enc_field e dek (be_text b)) (\<lambda>tx.
        InsertBankTxn \<lparr>bt_id = 0, bt_company = c, bt_date = date_of (be_date b), bt_amount = be_amount b,
          bt_text_enc = tx, bt_ref = be_ref b, bt_account = acct, bt_fingerprint = bank_fingerprint e b,
          bt_status = Unmatched, bt_invoice = None, bt_verification = None, bt_created = e_now e\<rparr>))"

definition ImportBankStatement :: "env \<Rightarrow> uuid \<Rightarrow> string \<Rightarrow> bank_entry list \<Rightarrow> int io" where
  "ImportBankStatement e c acct0 entries =
     (let acct = (if acct0 = [] then ''1930'' else acct0) in
      andthen (company_dek e c) (\<lambda>dek.
      andthen (ListBankTxns c) (\<lambda>before.
      andthen (each (import_entry e c dek acct) entries) (\<lambda>_.
      andthen (ListBankTxns c) (\<lambda>after.
      let imported = int (length after) - int (length before) in
      andthen (if 0 < imported
               then andthen (attempt (log_audit e c ''import_bank_statement'' ''bank'' (e_uuid_text e c)
                 (fmt_int imported @ '' nya transaktioner''))) (\<lambda>_. ret ())
               else ret ()) (\<lambda>_.
      ret imported))))))"

section \<open>The list\<close>

record bank_view =
  bv_id :: uuid
  bv_date :: gotime
  bv_amount :: amount
  bv_text :: string
  bv_ref :: string
  bv_account :: string
  bv_status :: txn_status
  bv_is_credit :: bool
  bv_match_number :: string
  bv_match_id :: uuid
  bv_match_customer :: string

text \<open>The free text of a row; one that cannot be decrypted is shown blank.\<close>

definition dec_blank :: "env \<Rightarrow> string \<Rightarrow> string \<Rightarrow> string" where
  "dec_blank e dek v = (if v = [] then [] else case decrypt_field e dek v of Inl _ \<Rightarrow> [] | Inr t \<Rightarrow> t)"

definition exact_match :: "bank_row \<Rightarrow> invoice_summary \<Rightarrow> bool" where
  "exact_match r s \<longleftrightarrow> is_status s = Finalized \<and> \<not> is_is_credit s \<and> is_total_sek s - is_paid s = bt_amount r"

definition bank_view_of :: "env \<Rightarrow> string \<Rightarrow> invoice_summary list \<Rightarrow> bank_row \<Rightarrow> bank_view" where
  "bank_view_of e dek invs r =
     (let v = \<lparr>bv_id = bt_id r, bv_date = midnight (bt_date r), bv_amount = bt_amount r,
            bv_text = dec_blank e dek (bt_text_enc r), bv_ref = bt_ref r, bv_account = bt_account r,
            bv_status = bt_status r, bv_is_credit = (0 < sint (bt_amount r)), bv_match_number = [],
            bv_match_id = 0, bv_match_customer = []\<rparr>
      in if bt_status r = Unmatched \<and> 0 < sint (bt_amount r) then
           (case filter (exact_match r) invs of
              [m] \<Rightarrow> v\<lparr>bv_match_number := is_number m, bv_match_id := is_id m, bv_match_customer := is_customer m\<rparr>
            | _ \<Rightarrow> v)
         else v)"

definition ListBankTransactions :: "env \<Rightarrow> uuid \<Rightarrow> bank_view list io" where
  "ListBankTransactions e c =
     andthen (ListBankTxns c) (\<lambda>rows.
     andthen (company_dek e c) (\<lambda>dek.
     andthen (attempt (ListInvoiceSummaries e c)) (\<lambda>r.
     ret (map (bank_view_of e dek (case r of Inl _ \<Rightarrow> [] | Inr invs \<Rightarrow> invs)) rows))))"

section \<open>Booking\<close>

definition BookBankTxnToInvoice :: "env \<Rightarrow> uuid \<Rightarrow> uuid \<Rightarrow> uuid \<Rightarrow> unit io" where
  "BookBankTxnToInvoice e c t i =
     andthen (GetBankTxn t) (\<lambda>txn.
     andthen (require (bt_company txn = c) ErrForeignCompany) (\<lambda>_.
     andthen (require (bt_status txn = Unmatched \<and> 0 < sint (bt_amount txn)) ErrTxnNotOpen) (\<lambda>_.
     andthen (ClaimBankTxn c t) (\<lambda>claimed.
     andthen (require (claimed \<noteq> 0) ErrTxnNotOpen) (\<lambda>_.
     andthen (attempt (RecordPayment e c i (midnight (bt_date txn)) (bt_account txn) (bt_amount txn))) (\<lambda>r.
     case r of
       Inl x \<Rightarrow> andthen (attempt (UnclaimBankTxn c t)) (\<lambda>_. fail x)
     | Inr ver \<Rightarrow>
         andthen (MarkBankTxnBooked c t (pg_uuid ver) (pg_uuid i)) (\<lambda>n.
         require (n \<noteq> 0) ErrTxnNotOpen)))))))"

definition bank_lines :: "bank_row \<Rightarrow> string \<Rightarrow> line list" where
  "bank_lines txn acct =
     (let amt = bt_amount txn in
      if 0 < sint amt then [debit_line (bt_account txn) amt, credit_line acct amt]
      else [debit_line acct (- amt), credit_line (bt_account txn) (- amt)])"

definition BookBankTxnToAccount :: "env \<Rightarrow> uuid \<Rightarrow> uuid \<Rightarrow> string \<Rightarrow> unit io" where
  "BookBankTxnToAccount e c t acct =
     andthen (GetBankTxn t) (\<lambda>txn.
     andthen (require (bt_company txn = c) ErrForeignCompany) (\<lambda>_.
     andthen (require (bt_status txn = Unmatched) ErrTxnNotOpen) (\<lambda>_.
     in_tx (
       andthen (post_verification e c bank_series (midnight (bt_date txn))
         (if bt_ref txn \<noteq> [] then ''Banktransaktion '' @ bt_ref txn else ''Banktransaktion'')
         (bank_lines txn acct) 0) (\<lambda>ver.
       andthen (MarkBankTxnBooked c t (pg_uuid ver) (pg_uuid 0)) (\<lambda>n.
       andthen (require (n \<noteq> 0) ErrTxnNotOpen) (\<lambda>_.
       log_audit e c ''book_bank_account'' ''verification'' (e_uuid_text e ver)
         (acct @ '' '' @ amount_string (bt_amount txn)))))))))"

definition IgnoreBankTxn :: "uuid \<Rightarrow> uuid \<Rightarrow> unit io" where
  "IgnoreBankTxn c t = andthen (MarkBankTxnIgnored c t) (\<lambda>n. require (n \<noteq> 0) ErrTxnNotOpen)"

section \<open>Soundness\<close>

lemma bank_sound:
  "keeps (sound e) (ImportBankStatement e c acct entries)"
  "keeps (sound e) (BookBankTxnToInvoice e c t i)"
  "keeps (sound e) (BookBankTxnToAccount e c t acct)"
  "keeps (sound e) (IgnoreBankTxn c t)"
  unfolding ImportBankStatement_def import_entry_def BookBankTxnToInvoice_def BookBankTxnToAccount_def
    IgnoreBankTxn_def Let_def
  by (rule sound_parts RecordPayment_sound | (rule sound_quiet; rule keeps_intros))+

section \<open>Importing a statement twice\<close>

definition has_fingerprint :: "uuid \<Rightarrow> string \<Rightarrow> db \<Rightarrow> bool" where
  "has_fingerprint c f s \<longleftrightarrow> list_ex (\<lambda>r. bt_company r = c \<and> bt_fingerprint r = f) (bank_txns s)"

text \<open>Imported rows stay: a program of the import keeps every fingerprint.\<close>

definition bank_grows :: "db \<Rightarrow> db \<Rightarrow> bool" where
  "bank_grows s t \<longleftrightarrow> (\<exists>rs. bank_txns t = bank_txns s @ rs)"

interpretation bank_grows: change bank_grows
  by unfold_locales (auto simp: bank_grows_def)

lemma draws_bank: "draws_only s t \<Longrightarrow> bank_txns t = bank_txns s"
  by (auto simp: draws_only_def)

lemma enc_field_draws: "keeps draws_only (enc_field e dek v)"
  unfolding enc_field_def by (rule draws.keeps_rules keeps_intros)+

lemma enc_field_bank: "enc_field e dek v s = (r, s') \<Longrightarrow> bank_txns s' = bank_txns s"
  using enc_field_draws [of e dek v] unfolding keeps_def by (metis draws_bank snd_conv)

lemma import_entry_ok:
  assumes "import_entry e c dek acct b s = (Inr u, s')"
  shows "bank_grows s s'" "be_date b = zero_time \<or> has_fingerprint c (bank_fingerprint e b) s'"
    "be_date b = zero_time \<or> has_fingerprint c (bank_fingerprint e b) s \<Longrightarrow> bank_txns s' = bank_txns s"
proof -
  have "bank_grows s s' \<and> (be_date b = zero_time \<or> has_fingerprint c (bank_fingerprint e b) s') \<and>
      (be_date b = zero_time \<or> has_fingerprint c (bank_fingerprint e b) s \<longrightarrow> bank_txns s' = bank_txns s)"
  proof (cases "be_date b = zero_time")
    case True
    with assms show ?thesis by (simp add: import_entry_def bank_grows.change_refl)
  next
    case False
    with assms obtain tx s1 where enc: "enc_field e dek (be_text b) s = (Inr tx, s1)"
      and put: "InsertBankTxn \<lparr>bt_id = 0, bt_company = c, bt_date = date_of (be_date b), bt_amount = be_amount b,
          bt_text_enc = tx, bt_ref = be_ref b, bt_account = acct, bt_fingerprint = bank_fingerprint e b,
          bt_status = Unmatched, bt_invoice = None, bt_verification = None, bt_created = e_now e\<rparr> s1 = (Inr u, s')"
      by (auto simp: import_entry_def andthen_ok)
    have "bank_txns s1 = bank_txns s" by (rule enc_field_bank [OF enc])
    with put show ?thesis
      by (auto simp: InsertBankTxn_def has_fingerprint_def bank_grows_def False split: if_splits)
  qed
  then show "bank_grows s s'" "be_date b = zero_time \<or> has_fingerprint c (bank_fingerprint e b) s'"
    "be_date b = zero_time \<or> has_fingerprint c (bank_fingerprint e b) s \<Longrightarrow> bank_txns s' = bank_txns s"
    by blast+
qed

lemma has_fingerprint_grows: "bank_grows s t \<Longrightarrow> has_fingerprint c f s \<Longrightarrow> has_fingerprint c f t"
  by (auto simp: bank_grows_def has_fingerprint_def)

lemma each_import:
  "each (import_entry e c dek acct) bs s = (Inr u, s') \<Longrightarrow>
     bank_grows s s' \<and> (\<forall>b \<in> set bs. be_date b = zero_time \<or> has_fingerprint c (bank_fingerprint e b) s')"
proof (induction bs arbitrary: s)
  case Nil
  then show ?case by (simp add: bank_grows.change_refl)
next
  case (Cons b bs)
  then obtain s1 where one: "import_entry e c dek acct b s = (Inr (), s1)"
    and rest: "each (import_entry e c dek acct) bs s1 = (Inr u, s')"
    by (auto simp: andthen_ok)
  have "bank_grows s s'"
    using bank_grows.change_trans import_entry_ok(1) [OF one] Cons.IH [OF rest] by blast
  moreover have "be_date b = zero_time \<or> has_fingerprint c (bank_fingerprint e b) s'"
    using import_entry_ok(2) [OF one] Cons.IH [OF rest] has_fingerprint_grows by blast
  ultimately show ?case using Cons.IH [OF rest] by simp
qed

lemma each_import_again:
  "each (import_entry e c dek acct) bs s = (Inr u, s') \<Longrightarrow>
     \<forall>b \<in> set bs. be_date b = zero_time \<or> has_fingerprint c (bank_fingerprint e b) s \<Longrightarrow>
     bank_txns s' = bank_txns s"
proof (induction bs arbitrary: s)
  case (Cons b bs)
  then obtain s1 where one: "import_entry e c dek acct b s = (Inr (), s1)"
    and rest: "each (import_entry e c dek acct) bs s1 = (Inr u, s')"
    by (auto simp: andthen_ok)
  have eq: "bank_txns s1 = bank_txns s" using import_entry_ok(3) [OF one] Cons.prems(2) by simp
  then have "\<forall>b \<in> set bs. be_date b = zero_time \<or> has_fingerprint c (bank_fingerprint e b) s1"
    using Cons.prems(2) by (simp add: has_fingerprint_def)
  from Cons.IH [OF rest this] eq show ?case by simp
qed simp

lemma log_audit_bank: "log_audit e c a tt ti d s = (r, s') \<Longrightarrow> bank_txns s' = bank_txns s"
  using log_audit_result [of e c a tt ti d s s'] log_audit_error [of e c a tt ti d s _ s'] by (cases r) auto

lemma ImportBankStatement_ok:
  assumes "ImportBankStatement e c acct entries s = (Inr n, s')"
  obtains dek s1 u where "company_dek e c s = (Inr dek, s)"
    "each (import_entry e c dek (if acct = [] then ''1930'' else acct)) entries s = (Inr u, s1)"
    "bank_txns s' = bank_txns s1"
    "n = int (length (filter (\<lambda>r. bt_company r = c) (bank_txns s1))) -
         int (length (filter (\<lambda>r. bt_company r = c) (bank_txns s)))"
proof -
  let ?a = "if acct = [] then ''1930'' else acct"
  from assms obtain dek s0 u s1 where dek: "company_dek e c s = (Inr dek, s0)"
    and run: "each (import_entry e c dek ?a) entries s0 = (Inr u, s1)"
    and n: "n = int (length (filter (\<lambda>r. bt_company r = c) (bank_txns s1))) -
         int (length (filter (\<lambda>r. bt_company r = c) (bank_txns s0)))"
    and tail: "s' = s1 \<or> (\<exists>r d. log_audit e c ''import_bank_statement'' ''bank'' (e_uuid_text e c) d s1 = (r, s'))"
    unfolding ImportBankStatement_def Let_def andthen_ok
    by (auto simp: ListBankTxns_def attempt_def andthen_ok split: if_splits prod.splits)
  have "s0 = s" using dek by (auto simp: company_dek_def andthen_ok GetCompany_def fetch_ok split: sum.splits)
  moreover have "bank_txns s' = bank_txns s1" using tail log_audit_bank by auto
  ultimately show thesis using that dek run n by blast
qed

end
