(* ===== verification/Store_Document.thy ===== *)
theory Store_Document
  imports Store_Bank
begin

text \<open>
  Receipts and retention (\<open>internal/store/store_document.go\<close>, \<open>store_sweep.go\<close>): encrypted documents, the
  start-up migration of legacy cleartext, anonymization of what need not be retained, and the
  periodic sweep. The ticker that repeats the sweep is not modelled.
\<close>

section \<open>Documents\<close>

record document_meta =
  dm_id :: uuid
  dm_filename :: string
  dm_mime :: string
  dm_size :: int
  dm_note :: string
  dm_attached :: bool
  dm_created :: gotime

record document_file =
  df_filename :: string
  df_mime :: string
  df_content :: string

definition SaveDocument :: "env \<Rightarrow> uuid \<Rightarrow> string \<Rightarrow> string \<Rightarrow> string \<Rightarrow> string \<Rightarrow> uuid io" where
  "SaveDocument e c filename mime content note =
     andthen (require (content \<noteq> []) (OtherErr ''store: empty document'')) (\<lambda>_.
     andthen (company_dek e c) (\<lambda>dek.
     andthen (encrypt_bytes e dek content) (\<lambda>blob.
     andthen (enc_field e dek filename) (\<lambda>fenc.
     andthen (enc_field e dek note) (\<lambda>nenc.
     andthen (InsertDocument \<lparr>dc_id = 0, dc_company = c, dc_mime = mime, dc_size = int (length content),
        dc_content = blob, dc_sha = hex_encode (sha256 e content), dc_filename_enc = fenc, dc_note_enc = nenc,
        dc_filename = [], dc_note = [], dc_supplier = None, dc_verification = None, dc_created = e_now e\<rparr>) (\<lambda>i.
     andthen (log_audit e c ''upload_document'' ''document'' (e_uuid_text e i) mime) (\<lambda>_.
     ret i)))))))"

definition GetDocumentContent :: "env \<Rightarrow> uuid \<Rightarrow> uuid \<Rightarrow> document_file io" where
  "GetDocumentContent e c i =
     andthen (q_GetDocumentContent i) (\<lambda>row.
     andthen (require (dc_company row = c) ErrForeignCompany) (\<lambda>_.
     andthen (company_dek e c) (\<lambda>dek.
     andthen (reads (\<lambda>_. decrypt_bytes e dek (dc_content row))) (\<lambda>plain.
     ret \<lparr>df_filename = dec_blank e dek (dc_filename_enc row), df_mime = dc_mime row, df_content = plain\<rparr>))))"

definition meta_of :: "env \<Rightarrow> string \<Rightarrow> bool \<Rightarrow> document_row \<Rightarrow> document_meta" where
  "meta_of e dek attached r =
     \<lparr>dm_id = dc_id r, dm_filename = dec_blank e dek (dc_filename_enc r), dm_mime = dc_mime r,
      dm_size = dc_size r, dm_note = dec_blank e dek (dc_note_enc r), dm_attached = attached,
      dm_created = dc_created r\<rparr>"

definition ListDocuments :: "env \<Rightarrow> uuid \<Rightarrow> document_meta list io" where
  "ListDocuments e c =
     andthen (ListDocumentMeta c) (\<lambda>rows.
     andthen (company_dek e c) (\<lambda>dek.
     ret (map (\<lambda>r. meta_of e dek (dc_supplier r \<noteq> None) r) rows)))"

definition ListDocumentsForSupplier :: "env \<Rightarrow> uuid \<Rightarrow> uuid \<Rightarrow> document_meta list io" where
  "ListDocumentsForSupplier e c i =
     andthen (q_ListDocumentsForSupplier c (pg_uuid i)) (\<lambda>rows.
     andthen (company_dek e c) (\<lambda>dek.
     ret (map (meta_of e dek True) rows)))"

definition AttachDocumentToSupplier :: "env \<Rightarrow> uuid \<Rightarrow> uuid \<Rightarrow> uuid \<Rightarrow> unit io" where
  "AttachDocumentToSupplier e c i su =
     andthen (q_AttachDocumentToSupplier c i (pg_uuid su)) (\<lambda>n.
     andthen (require (n \<noteq> 0) ErrForeignCompany) (\<lambda>_.
     log_audit e c ''attach_document'' ''supplier_invoice'' (e_uuid_text e su) (e_uuid_text e i)))"

definition DeleteDocument :: "env \<Rightarrow> uuid \<Rightarrow> uuid \<Rightarrow> unit io" where
  "DeleteDocument e c i =
     andthen (q_DeleteDocument c i) (\<lambda>n.
     andthen (require (n \<noteq> 0) ErrDocumentAttached) (\<lambda>_.
     log_audit e c ''delete_document'' ''document'' (e_uuid_text e i) []))"

section \<open>The migration of legacy cleartext\<close>

text \<open>
  \<open>backfillDocumentPIIRows\<close>: the keys found so far, the companies given up, the two counters and the
  error that stops the loop. \<open>dek_for\<close> and \<open>store\<close> are the two functions the loop is given.
\<close>

record backfill =
  bf_deks :: "(uuid \<times> string) list"
  bf_unusable :: "uuid list"
  bf_migrated :: nat
  bf_skipped :: nat

definition migrate_row ::
  "env \<Rightarrow> (uuid \<Rightarrow> string \<Rightarrow> string \<Rightarrow> unit io) \<Rightarrow> string \<Rightarrow> document_row \<Rightarrow> unit io" where
  "migrate_row e store dek r =
     andthen (enc_field e dek (dc_filename r)) (\<lambda>fenc.
     andthen (enc_field e dek (dc_note r)) (\<lambda>nenc.
     store (dc_id r) fenc nenc))"

fun backfill_rows ::
  "env \<Rightarrow> (uuid \<Rightarrow> string io) \<Rightarrow> (uuid \<Rightarrow> string \<Rightarrow> string \<Rightarrow> unit io) \<Rightarrow> document_row list \<Rightarrow> backfill \<Rightarrow>
     (backfill \<times> err option) io" where
  "backfill_rows e dek_for store [] b = ret (b, None)"
| "backfill_rows e dek_for store (r # rs) b =
     (let migrate = (\<lambda>dek b.
        andthen (attempt (migrate_row e store dek r)) (\<lambda>res.
        case res of Inl x \<Rightarrow> ret (b, Some x)
        | Inr _ \<Rightarrow> backfill_rows e dek_for store rs (b\<lparr>bf_migrated := Suc (bf_migrated b)\<rparr>))) in
      if dc_company r \<in> set (bf_unusable b) then
        backfill_rows e dek_for store rs (b\<lparr>bf_skipped := Suc (bf_skipped b)\<rparr>)
      else case map_of (bf_deks b) (dc_company r) of
        Some dek \<Rightarrow> migrate dek b
      | None \<Rightarrow>
          andthen (attempt (dek_for (dc_company r))) (\<lambda>d.
          case d of
            Inl x \<Rightarrow>
              if x \<noteq> ErrDEKUnusable then ret (b, Some x)
              else backfill_rows e dek_for store rs
                (b\<lparr>bf_unusable := dc_company r # bf_unusable b, bf_skipped := Suc (bf_skipped b)\<rparr>)
          | Inr dek \<Rightarrow> migrate dek (b\<lparr>bf_deks := (dc_company r, dek) # bf_deks b\<rparr>)))"

definition BackfillDocumentPII :: "env \<Rightarrow> (nat \<times> nat \<times> err option) io" where
  "BackfillDocumentPII e =
     andthen ListDocumentsForPIIBackfill (\<lambda>rows.
     andthen (backfill_rows e (company_dek e) SetDocumentPIIEnc rows
       \<lparr>bf_deks = [], bf_unusable = [], bf_migrated = 0, bf_skipped = 0\<rparr>) (\<lambda>(b, x).
     ret (bf_migrated b, bf_skipped b, x)))"

section \<open>Retention\<close>

definition prev_day :: "date \<Rightarrow> date" where
  "prev_day d =
     (if 1 < mday d then Date (year d) (month d) (mday d - 1)
      else if 1 < month d then Date (year d) (month d - 1) (days_in (year d) (month d - 1))
      else Date (year d - 1) 12 31)"

text \<open>\<open>t.Add(-n * 24 * time.Hour)\<close> in UTC.\<close>

definition days_before :: "nat \<Rightarrow> gotime \<Rightarrow> gotime" where
  "days_before n t = At ((prev_day ^^ n) (date_of t)) (nanos t)"

definition shield_token_ttl_days :: nat where
  "shield_token_ttl_days = 1"

definition non_retained_window_days :: nat where
  "non_retained_window_days = 365"

definition AnonymizeNonRetainedPII :: "env \<Rightarrow> uuid \<Rightarrow> gotime \<Rightarrow> (nat \<times> nat) io" where
  "AnonymizeNonRetainedPII e c cutoff =
     andthen (AnonymizeNonRetainedBankTxns c cutoff) (\<lambda>banks.
     andthen (AnonymizeOrphanDocuments c cutoff) (\<lambda>docs.
     andthen (if 0 < banks \<or> 0 < docs
              then log_audit e c ''anonymize_non_retained_pii'' ''company'' (e_uuid_text e c)
                (''bank_lines='' @ fmt_int (int banks) @ '' documents='' @ fmt_int (int docs))
              else ret ()) (\<lambda>_.
     ret (banks, docs))))"

definition Sweep :: "env \<Rightarrow> (nat \<times> nat) io" where
  "Sweep e =
     andthen (DeleteExpiredSessions (e_now e)) (\<lambda>n.
     andthen (DeleteOldShieldTokens (days_before shield_token_ttl_days (e_now e))) (\<lambda>m.
     ret (n, m)))"

definition anonymize_companies :: "env \<Rightarrow> unit io" where
  "anonymize_companies e =
     andthen ListCompanies (\<lambda>cs.
     each (\<lambda>co. andthen (attempt (AnonymizeNonRetainedPII e (co_id co)
       (days_before non_retained_window_days (e_now e)))) (\<lambda>_. ret ())) cs)"

text \<open>One run of \<open>StartSweeper\<close>.\<close>

definition sweep_run :: "env \<Rightarrow> unit io" where
  "sweep_run e = andthen (attempt (Sweep e)) (\<lambda>_. anonymize_companies e)"

section \<open>Soundness\<close>

lemma SaveDocument_sound: "keeps (sound e) (SaveDocument e c f m cont n)"
  unfolding SaveDocument_def
  by (rule sound_parts | (rule sound_draws, rule keeps_intros) | (rule sound_quiet; rule keeps_intros))+

lemma migrate_row_sound: "(\<And>i f n. keeps (sound e) (store i f n)) \<Longrightarrow> keeps (sound e) (migrate_row e store dek r)"
  unfolding migrate_row_def by (rule sound_parts | assumption)+

lemma backfill_rows_sound:
  assumes "\<And>i f n. keeps (sound e) (store i f n)" and "\<And>c. keeps (sound e) (dek_for c)"
  shows "keeps (sound e) (backfill_rows e dek_for store rs b)"
proof (induction rs arbitrary: b)
  case Nil
  show ?case unfolding backfill_rows.simps by (rule sound.keeps_pure)
next
  case (Cons r rs)
  show ?case
    unfolding backfill_rows.simps Let_def
    by (rule sound_parts migrate_row_sound assms Cons.IH)+
qed

lemma SetDocumentPIIEnc_sound: "keeps (sound e) (SetDocumentPIIEnc i f n)"
  by (rule sound_quiet; rule keeps_intros)

lemma AnonymizeNonRetainedPII_sound: "keeps (sound e) (AnonymizeNonRetainedPII e c cutoff)"
  unfolding AnonymizeNonRetainedPII_def by (rule sound_parts | (rule sound_quiet; rule keeps_intros))+

lemma document_sound:
  "keeps (sound e) (SaveDocument e c f m cont n)"
  "keeps (sound e) (AttachDocumentToSupplier e c i su)"
  "keeps (sound e) (DeleteDocument e c i)"
  "keeps (sound e) (BackfillDocumentPII e)"
  "keeps (sound e) (sweep_run e)"
proof -
  show "keeps (sound e) (SaveDocument e c f m cont n)" by (rule SaveDocument_sound)
  show "keeps (sound e) (AttachDocumentToSupplier e c i su)" "keeps (sound e) (DeleteDocument e c i)"
    unfolding AttachDocumentToSupplier_def DeleteDocument_def
    by (rule sound_parts | (rule sound_quiet; rule keeps_intros))+
  show "keeps (sound e) (BackfillDocumentPII e)"
    unfolding BackfillDocumentPII_def
    by (rule sound_parts backfill_rows_sound SetDocumentPIIEnc_sound)+
  show "keeps (sound e) (sweep_run e)"
    unfolding sweep_run_def Sweep_def anonymize_companies_def
    by (rule sound_parts AnonymizeNonRetainedPII_sound | (rule sound_quiet; rule keeps_intros))+
qed

end
