(* ===== verification/Sie.thy ===== *)
theory Sie
  imports Go_Time Ledger
begin

text \<open>
  The SIE type 4 writer and reader (\<open>internal/sie\<close>). The CP437 codec of golang.org/x/text is an argument:
  \<open>enc\<close> encodes or fails on a rune without a code, \<open>dec\<close> decodes. The lines of a file are built as a
  list and parsed as a fold over token lists, as the code does with its builder and scanner.
\<close>

section \<open>Data\<close>

record sie_account =
  sa_number :: string
  sa_name :: string

record sie_line =
  sl_account :: string
  sl_amount :: int64
  sl_text :: string

record voucher =
  vo_series :: string
  vo_number :: int
  vo_date :: gotime
  vo_text :: string
  vo_lines :: "sie_line list"

record sie_balance =
  sb_account :: string
  sb_amount :: int64

record sie_export =
  ex_company :: string
  ex_orgnr :: string
  ex_start :: gotime
  ex_end :: gotime
  ex_generated :: gotime
  ex_accounts :: "sie_account list"
  ex_vouchers :: "voucher list"
  ex_opening :: "sie_balance list"
  ex_closing :: "sie_balance list"
  ex_results :: "sie_balance list"

definition empty_export :: sie_export where
  "empty_export = \<lparr>ex_company = [], ex_orgnr = [], ex_start = zero_time, ex_end = zero_time,
     ex_generated = zero_time, ex_accounts = [], ex_vouchers = [], ex_opening = [], ex_closing = [],
     ex_results = []\<rparr>"

datatype sie_error = VoucherUnbalanced string int int64 | EncodeFailed

section \<open>Writing\<close>

definition voucher_sum :: "voucher \<Rightarrow> int64" where
  "voucher_sum v = foldl (\<lambda>t l. t + sl_amount l) 0 (vo_lines v)"

text \<open>\<open>Balances\<close>: the first voucher that does not sum to zero.\<close>

definition sie_balances :: "sie_export \<Rightarrow> sie_error option" where
  "sie_balances e = map_option (\<lambda>v. VoucherUnbalanced (vo_series v) (vo_number v) (voucher_sum v))
     (find (\<lambda>v. voucher_sum v \<noteq> 0) (ex_vouchers e))"

definition control_char :: "char \<Rightarrow> bool" where
  "control_char c \<longleftrightarrow> byte c < 0x20 \<or> byte c = 0x7F"

definition escape :: "string \<Rightarrow> string" where
  "escape s = concat (map (\<lambda>c. if c = CHR 0x22 then [CHR 0x5C, CHR 0x22] else [c]) s)"

definition quote :: "string \<Rightarrow> string" where
  "quote s = CHR 0x22 # escape (map (\<lambda>c. if control_char c then CHR '' '' else c) s) @ [CHR 0x22]"

definition ver_series :: "string \<Rightarrow> string" where
  "ver_series s = (if s = [] then [CHR 0x22, CHR 0x22] else s)"

definition ymd :: "gotime \<Rightarrow> string" where
  "ymd t = format_date compact_layout (date_of t)"

definition sie_amount :: "int64 \<Rightarrow> string" where
  "sie_amount ore =
     (let sign = (if sint ore < 0 then ''-'' else []); ore = (if sint ore < 0 then - ore else ore)
      in sign @ fmt_int (sint (go_div ore 100)) @ ''.'' @ fmt_pad 2 (sint (go_mod ore 100)))"

definition trans_line :: "gotime \<Rightarrow> sie_line \<Rightarrow> string" where
  "trans_line d l =
     (if sl_text l = [] then ''#TRANS '' @ sl_account l @ '' {} '' @ sie_amount (sl_amount l)
      else ''#TRANS '' @ sl_account l @ '' {} '' @ sie_amount (sl_amount l) @ '' '' @ ymd d @ '' '' @ quote (sl_text l))"

definition voucher_lines :: "voucher \<Rightarrow> string list" where
  "voucher_lines v =
     (''#VER '' @ ver_series (vo_series v) @ '' '' @ fmt_int (vo_number v) @ '' '' @ ymd (vo_date v) @ '' '' @
        quote (vo_text v))
     # ''{'' # map (trans_line (vo_date v)) (vo_lines v) @ [''}'']"

definition konto_line :: "sie_account \<Rightarrow> string" where
  "konto_line a = ''#KONTO '' @ sa_number a @ '' '' @ quote (sa_name a)"

definition balance_line :: "string \<Rightarrow> sie_balance \<Rightarrow> string" where
  "balance_line tag b = tag @ '' 0 '' @ sb_account b @ '' '' @ sie_amount (sb_amount b)"

definition header_lines :: "sie_export \<Rightarrow> string list" where
  "header_lines e =
     [''#FLAGGA 0'', ''#PROGRAM '' @ quote ''Pare'' @ '' '' @ quote ''0.1'', ''#FORMAT PC8'',
      ''#GEN '' @ ymd (ex_generated e), ''#SIETYP 4'', ''#ORGNR '' @ ex_orgnr e,
      ''#FNAMN '' @ quote (ex_company e), ''#RAR 0 '' @ ymd (ex_start e) @ '' '' @ ymd (ex_end e),
      ''#KPTYP EUBAS97'', ''#VALUTA SEK'']"

definition sie_lines :: "sie_export \<Rightarrow> string list" where
  "sie_lines e = header_lines e @ map konto_line (ex_accounts e) @
     map (balance_line ''#IB'') (ex_opening e) @ map (balance_line ''#UB'') (ex_closing e) @
     map (balance_line ''#RES'') (ex_results e) @ concat (map voucher_lines (ex_vouchers e))"

definition sie_write :: "(string \<Rightarrow> string option) \<Rightarrow> sie_export \<Rightarrow> sie_error + string" where
  "sie_write enc e =
     (case sie_balances e of
        Some x \<Rightarrow> Inl x
      | None \<Rightarrow> (case enc (concat (map (\<lambda>l. l @ [CHR 0x0A]) (sie_lines e))) of
          None \<Rightarrow> Inl EncodeFailed | Some out \<Rightarrow> Inr out))"

section \<open>Reading\<close>

fun read_quoted :: "string \<Rightarrow> string \<times> string" where
  "read_quoted [] = ([], [])"
| "read_quoted (c # s) =
     (if c = CHR 0x5C \<and> s \<noteq> [] \<and> hd s = CHR 0x22 then let (t, r) = read_quoted (tl s) in (CHR 0x22 # t, r)
      else if c = CHR 0x22 then ([], s)
      else let (t, r) = read_quoted s in (c # t, r))"

fun read_braces :: "int \<Rightarrow> string \<Rightarrow> string \<times> string" where
  "read_braces d [] = ([], [])"
| "read_braces d (c # s) =
     (let d' = (if c = CHR ''{'' then d + 1 else if c = CHR ''}'' then d - 1 else d) in
      if c = CHR ''}'' \<and> d' = 0 then ([c], s)
      else let (t, r) = read_braces d' s in (c # t, r))"

definition blank :: "char \<Rightarrow> bool" where
  "blank c \<longleftrightarrow> c = CHR '' '' \<or> c = CHR 0x09"

lemma read_quoted_length: "length (snd (read_quoted s)) \<le> length s"
proof (induction s rule: length_induct)
  case (1 s)
  show ?case
  proof (cases s)
    case (Cons c t)
    then have "length (tl t) < length s" "length t < length s" by simp_all
    with 1 have "length (snd (read_quoted (tl t))) \<le> length (tl t)" "length (snd (read_quoted t)) \<le> length t"
      by blast+
    with Cons show ?thesis by (auto simp: case_prod_unfold Let_def)
  qed simp
qed

lemma read_braces_length: "length (snd (read_braces d s)) \<le> length s"
  by (induction d s rule: read_braces.induct) (auto simp: case_prod_unfold Let_def le_SucI)

lemma read_quoted_less: "(q, r) = read_quoted t \<Longrightarrow> length r < Suc (length t)"
  using read_quoted_length [of t] by (metis le_imp_less_Suc snd_conv)

lemma read_braces_rest:
  "(q, r) = (case read_braces d t of (u, x) \<Rightarrow> (c # u, x)) \<Longrightarrow> length r < Suc (length t)"
  using read_braces_length [of d t] by (simp add: case_prod_unfold)

function tokenize :: "string \<Rightarrow> string list" where
  "tokenize s =
     (case s of [] \<Rightarrow> []
      | c # t \<Rightarrow>
          if blank c then tokenize t
          else if c = CHR 0x22 then let (q, r) = read_quoted t in q # tokenize r
          else if c = CHR ''{'' then let (q, r) = read_braces 0 s in q # tokenize r
          else takeWhile (\<lambda>x. \<not> blank x) s # tokenize (dropWhile (\<lambda>x. \<not> blank x) s))"
  by pat_completeness auto
termination
  by (relation "measure length")
    (auto dest: read_quoted_less read_braces_rest simp: less_Suc_eq_le length_dropWhile_le)

declare tokenize.simps [simp del]

definition parse_ymd :: "string \<Rightarrow> gotime" where
  "parse_ymd s = (case time_parse compact_layout s of None \<Rightarrow> zero_time | Some d \<Rightarrow> midnight d)"

definition trim_prefix :: "char \<Rightarrow> string \<Rightarrow> string" where
  "trim_prefix c s = (if s \<noteq> [] \<and> hd s = c then tl s else s)"

definition parse_sie_amount :: "string \<Rightarrow> int64" where
  "parse_sie_amount s0 =
     (let neg = has_prefix s0 ''-'';
          s = trim_prefix CHR ''+'' (trim_prefix CHR ''-'' s0);
          (whole, frac) = cut_on CHR ''.'' s;
          kr = word_of_int (fst (parse_int64 whole));
          ore = (if frac \<noteq> [] then word_of_int (fst (parse_int64 (take 2 (frac @ ''00'')))) else 0);
          v = kr * 100 + ore
      in if neg then - v else v)"

text \<open>One line: the export read so far and the voucher under construction.\<close>

definition parse_toks :: "string list \<Rightarrow> sie_export \<times> voucher option \<Rightarrow> sie_export \<times> voucher option" where
  "parse_toks toks st =
     (let (e, cur) = st; n = length toks in
      if toks = [] then st
      else if toks ! 0 = ''#FNAMN'' then (if 1 < n then (e\<lparr>ex_company := toks ! 1\<rparr>, cur) else st)
      else if toks ! 0 = ''#ORGNR'' then (if 1 < n then (e\<lparr>ex_orgnr := toks ! 1\<rparr>, cur) else st)
      else if toks ! 0 = ''#RAR'' then
        (if 3 < n \<and> toks ! 1 = ''0''
         then (e\<lparr>ex_start := parse_ymd (toks ! 2), ex_end := parse_ymd (toks ! 3)\<rparr>, cur) else st)
      else if toks ! 0 = ''#KONTO'' then
        (if 2 < n then (e\<lparr>ex_accounts := ex_accounts e @ [\<lparr>sa_number = toks ! 1, sa_name = toks ! 2\<rparr>]\<rparr>, cur) else st)
      else if toks ! 0 = ''#IB'' then
        (if 3 < n \<and> toks ! 1 = ''0''
         then (e\<lparr>ex_opening := ex_opening e @
           [\<lparr>sb_account = toks ! 2, sb_amount = parse_sie_amount (toks ! 3)\<rparr>]\<rparr>, cur) else st)
      else if toks ! 0 = ''#UB'' then
        (if 3 < n \<and> toks ! 1 = ''0''
         then (e\<lparr>ex_closing := ex_closing e @
           [\<lparr>sb_account = toks ! 2, sb_amount = parse_sie_amount (toks ! 3)\<rparr>]\<rparr>, cur) else st)
      else if toks ! 0 = ''#VER'' then
        (e, Some \<lparr>vo_series = (if 1 < n then toks ! 1 else []),
           vo_number = (if 2 < n then fst (parse_int64 (toks ! 2)) else 0),
           vo_date = (if 3 < n then parse_ymd (toks ! 3) else zero_time),
           vo_text = (if 4 < n then toks ! 4 else []), vo_lines = []\<rparr>)
      else if toks ! 0 = ''}'' then
        (case cur of None \<Rightarrow> st | Some v \<Rightarrow> (e\<lparr>ex_vouchers := ex_vouchers e @ [v]\<rparr>, None))
      else if toks ! 0 = ''#TRANS'' then
        (case cur of
           Some v \<Rightarrow>
             if 4 \<le> n then (e, Some (v\<lparr>vo_lines := vo_lines v @
               [\<lparr>sl_account = toks ! 1, sl_amount = parse_sie_amount (toks ! 3),
                 sl_text = (if 6 \<le> n then toks ! 5 else [])\<rparr>]\<rparr>))
             else st
         | None \<Rightarrow> st)
      else st)"

definition trim_cr :: "string \<Rightarrow> string" where
  "trim_cr l = rev (dropWhile (\<lambda>c. c = CHR 0x0D) (rev l))"

definition parse_line :: "sie_export \<times> voucher option \<Rightarrow> string \<Rightarrow> sie_export \<times> voucher option" where
  "parse_line st l = parse_toks (tokenize (trim_cr l)) st"

definition sie_parse :: "(string \<Rightarrow> string) \<Rightarrow> string \<Rightarrow> sie_export" where
  "sie_parse dec input = fst (foldl parse_line (empty_export, None) (scan_lines (dec input)))"

end
