(* ===== verification/Sie_Laws.thy ===== *)
theory Sie_Laws
  imports Sie
begin

text \<open>
  What the SIE writer produces the SIE reader reads back: token by token, line by line, and as a whole
  file over any codec that decodes what it encoded.
\<close>

section \<open>Tokens\<close>

text \<open>A field that is written without quotes, and a text that is written with them.\<close>

definition plain :: "string \<Rightarrow> bool" where
  "plain s \<longleftrightarrow> s \<noteq> [] \<and> visible s \<and> hd s \<noteq> CHR 0x22 \<and> hd s \<noteq> CHR ''{''"

definition clean_text :: "string \<Rightarrow> bool" where
  "clean_text s \<longleftrightarrow> \<not> list_ex control_char s \<and> (s = [] \<or> last s \<noteq> CHR 0x5C)"

lemma tokenize_blank [simp]: "tokenize [] = []" "tokenize (CHR '' '' # s) = tokenize s"
  by (simp_all add: tokenize.simps [of "[]"] tokenize.simps [of "CHR '' '' # s"] blank_def)

lemma visible_not_blank: "visible w \<Longrightarrow> c \<in> set w \<Longrightarrow> \<not> blank c"
  by (auto simp: visible_def blank_def)

lemma takeWhile_word:
  assumes "visible w"
  shows "takeWhile (\<lambda>x. \<not> blank x) (w @ CHR '' '' # s) = w" "dropWhile (\<lambda>x. \<not> blank x) (w @ CHR '' '' # s) = CHR '' '' # s"
    "takeWhile (\<lambda>x. \<not> blank x) w = w" "dropWhile (\<lambda>x. \<not> blank x) w = []"
  using visible_not_blank [OF assms]
  by (simp_all add: takeWhile_append2 dropWhile_append2 takeWhile_eq_all_conv dropWhile_eq_Nil_conv blank_def)

lemma tokenize_word:
  assumes "plain w"
  shows "tokenize (w @ CHR '' '' # s) = w # tokenize s" "tokenize w = [w]"
proof -
  obtain c u where w: "w = c # u" using assms by (cases w) (auto simp: plain_def)
  have c: "\<not> blank c" "c \<noteq> CHR 0x22" "c \<noteq> CHR ''{''" "visible w"
    using assms visible_not_blank [of w c] by (auto simp: plain_def w)
  note t = takeWhile_word [OF c(4), unfolded w]
  show "tokenize (w @ CHR '' '' # s) = w # tokenize s"
    using c t by (simp add: w tokenize.simps [of "c # u @ CHR '' '' # s"])
  show "tokenize w = [w]"
    using c t(3,4) by (simp add: w tokenize.simps [of "c # u"] dropWhile_eq_Nil_conv [THEN iffD2])
qed

lemma escape_simps:
  "escape [] = []" "escape (c # s) = (if c = CHR 0x22 then [CHR 0x5C, CHR 0x22] else [c]) @ escape s"
  by (simp_all add: escape_def)

lemma read_quoted_escape:
  assumes "s = [] \<or> last s \<noteq> CHR 0x5C"
  shows "read_quoted (escape s @ CHR 0x22 # r) = (s, r)"
  using assms
proof (induction s)
  case Nil
  then show ?case by (simp add: escape_simps)
next
  case (Cons c s)
  then have IH: "read_quoted (escape s @ CHR 0x22 # r) = (s, r)" by (auto split: if_splits)
  show ?case
  proof (cases "c = CHR 0x22")
    case True
    with IH show ?thesis by (simp add: escape_simps)
  next
    case False
    have "c = CHR 0x5C \<Longrightarrow> hd (escape s @ CHR 0x22 # r) \<noteq> CHR 0x22"
      using Cons.prems by (cases s) (auto simp: escape_simps)
    with False IH show ?thesis by (auto simp: escape_simps)
  qed
qed

lemma clean_map:
  "clean_text s \<Longrightarrow> map (\<lambda>c. if control_char c then CHR '' '' else c) s = s"
  by (auto simp: clean_text_def list_ex_iff intro!: map_idI)

lemma tokenize_quote:
  assumes "clean_text s"
  shows "tokenize (quote s @ r) = s # tokenize r" "tokenize (quote s) = [s]"
proof -
  have q: "read_quoted (escape s @ CHR 0x22 # r) = (s, r)" for r
    using assms by (intro read_quoted_escape) (simp add: clean_text_def)
  have "tokenize (quote s @ r) = s # tokenize r" for r
    by (simp add: quote_def clean_map [OF assms] tokenize.simps [of "CHR 0x22 # x" for x] blank_def q)
  from this [of r] this [of "[]"] show "tokenize (quote s @ r) = s # tokenize r" "tokenize (quote s) = [s]"
    by simp_all
qed

lemma tokenize_object: "tokenize (''{} '' @ s) = ''{}'' # tokenize s" "tokenize ''{'' = [''{'']"
  by (simp_all add: tokenize.simps [of "CHR ''{'' # x" for x] blank_def)

section \<open>Values\<close>

lemma plain_digits: "all_digits s \<Longrightarrow> s \<noteq> [] \<Longrightarrow> plain s"
  using visible_digits [of s] digit_not_special [of "hd s"] by (cases s) (simp_all add: plain_def)

lemma sie_amount_parts:
  assumes "sint a \<noteq> min64"
  defines "v \<equiv> \<bar>sint a\<bar>"
  shows "sie_amount a = (if sint a < 0 then ''-'' else []) @ fmt_int (v div 100) @ CHR ''.'' # fmt_pad 2 (v mod 100)"
    "0 \<le> v div 100" "v div 100 \<le> max64" "v mod 100 < 10 ^ 2"
proof -
  let ?w = "if sint a < 0 then - a else a"
  have w: "sint ?w = v"
    using assms(1) sint64_bounds [of a] sint_minus64 [of a] by (auto simp: v_def in64_def)
  have s100: "sint (100 :: int64) = 100" by simp
  have "sint (go_div ?w 100) = v div 100" "sint (go_mod ?w 100) = v mod 100"
    using go_div_nonneg [of ?w 100] go_mod_nonneg [of ?w 100] unfolding w s100 by (simp_all add: v_def)
  then show "sie_amount a = (if sint a < 0 then ''-'' else []) @ fmt_int (v div 100) @ CHR ''.'' # fmt_pad 2 (v mod 100)"
    by (simp add: sie_amount_def Let_def)
  have "v \<le> max64" using assms(1) sint64_bounds [of a] by (auto simp: v_def)
  then show "0 \<le> v div 100" "v div 100 \<le> max64" "v mod 100 < 10 ^ 2"
    using zdiv_mono1 [of v max64 100] by (simp_all add: v_def pos_imp_zdiv_nonneg_iff)
qed

lemma fmt_int_digits: "0 \<le> k \<Longrightarrow> all_digits (fmt_int k) \<and> fmt_int k \<noteq> []"
  by (simp add: fmt_int_def del: fmt_nat.simps)

lemma plain_amount: "sint a \<noteq> min64 \<Longrightarrow> plain (sie_amount a)"
  using sie_amount_parts [of a] fmt_int_digits [of "\<bar>sint a\<bar> div 100"]
    plain_digits [of "fmt_int (\<bar>sint a\<bar> div 100)"]
  by (auto simp: plain_def)

lemma parse_sie_amount_amount:
  assumes "sint a \<noteq> min64"
  shows "parse_sie_amount (sie_amount a) = a"
proof -
  define v where "v = \<bar>sint a\<bar>"
  note p = sie_amount_parts [OF assms, folded v_def]
  let ?k = "fmt_int (v div 100)" and ?o = "fmt_pad 2 (v mod 100)"
  have kd: "all_digits ?k" "?k \<noteq> []" using fmt_int_digits [OF p(2)] by simp_all
  have m0: "0 \<le> v mod 100" by (simp add: v_def)
  have o2: "length ?o = 2" using length_fmt_pad [OF m0 p(4)] by simp
  then have o0: "?o \<noteq> []" by auto
  have t: "trim_prefix CHR ''+'' (trim_prefix CHR ''-'' (sie_amount a)) = ?k @ CHR ''.'' # ?o"
    "has_prefix (sie_amount a) ''-'' \<longleftrightarrow> sint a < 0"
    using kd digit_not_special [of "hd ?k"]
    by (cases ?k; auto simp: p(1) trim_prefix_def has_prefix_def)+
  have cut: "cut_on CHR ''.'' (?k @ CHR ''.'' # ?o) = (?k, ?o)"
    using all_digits_notin [OF kd(1), of "CHR ''.''"] by (simp add: is_digit_def)
  have "fst (parse_int64 ?k) = v div 100" "fst (parse_int64 ?o) = v mod 100"
    using p m0 parse_int64_fmt_int [of "v div 100"] parse_int64_fmt_pad [OF m0, of 2] by (simp_all add: in64_def)
  moreover have "take 2 (?o @ ''00'') = ?o" using o2 by simp
  ultimately have "parse_sie_amount (sie_amount a) =
      (let w = word_of_int (v div 100) * 100 + word_of_int (v mod 100) in if sint a < 0 then - w else w)"
    unfolding parse_sie_amount_def t Let_def cut prod.case using o0 by simp
  also have "word_of_int (v div 100) * 100 + word_of_int (v mod 100) = (word_of_int v :: int64)"
    by (metis div_mult_mod_eq of_int_add of_int_mult of_int_numeral)
  finally show ?thesis
    by (cases "sint a < 0") (simp_all add: v_def Let_def)
qed

lemma ymd_midnight:
  assumes "printable_date d"
  shows "parse_ymd (ymd (midnight d)) = midnight d" "plain (ymd (midnight d))"
proof -
  show "parse_ymd (ymd (midnight d)) = midnight d"
    by (simp add: parse_ymd_def ymd_def time_parse_compact [OF assms])
  note p = printable_parts [OF assms]
  have d: "all_digits (format_date compact_layout d)"
    using p(1) by (simp add: format_date_def compact_layout_def)
  moreover have "fmt_pad 4 (year d) \<noteq> []" using length_fmt_pad [OF p(1,2)] by auto
  then have "format_date compact_layout d \<noteq> []" by (simp add: format_date_def compact_layout_def)
  ultimately show "plain (ymd (midnight d))" by (simp add: ymd_def plain_digits)
qed

lemma plain_ymd: "printable_date (date_of t) \<Longrightarrow> plain (ymd t)"
  using ymd_midnight(2) [of "date_of t"] by (simp add: ymd_def)

section \<open>Lines\<close>

definition ok_account :: "sie_account \<Rightarrow> bool" where
  "ok_account a \<longleftrightarrow> plain (sa_number a) \<and> clean_text (sa_name a)"

definition ok_balance :: "sie_balance \<Rightarrow> bool" where
  "ok_balance b \<longleftrightarrow> plain (sb_account b) \<and> sint (sb_amount b) \<noteq> min64"

definition ok_line :: "sie_line \<Rightarrow> bool" where
  "ok_line l \<longleftrightarrow> plain (sl_account l) \<and> sint (sl_amount l) \<noteq> min64 \<and> clean_text (sl_text l)"

definition ok_time :: "gotime \<Rightarrow> bool" where
  "ok_time t \<longleftrightarrow> nanos t = 0 \<and> printable_date (date_of t)"

definition ok_voucher :: "voucher \<Rightarrow> bool" where
  "ok_voucher v \<longleftrightarrow> (vo_series v = [] \<or> plain (vo_series v)) \<and> in64 (vo_number v) \<and> ok_time (vo_date v) \<and>
     clean_text (vo_text v) \<and> list_all ok_line (vo_lines v)"

definition ok_export :: "sie_export \<Rightarrow> bool" where
  "ok_export e \<longleftrightarrow> clean_text (ex_company e) \<and> (ex_orgnr e = [] \<or> plain (ex_orgnr e)) \<and>
     ok_time (ex_start e) \<and> ok_time (ex_end e) \<and> printable_date (date_of (ex_generated e)) \<and>
     list_all ok_account (ex_accounts e) \<and> list_all ok_balance (ex_opening e) \<and>
     list_all ok_balance (ex_closing e) \<and> list_all ok_balance (ex_results e) \<and>
     list_all ok_voucher (ex_vouchers e)"

lemma ok_time_read: "ok_time t \<Longrightarrow> parse_ymd (ymd t) = t" "ok_time t \<Longrightarrow> plain (ymd t)"
  using ymd_midnight [of "date_of t"] by (cases t; simp add: ok_time_def ymd_def midnight_def)+

lemma plain_int: "plain (fmt_int k)"
proof (cases "k < 0")
  case True
  then show ?thesis using visible_digits [of "fmt_nat (nat (- k))"] by (simp add: fmt_int_def plain_def)
next
  case False
  then show ?thesis using fmt_int_digits [of k] by (intro plain_digits) simp_all
qed

lemma tags [simp]: "plain ''#KONTO''" "plain ''#IB''" "plain ''#UB''" "plain ''#RES''" "plain ''#VER''"
  "plain ''#TRANS''" "plain ''#ORGNR''" "plain ''#FNAMN''" "plain ''#RAR''" "plain ''#GEN''" "plain ''#PROGRAM''"
  "plain ''0''" "plain ''}''"
  by (simp_all add: plain_def)

lemma konto_tokens:
  "ok_account a \<Longrightarrow> tokenize (konto_line a) = [''#KONTO'', sa_number a, sa_name a]"
  using tokenize_word(1) [of "''#KONTO''" "sa_number a @ '' '' @ quote (sa_name a)"]
  by (simp add: ok_account_def konto_line_def tokenize_word tokenize_quote)

lemma balance_tokens:
  assumes "ok_balance b" and "plain tag"
  shows "tokenize (balance_line tag b) = [tag, ''0'', sb_account b, sie_amount (sb_amount b)]"
  using assms tokenize_word(1) [of tag "''0'' @ '' '' @ sb_account b @ '' '' @ sie_amount (sb_amount b)"]
    tokenize_word(1) [of "''0''" "sb_account b @ '' '' @ sie_amount (sb_amount b)"]
  by (simp add: ok_balance_def balance_line_def tokenize_word plain_amount)

lemma trans_tokens:
  assumes "ok_line l" and "ok_time d"
  shows "tokenize (trans_line d l) = [''#TRANS'', sl_account l, ''{}'', sie_amount (sl_amount l)] @
    (if sl_text l = [] then [] else [ymd d, sl_text l])"
  using assms ok_time_read [OF assms(2)]
    tokenize_word(1) [of "''#TRANS''" "sl_account l @ '' {} '' @ sie_amount (sl_amount l)"]
    tokenize_word(1) [of "''#TRANS''" "sl_account l @ '' {} '' @ sie_amount (sl_amount l) @ '' '' @ ymd d @ '' '' @ quote (sl_text l)"]
    tokenize_object(1) [of "sie_amount (sl_amount l)"]
    tokenize_object(1) [of "sie_amount (sl_amount l) @ '' '' @ ymd d @ '' '' @ quote (sl_text l)"]
  by (simp add: ok_line_def trans_line_def tokenize_word tokenize_quote plain_amount)

lemma ver_tokens:
  assumes "ok_voucher v"
  shows "tokenize (''#VER '' @ ver_series (vo_series v) @ '' '' @ fmt_int (vo_number v) @ '' '' @ ymd (vo_date v) @ '' '' @
      quote (vo_text v)) = [''#VER'', vo_series v, fmt_int (vo_number v), ymd (vo_date v), vo_text v]"
proof -
  let ?rest = "fmt_int (vo_number v) @ '' '' @ ymd (vo_date v) @ '' '' @ quote (vo_text v)"
  have r: "tokenize ?rest = [fmt_int (vo_number v), ymd (vo_date v), vo_text v]"
    using assms ok_time_read [of "vo_date v"] by (simp add: ok_voucher_def tokenize_word tokenize_quote plain_int)
  have s: "tokenize (ver_series (vo_series v) @ '' '' @ ?rest) = vo_series v # tokenize ?rest"
  proof (cases "vo_series v = []")
    case True
    then show ?thesis
      by (simp add: ver_series_def tokenize.simps [of "CHR 0x22 # x" for x] blank_def)
  next
    case False
    then show ?thesis using assms by (simp add: ver_series_def ok_voucher_def tokenize_word)
  qed
  show ?thesis
    using tokenize_word(1) [of "''#VER''" "ver_series (vo_series v) @ '' '' @ ?rest"] s r by simp
qed

text \<open>No line holds a line break, so the scanner gives the lines back.\<close>

definition one_line :: "string \<Rightarrow> bool" where
  "one_line l \<longleftrightarrow> CHR 0x0A \<notin> set l \<and> CHR 0x0D \<notin> set l"

lemma one_line_simps [simp]:
  "one_line []" "one_line (c # s) \<longleftrightarrow> c \<noteq> CHR 0x0A \<and> c \<noteq> CHR 0x0D \<and> one_line s"
  "one_line (s @ t) \<longleftrightarrow> one_line s \<and> one_line t"
  by (auto simp: one_line_def)

lemma one_line_visible [simp]: "visible s \<Longrightarrow> one_line s"
  by (auto simp: one_line_def visible_def)

lemma one_line_plain: "plain s \<Longrightarrow> one_line s"
  by (simp add: plain_def)

lemma one_line_quote [simp]: "one_line (quote s)"
proof -
  have "one_line (escape t)" if "\<forall>c \<in> set t. c \<noteq> CHR 0x0A \<and> c \<noteq> CHR 0x0D" for t
    using that by (induction t) (auto simp: escape_simps)
  moreover have "\<forall>c \<in> set (map (\<lambda>c. if control_char c then CHR '' '' else c) s). c \<noteq> CHR 0x0A \<and> c \<noteq> CHR 0x0D"
    by (auto simp: control_char_def)
  ultimately show ?thesis unfolding quote_def by simp
qed

lemma parse_line_one: "one_line l \<Longrightarrow> parse_line st l = parse_toks (tokenize l) st"
  by (cases l rule: rev_cases) (simp_all add: parse_line_def trim_cr_def)

section \<open>Files\<close>

lemma parse_konto:
  assumes "list_all ok_account as"
  shows "foldl parse_line (e, cur) (map konto_line as) = (e\<lparr>ex_accounts := ex_accounts e @ as\<rparr>, cur)"
  using assms
proof (induction as arbitrary: e)
  case (Cons a as)
  then have a: "ok_account a" by simp
  have "one_line (konto_line a)"
    using a by (simp add: konto_line_def ok_account_def plain_def)
  then have "parse_line (e, cur) (konto_line a) = (e\<lparr>ex_accounts := ex_accounts e @ [a]\<rparr>, cur)"
    by (simp add: parse_line_one konto_tokens [OF a] parse_toks_def)
  with Cons show ?case by simp
qed simp

lemma parse_balances:
  assumes "list_all ok_balance bs"
  shows "foldl parse_line (e, cur) (map (balance_line ''#IB'') bs) = (e\<lparr>ex_opening := ex_opening e @ bs\<rparr>, cur)"
    "foldl parse_line (e, cur) (map (balance_line ''#UB'') bs) = (e\<lparr>ex_closing := ex_closing e @ bs\<rparr>, cur)"
    "foldl parse_line (e, cur) (map (balance_line ''#RES'') bs) = (e, cur)"
proof -
  have one: "parse_line (e, cur) (balance_line tag b) = parse_toks [tag, ''0'', sb_account b, sie_amount (sb_amount b)] (e, cur)"
    if "ok_balance b" "plain tag" for b tag e
  proof -
    have "one_line (balance_line tag b)"
      using that plain_amount [of "sb_amount b"] by (simp add: balance_line_def ok_balance_def plain_def)
    then show "parse_line (e, cur) (balance_line tag b) = parse_toks [tag, ''0'', sb_account b, sie_amount (sb_amount b)] (e, cur)"
      by (simp add: parse_line_one balance_tokens [OF that])
  qed
  have amt: "parse_sie_amount (sie_amount (sb_amount b)) = sb_amount b" if "ok_balance b" for b
    using that by (simp add: ok_balance_def parse_sie_amount_amount)
  show "foldl parse_line (e, cur) (map (balance_line ''#IB'') bs) = (e\<lparr>ex_opening := ex_opening e @ bs\<rparr>, cur)"
    using assms by (induction bs arbitrary: e) (simp_all add: one amt parse_toks_def)
  show "foldl parse_line (e, cur) (map (balance_line ''#UB'') bs) = (e\<lparr>ex_closing := ex_closing e @ bs\<rparr>, cur)"
    using assms by (induction bs arbitrary: e) (simp_all add: one amt parse_toks_def)
  show "foldl parse_line (e, cur) (map (balance_line ''#RES'') bs) = (e, cur)"
    using assms by (induction bs arbitrary: e) (simp_all add: one amt parse_toks_def)
qed

lemma parse_trans:
  assumes "list_all ok_line ls" and "ok_time d"
  shows "foldl parse_line (e, Some v) (map (trans_line d) ls) = (e, Some (v\<lparr>vo_lines := vo_lines v @ ls\<rparr>))"
  using assms(1)
proof (induction ls arbitrary: v)
  case (Cons l ls)
  then have l: "ok_line l" by simp
  have "one_line (trans_line d l)"
    using l plain_amount [of "sl_amount l"] ok_time_read(2) [OF assms(2)]
    by (simp add: trans_line_def ok_line_def plain_def)
  moreover have "parse_sie_amount (sie_amount (sl_amount l)) = sl_amount l"
    using l by (simp add: ok_line_def parse_sie_amount_amount)
  ultimately have "parse_line (e, Some v) (trans_line d l) = (e, Some (v\<lparr>vo_lines := vo_lines v @ [l]\<rparr>))"
    by (auto simp: parse_line_one trans_tokens [OF l assms(2)] parse_toks_def)
  with Cons show ?case by simp
qed simp

lemma parse_voucher:
  assumes "ok_voucher v"
  shows "foldl parse_line (e, None) (voucher_lines v) = (e\<lparr>ex_vouchers := ex_vouchers e @ [v]\<rparr>, None)"
proof -
  let ?ver = "''#VER '' @ ver_series (vo_series v) @ '' '' @ fmt_int (vo_number v) @ '' '' @ ymd (vo_date v) @ '' '' @
      quote (vo_text v)"
  have d: "ok_time (vo_date v)" and ls: "list_all ok_line (vo_lines v)" and k: "in64 (vo_number v)"
    using assms by (simp_all add: ok_voucher_def)
  have "one_line ?ver"
    using assms ok_time_read(2) [OF d] by (auto simp: ok_voucher_def ver_series_def plain_def)
  then have "parse_line (e, None) ?ver = (e, Some (v\<lparr>vo_lines := []\<rparr>))"
    by (simp only: parse_line_one ver_tokens [OF assms])
      (simp add: parse_toks_def parse_int64_fmt_int [OF k] ok_time_read(1) [OF d])
  moreover have "parse_line (e, Some (v\<lparr>vo_lines := []\<rparr>)) ''{'' = (e, Some (v\<lparr>vo_lines := []\<rparr>))"
    by (simp add: parse_line_one tokenize_object parse_toks_def)
  moreover have "parse_line (e, Some v) ''}'' = (e\<lparr>ex_vouchers := ex_vouchers e @ [v]\<rparr>, None)"
    using tokenize_word(2) [of "''}''"] by (simp add: parse_line_one parse_toks_def)
  ultimately show ?thesis
    using parse_trans [OF ls d, of e "v\<lparr>vo_lines := []\<rparr>"] by (simp add: voucher_lines_def)
qed

lemma parse_vouchers:
  "list_all ok_voucher vs \<Longrightarrow>
     foldl parse_line (e, None) (concat (map voucher_lines vs)) = (e\<lparr>ex_vouchers := ex_vouchers e @ vs\<rparr>, None)"
  by (induction vs arbitrary: e) (simp_all add: parse_voucher)

lemma header_tokens:
  assumes "ok_export e"
  shows "tokenize (''#ORGNR '' @ ex_orgnr e) = (if ex_orgnr e = [] then [''#ORGNR''] else [''#ORGNR'', ex_orgnr e])"
    "tokenize (''#FNAMN '' @ quote (ex_company e)) = [''#FNAMN'', ex_company e]"
    "tokenize (''#RAR 0 '' @ ymd (ex_start e) @ '' '' @ ymd (ex_end e)) = [''#RAR'', ''0'', ymd (ex_start e), ymd (ex_end e)]"
    "tokenize (''#GEN '' @ ymd (ex_generated e)) = [''#GEN'', ymd (ex_generated e)]"
    "tokenize (''#PROGRAM '' @ quote ''Pare'' @ '' '' @ quote ''0.1'') = [''#PROGRAM'', ''Pare'', ''0.1'']"
  using assms ok_time_read(2) [of "ex_start e"] ok_time_read(2) [of "ex_end e"]
    tokenize_word(1) [of "''#ORGNR''" "ex_orgnr e"] tokenize_word(1) [of "''#FNAMN''" "quote (ex_company e)"]
    tokenize_word(1) [of "''#RAR''" "''0'' @ '' '' @ ymd (ex_start e) @ '' '' @ ymd (ex_end e)"]
    tokenize_word(1) [of "''0''" "ymd (ex_start e) @ '' '' @ ymd (ex_end e)"]
    tokenize_word(1) [of "''#GEN''" "ymd (ex_generated e)"] plain_ymd [of "ex_generated e"]
    tokenize_word(1) [of "''#PROGRAM''" "quote ''Pare'' @ '' '' @ quote ''0.1''"]
  by (auto simp: ok_export_def tokenize_word tokenize_quote clean_text_def control_char_def)

lemma fixed_tokens:
  "tokenize ''#FLAGGA 0'' = [''#FLAGGA'', ''0'']" "tokenize ''#FORMAT PC8'' = [''#FORMAT'', ''PC8'']"
  "tokenize ''#SIETYP 4'' = [''#SIETYP'', ''4'']" "tokenize ''#KPTYP EUBAS97'' = [''#KPTYP'', ''EUBAS97'']"
  "tokenize ''#VALUTA SEK'' = [''#VALUTA'', ''SEK'']"
  by code_simp+

lemma header_one_line: "ok_export e \<Longrightarrow> \<forall>l \<in> set (header_lines e). one_line l"
  using ok_time_read(2) [of "ex_start e"] ok_time_read(2) [of "ex_end e"] plain_ymd [of "ex_generated e"]
  by (auto simp: ok_export_def header_lines_def plain_def)

lemma parse_header:
  assumes "ok_export e"
  shows "foldl parse_line (empty_export, None) (header_lines e) =
    (empty_export\<lparr>ex_orgnr := ex_orgnr e, ex_company := ex_company e, ex_start := ex_start e, ex_end := ex_end e\<rparr>, None)"
proof -
  have step: "parse_line st l = parse_toks (tokenize l) st" if "l \<in> set (header_lines e)" for st l
    using header_one_line [OF assms] that by (intro parse_line_one) blast
  have fold: "foldl parse_line st ls = foldl (\<lambda>st l. parse_toks (tokenize l) st) st ls"
    if "set ls \<subseteq> set (header_lines e)" for ls st
    using that by (induction ls arbitrary: st) (simp_all add: step)
  have t: "parse_ymd (ymd (ex_start e)) = ex_start e" "parse_ymd (ymd (ex_end e)) = ex_end e"
    using assms ok_time_read(1) by (simp_all add: ok_export_def)
  have "map tokenize (header_lines e) =
      [[''#FLAGGA'', ''0''], [''#PROGRAM'', ''Pare'', ''0.1''], [''#FORMAT'', ''PC8''], [''#GEN'', ymd (ex_generated e)],
       [''#SIETYP'', ''4''], (if ex_orgnr e = [] then [''#ORGNR''] else [''#ORGNR'', ex_orgnr e]),
       [''#FNAMN'', ex_company e], [''#RAR'', ''0'', ymd (ex_start e), ymd (ex_end e)], [''#KPTYP'', ''EUBAS97''],
       [''#VALUTA'', ''SEK'']]"
    unfolding header_lines_def list.map header_tokens [OF assms] fixed_tokens ..
  moreover have "foldl (\<lambda>st l. parse_toks (tokenize l) st) st ls = foldl (\<lambda>st l. parse_toks l st) st (map tokenize ls)"
    for st ls by (induction ls arbitrary: st) simp_all
  ultimately show ?thesis
    unfolding fold [OF subset_refl] by (simp add: parse_toks_def empty_export_def t)
qed

lemma concat_voucher_one_line:
  assumes "ok_voucher v" and "l \<in> set (voucher_lines v)"
  shows "one_line l"
proof -
  have d: "one_line (ymd (vo_date v))" using assms(1) ok_time_read(2) by (simp add: ok_voucher_def plain_def)
  have s: "one_line (ver_series (vo_series v))" using assms(1) by (auto simp: ok_voucher_def ver_series_def plain_def)
  have t: "one_line (trans_line (vo_date v) x)" if "x \<in> set (vo_lines v)" for x
    using that assms(1) d plain_amount [of "sl_amount x"]
    by (auto simp: ok_voucher_def list_all_iff ok_line_def trans_line_def plain_def)
  show ?thesis using assms(2) d s t by (auto simp: voucher_lines_def)
qed

lemma sie_lines_one_line:
  assumes "ok_export e"
  shows "\<forall>l \<in> set (sie_lines e). one_line l"
proof -
  have "one_line (konto_line a)" if "ok_account a" for a
    using that by (simp add: ok_account_def konto_line_def plain_def)
  moreover have "one_line (balance_line tag b)" if "ok_balance b" "plain tag" for tag b
    using that plain_amount [of "sb_amount b"] by (simp add: ok_balance_def balance_line_def plain_def)
  moreover have "list_all ok_account (ex_accounts e)" "list_all ok_balance (ex_opening e)"
    "list_all ok_balance (ex_closing e)" "list_all ok_balance (ex_results e)" "list_all ok_voucher (ex_vouchers e)"
    using assms by (simp_all add: ok_export_def)
  ultimately show ?thesis
    using header_one_line [OF assms] concat_voucher_one_line
    unfolding sie_lines_def list_all_iff by fastforce
qed

lemma parse_sie_lines:
  assumes "ok_export e"
  shows "foldl parse_line (empty_export, None) (sie_lines e) = (e\<lparr>ex_generated := zero_time, ex_results := []\<rparr>, None)"
proof -
  have "list_all ok_account (ex_accounts e)" "list_all ok_balance (ex_opening e)"
    "list_all ok_balance (ex_closing e)" "list_all ok_balance (ex_results e)" "list_all ok_voucher (ex_vouchers e)"
    using assms by (simp_all add: ok_export_def)
  then show ?thesis
    by (simp add: sie_lines_def parse_header [OF assms] parse_konto parse_balances parse_vouchers)
      (simp add: empty_export_def)
qed

section \<open>Property\<close>


definition sample_export :: sie_export where
  "sample_export = \<lparr>ex_company = ''Demo AB'', ex_orgnr = ''556000-0000'', ex_start = At (Date 2026 1 1) 0,
     ex_end = At (Date 2026 12 31) 0, ex_generated = At (Date 2026 7 1) 0,
     ex_accounts = [\<lparr>sa_number = ''1930'', sa_name = ''Bank''\<rparr>],
     ex_vouchers = [\<lparr>vo_series = ''A'', vo_number = 1, vo_date = At (Date 2026 3 5) 0,
        vo_text = [CHR 0x22] @ ''Hyra'' @ [CHR 0x22], vo_lines = [\<lparr>sl_account = ''5010'', sl_amount = 1250, sl_text = ''mars''\<rparr>,
          \<lparr>sl_account = ''1930'', sl_amount = - 1250, sl_text = []\<rparr>]\<rparr>],
     ex_opening = [], ex_closing = [\<lparr>sb_account = ''1930'', sb_amount = - 1250\<rparr>],
     ex_results = [\<lparr>sb_account = ''5010'', sb_amount = 1250\<rparr>]\<rparr>"

lemma sample_export_ok: "ok_export sample_export"
  by (simp add: sample_export_def ok_export_def ok_account_def ok_balance_def ok_voucher_def ok_line_def
      ok_time_def clean_text_def control_char_def plain_def printable_date_def valid_date_def days_in_def
      in64_def)

lemma sample_export_written: "sie_write Some sample_export =
    Inr (concat (map (\<lambda>l. l @ [CHR 0x0A]) (sie_lines sample_export)))"
  by (simp add: sie_write_def sie_balances_def sample_export_def voucher_sum_def)


end
