(* ===== verification/Store_Sie.thy ===== *)
theory Store_Sie
  imports Store_Document Sie_Laws
begin

text \<open>
  SIE export and import of a company (\<open>ExportSIE\<close> in \<open>internal/store/store_invoice.go\<close>,
  \<open>store_sie_import.go\<close>), and what an import makes of the vouchers of a file.
\<close>

section \<open>Export\<close>

definition sie_line_of :: "vline_row \<Rightarrow> sie_line" where
  "sie_line_of r = \<lparr>sl_account = vl_account r, sl_amount = vl_debit r - vl_credit r, sl_text = []\<rparr>"

definition voucher_of :: "vline_row list \<Rightarrow> ver_row \<Rightarrow> voucher" where
  "voucher_of rows v = \<lparr>vo_series = v_series v, vo_number = v_number v, vo_date = midnight (v_date v),
     vo_text = v_description v,
     vo_lines = map sie_line_of (filter (\<lambda>r. vl_verification r = v_id v) rows)\<rparr>"

text \<open>The rows of a balance with a condition on the class; a failed query gives none.\<close>

definition sie_rows :: "(account_class \<Rightarrow> bool) \<Rightarrow> err + account_balance list \<Rightarrow> sie_balance list" where
  "sie_rows P r = (case r of Inl _ \<Rightarrow> []
     | Inr tb \<Rightarrow> map (\<lambda>b. \<lparr>sb_account = ab_account b, sb_amount = ab_net b\<rparr>)
         (filter (\<lambda>b. P (ab_class b) \<and> ab_net b \<noteq> 0) tb))"

definition ExportSIE :: "uuid \<Rightarrow> gotime \<Rightarrow> sie_export io" where
  "ExportSIE c generated =
     andthen (GetCompany c) (\<lambda>co.
     andthen (ListAccounts c) (\<lambda>accts.
     andthen (ListVerifications c) (\<lambda>vers.
     andthen (ListLinesForCompany c) (\<lambda>rows.
     let y = (case vers of [] \<Rightarrow> year (date_of generated) | v # _ \<Rightarrow> year (v_date v));
         d1 = midnight (Date y 1 1); d2 = midnight (Date y 12 31) in
     andthen (attempt (TrialBalanceAsOf c (days_before 1 d1))) (\<lambda>ib.
     andthen (attempt (TrialBalanceAsOf c d2)) (\<lambda>ub.
     andthen (attempt (TrialBalanceBetween c d1 d2)) (\<lambda>res.
     ret \<lparr>ex_company = co_name co, ex_orgnr = co_orgnr co, ex_start = d1, ex_end = d2,
          ex_generated = generated,
          ex_accounts = map (\<lambda>a. \<lparr>sa_number = ac_number a, sa_name = ac_name a\<rparr>) accts,
          ex_vouchers = map (voucher_of rows) vers,
          ex_opening = sie_rows is_balance ib, ex_closing = sie_rows is_balance ub,
          ex_results = sie_rows is_result res\<rparr>)))))))"

section \<open>Import\<close>

record sie_import_result =
  accounts_seeded :: nat
  opening_posted :: bool
  vouchers_posted :: nat

text \<open>The lines of the opening balance: rows of zero are left out. The lines of a voucher: none is.\<close>

definition opening_lines :: "sie_balance list \<Rightarrow> line list" where
  "opening_lines bs = concat (map (\<lambda>b.
     if 0 < sint (sb_amount b) then [debit_line (sb_account b) (sb_amount b)]
     else if sint (sb_amount b) < 0 then [credit_line (sb_account b) (- sb_amount b)] else []) bs)"

definition import_line :: "sie_line \<Rightarrow> line" where
  "import_line l = (if 0 \<le> sint (sl_amount l) then debit_line (sl_account l) (sl_amount l)
     else credit_line (sl_account l) (- sl_amount l))"

definition import_voucher :: "env \<Rightarrow> uuid \<Rightarrow> voucher \<Rightarrow> unit io" where
  "import_voucher e c v =
     andthen (post_verification e c (if vo_series v = [] then ''A'' else vo_series v) (vo_date v)
       (if vo_text v = [] then ''Import'' else vo_text v) (map import_line (vo_lines v)) 0) (\<lambda>_. ret ())"

definition ImportSIE :: "env \<Rightarrow> uuid \<Rightarrow> sie_export \<Rightarrow> sie_import_result io" where
  "ImportSIE e c x = in_tx (
     andthen (CountVerifications c) (\<lambda>n.
     andthen (require (n = 0) ErrLedgerNotEmpty) (\<lambda>_.
     andthen (each (\<lambda>a. UpsertAccount (chart_entry c (sa_number a) (sa_name a) [])) (ex_accounts x)) (\<lambda>_.
     let ib = opening_lines (ex_opening x) in
     andthen (if ib \<noteq> []
              then andthen (post_verification e c ''IB''
                (if ex_start x = zero_time then e_now e else ex_start x)
                (sv ''Ing}ende balans (import)'') ib 0) (\<lambda>_. ret ())
              else ret ()) (\<lambda>_.
     andthen (each (import_voucher e c) (ex_vouchers x)) (\<lambda>_.
     andthen (log_audit e c ''import_sie'' ''company'' (e_uuid_text e c)
       (fmt_int (int (length (ex_vouchers x))) @ '' verifikat, '' @
        fmt_int (int (length (ex_accounts x))) @ '' konton'')) (\<lambda>_.
     ret \<lparr>accounts_seeded = length (ex_accounts x), opening_posted = (ib \<noteq> []),
          vouchers_posted = length (ex_vouchers x)\<rparr>)))))))"

lemma sie_sound: "keeps (sound e) (ImportSIE e c x)"
  unfolding ImportSIE_def import_voucher_def Let_def
  by (rule sound_parts | (rule sound_quiet; rule keeps_intros))+

end
