(* ===== verification/Sample.thy ===== *)
theory Sample
  imports Crypto
begin

text \<open>
  A concrete environment, in which the parameters of the model are functions that compute: the identity
  as the cipher, a padded prefix as the digest, constant draws. It satisfies what is assumed of them and
  is where properties are applied to concrete data.
\<close>

definition sample_digest :: "string \<Rightarrow> string" where
  "sample_digest x = take 32 (x @ replicate 32 CHR ''.'')"

definition sample_env :: env where
  "sample_env = \<lparr>e_now = At (Date 2026 3 5) 43200000000000, e_actor_kind = ''user'', e_actor_detail = ''kim'',
     e_kek = replicate 32 CHR ''k'', e_uuid_text = fmt_nat, e_rand = (\<lambda>n i. replicate n CHR ''r''),
     gcm_seal = (\<lambda>k n p. p), gcm_open = (\<lambda>k n c. Some c), hmac_sha256 = (\<lambda>k x. sample_digest x),
     sha256 = sample_digest\<rparr>"

lemma sample_env_simps [simp]:
  "e_now sample_env = At (Date 2026 3 5) 43200000000000" "e_actor_kind sample_env = ''user''"
  "e_actor_detail sample_env = ''kim''" "e_kek sample_env = replicate 32 CHR ''k''"
  "e_uuid_text sample_env = fmt_nat" "e_rand sample_env n i = replicate n CHR ''r''"
  "gcm_seal sample_env k x p = p" "gcm_open sample_env k x p = Some p"
  "hmac_sha256 sample_env k p = sample_digest p" "sha256 sample_env p = sample_digest p"
  by (simp_all add: sample_env_def)

lemma length_sample_digest [simp]: "length (sample_digest x) = 32"
  by (simp add: sample_digest_def)

lemma sample_aead_ok: "aead_ok sample_env"
  by (simp add: aead_ok_def)

end
