(* ===== verification/Auth.thy ===== *)
theory Auth
  imports Queries Sample
begin

text \<open>
  Operators and their sessions (\<open>internal/auth/auth.go\<close>), the synchronizer token of the forms
  (\<open>internal/handler/csrf.go\<close>) and the start-up configuration (\<open>internal/config/config.go\<close>). bcrypt is a
  parameter: \<open>hash_pw salt password\<close>, undefined for a password it refuses, and \<open>check_pw hash password\<close>.
\<close>

section \<open>Time\<close>

definition day_nanos :: nat where
  "day_nanos = 86400000000000"

definition next_day :: "date \<Rightarrow> date" where
  "next_day d =
     (if mday d < days_in (year d) (month d) then Date (year d) (month d) (Suc (mday d))
      else if month d < 12 then Date (year d) (Suc (month d)) 1
      else Date (year d + 1) 1 1)"

text \<open>\<open>t.Add(d)\<close> for a duration of at most one day, in UTC.\<close>

definition time_add :: "nat \<Rightarrow> gotime \<Rightarrow> gotime" where
  "time_add n t =
     (if nanos t + n < day_nanos then At (date_of t) (nanos t + n)
      else At (next_day (date_of t)) (nanos t + n - day_nanos))"

definition session_ttl :: nat where
  "session_ttl = 12 * 3600 * 1000000000"

section \<open>Users and sessions (auth.go)\<close>

definition rand_token :: "env \<Rightarrow> string io" where
  "rand_token e = andthen (draw e 32) (\<lambda>b. ret (hex_encode b))"

definition HasUsers :: "bool io" where
  "HasUsers = andthen CountUsers (\<lambda>n. ret (0 < n))"

definition CreateUser ::
  "(string \<Rightarrow> string \<Rightarrow> string option) \<Rightarrow> env \<Rightarrow> string \<Rightarrow> string \<Rightarrow> string \<Rightarrow> unit io" where
  "CreateUser hash_pw e email pw role0 =
     (let role = (if role0 \<noteq> ''viewer'' then ''owner'' else role0) in
      andthen (draw e 16) (\<lambda>salt.
      case hash_pw salt pw of
        None \<Rightarrow> fail (OtherErr ''bcrypt'')
      | Some h \<Rightarrow> andthen (InsertUser email h role) (\<lambda>_. ret ())))"

definition err_invalid_credentials :: err where
  "err_invalid_credentials = OtherErr ''invalid credentials''"

definition Login :: "(string \<Rightarrow> string \<Rightarrow> bool) \<Rightarrow> env \<Rightarrow> string \<Rightarrow> string \<Rightarrow> string io" where
  "Login check_pw e email pw =
     andthen (attempt (GetUserByEmail email)) (\<lambda>r.
     case r of
       Inl x \<Rightarrow> fail (if x = NoRows then err_invalid_credentials else x)
     | Inr u \<Rightarrow>
         andthen (require (check_pw (us_password u) pw) err_invalid_credentials) (\<lambda>_.
         andthen (rand_token e) (\<lambda>tok.
         andthen (InsertSession \<lparr>se_token = tok, se_user = us_id u, se_expires = time_add session_ttl (e_now e)\<rparr>) (\<lambda>_.
         ret tok))))"

definition Logout :: "string \<Rightarrow> unit io" where
  "Logout tok = DeleteSession tok"

record session_info =
  si_user :: uuid
  si_email :: string
  si_role :: string

definition is_owner :: "session_info \<Rightarrow> bool" where
  "is_owner i \<longleftrightarrow> si_role i \<noteq> ''viewer''"

definition Validate :: "env \<Rightarrow> string \<Rightarrow> session_info option io" where
  "Validate e tok =
     (if tok = [] then ret None
      else andthen (attempt (q_GetSession tok)) (\<lambda>r.
        ret (case r of
          Inl _ \<Rightarrow> None
        | Inr (row, u) \<Rightarrow>
            if se_expires row < e_now e then None
            else Some \<lparr>si_user = us_id u, si_email = us_email u, si_role = us_role u\<rparr>)))"

record cookie =
  ck_name :: string
  ck_value :: string
  ck_http_only :: bool
  ck_secure :: bool
  ck_strict :: bool
  ck_expires :: "gotime option"
  ck_removed :: bool

definition cookie_name :: string where
  "cookie_name = ''pare_session''"

definition SetCookie :: "env \<Rightarrow> bool \<Rightarrow> string \<Rightarrow> cookie" where
  "SetCookie e secure tok = \<lparr>ck_name = cookie_name, ck_value = tok, ck_http_only = True, ck_secure = secure,
     ck_strict = True, ck_expires = Some (time_add session_ttl (e_now e)), ck_removed = False\<rparr>"

definition ClearCookie :: "bool \<Rightarrow> cookie" where
  "ClearCookie secure = \<lparr>ck_name = cookie_name, ck_value = [], ck_http_only = True, ck_secure = secure,
     ck_strict = True, ck_expires = None, ck_removed = True\<rparr>"

section \<open>Forms (csrf.go)\<close>

definition safe_method :: "string \<Rightarrow> bool" where
  "safe_method m \<longleftrightarrow> m \<in> {''GET'', ''HEAD'', ''OPTIONS'', ''TRACE''}"

text \<open>
  The outcome for a request with method \<open>m\<close>, the value of the token cookie if the request has one, and
  the submitted field: the token given to the handler and whether a new cookie is set, or refusal.
  \<open>drawn\<close> is what \<open>randToken\<close> returns.
\<close>

datatype csrf_outcome = CsrfPass string bool | CsrfRefuse

definition csrf_protect :: "string \<Rightarrow> string option \<Rightarrow> string \<Rightarrow> string \<Rightarrow> csrf_outcome" where
  "csrf_protect drawn ck m field =
     (let tok0 = (case ck of None \<Rightarrow> [] | Some v \<Rightarrow> v);
          tok = (if tok0 = [] then drawn else tok0)
      in if \<not> safe_method m \<and> (field = [] \<or> field \<noteq> tok) then CsrfRefuse
         else CsrfPass tok (tok0 = []))"

section \<open>Configuration (config.go)\<close>

record config =
  cf_addr :: string
  cf_database_url :: string
  cf_master_key :: string
  cf_shield_key :: string
  cf_mcp_key :: string
  cf_mcp_max :: int64
  cf_gotenberg :: string
  cf_log_level :: string
  cf_smtp_host :: string
  cf_smtp_user :: string
  cf_smtp_pass :: string
  cf_smtp_from :: string
  cf_smtp_from_name :: string
  cf_smtp_tls :: string
  cf_smtp_port :: int64

text \<open>\<open>os.Getenv\<close> is the function \<open>genv\<close>, empty for a variable that is not set.\<close>

definition env_or :: "(string \<Rightarrow> string) \<Rightarrow> string \<Rightarrow> string \<Rightarrow> string" where
  "env_or genv k d = (if genv k \<noteq> [] then genv k else d)"

definition env_int64 :: "(string \<Rightarrow> string) \<Rightarrow> string \<Rightarrow> int64 \<Rightarrow> int64" where
  "env_int64 genv k d =
     (let (n, ok) = parse_int64 (genv k) in if genv k \<noteq> [] \<and> ok then word_of_int n else d)"

datatype config_error = KeyMissing string | KeyBase64 string | KeyLength string nat | McpKeyShort

definition config_key :: "(string \<Rightarrow> string) \<Rightarrow> string \<Rightarrow> bool \<Rightarrow> config_error + string" where
  "config_key genv name required =
     (let v = genv name in
      if v = [] then (if required then Inl (KeyMissing name) else Inr [])
      else case b64_decode v of
        None \<Rightarrow> Inl (KeyBase64 name)
      | Some raw \<Rightarrow> if length raw \<noteq> 32 then Inl (KeyLength name (length raw)) else Inr raw)"

definition config_of :: "(string \<Rightarrow> string) \<Rightarrow> string \<Rightarrow> string \<Rightarrow> config" where
  "config_of genv mk sk = \<lparr>cf_addr = env_or genv ''PARE_ADDR'' '':8080'', cf_database_url = genv ''PARE_DATABASE_URL'',
     cf_master_key = mk, cf_shield_key = sk, cf_mcp_key = genv ''PARE_MCP_KEY'',
     cf_mcp_max = env_int64 genv ''PARE_MCP_MAX_ORE'' 50000000,
     cf_gotenberg = env_or genv ''PARE_GOTENBERG_URL'' ''http://gotenberg:3000'',
     cf_log_level = env_or genv ''PARE_LOG_LEVEL'' ''info'',
     cf_smtp_host = genv ''PARE_SMTP_HOST'', cf_smtp_user = genv ''PARE_SMTP_USER'',
     cf_smtp_pass = genv ''PARE_SMTP_PASS'', cf_smtp_from = genv ''PARE_SMTP_FROM'',
     cf_smtp_from_name = env_or genv ''PARE_SMTP_FROM_NAME'' ''Pare'',
     cf_smtp_tls = env_or genv ''PARE_SMTP_TLS'' ''starttls'',
     cf_smtp_port = env_int64 genv ''PARE_SMTP_PORT'' 587\<rparr>"

definition Load :: "(string \<Rightarrow> string) \<Rightarrow> config_error + config" where
  "Load genv =
     (case config_key genv ''PARE_MASTER_KEY'' True of
        Inl x \<Rightarrow> Inl x
      | Inr mk \<Rightarrow>
        (case config_key genv ''PARE_SHIELD_KEY'' False of
           Inl x \<Rightarrow> Inl x
         | Inr sk \<Rightarrow>
           if genv ''PARE_MCP_KEY'' \<noteq> [] \<and> length (genv ''PARE_MCP_KEY'') < 16 then Inl McpKeyShort
           else Inr (config_of genv mk sk)))"

section \<open>Laws\<close>

lemma rand_token_ok:
  "rand_token e s = (Inr (hex_encode (e_rand e 32 (next_id s))), s\<lparr>next_id := Suc (next_id s)\<rparr>)"
  by (simp add: rand_token_def andthen_simps(2) [OF draw_ok])

lemma hex_encode_nonempty: "s \<noteq> [] \<Longrightarrow> hex_encode s \<noteq> []"
  by (cases s) (simp_all add: hex_encode_Cons)

definition token_fresh :: "env \<Rightarrow> db \<Rightarrow> bool" where
  "token_fresh e s \<longleftrightarrow> hex_encode (e_rand e 32 (next_id s)) \<notin> set (map se_token (sessions s))"

definition users_ok :: "db \<Rightarrow> bool" where
  "users_ok s \<longleftrightarrow> list_all (\<lambda>u. us_id u < next_id s) (users s)"

definition bcrypt_ok :: "(string \<Rightarrow> string \<Rightarrow> string option) \<Rightarrow> (string \<Rightarrow> string \<Rightarrow> bool) \<Rightarrow> bool" where
  "bcrypt_ok hash_pw check_pw \<longleftrightarrow> (\<forall>salt pw h. hash_pw salt pw = Some h \<longrightarrow> check_pw h pw)"

definition user_after :: "string \<Rightarrow> string \<Rightarrow> string \<Rightarrow> db \<Rightarrow> user_row" where
  "user_after email h role s = \<lparr>us_id = Suc (next_id s), us_email = email, us_password = h,
     us_role = (if role = ''viewer'' then ''viewer'' else ''owner'')\<rparr>"

lemma InsertUser_eq:
  "InsertUser email h role s =
     (if list_ex (\<lambda>r. us_email r = email) (users s) \<or> role \<notin> {''owner'', ''viewer''} then (Inl Constraint, s)
      else (Inr \<lparr>us_id = next_id s, us_email = email, us_password = h, us_role = role\<rparr>,
        s\<lparr>next_id := Suc (next_id s), users := users s @ [\<lparr>us_id = next_id s, us_email = email, us_password = h, us_role = role\<rparr>]\<rparr>))"
  by (simp add: InsertUser_def Let_def)

lemma CreateUser_ok:
  assumes "CreateUser hash_pw e email pw role s = (Inr (), s1)"
  obtains salt h where "hash_pw salt pw = Some h" "\<not> list_ex (\<lambda>r. us_email r = email) (users s)"
    "s1 = s\<lparr>next_id := Suc (Suc (next_id s)), users := users s @ [user_after email h role s]\<rparr>"
proof -
  let ?salt = "e_rand e 16 (next_id s)" and ?role = "if role = ''viewer'' then ''viewer'' else ''owner''"
  note c = assms [unfolded CreateUser_def Let_def andthen_simps(2) [OF draw_ok]]
  from c obtain h where h: "hash_pw ?salt pw = Some h" by (cases "hash_pw ?salt pw") simp_all
  have role: "(if role \<noteq> ''viewer'' then ''owner'' else role) = ?role" "?role \<in> {''owner'', ''viewer''}" by simp_all
  obtain r where "InsertUser email h ?role (s\<lparr>next_id := Suc (next_id s)\<rparr>) = (Inr r, s1)"
    using c h unfolding role(1) andthen_ok by (simp only: option.case andthen_ok) (elim exE conjE, simp)
  with role(2) that [OF h] show thesis by (auto simp: InsertUser_eq user_after_def split: if_splits)
qed

lemma Login_ok:
  assumes u: "filter (\<lambda>r. us_email r = email) (users s) = u # us" and "check_pw (us_password u) pw"
    and "token_fresh e s" and "u \<in> set (users s)"
  defines "tok \<equiv> hex_encode (e_rand e 32 (next_id s))"
  shows "Login check_pw e email pw s = (Inr tok, s\<lparr>next_id := Suc (next_id s), sessions := sessions s @
    [\<lparr>se_token = tok, se_user = us_id u, se_expires = time_add session_ttl (e_now e)\<rparr>]\<rparr>)"
proof -
  have get: "attempt (GetUserByEmail email) s = (Inr (Inr u), s)"
    using u by (simp add: attempt_def GetUserByEmail_def fetch_def)
  have new: "\<not> list_ex (\<lambda>r. se_token r = tok) (sessions s)" "list_ex (\<lambda>v. us_id v = us_id u) (users s)"
    using assms(3,4) by (auto simp: token_fresh_def tok_def list_ex_iff image_iff)
  show ?thesis
    unfolding Login_def andthen_simps(2) [of "attempt (GetUserByEmail email)", OF get]
    using assms(2) new by (simp add: andthen_simps(2) [OF rand_token_ok] InsertSession_def andthen_assoc tok_def)
qed

lemma Login_unknown:
  assumes "email \<notin> set (map us_email (users s))"
  shows "Login check_pw e email pw s = (Inl err_invalid_credentials, s)"
proof -
  have "filter (\<lambda>r. us_email r = email) (users s) = []" using assms by (auto simp: filter_empty_conv)
  then show ?thesis by (simp add: Login_def attempt_def GetUserByEmail_def fetch_def andthen_def)
qed

lemma Login_refused:
  assumes "filter (\<lambda>r. us_email r = email) (users s) = u # us" and "\<not> check_pw (us_password u) pw"
  shows "Login check_pw e email pw s = (Inl err_invalid_credentials, s)"
  using assms by (simp add: Login_def attempt_def GetUserByEmail_def fetch_def andthen_def)

text \<open>C28. An operator's session: after an account is created, logging in with its password gives a session
  token that identifies the operator, with the role viewer only if asked for, for twelve hours and not
  longer, and not after logout; a wrong password and an unknown address are refused alike and leave no
  session. This relies on bcrypt accepting the password it hashed and on a fresh random token.\<close>

theorem session_lifecycle:
  assumes "bcrypt_ok hash_pw check_pw" and "aead_ok e1" and "users_ok s"
    and "CreateUser hash_pw e email pw role s = (Inr (), s1)" and "token_fresh e1 s1"
  shows "\<exists>tok s2 u h. Login check_pw e1 email pw s1 = (Inr tok, s2) \<and>
    u = \<lparr>si_user = Suc (next_id s), si_email = email, si_role = (if role = ''viewer'' then ''viewer'' else ''owner'')\<rparr> \<and>
    (\<forall>e2. Validate e2 tok s2 = (Inr (if time_add session_ttl (e_now e1) < e_now e2 then None else Some u), s2)) \<and>
    (\<forall>e2. Validate e2 tok (snd (Logout tok s2)) = (Inr None, snd (Logout tok s2))) \<and>
    (\<forall>pw'. \<not> check_pw h pw' \<longrightarrow> Login check_pw e1 email pw' s1 = (Inl err_invalid_credentials, s1)) \<and>
    map us_password (filter (\<lambda>r. us_email r = email) (users s1)) = [h] \<and>
    (\<forall>other. other \<notin> set (map us_email (users s1)) \<longrightarrow>
      Login check_pw e1 other pw s1 = (Inl err_invalid_credentials, s1))"
proof -
  obtain salt h where h: "hash_pw salt pw = Some h" "\<not> list_ex (\<lambda>r. us_email r = email) (users s)"
    "s1 = s\<lparr>next_id := Suc (Suc (next_id s)), users := users s @ [user_after email h role s]\<rparr>"
    using CreateUser_ok [OF assms(4)] by blast
  let ?row = "user_after email h role s"
  have row: "us_email ?row = email" "us_id ?row = Suc (next_id s)" "us_password ?row = h"
    "us_role ?row = (if role = ''viewer'' then ''viewer'' else ''owner'')"
    by (simp_all add: user_after_def)
  have us: "filter (\<lambda>r. us_email r = email) (users s1) = [?row]" "?row \<in> set (users s1)"
    using h(2) row by (auto simp: h(3) filter_empty_conv list_ex_iff)
  have ids: "filter (\<lambda>u. us_id u = Suc (next_id s)) (users s1) = [?row]"
    using assms(3) row by (auto simp: h(3) users_ok_def list_all_iff filter_empty_conv)
  have pw: "check_pw (us_password ?row) pw" using assms(1) h(1) row by (simp add: bcrypt_ok_def)
  let ?tok = "hex_encode (e_rand e1 32 (next_id s1))"
  let ?session = "\<lparr>se_token = ?tok, se_user = Suc (next_id s), se_expires = time_add session_ttl (e_now e1)\<rparr>"
  define s2 where "s2 = s1\<lparr>next_id := Suc (next_id s1), sessions := sessions s1 @ [?session]\<rparr>"
  have login: "Login check_pw e1 email pw s1 = (Inr ?tok, s2)"
    using Login_ok [of email s1 ?row "[]" check_pw pw e1] us pw assms(5) row(2) by (simp add: s2_def)
  have "length (e_rand e1 32 (next_id s1)) = 32" using assms(2) by (simp add: aead_ok_def)
  then have tok: "?tok \<noteq> []" by (intro hex_encode_nonempty) auto
  have mine: "filter (\<lambda>r. se_token r = ?tok) (sessions s2) = [?session]"
    using assms(5) by (auto simp: s2_def token_fresh_def filter_empty_conv image_iff)
  have users2: "users s2 = users s1" by (simp add: s2_def)
  have get: "attempt (q_GetSession ?tok) s2 = (Inr (Inr (?session, ?row)), s2)"
    by (simp add: attempt_def q_GetSession_def fetch_def mine users2 ids)
  let ?info = "\<lparr>si_user = Suc (next_id s), si_email = email, si_role = (if role = ''viewer'' then ''viewer'' else ''owner'')\<rparr>"
  have live: "Validate e2 ?tok s2 = (Inr (if time_add session_ttl (e_now e1) < e_now e2 then None else Some ?info), s2)" for e2
    using tok by (simp add: Validate_def andthen_simps(2) [of "attempt (q_GetSession ?tok)", OF get] row)
  let ?s3 = "snd (Logout ?tok s2)"
  have "filter (\<lambda>r. se_token r = ?tok) (sessions ?s3) = []"
    by (simp add: Logout_def DeleteSession_def delete_rows_def andthen_def)
  then have "attempt (q_GetSession ?tok) ?s3 = (Inr (Inl NoRows), ?s3)"
    by (simp add: attempt_def q_GetSession_def fetch_def)
  then have gone: "Validate e2 ?tok ?s3 = (Inr None, ?s3)" for e2
    using tok by (simp add: Validate_def andthen_simps(2) [of "attempt (q_GetSession ?tok)"])
  show ?thesis
  proof (intro exI conjI allI impI)
    show "Login check_pw e1 email pw s1 = (Inr ?tok, s2)" by (rule login)
    show "Validate e2 ?tok s2 = (Inr (if time_add session_ttl (e_now e1) < e_now e2 then None else Some ?info), s2)" for e2
      by (rule live)
    show "Validate e2 ?tok ?s3 = (Inr None, ?s3)" for e2 by (rule gone)
    show "Login check_pw e1 email pw' s1 = (Inl err_invalid_credentials, s1)" if "\<not> check_pw h pw'" for pw'
      using Login_refused [OF us(1)] that row(3) by simp
    show "Login check_pw e1 other pw s1 = (Inl err_invalid_credentials, s1)" if "other \<notin> set (map us_email (users s1))" for other
      by (rule Login_unknown [OF that])
    show "map us_password (filter (\<lambda>r. us_email r = email) (users s1)) = [h]" using us(1) row(3) by simp
  qed (rule refl)
qed

definition sample_hash :: "string \<Rightarrow> string \<Rightarrow> string option" where
  "sample_hash salt pw = (if length pw \<le> 72 then Some (salt @ pw) else None)"

definition sample_check :: "string \<Rightarrow> string \<Rightarrow> bool" where
  "sample_check h pw \<longleftrightarrow> has_suffix h pw"

definition sample_users :: db where
  "sample_users = empty_db\<lparr>next_id := 3, users := [user_after ''kim@pare.se'' (replicate 16 CHR ''r'' @ ''hemligt8'') ''viewer'' empty_db]\<rparr>"

lemma sample_created:
  "CreateUser sample_hash sample_env ''kim@pare.se'' ''hemligt8'' ''viewer'' empty_db = (Inr (), sample_users)"
proof -
  have "users empty_db = []" "next_id empty_db = 1" by (simp_all add: empty_db_def)
  then show ?thesis
    by (simp add: CreateUser_def Let_def andthen_simps(2) [OF draw_ok] sample_hash_def
        andthen_simps(2) [where m = "InsertUser a b c" for a b c, OF trans [OF InsertUser_eq if_not_P]]
        sample_users_def user_after_def)
qed

lemma sample_bcrypt: "bcrypt_ok sample_hash sample_check"
  by (auto simp: bcrypt_ok_def sample_hash_def sample_check_def has_suffix_def split: if_splits)

theorem session_lifecycle_witness:
  "\<exists>tok s2 u h. Login sample_check sample_env ''kim@pare.se'' ''hemligt8'' sample_users = (Inr tok, s2) \<and>
    u = \<lparr>si_user = Suc (next_id empty_db), si_email = ''kim@pare.se'',
      si_role = (if ''viewer'' = ''viewer'' then ''viewer'' else ''owner'')\<rparr> \<and>
    (\<forall>e2. Validate e2 tok s2 =
      (Inr (if time_add session_ttl (e_now sample_env) < e_now e2 then None else Some u), s2)) \<and>
    (\<forall>e2. Validate e2 tok (snd (Logout tok s2)) = (Inr None, snd (Logout tok s2))) \<and>
    (\<forall>pw'. \<not> sample_check h pw' \<longrightarrow>
      Login sample_check sample_env ''kim@pare.se'' pw' sample_users = (Inl err_invalid_credentials, sample_users)) \<and>
    map us_password (filter (\<lambda>r. us_email r = ''kim@pare.se'') (users sample_users)) = [h] \<and>
    (\<forall>other. other \<notin> set (map us_email (users sample_users)) \<longrightarrow>
      Login sample_check sample_env other ''hemligt8'' sample_users = (Inl err_invalid_credentials, sample_users))"
  by (rule session_lifecycle [OF sample_bcrypt sample_aead_ok _ sample_created])
    (simp_all add: users_ok_def token_fresh_def sample_users_def empty_db_def)

definition key_text :: "string \<Rightarrow> bool" where
  "key_text v \<longleftrightarrow> (case b64_decode v of None \<Rightarrow> False | Some k \<Rightarrow> length k = 32)"

lemma config_key_cases:
  "case config_key genv name required of
     Inl _ \<Rightarrow> \<not> (if genv name = [] then \<not> required else key_text (genv name))
   | Inr k \<Rightarrow> (if genv name = [] then \<not> required \<and> k = [] else key_text (genv name) \<and> length k = 32)"
  by (auto simp: config_key_def key_text_def Let_def split: option.splits)

text \<open>The server starts exactly when the master key is the base64 text of 32 bytes, the shield key is
  unset or such a text, and the key of the assistant is unset or has at least 16 characters; the keys it
  then runs with have the lengths that wrapping and the shield need.\<close>

theorem configuration_checked:
  "case Load genv of
     Inl _ \<Rightarrow> \<not> (key_text (genv ''PARE_MASTER_KEY'') \<and> genv ''PARE_MASTER_KEY'' \<noteq> [] \<and>
       (genv ''PARE_SHIELD_KEY'' = [] \<or> key_text (genv ''PARE_SHIELD_KEY'')) \<and>
       (genv ''PARE_MCP_KEY'' = [] \<or> 16 \<le> length (genv ''PARE_MCP_KEY'')))
   | Inr c \<Rightarrow> key_text (genv ''PARE_MASTER_KEY'') \<and> genv ''PARE_MASTER_KEY'' \<noteq> [] \<and>
       (genv ''PARE_SHIELD_KEY'' = [] \<or> key_text (genv ''PARE_SHIELD_KEY'')) \<and>
       (genv ''PARE_MCP_KEY'' = [] \<or> 16 \<le> length (genv ''PARE_MCP_KEY'')) \<and>
       new_kek (cf_master_key c) = Inr (cf_master_key c) \<and>
       (cf_shield_key c = [] \<or> new_dek_from (cf_shield_key c) = Inr (cf_shield_key c))"
proof -
  define m sh k where "m = genv ''PARE_MASTER_KEY''" and "sh = genv ''PARE_SHIELD_KEY''" and "k = genv ''PARE_MCP_KEY''"
  note keys = config_key_cases [of genv "''PARE_MASTER_KEY''" True, folded m_def]
    config_key_cases [of genv "''PARE_SHIELD_KEY''" False, folded sh_def]
  obtain r1 r2 where r: "config_key genv ''PARE_MASTER_KEY'' True = r1" "config_key genv ''PARE_SHIELD_KEY'' False = r2"
    by blast
  have load: "Load genv = (case r1 of Inl x \<Rightarrow> Inl x | Inr mk \<Rightarrow> (case r2 of Inl x \<Rightarrow> Inl x | Inr sk \<Rightarrow>
      if k \<noteq> [] \<and> length k < 16 then Inl McpKeyShort else Inr (config_of genv mk sk)))"
    by (simp only: Load_def r k_def)
  have fields: "cf_master_key (config_of genv mk sk) = mk" "cf_shield_key (config_of genv mk sk) = sk" for mk sk
    by (simp_all add: config_of_def)
  show ?thesis
    using keys unfolding load r m_def [symmetric] sh_def [symmetric] k_def [symmetric]
    by (cases r1; cases r2) (auto simp: fields new_kek_def new_dek_from_def key_size_def split: if_splits)
qed

end
