(* ===== verification/Service.thy ===== *)
theory Service
  imports Store_Document Store_Sie Auth
begin

text \<open>
  The store as one system: every operation that changes the tables as a request, the states a process
  reaches from an empty database by serving requests one after another, and what holds in all of them.
  Between requests the clock, the actor and the random reader may change; the keys and the primitives
  are those of the process.
\<close>

section \<open>Requests\<close>

datatype (plugins only:) request = Bootstrap string string | Sync | Set_Profile company
  | Post uuid string gotime string "line list" uuid | Undo uuid uuid
  | Add_Counterparty uuid counterparty | Edit_Counterparty uuid uuid counterparty | Erase uuid uuid
  | Lock uuid gotime string | Unlock uuid string | Log_Action uuid string string string string
  | Draft_Invoice uuid uuid invoice | Drop_Draft uuid uuid | Finalize uuid uuid gotime gotime | Credit uuid uuid
  | Pay uuid uuid gotime string amount | Pay_Number uuid string gotime string amount
  | Draft_Supplier uuid uuid string gotime gotime string amount string string | Finalize_Supplier uuid uuid
  | Pay_Supplier uuid uuid gotime string amount
  | Open_Year uuid int | Close_Year uuid uuid
  | Import_Bank uuid string "bank_entry list" | Book_Invoice uuid uuid uuid | Book_Account uuid uuid string
  | Ignore uuid uuid
  | Save uuid string string string string | Attach uuid uuid uuid | Delete_Doc uuid uuid | Backfill | Sweep_Now
  | Import_Sie uuid sie_export

definition forget :: "'a io \<Rightarrow> unit io" where
  "forget m = andthen m (\<lambda>_. ret ())"

fun serve :: "env \<Rightarrow> request \<Rightarrow> unit io" where
  "serve e (Bootstrap nm orgnr) = forget (BootstrapCompany e nm orgnr)"
| "serve e Sync = SyncChart"
| "serve e (Set_Profile ci) = UpdateCompanyProfile_op e ci"
| "serve e (Post c sr d desc ls rv) = forget (PostVerification e c sr d desc ls rv)"
| "serve e (Undo c i) = forget (UndoVerification e c i)"
| "serve e (Add_Counterparty c cp) = forget (CreateCounterparty e c cp)"
| "serve e (Edit_Counterparty c i cp) = UpdateCounterparty e c i cp"
| "serve e (Erase c i) = EraseCounterparty e c i"
| "serve e (Lock c d r) = LockPeriod e c d r"
| "serve e (Unlock c r) = UnlockPeriod e c r"
| "serve e (Log_Action c a tt ti d) = LogUserAction e c a tt ti d"
| "serve e (Draft_Invoice c p i) = forget (CreateInvoice e c p i)"
| "serve e (Drop_Draft c i) = DeleteDraftInvoice e c i"
| "serve e (Finalize c i d due) = forget (FinalizeInvoice e c i d due)"
| "serve e (Credit c i) = forget (CreditInvoice e c i)"
| "serve e (Pay c i d a p) = forget (RecordPayment e c i d a p)"
| "serve e (Pay_Number c n d a p) = forget (RecordPaymentByNumber e c n d a p)"
| "serve e (Draft_Supplier c p n d due a net code desc) = forget (CreateSupplierInvoice e c p n d due a net code desc)"
| "serve e (Finalize_Supplier c i) = forget (FinalizeSupplierInvoice e c i)"
| "serve e (Pay_Supplier c i d a p) = forget (RecordSupplierPayment e c i d a p)"
| "serve e (Open_Year c y) = EnsureFiscalYear c y"
| "serve e (Close_Year c i) = forget (CloseFiscalYear e c i)"
| "serve e (Import_Bank c a es) = forget (ImportBankStatement e c a es)"
| "serve e (Book_Invoice c t i) = BookBankTxnToInvoice e c t i"
| "serve e (Book_Account c t a) = BookBankTxnToAccount e c t a"
| "serve e (Ignore c t) = IgnoreBankTxn c t"
| "serve e (Save c f m x n) = forget (SaveDocument e c f m x n)"
| "serve e (Attach c d i) = AttachDocumentToSupplier e c d i"
| "serve e (Delete_Doc c d) = DeleteDocument e c d"
| "serve e Backfill = forget (BackfillDocumentPII e)"
| "serve e Sweep_Now = sweep_run e"
| "serve e (Import_Sie c x) = forget (ImportSIE e c x)"

lemma forget_sound: "keeps (sound e) m \<Longrightarrow> keeps (sound e) (forget m)"
  unfolding forget_def by (intro sound.keeps_andthen sound.keeps_pure)

lemma serve_sound: "keeps (sound e) (serve e r)"
  by (cases r) (auto intro: forget_sound store_sound invoice_sound purchase_sound fiscal_sound bank_sound
      document_sound sie_sound EnsureFiscalYear_sound)

section \<open>Reachable states\<close>

definition same_process :: "env \<Rightarrow> env \<Rightarrow> bool" where
  "same_process e f \<longleftrightarrow> e_kek f = e_kek e \<and> hmac_sha256 f = hmac_sha256 e \<and> sha256 f = sha256 e \<and>
     gcm_seal f = gcm_seal e \<and> gcm_open f = gcm_open e"

inductive reachable :: "env \<Rightarrow> db \<Rightarrow> bool" for e where
  reach_empty: "reachable e empty_db"
| reach_serve: "reachable e s \<Longrightarrow> same_process e f \<Longrightarrow> reachable e (snd (serve f r s))"

lemma same_process_chain:
  assumes "same_process e f"
  shows "chain_ok f = chain_ok e"
proof -
  have "audit_hash f = audit_hash e"
    using assms by (auto simp: same_process_def audit_hash_def audit_key_def derive_key_def fun_eq_iff)
  then have "row_hash f = row_hash e" by (simp add: row_hash_def fun_eq_iff)
  then have "chain_loop f p rs = chain_loop e p rs" for p rs
    by (induction rs arbitrary: p) simp_all
  then show ?thesis by (simp add: chain_ok_def fun_eq_iff)
qed

lemma books_ok_empty: "books_ok empty_db" "chain_ok e empty_db"
  by (auto simp: books_ok_def empty_db_def series_numbers_def chain_ok_def company_audit_def intro: exI [of _ 0])

lemma reachable_ok: "reachable e s \<Longrightarrow> books_ok s \<and> chain_ok e s"
proof (induction rule: reachable.induct)
  case reach_empty
  show ?case using books_ok_empty by blast
next
  case (reach_serve s f r)
  have "sound f s (snd (serve f r s))" using serve_sound [of f r] by (simp add: keeps_def)
  with reach_serve same_process_chain [OF reach_serve.hyps(2)] show ?case
    by (simp add: sound_def keeps_chain_def)
qed

text \<open>C11. In every state the program reaches, the books are in order: each verification is posted, has an id
  of its own, is a double entry in exact arithmetic on accounts of its company's chart; no line is
  without a verification; and the numbers of each series of a company are 1, 2, 3 and so on without a gap.\<close>

theorem books_in_order:
  assumes "reachable e s"
  shows "(\<forall>v \<in> set (verifications s). v_posted_at v \<noteq> None \<and> double_entry (ver_lines (v_id v) s) \<and>
      account ` set (ver_lines (v_id v) s) \<subseteq> company_accounts (v_company v) s) \<and>
    distinct (map v_id (verifications s)) \<and>
    (\<forall>l \<in> set (vlines s). \<exists>v \<in> set (verifications s). v_id v = vl_verification l) \<and>
    (\<forall>c sr. \<exists>n. series_numbers c sr s = map int [1..<Suc n])"
  using reachable_ok [OF assms] unfolding books_ok_def by blast

lemma same_process_refl: "same_process e e"
  by (simp add: same_process_def)

text \<open>A company with one cost on its books.\<close>

definition sample_company :: db where
  "sample_company = snd (serve sample_env (Bootstrap ''Kim AB'' ''556000-0000'') empty_db)"

definition sample_books :: db where
  "sample_books = snd (serve sample_env (Post 3 ''A'' (midnight (Date 2026 3 1)) ''Kontorsmaterial''
     [debit_line ''6110'' 1000, credit_line ''1930'' 1000] 0) sample_company)"

lemma reachable_sample: "reachable sample_env sample_company" "reachable sample_env sample_books"
  unfolding sample_company_def sample_books_def by (intro reachable.intros same_process_refl)+

theorem books_in_order_witness:
  "list_all (\<lambda>v. v_posted_at v \<noteq> None \<and> double_entry (ver_lines (v_id v) sample_books) \<and>
      account ` set (ver_lines (v_id v) sample_books) \<subseteq> company_accounts (v_company v) sample_books)
      (verifications sample_books) \<and>
    distinct (map v_id (verifications sample_books)) \<and>
    list_all (\<lambda>l. list_ex (\<lambda>v. v_id v = vl_verification l) (verifications sample_books)) (vlines sample_books) \<and>
    (\<forall>c sr. \<exists>n. series_numbers c sr sample_books = map int [1..<Suc n])"
  unfolding list_all_iff list_ex_iff by (rule books_in_order [OF reachable_sample(2)])

text \<open>C12. The audit trail of every company verifies in every state the program reaches.\<close>

theorem audit_trail_verifies:
  assumes "reachable e s" and "same_process e f"
  shows "VerifyAuditChain f c s = (Inr (True, 0), s)"
  using reachable_ok [OF assms(1)] same_process_chain [OF assms(2)] by (simp add: VerifyAuditChain_ok)

theorem audit_trail_verifies_witness:
  "VerifyAuditChain sample_env 3 sample_books = (Inr (True, 0), sample_books)"
  by (rule audit_trail_verifies [OF reachable_sample(2) same_process_refl])

text \<open>Nothing is ever taken out of the books: whatever a request does, and whether or not it fails, the
  verifications, their lines and the audit log it leaves are the ones it found with rows added at the end.\<close>

theorem records_only_grow:
  "(\<exists>vs. verifications (snd (serve e r s)) = verifications s @ vs) \<and>
   (\<exists>ls. vlines (snd (serve e r s)) = vlines s @ ls) \<and>
   (\<exists>rs. audit_log (snd (serve e r s)) = audit_log s @ rs)"
  using serve_sound [of e r] unfolding keeps_def sound_def ledger_grows_def audit_grows_def by blast

end
