(* ===== verification/Sample_Books.thy ===== *)
theory Sample_Books
  imports Service
begin

text \<open>
  A new company can post to the whole core chart; the sample company of theory \<open>Service\<close> has one
  verification on its books. Properties of the store are applied to this data.
\<close>

section \<open>The chart of a new company\<close>

definition upsert :: "account_row \<Rightarrow> account_row list \<Rightarrow> account_row list" where
  "upsert a xs = (if list_ex (same_account a) xs then map (\<lambda>r. if same_account a r then a else r) xs else xs @ [a])"

lemma UpsertAccount_eq:
  "company_exists (ac_company a) s \<Longrightarrow> UpsertAccount a s = (Inr (), s\<lparr>accounts := upsert a (accounts s)\<rparr>)"
  by (simp add: UpsertAccount_def upsert_def)

lemma each_upsert:
  assumes "company_exists c s" and "\<forall>x \<in> set xs. ac_company (g x) = c"
  shows "each (\<lambda>x. UpsertAccount (g x)) xs s = (Inr (), s\<lparr>accounts := fold (\<lambda>x. upsert (g x)) xs (accounts s)\<rparr>)"
  using assms
proof (induction xs arbitrary: s)
  case (Cons x xs)
  have "UpsertAccount (g x) s = (Inr (), s\<lparr>accounts := upsert (g x) (accounts s)\<rparr>)"
    using Cons.prems UpsertAccount_eq [of "g x" s] by simp
  moreover have "company_exists c (s\<lparr>accounts := upsert (g x) (accounts s)\<rparr>)"
    using Cons.prems by (simp add: company_exists_def)
  ultimately show ?case using Cons by (simp add: andthen_simps(2))
qed simp

lemma upsert_mem: "a \<in> set (upsert a xs)"
  unfolding upsert_def list_ex_iff by (auto simp: image_iff)

lemma upsert_number: "b \<in> set xs \<Longrightarrow> \<exists>d \<in> set (upsert a xs). ac_company d = ac_company b \<and> ac_number d = ac_number b"
  unfolding upsert_def same_account_def by (auto simp: image_iff)

lemma fold_upsert_number:
  "(\<exists>b \<in> set ys. ac_company b = c \<and> ac_number b = n) \<or> (\<exists>x \<in> set xs. ac_company (g x) = c \<and> ac_number (g x) = n) \<Longrightarrow>
   \<exists>d \<in> set (fold (\<lambda>x. upsert (g x)) xs ys). ac_company d = c \<and> ac_number d = n"
proof (induction xs arbitrary: ys)
  case (Cons x xs)
  have "(\<exists>b \<in> set (upsert (g x) ys). ac_company b = c \<and> ac_number b = n) \<or> (\<exists>y \<in> set xs. ac_company (g y) = c \<and> ac_number (g y) = n)"
    using Cons.prems upsert_number [of _ ys "g x"] upsert_mem [of "g x" ys] by auto
  from Cons.IH [OF this] show ?case by simp
qed auto

definition charted :: "uuid \<Rightarrow> db \<Rightarrow> db" where
  "charted c s = s\<lparr>accounts := fold (\<lambda>a. upsert (chart_entry c (ca_number a) (ca_name a) (default_vat_code a))) core_chart (accounts s)\<rparr>"

lemma seed_chart_eq: "company_exists c s \<Longrightarrow> seed_chart c s = (Inr (), charted c s)"
  unfolding seed_chart_def charted_def by (rule each_upsert) (auto simp: chart_entry_def)

lemma charted_accounts:
  assumes "a \<in> set core_chart"
  shows "ca_number a \<in> company_accounts c (charted c s)"
proof -
  have "\<exists>d \<in> set (fold (\<lambda>a. upsert (chart_entry c (ca_number a) (ca_name a) (default_vat_code a))) core_chart (accounts s)).
      ac_company d = c \<and> ac_number d = ca_number a"
    by (rule fold_upsert_number) (use assms in \<open>auto simp: chart_entry_def\<close>)
  then show ?thesis by (force simp: company_accounts_def charted_def)
qed

text \<open>Programs that leave companies, charts, the ledger and the audit log alone.\<close>

definition same_core :: "db \<Rightarrow> db \<Rightarrow> bool" where
  "same_core s t \<longleftrightarrow> companies t = companies s \<and> accounts t = accounts s \<and> verifications t = verifications s \<and>
     vlines t = vlines s \<and> audit_log t = audit_log s"

interpretation same_core: change same_core
  by unfold_locales (simp_all add: same_core_def)

lemma EnsureFiscalYear_core: "keeps same_core (EnsureFiscalYear c y)"
  unfolding EnsureFiscalYear_def InsertFiscalYear_def Let_def
  by ((intro same_core.keeps_rules; simp add: same_core_def)+)

lemma sample_company_facts:
  "map co_id (companies sample_company) = [3]" "map locked_through (companies sample_company) = [None]"
  "verifications sample_company = []" "vlines sample_company = []" "audit_log sample_company = []"
  "ca_number ` set core_chart \<subseteq> company_accounts 3 sample_company"
  "map (\<lambda>r. dek_from_wrapped sample_env (dek_wrapped r)) (companies sample_company) = [Inr (replicate 32 CHR ''r'')]"
proof -
  define co where "co = \<lparr>co_id = 3, co_name = ''Kim AB'', co_orgnr = ''556000-0000'',
     dek_wrapped = b64_encode (replicate 12 CHR ''r'' @ replicate 32 CHR ''r''), locked_through = None,
              momsregnr = [], co_address = [], postal_code = [], city = [], bankgiro = [], co_iban = [],
              fskatt = False, key_id = kek_fingerprint sample_env\<rparr>"
  define s0 where "s0 = empty_db\<lparr>next_id := 4, companies := [co]\<rparr>"
  have e: "companies empty_db = []" "next_id empty_db = 1" "verifications empty_db = []" "vlines empty_db = []" "audit_log empty_db = []"
    by (simp_all add: empty_db_def)
  have dek: "new_dek sample_env empty_db = (Inr (replicate 32 CHR ''r''), empty_db\<lparr>next_id := 2\<rparr>)"
    by (simp add: new_dek_def key_size_def draw_ok e)
  have wrap: "wrap_dek sample_env (replicate 32 CHR ''r'') (empty_db\<lparr>next_id := 2\<rparr>) =
      (Inr (b64_encode (replicate 12 CHR ''r'' @ replicate 32 CHR ''r'')), empty_db\<lparr>next_id := 3\<rparr>)"
    by (simp add: wrap_dek_def key_size_def seal_def andthen_simps(2) [OF seal_bytes_ok])
  have ins: "InsertCompany ''Kim AB'' ''556000-0000'' (b64_encode (replicate 12 CHR ''r'' @ replicate 32 CHR ''r''))
      (kek_fingerprint sample_env) (empty_db\<lparr>next_id := 3\<rparr>) = (Inr co, s0)"
    by (simp add: InsertCompany_def Let_def e co_def s0_def)
  have ex: "company_exists 3 s0" by (simp add: company_exists_def s0_def co_def)
  have id: "co_id co = 3" "locked_through co = None" by (simp_all add: co_def)
  have "dek_from_wrapped sample_env (dek_wrapped co) = Inr (replicate 32 CHR ''r'')"
    using unwrap_wrap(1) [OF sample_aead_ok _ wrap] by (simp add: co_def dek_from_wrapped_def new_dek_from_def key_size_def)
  note dk = this
  define w where "w = b64_encode (replicate 12 CHR ''r'' @ replicate 32 CHR ''r'')"
  define fp where "fp = kek_fingerprint sample_env"
  define yr where "yr = EnsureFiscalYear 3 2026"
  have y: "year (date_of (e_now sample_env)) = 2026" by simp
  note steps = andthen_simps(2) [where m = "new_dek sample_env" and s = empty_db, OF dek]
    andthen_simps(2) [where m = "wrap_dek sample_env d" and s = "empty_db\<lparr>next_id := 2\<rparr>" for d, OF wrap, folded w_def]
    andthen_simps(2) [where m = "InsertCompany a b x y" and s = "empty_db\<lparr>next_id := 3\<rparr>" for a b x y, OF ins, folded w_def fp_def]
    andthen_simps(2) [where m = "seed_chart 3", OF seed_chart_eq [OF ex]]
  have "BootstrapCompany sample_env ''Kim AB'' ''556000-0000'' empty_db =
      andthen (attempt yr) (\<lambda>_. ret 3) (charted 3 s0)"
    unfolding BootstrapCompany_def fp_def [symmetric] y yr_def [symmetric] by (simp only: steps id yr_def [symmetric])
  then have "sample_company = snd (andthen (andthen (attempt yr) (\<lambda>_. ret (3 :: uuid))) (\<lambda>_. ret ()) (charted 3 s0))"
    unfolding sample_company_def serve.simps forget_def by (simp only: andthen_def)
  moreover have "keeps same_core (andthen (andthen (attempt yr) (\<lambda>_. ret (3 :: uuid))) (\<lambda>_. ret ()))"
    unfolding yr_def by (intro same_core.keeps_rules EnsureFiscalYear_core)
  ultimately have core: "same_core (charted 3 s0) sample_company" by (metis keeps_def)
  have c: "companies (charted 3 s0) = [co]" "verifications (charted 3 s0) = []" "vlines (charted 3 s0) = []" "audit_log (charted 3 s0) = []"
    by (simp_all add: charted_def s0_def e)
  from core c dk show "map (\<lambda>r. dek_from_wrapped sample_env (dek_wrapped r)) (companies sample_company) = [Inr (replicate 32 CHR ''r'')]"
    by (simp add: same_core_def)
  from core c id show "map co_id (companies sample_company) = [3]" "map locked_through (companies sample_company) = [None]"
    "verifications sample_company = []" "vlines sample_company = []" "audit_log sample_company = []"
    by (simp_all add: same_core_def)
  have "company_accounts 3 sample_company = company_accounts 3 (charted 3 s0)"
    using core by (simp add: same_core_def company_accounts_def)
  with charted_accounts [of _ 3 s0] show "ca_number ` set core_chart \<subseteq> company_accounts 3 sample_company" by auto
qed

lemma core_chart_has: "''6110'' \<in> ca_number ` set core_chart" "''1930'' \<in> ca_number ` set core_chart"
proof -
  have "list_all (\<lambda>a. a \<in> set (map ca_number core_chart)) [''6110'', ''1930'']" by code_simp
  then show "''6110'' \<in> ca_number ` set core_chart" "''1930'' \<in> ca_number ` set core_chart" by auto
qed

lemma log_audit_first:
  assumes "company_exists c s" and "company_audit c s = []"
    and "fst (actor_from e) \<in> {''user'', ''ai'', ''system''}"
    and "list_all no_nul [snd (actor_from e), a, tt, ti, d]"
  shows "log_audit e c a tt ti d s =
    (Inr (), s\<lparr>audit_log := audit_log s @ [audit_entry_row e c a tt ti d s], next_id := Suc (next_id s)\<rparr>)"
  using assms unfolding log_audit_def Let_def case_prod_unfold
  by (simp add: andthen_simps(2) [OF last_audit_hash] InsertAuditLog_def audit_entry_row_def Let_def
      last_hash_def case_prod_unfold)

lemma no_nul_fmt_nat: "no_nul (fmt_nat n)"
  using digits_set [OF all_digits_fmt_nat, of n] by (auto simp: no_nul_def is_digit_def)

lemma no_nul_amount: "\<bar>sint a\<bar> \<le> 9223372036854775799 \<Longrightarrow> no_nul (amount_string a)"
  using set_amount [of a] by (auto simp: no_nul_def is_digit_def)

lemma sample_books_ok:
  "PostVerification sample_env 3 ''A'' (midnight (Date 2026 3 1)) ''Kontorsmaterial''
     [debit_line ''6110'' 1000, credit_line ''1930'' 1000] 0 sample_company = (Inr (next_id sample_company), sample_books)"
  "length (verifications sample_books) = 1" "length (audit_log sample_books) = 1"
proof -
  let ?ls = "[debit_line ''6110'' 1000, credit_line ''1930'' 1000]"
  define t where "t = posted sample_env 3 ''A'' (midnight (Date 2026 3 1)) ''Kontorsmaterial'' ?ls 0 sample_company"
  obtain co where co: "companies sample_company = [co]" "co_id co = 3" "locked_through co = None"
    using sample_company_facts(1,2) by (cases "companies sample_company") auto
  have v: "validate (bare ?ls) = None"
    unfolding validate_None_iff by (simp add: bare_def double_entry_def line_ok_def)
  have acc: "''6110'' \<in> company_accounts 3 sample_company" "''1930'' \<in> company_accounts 3 sample_company"
    using sample_company_facts(6) core_chart_has by blast+
  have nn: "next_number 3 ''A'' sample_company = 1"
    by (simp add: next_number_def series_numbers_def sample_company_facts)
  have post: "post_verification sample_env 3 ''A'' (midnight (Date 2026 3 1)) ''Kontorsmaterial'' ?ls 0 sample_company =
      (Inr (next_id sample_company), t)"
    by (simp add: t_def post_verification_eq v co period_open_def acc nn pg_uuid_def)
  have audit: "audit_log t = []" "companies t = [co]" by (simp_all add: t_def posted_def co sample_company_facts)
  define x where "x = ''A'' @ '' '' @ amount_string (foldl (\<lambda>t l. t + debit l) 0 ?ls)"
  have "no_nul (amount_string 1000)" by (rule no_nul_amount) simp
  then have x: "list_all no_nul [''kim'', ''post_verification'', ''verification'', fmt_nat (next_id sample_company), x]"
    using no_nul_fmt_nat by (simp add: x_def) (simp add: no_nul_def)
  have log: "log_audit sample_env 3 ''post_verification'' ''verification'' (fmt_nat (next_id sample_company)) x t =
      (Inr (), t\<lparr>audit_log := [audit_entry_row sample_env 3 ''post_verification'' ''verification'' (fmt_nat (next_id sample_company)) x t],
        next_id := Suc (next_id t)\<rparr>)"
    by (rule log_audit_first [THEN trans])
      (use x in \<open>simp_all add: audit company_exists_def company_audit_def actor_from_def co\<close>)
  have r: "PostVerification sample_env 3 ''A'' (midnight (Date 2026 3 1)) ''Kontorsmaterial'' ?ls 0 sample_company =
      (Inr (next_id sample_company), t\<lparr>audit_log := [audit_entry_row sample_env 3 ''post_verification'' ''verification'' (fmt_nat (next_id sample_company)) x t],
        next_id := Suc (next_id t)\<rparr>)"
    using post log unfolding PostVerification_def Let_def x_def [symmetric] in_tx_ok andthen_ok by force
  show "PostVerification sample_env 3 ''A'' (midnight (Date 2026 3 1)) ''Kontorsmaterial'' ?ls 0 sample_company =
      (Inr (next_id sample_company), sample_books)"
    unfolding sample_books_def serve.simps forget_def andthen_def r by simp
  then have eq: "sample_books = t\<lparr>audit_log := [audit_entry_row sample_env 3 ''post_verification'' ''verification'' (fmt_nat (next_id sample_company)) x t],
        next_id := Suc (next_id t)\<rparr>" using r by simp
  show "length (verifications sample_books) = 1" "length (audit_log sample_books) = 1"
    unfolding eq by (simp_all add: t_def posted_def sample_company_facts)
qed

end
