(* ===== verification/Posting_Laws.thy ===== *)
theory Posting_Laws
  imports Sample_Books
begin

text \<open>
  Properties of single operations on the ledger: the outcome of a posting on every branch, the period
  lock over every request, the requests that are all or nothing, and the reversal.
\<close>

section \<open>All or nothing\<close>

text \<open>A program is atomic when an error means that the tables are as they were.\<close>

definition atomic :: "'a io \<Rightarrow> bool" where
  "atomic m \<longleftrightarrow> (\<forall>s x s'. m s = (Inl x, s') \<longrightarrow> s' = s)"

definition same_tables :: "db \<Rightarrow> db \<Rightarrow> bool" where
  "same_tables s t \<longleftrightarrow> t = s"

interpretation same_tables: change same_tables
  by unfold_locales (simp_all add: same_tables_def)

lemma read_state: "keeps same_tables m \<Longrightarrow> m s = (r, s') \<Longrightarrow> s' = s"
  by (metis keeps_def same_tables_def snd_conv)

lemma atomic_read: "keeps same_tables m \<Longrightarrow> atomic m"
  unfolding atomic_def using read_state by blast

lemma atomic_in_tx: "atomic (in_tx m)"
  by (simp add: atomic_def in_tx_error)

lemma atomic_after_read:
  assumes "keeps same_tables m" and "\<And>x. atomic (f x)"
  shows "atomic (andthen m f)"
  unfolding atomic_def
proof (intro allI impI)
  fix s x s'
  assume r: "andthen m f s = (Inl x, s')"
  obtain q t where m: "m s = (q, t)" by (cases "m s")
  have "t = s" by (rule read_state [OF assms(1) m])
  with r m assms(2) show "s' = s" by (cases q) (auto simp: andthen_def atomic_def)
qed

lemma atomic_forget: "atomic m \<Longrightarrow> atomic (forget m)"
  by (auto simp: atomic_def forget_def andthen_def split: prod.splits sum.splits)

lemma atomic_cases:
  "(\<And>a. atomic (m a)) \<Longrightarrow> (\<And>b. atomic (n b)) \<Longrightarrow> atomic (case x of Inl a \<Rightarrow> m a | Inr b \<Rightarrow> n b)"
  "(\<And>a b. atomic (k a b)) \<Longrightarrow> atomic (case p of (a, b) \<Rightarrow> k a b)"
  "atomic (fail e)"
  by (auto simp: atomic_def split: sum.splits prod.splits)

lemma GetCounterparty_read: "keeps same_tables (GetCounterparty e c i)"
  unfolding GetCounterparty_def dec_field_def company_dek_def
  by (rule same_tables.keeps_rules same_tables.keeps_reading)+

lemma InvoiceForRender_read: "keeps same_tables (InvoiceForRender e c i)"
  unfolding InvoiceForRender_def Let_def
  by (rule same_tables.keeps_rules same_tables.keeps_reading GetCounterparty_read)+

lemma TrialBalanceBetweenExclSeries_read: "keeps same_tables (TrialBalanceBetweenExclSeries c t1 t2 sr)"
  unfolding TrialBalanceBetweenExclSeries_def by (rule same_tables.keeps_rules same_tables.keeps_reading)+

lemmas read_intros = same_tables.keeps_reading same_tables.keeps_pure InvoiceForRender_read
  GetCounterparty_read TrialBalanceBetweenExclSeries_read same_tables.keeps_attempt

lemmas atomic_intros = atomic_in_tx atomic_cases atomic_after_read read_intros

text \<open>The requests that run in one transaction after reading.\<close>

fun transactional :: "request \<Rightarrow> bool" where
  "transactional (Post c sr d desc ls rv) = True"
| "transactional (Undo c i) = True"
| "transactional (Lock c d r) = True"
| "transactional (Unlock c r) = True"
| "transactional (Draft_Invoice c p i) = True"
| "transactional (Finalize c i d due) = True"
| "transactional (Pay c i d a p) = True"
| "transactional (Pay_Number c n d a p) = True"
| "transactional (Finalize_Supplier c i) = True"
| "transactional (Pay_Supplier c i d a p) = True"
| "transactional (Close_Year c i) = True"
| "transactional (Book_Account c t a) = True"
| "transactional (Import_Sie c x) = True"
| "transactional _ = False"

lemma RecordPayment_atomic: "atomic (RecordPayment e c i d acct pay)"
  unfolding RecordPayment_def payment_tx_def by (rule atomic_intros)+

lemma operations_atomic:
  "atomic (PostVerification e c sr d desc ls rv)"
  "atomic (UndoVerification e c i)"
  "atomic (LockPeriod e c d why)"
  "atomic (UnlockPeriod e c why)"
  "atomic (CreateInvoice e c p inv0)"
  "atomic (FinalizeInvoice e c i d due)"
  "atomic (RecordPaymentByNumber e c number d acct pay)"
  "atomic (FinalizeSupplierInvoice e c i)"
  "atomic (RecordSupplierPayment e c i d acct pay)"
  "atomic (CloseFiscalYear e c i)"
  "atomic (BookBankTxnToAccount e c t acct)"
  "atomic (ImportSIE e c x)"
  unfolding PostVerification_def UndoVerification_def LockPeriod_def UnlockPeriod_def CreateInvoice_def
    FinalizeInvoice_def finalize_tx_def RecordPaymentByNumber_def FinalizeSupplierInvoice_def
    RecordSupplierPayment_def CloseFiscalYear_def BookBankTxnToAccount_def ImportSIE_def Let_def
  by (rule atomic_intros RecordPayment_atomic)+

lemma transactional_atomic: "transactional r \<Longrightarrow> atomic (serve e r)"
  by (cases r) (simp_all add: operations_atomic RecordPayment_atomic atomic_forget)

text \<open>C15. Posting, undoing, locking, finalizing, paying, closing a year, booking a bank line to an account and
  importing a SIE file are all or nothing: a request of these that fails leaves every table as it was,
  the number sequences and the audit log included.\<close>

theorem failed_requests_change_nothing:
  assumes "transactional r" and "serve e r s = (Inl x, s')"
  shows "s' = s"
  using transactional_atomic [OF assms(1), of e] assms(2) by (auto simp: atomic_def)

lemma sample_refused:
  "serve sample_env (Post 3 ''A'' (midnight (Date 2026 3 1)) [] [debit_line ''6110'' 1000, credit_line ''1930'' 999] 0)
     sample_books = (Inl (LedgerErr ErrUnbalanced), sample_books)"
  by (simp add: forget_def andthen_def PostVerification_def in_tx_def post_verification_eq bare_def validate_def
      debit_line_def credit_line_def)

theorem failed_requests_change_nothing_witness:
  "serve sample_env (Post 3 ''A'' (midnight (Date 2026 3 1)) [] [debit_line ''6110'' 1000, credit_line ''1930'' 999] 0)
     sample_books = (Inl (LedgerErr ErrUnbalanced), sample_books) \<and> sample_books = sample_books"
  using failed_requests_change_nothing [OF _ sample_refused] sample_refused by simp

section \<open>The period lock\<close>

text \<open>
  The lock of a company, and what a request may add to the books under it: verifications dated on or
  after the day of the lock. A program that leaves the locks alone and posts through
  \<open>post_verification\<close> is calm.
\<close>

definition lock_of :: "uuid \<Rightarrow> db \<Rightarrow> date option" where
  "lock_of c s = (case filter (\<lambda>r. co_id r = c) (companies s) of [] \<Rightarrow> None | co # _ \<Rightarrow> locked_through co)"

definition allows :: "date option \<Rightarrow> date \<Rightarrow> bool" where
  "allows lk d = (case lk of None \<Rightarrow> True | Some lt \<Rightarrow> lt \<le> d)"

definition heeds :: "db \<Rightarrow> db \<Rightarrow> bool" where
  "heeds s t \<longleftrightarrow> (\<exists>vs. verifications t = verifications s @ vs \<and>
     (\<forall>v \<in> set vs. allows (lock_of (v_company v) s) (v_date v)))"

definition calm :: "db \<Rightarrow> db \<Rightarrow> bool" where
  "calm s t \<longleftrightarrow> heeds s t \<and> (\<forall>c. lock_of c t = lock_of c s)"

definition same_companies :: "db \<Rightarrow> db \<Rightarrow> bool" where
  "same_companies s t \<longleftrightarrow> companies t = companies s"

interpretation same_companies: change same_companies
  by unfold_locales (simp_all add: same_companies_def)

interpretation calm: change calm
proof
  show "calm s s" for s by (simp add: calm_def heeds_def)
  show "calm s u" if "calm s t" "calm t u" for s t u
  proof -
    from that obtain vs ws where "verifications t = verifications s @ vs" "verifications u = verifications t @ ws"
      "\<forall>v \<in> set vs. allows (lock_of (v_company v) s) (v_date v)"
      "\<forall>v \<in> set ws. allows (lock_of (v_company v) t) (v_date v)"
      by (auto simp: calm_def heeds_def)
    moreover have "lock_of c t = lock_of c s" "lock_of c u = lock_of c s" for c using that by (simp_all add: calm_def)
    ultimately show ?thesis unfolding calm_def heeds_def by (auto intro!: exI [of _ "vs @ ws"])
  qed
qed

lemma queries_same_companies [keeps_intros]:
  "keeps same_companies (UpsertAccount a3)"
  "keeps same_companies (InsertVerification a4 b4 c4 d4 e4 f4 g4)"
  "keeps same_companies (InsertVerificationLine a5)"
  "keeps same_companies (InsertCounterparty a6)"
  "keeps same_companies (q_UpdateCounterparty a7 b7 c7)"
  "keeps same_companies (q_EraseCounterparty a8 b8 c8 d8)"
  "keeps same_companies (InsertInvoice a9 b9 c9 d9 e9 f9)"
  "keeps same_companies (InsertInvoiceLine a10)"
  "keeps same_companies (q_FinalizeInvoice a12 b12 c12 d12 e12 f12)"
  "keeps same_companies (SetInvoiceCredits a14 b14)"
  "keeps same_companies (MarkInvoiceCancelled a15 b15)"
  "keeps same_companies (MarkInvoiceCredited a16 b16)"
  "keeps same_companies (AddInvoicePayment a17 b17 c17)"
  "keeps same_companies (MarkInvoicePaid a18 b18 c18 d18)"
  "keeps same_companies (InsertSupplierInvoice a19)"
  "keeps same_companies (q_FinalizeSupplierInvoice a20 b20 c20)"
  "keeps same_companies (MarkSupplierInvoicePaid a21 b21 c21 d21)"
  "keeps same_companies (InsertBankTxn a22)"
  "keeps same_companies (ClaimBankTxn a23 b23)"
  "keeps same_companies (UnclaimBankTxn a24 b24)"
  "keeps same_companies (MarkBankTxnBooked a25 b25 c25 d25)"
  "keeps same_companies (MarkBankTxnIgnored a26 b26)"
  "keeps same_companies (AnonymizeNonRetainedBankTxns a27 b27)"
  "keeps same_companies (InsertFiscalYear a28 b28 c28 d28)"
  "keeps same_companies (q_CloseFiscalYear a29 b29 c29)"
  "keeps same_companies (InsertDocument a30)"
  "keeps same_companies (q_AttachDocumentToSupplier a31 b31 c31)"
  "keeps same_companies (q_DeleteDocument a32 b32)"
  "keeps same_companies (SetDocumentPIIEnc a33 b33 c33)"
  "keeps same_companies (AnonymizeOrphanDocuments a34 b34)"
  "keeps same_companies (UpsertShieldToken a35)"
  "keeps same_companies DeleteAllShieldTokens"
  "keeps same_companies (DeleteOldShieldTokens a37)"
  "keeps same_companies (InsertUser a38 b38 c38)"
  "keeps same_companies (InsertSession a39)"
  "keeps same_companies (DeleteSession a40)"
  "keeps same_companies (DeleteExpiredSessions a41)"
  "keeps same_companies (InsertAuditLog r7)"
  unfolding query_defs Let_def
  by ((intro same_companies.keeps_rules; simp add: same_companies_def)+)

lemma special_same_companies [keeps_intros]:
  "keeps same_companies (AllocInvoiceNumber c y)" "keeps same_companies (q_DeleteDraftInvoice c i)"
  by (simp_all add: keeps_def same_companies_def AllocInvoiceNumber_def q_DeleteDraftInvoice_def split: option.split)

lemma log_audit_same_companies [keeps_intros]: "keeps same_companies (log_audit e c a tt ti d)"
  unfolding log_audit_def Let_def
  by (intro same_companies.keeps_rules same_companies.keeps_reading keeps_intros)

lemma heeds_quiet: "keeps same_ledger m \<Longrightarrow> keeps heeds m"
  by (erule keeps_weaken) (auto simp: same_ledger_def heeds_def)

lemma calm_quiet:
  assumes "keeps same_ledger m" and "keeps same_companies m"
  shows "keeps calm m"
  using assms by (auto simp: keeps_def calm_def heeds_def same_ledger_def same_companies_def lock_of_def)

lemma calm_draws: "keeps draws_only m \<Longrightarrow> keeps calm m"
  by (erule keeps_weaken) (auto simp: draws_only_def calm_def heeds_def lock_of_def)

lemma post_calm: "keeps calm (post_verification e c sr d desc ls rv)"
  unfolding keeps_def
proof
  fix s
  obtain r s' where r: "post_verification e c sr d desc ls rv s = (r, s')"
    by (cases "post_verification e c sr d desc ls rv s")
  show "calm s (snd (post_verification e c sr d desc ls rv s))"
  proof (cases r)
    case (Inl x)
    have "s' = s" by (rule post_verification_error [OF r [unfolded Inl]])
    with r show ?thesis by (simp add: calm.change_refl)
  next
    case (Inr i)
    note ok = post_verification_ok [OF r [unfolded Inr]]
    obtain co cos where co: "filter (\<lambda>r. co_id r = c) (companies s) = co # cos" "period_open co d"
      using ok(6) by blast
    have "allows (lock_of c s) (date_of d)"
      using co by (auto simp: allows_def lock_of_def period_open_def less_gotime_def less_eq_gotime_def midnight_def split: option.splits)
    then show ?thesis using r by (auto simp: ok(2) calm_def heeds_def posted_def posted_row_def lock_of_def)
  qed
qed

lemma company_queries_calm:
  "keeps calm (InsertCompany nm orgnr w k)" "keeps calm (UpdateCompanyProfile p)"
proof -
  show "keeps calm (UpdateCompanyProfile p)"
  proof -
    let ?up = "\<lambda>r. if co_id r = co_id p then r\<lparr>co_name := co_name p, co_orgnr := co_orgnr p, momsregnr := momsregnr p,
      co_address := co_address p, postal_code := postal_code p, city := city p, bankgiro := bankgiro p,
      co_iban := co_iban p, fskatt := fskatt p\<rparr> else r"
    have "lock_of c (s\<lparr>companies := map ?up (companies s)\<rparr>) = lock_of c s" for c s
    proof -
      have f: "filter (\<lambda>r. co_id r = c) (map ?up rs) = map ?up (filter (\<lambda>r. co_id r = c) rs)" for rs
        by (induction rs) auto
      have "companies (s\<lparr>companies := map ?up (companies s)\<rparr>) = map ?up (companies s)" by simp
      then show ?thesis unfolding lock_of_def by (simp only: f) (simp split: list.split)
    qed
    then have "keeps calm (update_rows companies (\<lambda>rs s. s\<lparr>companies := rs\<rparr>) (\<lambda>r. co_id r = co_id p)
       (\<lambda>r. r\<lparr>co_name := co_name p, co_orgnr := co_orgnr p, momsregnr := momsregnr p,
               co_address := co_address p, postal_code := postal_code p, city := city p,
               bankgiro := bankgiro p, co_iban := co_iban p, fskatt := fskatt p\<rparr>))"
      by (simp add: keeps_def update_rows_def calm_def heeds_def)
    then show ?thesis
      unfolding UpdateCompanyProfile_def by (rule calm.keeps_andthen) (rule calm.keeps_pure)
  qed
  show "keeps calm (InsertCompany nm orgnr w k)"
    unfolding InsertCompany_def Let_def
    by (intro calm.keeps_rules) (auto simp: calm_def heeds_def lock_of_def split: list.split)
qed

lemmas calm_steps = calm.keeps_rules calm.keeps_reading post_calm company_queries_calm

lemma parts_calm:
  "keeps calm (company_dek e c)" "keeps calm (GetCounterparty e c i)" "keeps calm (enc_field e dek v)"
  "keeps calm (seed_chart c)" "keeps calm (EnsureFiscalYear c y)" "keeps calm (log_audit e c a tt ti d)"
proof -
  show dek: "keeps calm (company_dek e c)" unfolding company_dek_def by (rule calm_steps)+
  show "keeps calm (GetCounterparty e c i)"
    unfolding GetCounterparty_def dec_field_def by (rule calm_steps dek)+
  show "keeps calm (enc_field e dek v)"
    unfolding enc_field_def by (rule calm_steps | (rule calm_draws, rule keeps_intros))+
  show "keeps calm (seed_chart c)" unfolding seed_chart_def by (rule calm_steps | (rule calm_quiet; rule keeps_intros))+
  show "keeps calm (EnsureFiscalYear c y)"
    unfolding EnsureFiscalYear_def by (rule calm_steps | (rule calm_quiet; rule keeps_intros))+
  show "keeps calm (log_audit e c a tt ti d)" by (rule calm_quiet; rule keeps_intros)
qed

lemmas calm_parts = calm_steps parts_calm

lemma InvoiceForRender_calm: "keeps calm (InvoiceForRender e c i)"
  unfolding InvoiceForRender_def Let_def by (rule calm_parts)+

lemma RecordPayment_calm: "keeps calm (RecordPayment e c i d acct pay)"
  unfolding RecordPayment_def payment_tx_def
  by (rule calm_parts InvoiceForRender_calm | (rule calm_quiet; rule keeps_intros))+

lemma CreateInvoice_calm: "keeps calm (CreateInvoice e c p i)"
  unfolding CreateInvoice_def Let_def by (rule calm_parts | (rule calm_quiet; rule keeps_intros))+

lemma backfill_rows_calm:
  "keeps calm (backfill_rows e (company_dek e) SetDocumentPIIEnc rs b)"
proof (induction rs arbitrary: b)
  case Nil
  show ?case unfolding backfill_rows.simps by (rule calm.keeps_pure)
next
  case (Cons r rs)
  show ?case
    unfolding backfill_rows.simps Let_def migrate_row_def
    by (rule calm_parts Cons.IH | (rule calm_quiet; rule keeps_intros))+
qed

lemma operations_calm:
  "keeps calm (BootstrapCompany e nm orgnr)"
  "keeps calm SyncChart"
  "keeps calm (UpdateCompanyProfile_op e ci)"
  "keeps calm (PostVerification e c sr d desc ls rv)"
  "keeps calm (UndoVerification e c i)"
  "keeps calm (CreateCounterparty e c cp)"
  "keeps calm (UpdateCounterparty e c i cp)"
  "keeps calm (EraseCounterparty e c i)"
  "keeps calm (LogUserAction e c a tt ti dt)"
  "keeps calm (DeleteDraftInvoice e c j)"
  "keeps calm (FinalizeInvoice e c j d due)"
  "keeps calm (CreditInvoice e c j)"
  "keeps calm (RecordPaymentByNumber e c number d acct pay)"
  "keeps calm (CreateSupplierInvoice e c p number d due cost net code desc)"
  "keeps calm (FinalizeSupplierInvoice e c i)"
  "keeps calm (RecordSupplierPayment e c i d acct pay)"
  unfolding BootstrapCompany_def SyncChart_def UpdateCompanyProfile_op_def PostVerification_def
    UndoVerification_def CreateCounterparty_def UpdateCounterparty_def EraseCounterparty_def LogUserAction_def
    DeleteDraftInvoice_def FinalizeInvoice_def finalize_tx_def CreditInvoice_def credit_tx_def
    RecordPaymentByNumber_def CreateSupplierInvoice_def FinalizeSupplierInvoice_def RecordSupplierPayment_def Let_def
  by (rule calm_parts RecordPayment_calm CreateInvoice_calm | (rule calm_draws, rule keeps_intros) |
      (rule calm_quiet; rule keeps_intros))+

lemma operations_calm':
  "keeps calm (ImportBankStatement e c acct entries)"
  "keeps calm (BookBankTxnToInvoice e c t i)"
  "keeps calm (BookBankTxnToAccount e c t acct)"
  "keeps calm (IgnoreBankTxn c t)"
  "keeps calm (SaveDocument e c f m cont n)"
  "keeps calm (AttachDocumentToSupplier e c i su)"
  "keeps calm (DeleteDocument e c i)"
  "keeps calm (BackfillDocumentPII e)"
  "keeps calm (sweep_run e)"
  "keeps calm (ImportSIE e c x)"
  unfolding ImportBankStatement_def import_entry_def BookBankTxnToInvoice_def BookBankTxnToAccount_def
    IgnoreBankTxn_def SaveDocument_def AttachDocumentToSupplier_def DeleteDocument_def BackfillDocumentPII_def
    sweep_run_def Sweep_def anonymize_companies_def AnonymizeNonRetainedPII_def ImportSIE_def import_voucher_def Let_def
  by (rule calm_parts RecordPayment_calm backfill_rows_calm | (rule calm_draws, rule keeps_intros) |
      (rule calm_quiet; rule keeps_intros))+

text \<open>The two requests that move the lock, and the one that posts before it does.\<close>

lemma heeds_tx: "keeps heeds m \<Longrightarrow> keeps heeds (in_tx m)"
  unfolding keeps_def
proof
  fix s
  assume k: "\<forall>s. heeds s (snd (m s))"
  have r: "heeds s s" by (simp add: heeds_def)
  from k r show "heeds s (snd (in_tx m s))" unfolding in_tx_def by (metis (mono_tags, lifting) case_prod_unfold
      old.sum.simps(5,6) snd_conv sumE)
qed

lemma calm_heeds: "calm s t \<Longrightarrow> heeds t u \<Longrightarrow> heeds s u"
  unfolding calm_def heeds_def by (elim conjE exE) (rule exI [of _ "vs @ ws" for vs ws], auto)

lemma heeds_after:
  assumes "keeps calm m" and "\<And>x. keeps heeds (f x)"
  shows "keeps heeds (andthen m f)"
  unfolding keeps_def
proof
  fix s
  obtain r s' where m: "m s = (r, s')" by (cases "m s")
  then have c: "calm s s'" using assms(1) by (metis keeps_def snd_conv)
  moreover have "heeds s' (snd (f x s'))" for x using assms(2) by (simp add: keeps_def)
  ultimately show "heeds s (snd (andthen m f s))"
    using m calm_heeds by (cases r) (auto simp: andthen_def calm_def)
qed

lemma lock_same_ledger: "keeps same_ledger (SetLockedThrough c d)"
  by (rule keeps_intros)

lemma locks_quiet:
  "keeps same_ledger (andthen (SetLockedThrough c d) (\<lambda>_. log_audit e c a tt ti x))"
  "keeps same_ledger (andthen (SetLockedThrough c d) (\<lambda>_. andthen (log_audit e c a tt ti x) (\<lambda>_. ret v)))"
  by (rule same_ledger.keeps_rules keeps_intros)+

lemma CloseFiscalYear_heeds: "keeps heeds (CloseFiscalYear e c i)"
  unfolding CloseFiscalYear_def TrialBalanceBetweenExclSeries_def Let_def
  by (rule heeds_tx heeds_quiet [OF locks_quiet(2)] calm_parts heeds_after | (rule calm_quiet; rule keeps_intros))+

lemma locking_heeds: "keeps heeds (LockPeriod e c d why)" "keeps heeds (UnlockPeriod e c why)"
  unfolding LockPeriod_def UnlockPeriod_def by (rule heeds_tx heeds_quiet locks_quiet)+

lemma forget_calm: "keeps calm m \<Longrightarrow> keeps heeds (forget m)"
  unfolding forget_def by (rule heeds_after) (simp_all add: keeps_def heeds_def)

lemma calm_keeps_heeds: "keeps calm m \<Longrightarrow> keeps heeds m"
  by (erule keeps_weaken) (simp add: calm_def)

lemma forget_heeds: "keeps heeds m \<Longrightarrow> keeps heeds (forget m)"
  unfolding keeps_def forget_def andthen_def
  by (metis (mono_tags, lifting) case_prod_unfold old.sum.simps(5,6) ret_def snd_conv sumE)

lemma serve_heeds: "keeps heeds (serve e r)"
  by (cases r) (auto intro: forget_calm calm_keeps_heeds operations_calm operations_calm' RecordPayment_calm
      CreateInvoice_calm parts_calm CloseFiscalYear_heeds locking_heeds forget_heeds)

text \<open>C14. No request adds a verification to a locked period: whatever is served, a verification it adds to the
  books of a company whose period is locked is dated on the day of the lock or after it (on that day
  itself only a posting with a time of day passes the comparison), and no verification is changed.\<close>

theorem period_lock:
  "\<exists>vs. verifications (snd (serve e r s)) = verifications s @ vs \<and>
     list_all (\<lambda>v. case lock_of (v_company v) s of None \<Rightarrow> True | Some lt \<Rightarrow> lt \<le> v_date v) vs"
  using serve_heeds [of e r] by (auto simp: keeps_def heeds_def allows_def list_all_iff)

end
