(* ===== verification/Ledger_Laws.thy ===== *)
theory Ledger_Laws
  imports Posting_Laws
begin

text \<open>
  Properties of the ledger as the store keeps it: what a posting leaves on every branch, that undoing
  cancels, and that the balance queries compute the trial balance of the double-entry engine.
\<close>

section \<open>The outcome of a posting\<close>

text \<open>The reason a posting is refused, in the order the reasons are checked.\<close>

definition refusal :: "uuid \<Rightarrow> string \<Rightarrow> gotime \<Rightarrow> line list \<Rightarrow> db \<Rightarrow> err option" where
  "refusal c sr d ls s =
     (case validate (bare ls) of Some x \<Rightarrow> Some (LedgerErr x)
      | None \<Rightarrow> (case find (\<lambda>r. co_id r = c) (companies s) of None \<Rightarrow> Some NoRows
        | Some co \<Rightarrow> if \<not> period_open co d then Some ErrPeriodClosed
          else (case find (\<lambda>l. account l \<notin> company_accounts c s) ls of
              Some l \<Rightarrow> Some (ErrUnknownAccount (account l))
            | None \<Rightarrow> if 2147483647 < next_number c sr s then Some OutOfRange else None)))"

lemma post_verification_refusal:
  "post_verification e c sr d desc ls 0 s =
     (case refusal c sr d ls s of Some x \<Rightarrow> (Inl x, s) | None \<Rightarrow> (Inr (next_id s), posted e c sr d desc ls 0 s))"
proof -
  have f: "find P xs = (case filter P xs of [] \<Rightarrow> None | x # _ \<Rightarrow> Some x)" for P and xs :: "company list"
    by (induction xs) auto
  show ?thesis
    unfolding post_verification_eq refusal_def f by (simp add: pg_uuid_def split: option.split list.split)
qed

definition grown :: "ver_row \<Rightarrow> line list \<Rightarrow> audit_row \<Rightarrow> db \<Rightarrow> db \<Rightarrow> bool" where
  "grown v ls a s t \<longleftrightarrow> verifications t = verifications s @ [v] \<and>
     vlines t = vlines s @ map (line_row (v_id v)) ls \<and> audit_log t = audit_log s @ [a] \<and>
     t = s\<lparr>verifications := verifications t, vlines := vlines t, audit_log := audit_log t, next_id := next_id t\<rparr>"

lemma next_number_length:
  assumes "books_ok s"
  shows "next_number c sr s = int (length (series_numbers c sr s)) + 1"
proof -
  from assms obtain n where "series_numbers c sr s = map int [1..<Suc n]" unfolding books_ok_def by metis
  then show ?thesis using fold_max_upt [of n] by (simp add: next_number_def)
qed

text \<open>C18. A posting is answered in the order of the checks: the first reason to refuse is the error and nothing
  is written; with none, the verification, its lines and one entry of the audit log are added and nothing
  else changes: the number is the next of its series, the date that of the request.\<close>

theorem posting_answers:
  assumes "reachable e s" and "PostVerification f c sr d desc ls 0 s = (q, t)"
  shows "case q of
      Inl x \<Rightarrow> t = s \<and> (case refusal c sr d ls s of Some y \<Rightarrow> x = y
        | None \<Rightarrow> \<exists>u. log_audit f c ''post_verification'' ''verification'' (e_uuid_text f (next_id s))
            (sr @ '' '' @ amount_string (foldl (\<lambda>t l. t + debit l) 0 ls))
            (posted f c sr d desc ls 0 s) = (Inl x, u))
    | Inr i \<Rightarrow> refusal c sr d ls s = None \<and> double_entry ls \<and> (\<exists>a. au_action a = ''post_verification'' \<and>
        grown \<lparr>v_id = i, v_company = c, v_series = sr, v_number = int (length (series_numbers c sr s)) + 1,
          v_date = date_of d, v_description = desc, v_reversal_of = None, v_posted_at = Some (e_now f)\<rparr> ls a s t)"
proof (cases q)
  case (Inl x)
  have "t = s" using assms(2) Inl by (simp add: PostVerification_def in_tx_error)
  then show ?thesis
    using assms(2) Inl
    by (auto simp: PostVerification_def in_tx_error post_verification_refusal andthen_def split: option.splits prod.splits sum.splits)
next
  case (Inr i)
  let ?l = "log_audit f c ''post_verification'' ''verification'' (e_uuid_text f (next_id s))
            (sr @ '' '' @ amount_string (foldl (\<lambda>t l. t + debit l) 0 ls))"
  from assms(2) Inr obtain u where r: "refusal c sr d ls s = None" and i: "i = next_id s"
    and l: "?l (posted f c sr d desc ls 0 s) = (Inr (), t)"
    by (auto simp: PostVerification_def in_tx_ok andthen_ok post_verification_refusal split: option.splits)
  have "post_verification f c sr d desc ls 0 s = (Inr i, posted f c sr d desc ls 0 s)"
    by (simp add: post_verification_refusal r i)
  from post_verification_ok(3) [OF this] have "double_entry ls" .
  moreover have "next_number c sr s = int (length (series_numbers c sr s)) + 1"
    using reachable_ok [OF assms(1)] next_number_length by blast
  ultimately show ?thesis using r Inr
    by (auto simp: log_audit_result [OF l] grown_def posted_def posted_row_def i pg_uuid_def audit_entry_row_def
        Let_def case_prod_unfold)
qed

theorem posting_answers_witness:
  "refusal 3 ''A'' (midnight (Date 2026 3 1)) [debit_line ''6110'' 1000, credit_line ''1930'' 1000] sample_company = None \<and>
   (\<exists>a. au_action a = ''post_verification'' \<and>
     grown \<lparr>v_id = next_id sample_company, v_company = 3, v_series = ''A'', v_number = 1, v_date = Date 2026 3 1,
        v_description = ''Kontorsmaterial'', v_reversal_of = None, v_posted_at = Some (e_now sample_env)\<rparr>
       [debit_line ''6110'' 1000, credit_line ''1930'' 1000] a sample_company sample_books)"
  using posting_answers [OF reachable_sample(1) sample_books_ok(1)]
  by (simp add: series_numbers_def sample_company_facts)

section \<open>Undoing\<close>

lemma GetVerification_found:
  assumes "GetVerification i s = (Inr v, t)"
  shows "v \<in> set (verifications s)" "v_id v = i" "t = s"
proof -
  from assms have "t = s" and "hd (filter (\<lambda>v. v_id v = i) (verifications s)) = v"
    and ne: "filter (\<lambda>v. v_id v = i) (verifications s) \<noteq> []"
    by (auto simp: GetVerification_def fetch_def split: list.splits)
  then have "v \<in> set (filter (\<lambda>v. v_id v = i) (verifications s))" using list.set_sel(1) [OF ne] by blast
  then show "v \<in> set (verifications s)" "v_id v = i" by auto
  show "t = s" by fact
qed

definition account_net :: "string \<Rightarrow> line list \<Rightarrow> int" where
  "account_net a ls = sum_list (map (\<lambda>l. sint (debit l) - sint (credit l)) (filter (\<lambda>l. account l = a) ls))"

lemma account_net_swap: "account_net a (map swap_line ls) = - account_net a ls"
  by (induction ls) (simp_all add: account_net_def swap_line_def)

lemma UndoVerification_ok:
  assumes "UndoVerification e c i s = (Inr j, t)"
  obtains v u desc where "v \<in> set (verifications s)" "v_id v = i" "v_company v = c"
    "post_verification e c ''R'' (e_now e) desc (map swap_line (ver_lines i s)) i s = (Inr j, u)"
    "verifications t = verifications u" "vlines t = vlines u"
proof -
  from assms obtain v s1 where v: "GetVerification i s = (Inr v, s1)" and rest:
    "andthen (require (v_company v = c) ErrForeignCompany) (\<lambda>_.
     andthen (ListVerificationLinesByVerification i) (\<lambda>rows.
     let orig = \<lparr>series = v_series v, vnumber = v_number v, vdate = zero_time, description = [],
                 lines = lines_of rows, reversal_of = []\<rparr>;
         rv = reverse orig ''R'' 0 (e_now e) (sv ''^ngra '' @ verification_id orig)
     in in_tx (
       andthen (post_verification e c ''R'' (e_now e) (description rv) (lines rv) i) (\<lambda>j.
       andthen (log_audit e c ''undo'' ''verification'' (e_uuid_text e i) (sv ''r{ttelse '' @ e_uuid_text e j)) (\<lambda>_.
       ret j))))) s1 = (Inr j, t)"
    unfolding UndoVerification_def andthen_ok by blast
  note g = GetVerification_found [OF v]
  define rows where "rows = filter (\<lambda>l. vl_verification l = i) (vlines s)"
  define orig where "orig = \<lparr>series = v_series v, vnumber = v_number v, vdate = zero_time, description = [],
                 lines = lines_of rows, reversal_of = []\<rparr>"
  define rv where "rv = reverse orig ''R'' 0 (e_now e) (sv ''^ngra '' @ verification_id orig)"
  have l0: "lines rv = map swap_line (lines_of rows)" by (simp add: rv_def reverse_def orig_def)
  then have l: "lines rv = map swap_line (ver_lines i s)" by (simp add: ver_lines_def rows_def)
  have read: "ListVerificationLinesByVerification i s = (Inr rows, s)"
    by (simp add: ListVerificationLinesByVerification_def fetch_all_def rows_def)
  from rest have c: "v_company v = c" by (auto simp: andthen_ok require_def split: if_splits)
  with rest have "in_tx (
       andthen (post_verification e c ''R'' (e_now e) (description rv) (lines rv) i) (\<lambda>j.
       andthen (log_audit e c ''undo'' ''verification'' (e_uuid_text e i) (sv ''r{ttelse '' @ e_uuid_text e j)) (\<lambda>_.
       ret j))) s = (Inr j, t)"
    by (simp add: g(3) andthen_simps(2) [where m = "ListVerificationLinesByVerification i" and s = s, OF read] require_def orig_def [symmetric] rv_def [symmetric] Let_def l0)
  then obtain u where p: "post_verification e c ''R'' (e_now e) (description rv) (lines rv) i s = (Inr j, u)"
    and a: "log_audit e c ''undo'' ''verification'' (e_uuid_text e i) (sv ''r{ttelse '' @ e_uuid_text e j) u = (Inr (), t)"
    unfolding in_tx_ok andthen_ok by auto
  show thesis
    by (rule that [OF g(1,2) c p [unfolded l]]) (simp_all add: log_audit_result [OF a])
qed

text \<open>C19. Undoing a verification never edits it: the reversal is a verification of its own in series R, dated
  today, that refers to the original; its lines are the original's with the sides swapped, so the two
  together leave every account's exact balance where it was.\<close>

theorem undo_cancels:
  assumes "reachable e s" and "UndoVerification f c i s = (Inr j, t)"
  shows "\<exists>w. verifications t = verifications s @ [w] \<and> v_id w = j \<and> v_company w = c \<and> v_series w = ''R'' \<and>
    v_reversal_of w = pg_uuid i \<and> v_date w = date_of (e_now f) \<and>
    ver_lines i t = ver_lines i s \<and> ver_lines j t = map swap_line (ver_lines i s) \<and>
    (\<forall>a. account_net a (ver_lines i t) + account_net a (ver_lines j t) = 0)"
  using assms(2)
proof (rule UndoVerification_ok)
  fix v u desc
  assume v: "v \<in> set (verifications s)" "v_id v = i" "v_company v = c"
    and p: "post_verification f c ''R'' (e_now f) desc
      (map swap_line (ver_lines i s)) i s = (Inr j, u)"
    and t: "verifications t = verifications u" "vlines t = vlines u"
  note ok = post_verification_ok [OF p]
  have b: "books_ok s" using reachable_ok [OF assms(1)] by blast
  have lt: "v_id v < next_id s" using b v(1) by (auto simp: books_ok_def)
  have "ver_lines x t = ver_lines x u" for x using t by (simp add: ver_lines_def)
  then have "ver_lines i t = ver_lines i s" "ver_lines j t = map swap_line (ver_lines i s)"
    using ver_lines_posted(1) [OF b lt] ver_lines_posted(2) [OF b] unfolding ok(1,2) v(2) by simp_all
  then show ?thesis using t by (simp add: ok(1,2) posted_def posted_row_def account_net_swap)
qed

text \<open>The sample books, and what is needed for a second entry in the audit log.\<close>

lemma log_audit_fresh:
  assumes "company_exists c s" and "last_hash [] (company_audit c s) \<notin> set (map au_prev (company_audit c s))"
    and "fst (actor_from e) \<in> {''user'', ''ai'', ''system''}"
    and "list_all no_nul [snd (actor_from e), a, tt, ti, d]"
  shows "log_audit e c a tt ti d s =
    (Inr (), s\<lparr>audit_log := audit_log s @ [audit_entry_row e c a tt ti d s], next_id := Suc (next_id s)\<rparr>)"
  using assms unfolding log_audit_def Let_def case_prod_unfold
  by (cases "company_audit c s = []")
    (simp_all add: andthen_simps(2) [OF last_audit_hash] InsertAuditLog_def audit_entry_row_def Let_def
      last_hash_def case_prod_unfold)

lemma sample_hash_nonempty: "audit_hash sample_env p fs \<noteq> []"
proof -
  have "sample_digest (audit_input p fs) \<noteq> []" by (metis length_sample_digest list.size(3) zero_neq_numeral)
  then show ?thesis by (cases "sample_digest (audit_input p fs)") (simp_all add: audit_hash_def hex_encode_def)
qed

lemma sample_books_facts:
  defines "i \<equiv> next_id sample_company"
  shows "map co_id (companies sample_books) = [3]" "map locked_through (companies sample_books) = [None]"
    "verifications sample_books = [posted_row sample_env 3 ''A'' (midnight (Date 2026 3 1)) ''Kontorsmaterial'' 0 sample_company]"
    "ver_lines i sample_books = [debit_line ''6110'' 1000, credit_line ''1930'' 1000]"
    "company_accounts 3 sample_books = company_accounts 3 sample_company"
    "\<exists>a. audit_log sample_books = [a] \<and> au_company a = 3 \<and> au_prev a = [] \<and> au_hash a \<noteq> []"
    "vlines sample_books = map (line_row i) [debit_line ''6110'' 1000, credit_line ''1930'' 1000]"
proof -
  let ?ls = "[debit_line ''6110'' 1000, credit_line ''1930'' 1000]"
  let ?t = "posted sample_env 3 ''A'' (midnight (Date 2026 3 1)) ''Kontorsmaterial'' ?ls 0 sample_company"
  from sample_books_ok(1) obtain j u where
    p: "post_verification sample_env 3 ''A'' (midnight (Date 2026 3 1)) ''Kontorsmaterial'' ?ls 0 sample_company = (Inr j, u)"
    and l0: "\<exists>tt ti d. log_audit sample_env 3 ''post_verification'' tt ti d u = (Inr (), sample_books)"
    unfolding PostVerification_def Let_def in_tx_ok andthen_ok by auto blast
  have "u = ?t" by (rule post_verification_ok(2) [OF p])
  with l0 obtain tt ti d where l: "log_audit sample_env 3 ''post_verification'' tt ti d ?t = (Inr (), sample_books)" by blast
  note b = log_audit_result [OF l]
  show "map co_id (companies sample_books) = [3]" "map locked_through (companies sample_books) = [None]"
    using sample_company_facts(1,2) by (simp_all add: b posted_def)
  show "verifications sample_books = [posted_row sample_env 3 ''A'' (midnight (Date 2026 3 1)) ''Kontorsmaterial'' 0 sample_company]"
    using sample_company_facts(3) by (simp add: b posted_def)
  show "vlines sample_books = map (line_row i) ?ls"
    using sample_company_facts(4) by (simp add: b posted_def i_def)
  show "ver_lines i sample_books = ?ls"
    using sample_company_facts(4) by (simp add: b posted_def ver_lines_def line_row_def lines_of_def i_def debit_line_def credit_line_def)
  show "company_accounts 3 sample_books = company_accounts 3 sample_company"
    by (simp add: b posted_def company_accounts_def)
  show "\<exists>a. audit_log sample_books = [a] \<and> au_company a = 3 \<and> au_prev a = [] \<and> au_hash a \<noteq> []"
    using sample_company_facts(5)
    by (auto simp: b posted_def company_audit_def audit_entry_row_def Let_def case_prod_unfold last_hash_def
        sample_hash_nonempty)
qed

lemma sample_undo:
  "\<exists>j t. UndoVerification sample_env 3 (next_id sample_company) sample_books = (Inr j, t)"
proof -
  define i where "i = next_id sample_company"
  let ?rs = "[credit_line ''6110'' 1000, debit_line ''1930'' 1000]"
  obtain co where co: "companies sample_books = [co]" "co_id co = 3" "locked_through co = None"
    using sample_books_facts(1,2) by (cases "companies sample_books") auto
  define v where "v = posted_row sample_env 3 ''A'' (midnight (Date 2026 3 1)) ''Kontorsmaterial'' 0 sample_company"
  have v: "v_id v = i" "v_company v = 3" "v_series v = ''A''" by (simp_all add: v_def i_def posted_row_def)
  have vs: "verifications sample_books = [v]" unfolding v_def by (rule sample_books_facts(3))
  have get: "GetVerification i sample_books = (Inr v, sample_books)" using v vs by (simp add: GetVerification_def fetch_def)
  define orig where "orig = \<lparr>series = v_series v, vnumber = v_number v, vdate = zero_time, description = [],
                 lines = [debit_line ''6110'' 1000, credit_line ''1930'' 1000], reversal_of = []\<rparr>"
  define rv where "rv = reverse orig ''R'' 0 (e_now sample_env) (sv ''^ngra '' @ verification_id orig)"
  have l: "lines rv = ?rs" by (simp add: rv_def reverse_def orig_def swap_line_def debit_line_def credit_line_def)
  have rows: "\<exists>rows. ListVerificationLinesByVerification i sample_books = (Inr rows, sample_books) \<and>
      lines_of rows = [debit_line ''6110'' 1000, credit_line ''1930'' 1000]"
    using sample_books_facts(4) by (simp add: ListVerificationLinesByVerification_def fetch_all_def ver_lines_def i_def)
  then obtain rows where rows: "ListVerificationLinesByVerification i sample_books = (Inr rows, sample_books)"
      "lines_of rows = [debit_line ''6110'' 1000, credit_line ''1930'' 1000]" by blast
  have acc: "''6110'' \<in> company_accounts 3 sample_books" "''1930'' \<in> company_accounts 3 sample_books"
    using sample_company_facts(6) core_chart_has by (auto simp: sample_books_facts(5))
  have val: "validate (bare ?rs) = None"
    unfolding validate_None_iff by (simp add: bare_def double_entry_def line_ok_def)
  have nn: "next_number 3 ''R'' sample_books = 1"
    by (simp add: next_number_def series_numbers_def vs v)
  have ve: "ver_exists i sample_books" by (simp add: ver_exists_def vs v)
  define t where "t = posted sample_env 3 ''R'' (e_now sample_env) (description rv) ?rs i sample_books"
  have post: "post_verification sample_env 3 ''R'' (e_now sample_env) (description rv) (lines rv) i sample_books =
      (Inr (next_id sample_books), t)"
    by (simp add: t_def l post_verification_eq val co period_open_def acc nn pg_uuid_def ve)
  obtain a where a: "audit_log sample_books = [a]" "au_company a = 3" "au_prev a = []" "au_hash a \<noteq> []"
    using sample_books_facts(6) by blast
  have "\<exists>u. log_audit sample_env 3 ''undo'' ''verification'' (fmt_nat i) (sv ''r{ttelse '' @ fmt_nat (next_id sample_books)) t = (Inr (), u)"
  proof -
    have "no_nul (sv ''r{ttelse '' @ fmt_nat (next_id sample_books))" using no_nul_fmt_nat [of "next_id sample_books"]
      by (simp add: no_nul_def sv_def sv_char_def)
    then have n: "list_all no_nul [''kim'', ''undo'', ''verification'', fmt_nat i, sv ''r{ttelse '' @ fmt_nat (next_id sample_books)]"
      using no_nul_fmt_nat by simp (simp add: no_nul_def)
    show ?thesis
      by (rule exI, rule log_audit_fresh)
        (use n a in \<open>simp_all add: t_def posted_def co company_exists_def company_audit_def last_hash_def actor_from_def\<close>)
  qed
  then obtain u where "log_audit sample_env 3 ''undo'' ''verification'' (e_uuid_text sample_env i)
      (sv ''r{ttelse '' @ e_uuid_text sample_env (next_id sample_books)) t = (Inr (), u)" by auto
  then have "UndoVerification sample_env 3 i sample_books = (Inr (next_id sample_books), u)"
    unfolding UndoVerification_def andthen_ok in_tx_ok Let_def using get rows post v(2)
    by (force simp: require_def orig_def rv_def andthen_ok in_tx_ok)
  then show ?thesis unfolding i_def by blast
qed

theorem undo_cancels_witness:
  "\<exists>w t. verifications t = verifications sample_books @ [w] \<and> v_series w = ''R'' \<and>
    v_date w = Date 2026 3 5 \<and>
    ver_lines (v_id w) t = [credit_line ''6110'' 1000, debit_line ''1930'' 1000]"
proof -
  obtain j t where "UndoVerification sample_env 3 (next_id sample_company) sample_books = (Inr j, t)"
    using sample_undo by blast
  from undo_cancels [OF reachable_sample(2) this] show ?thesis
    by (auto simp: sample_books_facts(4) swap_line_def debit_line_def credit_line_def)
qed

section \<open>The balance queries\<close>

text \<open>The verifications on record that satisfy a condition, as the engine's data.\<close>

definition journal :: "(ver_row \<Rightarrow> bool) \<Rightarrow> db \<Rightarrow> verification list" where
  "journal P s = map (\<lambda>v. \<lparr>series = v_series v, vnumber = v_number v, vdate = midnight (v_date v),
     description = v_description v, lines = ver_lines (v_id v) s, reversal_of = []\<rparr>) (filter P (verifications s))"

definition sums_fit :: "(ver_row \<Rightarrow> bool) \<Rightarrow> db \<Rightarrow> bool" where
  "sums_fit P s \<longleftrightarrow> list_all (\<lambda>(a, n). in64 n) (account_sums (joined_lines P s))"

lemma mset_filter_ids:
  assumes "distinct (map f vs)"
  shows "mset (concat (map (\<lambda>v. filter (\<lambda>l. g l = f v) ls) vs)) = mset (filter (\<lambda>l. list_ex (\<lambda>v. f v = g l) vs) ls)"
  using assms
proof (induction vs)
  case Nil
  then show ?case by simp
next
  case (Cons v vs)
  have "filter_mset (\<lambda>l. f v = g l \<or> list_ex (\<lambda>v. f v = g l) vs) (mset ls) =
      filter_mset (\<lambda>l. f v = g l) (mset ls) + filter_mset (\<lambda>l. list_ex (\<lambda>v. f v = g l) vs) (mset ls)"
    by (rule multiset_eqI) (use Cons.prems in \<open>auto simp: list_ex_iff image_iff\<close>)
  with Cons show ?case by (simp add: eq_commute [of _ "f v"])
qed

lemma journal_lines:
  assumes "books_ok s"
  shows "mset (all_lines (journal P s)) = mset (lines_of (joined_lines P s))"
proof -
  have d: "distinct (map v_id (filter P (verifications s)))"
    using assms by (simp add: books_ok_def distinct_map_filter)
  have "all_lines (journal P s) = lines_of (concat (map (\<lambda>v. filter (\<lambda>l. vl_verification l = v_id v) (vlines s)) (filter P (verifications s))))"
    by (simp add: all_lines_def journal_def ver_lines_def lines_of_def map_concat comp_def)
  then have "mset (all_lines (journal P s)) = image_mset (\<lambda>l. \<lparr>account = vl_account l, debit = vl_debit l, credit = vl_credit l, vat_code = vl_vat_code l\<rparr>)
      (mset (filter (\<lambda>l. list_ex (\<lambda>v. v_id v = vl_verification l) (filter P (verifications s))) (vlines s)))"
    using mset_filter_ids [OF d, of vl_verification "vlines s"] by (simp add: lines_of_def)
  moreover have "list_ex (\<lambda>v. v_id v = i) (filter P (verifications s)) = list_ex (\<lambda>v. v_id v = i \<and> P v) (verifications s)" for i
    by (auto simp: list_ex_iff)
  ultimately show ?thesis by (simp add: joined_lines_def lines_of_def)
qed

lemma sum_of_mset: "mset xs = mset ys \<Longrightarrow> sum_list (map f xs) = (sum_list (map f ys) :: 'b :: comm_monoid_add)"
  by (metis mset_map sum_mset_sum_list)

lemma nets_of_rows:
  "sum_list (map line_net (filter (\<lambda>l. account l = a) (lines_of rs))) =
     word_of_int (sum_list (map vl_net (filter (\<lambda>l. vl_account l = a) rs)))"
  by (induction rs) (simp_all add: lines_of_def line_net_def vl_net_def)

lemma strict_keyed_eq:
  fixes f :: "'a \<Rightarrow> 'b :: linorder"
  assumes "sorted_wrt (<) (map f xs)" and "sorted_wrt (<) (map f ys)" and "set xs = set ys"
  shows "xs = ys"
proof -
  have "inj_on f (set xs)" using assms(1) by (metis distinct_map strict_sorted_iff)
  moreover have "map f xs = map f ys"
    using assms by (metis list.set_map sorted_distinct_set_unique strict_sorted_iff)
  ultimately show ?thesis using assms(3) by (metis map_inj_on sup.idem)
qed

lemma trial_balance_rows:
  "set (trial_balance vs) = (\<lambda>a. \<lparr>ab_account = a, ab_class = classify a, ab_net = bal_get (balances vs) a\<rparr>) ` account ` set (all_lines vs)"
proof -
  have "n = bal_get (balances vs) a" if "(a, n) \<in> set (balances vs)" for a n
    using map_of_is_SomeI [OF distinct_balances that] by (simp add: bal_get_def)
  then show ?thesis unfolding set_balances [symmetric] by (force simp: trial_balance_def)
qed

lemma net_rows_refines:
  assumes "books_ok s"
  shows "andthen (net_rows P) (\<lambda>rows. ret (map to_balance rows)) s =
    (if sums_fit P s then Inr (trial_balance (journal P s)) else Inl OutOfRange, s)"
proof -
  define rows where "rows = map to_balance (map (\<lambda>(a, n). (a, word_of_int n)) (account_sums (joined_lines P s)))"
  let ?ls = "lines_of (joined_lines P s)"
  note ml = journal_lines [OF assms, of P]
  have accounts: "account ` set (all_lines (journal P s)) = vl_account ` set (joined_lines P s)"
    unfolding mset_eq_setD [OF ml] by (force simp: lines_of_def)
  have net: "bal_get (balances (journal P s)) a = word_of_int (sum_list (map vl_net (filter (\<lambda>l. vl_account l = a) (joined_lines P s))))" for a
    unfolding bal_get_balances nets_of_rows [symmetric] by (rule sum_of_mset) (simp add: ml)
  have "rows = trial_balance (journal P s)"
  proof (rule strict_keyed_eq [where f = ab_account])
    have "map ab_account rows = sort (remdups (map vl_account (joined_lines P s)))"
      by (simp add: rows_def account_sums_def to_balance_def comp_def)
    then show "sorted_wrt (<) (map ab_account rows)" by (simp add: strict_sorted_iff)
    show "sorted_wrt (<) (map ab_account (trial_balance (journal P s)))" by (rule trial_balance_sorted)
    show "set rows = set (trial_balance (journal P s))"
      unfolding trial_balance_rows accounts net by (auto simp: rows_def account_sums_def to_balance_def image_image)
  qed
  then show ?thesis by (simp add: net_rows_def andthen_def reads_def Let_def sums_fit_def rows_def)
qed

text \<open>C20. The balance queries refine the engine: on the books the program keeps, grouping and summing in the
  database answers with the trial balance the double-entry engine computes from the verifications the
  query selects, or with an error when a sum leaves 64 bits.\<close>

theorem balance_queries_refine_engine:
  assumes "reachable e s"
  shows "TrialBalance c s =
      (if sums_fit (\<lambda>v. v_company v = c) s then Inr (trial_balance (journal (\<lambda>v. v_company v = c) s)) else Inl OutOfRange, s) \<and>
    (\<forall>t1 t2. TrialBalanceBetween c t1 t2 s = (let P = (\<lambda>v. v_company v = c \<and> date_of t1 \<le> v_date v \<and> v_date v \<le> date_of t2) in
      (if sums_fit P s then Inr (trial_balance (journal P s)) else Inl OutOfRange, s))) \<and>
    (\<forall>t. TrialBalanceAsOf c t s = (let P = (\<lambda>v. v_company v = c \<and> v_date v \<le> date_of t) in
      (if sums_fit P s then Inr (trial_balance (journal P s)) else Inl OutOfRange, s))) \<and>
    (\<forall>t1 t2 sr. TrialBalanceBetweenExclSeries c t1 t2 sr s = (let P = (\<lambda>v. v_company v = c \<and> date_of t1 \<le> v_date v \<and>
        v_date v \<le> date_of t2 \<and> v_series v \<noteq> sr) in
      (if sums_fit P s then Inr (trial_balance (journal P s)) else Inl OutOfRange, s)))"
  using reachable_ok [OF assms]
  by (simp add: TrialBalance_def TrialBalanceBetween_def TrialBalanceAsOf_def TrialBalanceBetweenExclSeries_def
      q_TrialBalance_def q_TrialBalanceBetween_def q_TrialBalanceAsOf_def q_TrialBalanceBetweenExclSeries_def
      net_rows_refines Let_def)

lemma sample_journal:
  "journal (\<lambda>v. v_company v = 3) sample_books = [\<lparr>series = ''A'', vnumber = 1, vdate = midnight (Date 2026 3 1),
     description = ''Kontorsmaterial'', lines = [debit_line ''6110'' 1000, credit_line ''1930'' 1000], reversal_of = []\<rparr>]"
  using sample_books_facts(3,4)
  by (simp add: journal_def posted_row_def next_number_def series_numbers_def sample_company_facts(3))

lemma sample_sums_fit: "sums_fit (\<lambda>v. v_company v = 3) sample_books"
proof -
  define i where "i = next_id sample_company"
  have "joined_lines (\<lambda>v. v_company v = 3) sample_books = map (line_row i) [debit_line ''6110'' 1000, credit_line ''1930'' 1000]"
    by (simp add: joined_lines_def sample_books_facts(3,7) posted_row_def line_row_def i_def)
  then show ?thesis
    by (simp add: sums_fit_def account_sums_def line_row_def debit_line_def credit_line_def vl_net_def in64_def)
qed

theorem balance_queries_refine_engine_witness:
  "TrialBalance 3 sample_books = (Inr [\<lparr>ab_account = ''1930'', ab_class = ClassAsset, ab_net = - 1000\<rparr>,
     \<lparr>ab_account = ''6110'', ab_class = ClassExpense, ab_net = 1000\<rparr>], sample_books)"
proof -
  have "trial_balance (journal (\<lambda>v. v_company v = 3) sample_books) = [\<lparr>ab_account = ''1930'', ab_class = ClassAsset, ab_net = - 1000\<rparr>,
     \<lparr>ab_account = ''6110'', ab_class = ClassExpense, ab_net = 1000\<rparr>]"
    unfolding sample_journal by code_simp
  with balance_queries_refine_engine [OF reachable_sample(2), of 3] sample_sums_fit show ?thesis by simp
qed

end
