(* ===== verification/Invoice_Laws.thy ===== *)
theory Invoice_Laws
  imports Ledger_Laws
begin

text \<open>
  Properties of the life of an invoice in the store: what finalizing books, how it is numbered, and when
  a payment closes the receivable; the same for supplier invoices.
\<close>

section \<open>Finalizing\<close>

text \<open>C21. Finalizing a draft hands out the next number of its year without a gap, books exactly the lines of
  the invoice, as a double entry in series F, and makes the draft a finalized invoice that refers to
  them; no other invoice is touched.\<close>

theorem finalizing_books_the_invoice:
  assumes "FinalizeInvoice f c i d due s = (Inr (ver, number), t)"
  shows "\<exists>row \<in> set (invoices s). iv_id row = i \<and> iv_company row = c \<and> iv_status row = Draft \<and>
    (let y = year (date_of d); n = seq_last c y s + 1;
         ls = verification_lines (db_invoice number d due row (sort_key ir_line_no (filter (\<lambda>l. ir_invoice l = i) (invoice_rows s))))
     in number = invoice_number y n \<and> seq_last c y t = n \<and> double_entry ls \<and>
        verifications t = verifications s @ [posted_row f c ''F'' d (''Faktura '' @ number) 0 s] \<and>
        vlines t = vlines s @ map (line_row ver) ls \<and>
        invoices t = map (\<lambda>r. if finalizable c i r
          then r\<lparr>iv_status := Finalized, iv_number := number, iv_date := Some (date_of d),
                 iv_due := pg_date_or_null due, iv_verification := pg_uuid ver\<rparr> else r) (invoices s))"
  using assms
proof (rule FinalizeInvoice_ok)
  fix row rows
  assume row: "finalizable c i row" "row \<in> set (invoices s)"
    and rows: "rows = sort_key ir_line_no (filter (\<lambda>l. ir_invoice l = i) (invoice_rows s))"
    and tx: "finalize_tx f c i d due row rows s = (Inr (ver, number), t)"
  note ok = finalize_tx_ok [OF tx]
  show ?thesis
    using row ok(1) ok(3) ok(4) ok(5) ok(6) ok(7) [of c "year (date_of d)"]
    unfolding Let_def rows finalizable_def finalized_row_def by (intro bexI [of _ row]) simp_all
qed

text \<open>A draft of one line in the books of the sample company.\<close>

definition sample_draft :: invoice_row where
  "sample_draft = \<lparr>iv_id = 0, iv_company = 3, iv_counterparty = 1, iv_number = [], iv_status = Draft,
     iv_date = None, iv_due = None, iv_currency = ''SEK'', iv_rate = 1000000, iv_ocr = [],
     iv_verification = None, iv_paid_at = None, iv_payment = None, iv_credits = None, iv_amount_paid = 0\<rparr>"

definition draft_books :: db where
  "draft_books = sample_company\<lparr>invoices := [sample_draft], invoice_seq := [((3, 2026), 8)],
     invoice_rows := [\<lparr>ir_invoice = 0, ir_line_no = 1, ir_description = ''Konsulttid'', ir_quantity = 8000,
       ir_price = 100000, ir_code = SE25\<rparr>]\<rparr>"

lemma core_chart_member: "set [''1510'', ''3001'', ''2611'', ''3740''] \<subseteq> ca_number ` set core_chart"
proof -
  have "list_all (\<lambda>a. a \<in> set (map ca_number core_chart)) [''1510'', ''3001'', ''2611'', ''3740'']" by code_simp
  then show ?thesis by (auto simp: list_all_iff)
qed

lemma core_chart_invoice: "''1510'' \<in> ca_number ` set core_chart" "''3001'' \<in> ca_number ` set core_chart"
  "''2611'' \<in> ca_number ` set core_chart" "''3740'' \<in> ca_number ` set core_chart"
  using core_chart_member by (simp_all add: subset_iff)

text \<open>Any state with the chart of the sample company, nothing on its books and an empty audit log.\<close>

definition fresh_company :: "db \<Rightarrow> bool" where
  "fresh_company s \<longleftrightarrow> companies s = companies sample_company \<and> accounts s = accounts sample_company \<and>
     verifications s = [] \<and> audit_log s = []"

lemma fresh_company_exists: "companies s = companies sample_company \<Longrightarrow> company_exists 3 s"
  using sample_company_facts(1) by (cases "companies s") (auto simp: company_exists_def)

lemma fresh_post:
  assumes "fresh_company s" and "validate (bare ls) = None" and "account ` set ls \<subseteq> ca_number ` set core_chart"
  shows "post_verification sample_env 3 sr d desc ls 0 s = (Inr (next_id s), posted sample_env 3 sr d desc ls 0 s)"
proof -
  obtain co where co: "companies s = [co]" "co_id co = 3" "locked_through co = None"
    using assms(1) sample_company_facts(1,2) by (cases "companies s") (auto simp: fresh_company_def)
  have "company_accounts 3 s = company_accounts 3 sample_company"
    using assms(1) by (simp add: fresh_company_def company_accounts_def)
  with assms(3) sample_company_facts(6) have "find (\<lambda>l. account l \<notin> company_accounts 3 s) ls = None"
    by (auto simp: find_None_iff)
  moreover have "next_number 3 sr s = 1"
    using assms(1) by (simp add: fresh_company_def next_number_def series_numbers_def)
  ultimately show ?thesis using assms(2) co by (simp add: post_verification_eq period_open_def pg_uuid_def)
qed

lemma fresh_log:
  assumes "companies t = companies sample_company" and "audit_log t = []" and "list_all no_nul [a, tt, ti, d]"
  shows "\<exists>u. log_audit sample_env 3 a tt ti d t = (Inr (), u) \<and> invoices u = invoices t \<and> suppliers u = suppliers t \<and>
    verifications u = verifications t"
proof -
  have "no_nul ''kim''" by (simp add: no_nul_def)
  with assms fresh_company_exists [OF assms(1)] log_audit_first [of 3 t sample_env a tt ti d] show ?thesis
    by (auto simp: company_audit_def actor_from_def)
qed

lemma draft_books_fresh: "fresh_company draft_books"
  using sample_company_facts by (simp add: fresh_company_def draft_books_def)

abbreviation sample_draft_lines :: "invoice_line_row list" where
  "sample_draft_lines \<equiv> [\<lparr>ir_invoice = 0, ir_line_no = 1, ir_description = ''Konsulttid'', ir_quantity = 8000,
       ir_price = 100000, ir_code = SE25\<rparr>]"

lemma andthen_okI: "m s = (Inr x, t) \<Longrightarrow> f x t = (Inr y, u) \<Longrightarrow> andthen m f s = (Inr y, u)"
  by (simp add: andthen_def)

lemma year_simp: "year (Date y m d) = y"
  by simp

lemma sample_finalizing:
  "\<exists>ver t. FinalizeInvoice sample_env 3 0 (midnight (Date 2026 3 4)) zero_time draft_books = (Inr (ver, ''2026-0009''), t)"
proof -
  define s1 where "s1 = draft_books\<lparr>invoice_seq := [((3, 2026), 9)]\<rparr>"
  define iv where "iv = db_invoice ''2026-0009'' (midnight (Date 2026 3 4)) zero_time sample_draft sample_draft_lines"
  define ls where "ls = verification_lines iv"
  have ls: "ls = [debit_line ''1510'' 1000000, \<lparr>account = ''3001'', debit = 0, credit = 800000, vat_code = SE25\<rparr>, credit_line ''2611'' 200000]"
    unfolding ls_def iv_def by code_simp
  have get: "GetInvoice 0 draft_books = (Inr sample_draft, draft_books)"
    by (simp add: GetInvoice_def fetch_def draft_books_def sample_draft_def)
  have rows: "ListInvoiceLines 0 draft_books = (Inr sample_draft_lines, draft_books)"
    by (simp add: ListInvoiceLines_def fetch_all_def draft_books_def)
  have alloc: "AllocInvoiceNumber 3 2026 draft_books = (Inr 9, s1)"
    by (simp add: AllocInvoiceNumber_def draft_books_def s1_def)
  have n: "invoice_number 2026 9 = ''2026-0009''" by code_simp
  have fresh: "fresh_company s1" using draft_books_fresh by (simp add: s1_def fresh_company_def)
  have val: "validate (bare ls) = None" unfolding ls validate_None_iff by (simp add: bare_def double_entry_def line_ok_def)
  have post: "post_verification sample_env 3 ''F'' d desc ls 0 s1 = (Inr (next_id s1), posted sample_env 3 ''F'' d desc ls 0 s1)" for d desc
    by (rule fresh_post [OF fresh val]) (use core_chart_invoice in \<open>simp add: ls\<close>)
  define p where "p = posted sample_env 3 ''F'' (midnight (Date 2026 3 4)) (''Faktura '' @ ''2026-0009'') ls 0 s1"
  define u where "u = p\<lparr>invoices := [finalized_row ''2026-0009'' (midnight (Date 2026 3 4)) zero_time (next_id s1) sample_draft]\<rparr>"
  have inv: "invoices p = [sample_draft]" by (simp add: p_def posted_def s1_def draft_books_def)
  have fin: "q_FinalizeInvoice 3 0 ''2026-0009'' (Some (Date 2026 3 4)) (pg_date_or_null zero_time) (pg_uuid (next_id s1)) p = (Inr (), u)"
    by (simp add: q_FinalizeInvoice_def andthen_def reads_def update_rows_def inv u_def finalized_row_def
        finalizable_def sample_draft_def)
  have co: "companies u = companies sample_company" "audit_log u = []"
    using fresh by (simp_all add: u_def p_def posted_def fresh_company_def)
  have nn: "list_all no_nul [''finalize_invoice'', ''invoice'', fmt_nat 0, ''2026-0009'' @ '' '' @ amount_string (gross_sek iv) @ '' SEK'']"
  proof -
    have "gross_sek iv = 1000000" unfolding iv_def by code_simp
    then have "no_nul (amount_string (gross_sek iv))" by (simp add: no_nul_amount)
    then show ?thesis using no_nul_fmt_nat [of 0] by simp (simp add: no_nul_def)
  qed
  obtain w where log: "log_audit sample_env 3 ''finalize_invoice'' ''invoice'' (fmt_nat 0)
      (''2026-0009'' @ '' '' @ amount_string (gross_sek iv) @ '' SEK'') u = (Inr (), w)"
    using fresh_log [OF co nn] by blast
  have "finalize_tx sample_env 3 0 (midnight (Date 2026 3 4)) zero_time sample_draft sample_draft_lines draft_books =
      (Inr (next_id s1, ''2026-0009''), w)"
    unfolding finalize_tx_def in_tx_ok Let_def date_of_midnight year_simp sample_env_simps
    by (rule andthen_okI, rule alloc, unfold n iv_def [symmetric] ls_def [symmetric], rule andthen_okI, rule post,
        unfold p_def [symmetric], rule andthen_okI, rule fin, rule andthen_okI, rule log) simp
  then have "FinalizeInvoice sample_env 3 0 (midnight (Date 2026 3 4)) zero_time draft_books = (Inr (next_id s1, ''2026-0009''), w)"
    unfolding FinalizeInvoice_def andthen_ok using get rows by (force simp: require_def sample_draft_def)
  then show ?thesis by blast
qed

theorem finalizing_books_the_invoice_witness:
  "\<exists>ver t. verifications t = [posted_row sample_env 3 ''F'' (midnight (Date 2026 3 4)) ''Faktura 2026-0009'' 0 draft_books] \<and>
     seq_last 3 2026 t = 9 \<and> map iv_status (invoices t) = [Finalized] \<and> map iv_verification (invoices t) = [pg_uuid ver]"
proof -
  obtain ver t where "FinalizeInvoice sample_env 3 0 (midnight (Date 2026 3 4)) zero_time draft_books = (Inr (ver, ''2026-0009''), t)"
    using sample_finalizing by blast
  from finalizing_books_the_invoice [OF this] show ?thesis
    by (intro exI [of _ ver] exI [of _ t])
      (auto simp: Let_def draft_books_def sample_draft_def seq_last_def finalizable_def sample_company_facts)
qed

section \<open>Payment\<close>

text \<open>An invoice after a payment: the amount is added, and a finalized invoice that is settled is paid.\<close>

definition after_payment :: "uuid \<Rightarrow> uuid \<Rightarrow> gotime \<Rightarrow> amount \<Rightarrow> uuid \<Rightarrow> bool \<Rightarrow> invoice_row \<Rightarrow> invoice_row" where
  "after_payment c i d pay ver settled r =
     (if iv_id r = i \<and> iv_company r = c
      then (let q = r\<lparr>iv_amount_paid := iv_amount_paid r + pay\<rparr> in
        if settled \<and> iv_status r = Finalized
        then q\<lparr>iv_status := Paid, iv_paid_at := Some (date_of d), iv_payment := pg_uuid ver\<rparr> else q)
      else r)"

lemma AddInvoicePayment_ok:
  assumes "AddInvoicePayment c i pay s = (Inr u, t)"
  shows "t = s\<lparr>invoices := map (after_payment c i d pay ver False) (invoices s)\<rparr>"
  using assms by (auto simp: AddInvoicePayment_def andthen_def reads_def update_rows_def after_payment_def Let_def
      split: if_splits)

lemma MarkInvoicePaid_ok:
  assumes "MarkInvoicePaid c i (Some (date_of d)) (pg_uuid ver) (s\<lparr>invoices := map (after_payment c i d pay ver False) rs\<rparr>) = (Inr n, t)"
  shows "t = s\<lparr>invoices := map (after_payment c i d pay ver True) rs\<rparr>"
  using assms by (auto simp: MarkInvoicePaid_def update_rows_def after_payment_def Let_def)

lemma payment_tx_ok:
  assumes "payment_tx e c i d pay number ls settled s = (Inr ver, t)"
  shows "double_entry ls" "verifications t = verifications s @ [posted_row e c ''B'' d (''Betalning faktura '' @ number) 0 s]"
    "vlines t = vlines s @ map (line_row ver) ls"
    "invoices t = map (after_payment c i d pay ver settled) (invoices s)" "ver = next_id s"
proof -
  from assms obtain s1 s2 s3 u v where
    post: "post_verification e c ''B'' d (''Betalning faktura '' @ number) ls 0 s = (Inr ver, s1)" and
    add: "AddInvoicePayment c i pay s1 = (Inr u, s2)" and
    mark: "(if settled then andthen (MarkInvoicePaid c i (Some (date_of d)) (pg_uuid ver)) (\<lambda>n. require (n \<noteq> 0) ErrNotFinalized)
       else ret ()) s2 = (Inr v, s3)" and
    log: "\<exists>x w. log_audit e c ''record_payment'' ''invoice'' (e_uuid_text e i) x s3 = (Inr w, t)"
    unfolding payment_tx_def in_tx_ok andthen_ok ret_def prod.inject sum.inject by (elim exE conjE) blast
  note p = post_verification_ok [OF post]
  note a = AddInvoicePayment_ok [OF add, of d ver]
  have m: "s3 = s1\<lparr>invoices := map (after_payment c i d pay ver settled) (invoices s1)\<rparr>"
  proof (cases settled)
    case True
    then obtain n where "MarkInvoicePaid c i (Some (date_of d)) (pg_uuid ver) s2 = (Inr n, s3)"
      using mark by (auto simp: andthen_ok require_def split: if_splits)
    from MarkInvoicePaid_ok [OF this [unfolded a]] True show ?thesis by simp
  next
    case False
    with mark a show ?thesis by simp
  qed
  from log obtain rw where t: "t = s3\<lparr>audit_log := audit_log s3 @ [rw], next_id := Suc (next_id s3)\<rparr>"
    using log_audit_result by (metis old.unit.exhaust)
  show "double_entry ls" "ver = next_id s" by (rule p)+
  show "verifications t = verifications s @ [posted_row e c ''B'' d (''Betalning faktura '' @ number) 0 s]"
    "vlines t = vlines s @ map (line_row ver) ls"
    "invoices t = map (after_payment c i d pay ver settled) (invoices s)"
    unfolding t m p(2) using p(1) by (simp_all add: posted_def)
qed

text \<open>C22. A payment books itself in series B as a double entry and is added to what is paid on the invoice. The
  invoice is paid exactly when the receivable is cleared: what its payments take off account 1510 is
  then the whole gross amount; otherwise the payment in kronor is taken off as it is, at least one
  krona is left, and the invoice stays open.\<close>

theorem payment_closes_the_receivable:
  assumes "RecordPayment f c i d acct pay s = (Inr ver, t)" and "acct \<noteq> ''1510''"
  shows "\<exists>row view ls settled. row \<in> set (invoices s) \<and> iv_id row = i \<and> iv_company row = c \<and> iv_status row = Finalized \<and>
    InvoiceForRender f c i s = (Inr view, s) \<and> 0 < sint pay \<and> double_entry ls \<and>
    verifications t = verifications s @ [posted_row f c ''B'' d (''Betalning faktura '' @ iv_number row) 0 s] \<and>
    vlines t = vlines s @ map (line_row ver) ls \<and>
    invoices t = map (after_payment c i d pay ver settled) (invoices s) \<and>
    (if settled then iv_amount_paid row + receivable_credit ls = iw_total_sek view
     else receivable_credit ls = pay \<and> iv_currency row = ''SEK'' \<and>
       100 \<le> sint (iw_total_sek view - (iv_amount_paid row + pay)))"
proof -
  from assms(1) obtain row view ls settled where get: "GetInvoice i s = (Inr row, s)"
    and row: "iv_company row = c" "iv_status row = Finalized" "0 < sint pay"
    and view: "InvoiceForRender f c i s = (Inr view, s)"
    and plan: "payment_plan (iv_currency row) (iv_amount_paid row) (iw_total_sek view) acct pay = Inr (ls, settled)"
    and tx: "payment_tx f c i d pay (iv_number row) ls settled s = (Inr ver, t)"
  proof -
    from assms(1) obtain row s1 view s2 where get: "GetInvoice i s = (Inr row, s1)"
      and row: "iv_company row = c" "iv_status row = Finalized" "0 < sint pay"
      and view: "InvoiceForRender f c i s1 = (Inr view, s2)"
      and rest: "(case payment_plan (iv_currency row) (iv_amount_paid row) (iw_total_sek view) acct pay of
         Inl x \<Rightarrow> fail x | Inr (ls, settled) \<Rightarrow> payment_tx f c i d pay (iv_number row) ls settled) s2 = (Inr ver, t)"
      unfolding RecordPayment_def andthen_ok require_ok by (elim exE conjE) blast
    moreover have "s1 = s" using get by (auto simp: GetInvoice_def fetch_ok)
    moreover have "s2 = s1" by (rule read_state [OF InvoiceForRender_read view])
    ultimately have v: "InvoiceForRender f c i s = (Inr view, s)" "GetInvoice i s = (Inr row, s)"
      and r: "(case payment_plan (iv_currency row) (iv_amount_paid row) (iw_total_sek view) acct pay of
         Inl x \<Rightarrow> fail x | Inr (ls, settled) \<Rightarrow> payment_tx f c i d pay (iv_number row) ls settled) s = (Inr ver, t)"
      by simp_all
    show thesis
    proof (cases "payment_plan (iv_currency row) (iv_amount_paid row) (iw_total_sek view) acct pay")
      case (Inl x)
      with r show thesis by simp
    next
      case (Inr p)
      obtain ls settled where p: "p = (ls, settled)" by (cases p)
      show thesis by (rule that [OF v(2) row v(1) Inr [unfolded p]]) (use r in \<open>simp only: Inr p sum.case prod.case\<close>)
    qed
  qed
  have "row \<in> set (filter (\<lambda>r. iv_id r = i) (invoices s))"
    using get unfolding GetInvoice_def fetch_ok by (metis list.set_intros(1))
  then have "row \<in> set (invoices s)" "iv_id row = i" by simp_all
  moreover note ok = payment_tx_ok [OF tx]
  moreover have "if settled then iv_amount_paid row + receivable_credit ls = iw_total_sek view
     else receivable_credit ls = pay \<and> iv_currency row = ''SEK'' \<and> 100 \<le> sint (iw_total_sek view - (iv_amount_paid row + pay))"
    using payment_plan_settles [of "iv_currency row" "iv_amount_paid row" "iw_total_sek view" acct pay ls]
      payment_plan_open [of "iv_currency row" "iv_amount_paid row" "iw_total_sek view" acct pay ls] plan assms(2)
    by (cases settled) simp_all
  ultimately show ?thesis using row view by blast
qed

text \<open>The invoice of the sample company, finalized, for a customer without identity fields.\<close>

definition sample_open :: invoice_row where
  "sample_open = sample_draft\<lparr>iv_status := Finalized, iv_number := ''2026-0008''\<rparr>"

definition open_books :: db where
  "open_books = draft_books\<lparr>invoices := [sample_open], counterparties :=
     [\<lparr>cp_id = 1, cp_company = 3, cp_kind = ''customer'', name_enc = [], orgnr_enc = [], personnummer_enc = [],
       address_enc = [], iban_enc = [], email_enc = [], erased_at = None\<rparr>]\<rparr>"

lemma sample_dek:
  assumes "companies s = companies sample_company"
  shows "\<exists>co. GetCompany 3 s = (Inr co, s)" "company_dek sample_env 3 s = (Inr (replicate 32 CHR ''r''), s)"
proof -
  obtain co where "companies s = [co]" "co_id co = 3" "dek_from_wrapped sample_env (dek_wrapped co) = Inr (replicate 32 CHR ''r'')"
    using assms sample_company_facts(1,7) by (cases "companies s") auto
  then show "\<exists>co. GetCompany 3 s = (Inr co, s)" "company_dek sample_env 3 s = (Inr (replicate 32 CHR ''r''), s)"
    by (simp_all add: GetCompany_def fetch_def company_dek_def andthen_def reads_def)
qed

lemma fold_view_paid: "iw_paid (foldl view_step w rs) = iw_paid w" "iw_total_sek (foldl view_step w rs) = iw_total_sek w"
  by (induction rs arbitrary: w) (simp_all add: view_step_def Let_def)

lemma sample_view:
  "\<exists>view. InvoiceForRender sample_env 3 0 open_books = (Inr view, open_books) \<and> iw_total_sek view = 1000000"
proof -
  have co: "companies open_books = companies sample_company" by (simp add: open_books_def draft_books_def)
  obtain cm where cm: "GetCompany 3 open_books = (Inr cm, open_books)" using sample_dek(1) [OF co] by blast
  have get: "GetInvoice 0 open_books = (Inr sample_open, open_books)"
    by (simp add: GetInvoice_def fetch_def open_books_def sample_open_def sample_draft_def)
  obtain r where r: "q_GetCounterparty 1 open_books = (Inr r, open_books)" "cp_company r = 3"
      "[name_enc r, orgnr_enc r, personnummer_enc r, address_enc r, iban_enc r, email_enc r] = [[], [], [], [], [], []]"
    by (simp add: q_GetCounterparty_def fetch_def open_books_def)
  have cf: "collect (dec_field sample_env dek) [[], [], [], [], [], []] open_books = (Inr [[], [], [], [], [], []], open_books)" for dek
    by (simp add: dec_field_def andthen_def ret_def)
  have cp: "\<exists>x. GetCounterparty sample_env 3 1 open_books = (Inr x, open_books)"
    unfolding GetCounterparty_def
    by (rule exI, rule andthen_okI, rule r(1), rule andthen_okI, simp add: require_ok r(2), rule andthen_okI,
        rule sample_dek(2) [OF co], rule andthen_okI, unfold r(3), rule cf) (simp add: ret_def)
  then obtain x where cp: "GetCounterparty sample_env 3 1 open_books = (Inr x, open_books)" by blast
  have rows: "ListInvoiceLines 0 open_books = (Inr sample_draft_lines, open_books)"
    by (simp add: ListInvoiceLines_def fetch_all_def open_books_def draft_books_def)
  have f: "iv_company sample_open = 3" "iv_counterparty sample_open = 1" "iv_credits sample_open = None"
    by (simp_all add: sample_open_def sample_draft_def)
  have g: "gross_sek (db_invoice [] zero_time zero_time sample_open sample_draft_lines) = 1000000" by code_simp
  show ?thesis
    unfolding InvoiceForRender_def
    by (rule exI, rule conjI, rule andthen_okI, rule get, rule andthen_okI, simp add: require_ok f, rule andthen_okI, rule cm,
        rule andthen_okI, unfold f(2), rule cp, rule andthen_okI, rule rows, simp only: f(3) Let_def option.case ret_def)
      (simp add: g)
qed

lemma sample_payment:
  "\<exists>ver t. RecordPayment sample_env 3 0 (midnight (Date 2026 3 4)) ''1930'' 1000000 open_books = (Inr ver, t)"
proof -
  let ?d = "midnight (Date 2026 3 4)"
  define ls where "ls = [debit_line ''1930'' 1000000, credit_line ''1510'' 1000000]"
  obtain view where view: "InvoiceForRender sample_env 3 0 open_books = (Inr view, open_books)" "iw_total_sek view = 1000000"
    using sample_view by blast
  have get: "GetInvoice 0 open_books = (Inr sample_open, open_books)"
    by (simp add: GetInvoice_def fetch_def open_books_def sample_open_def sample_draft_def)
  have plan: "payment_plan (iv_currency sample_open) (iv_amount_paid sample_open) (iw_total_sek view) ''1930'' 1000000 = Inr (ls, True)"
    by (simp add: payment_plan_def view(2) sample_open_def sample_draft_def ls_def)
  have fresh: "fresh_company open_books" using draft_books_fresh by (simp add: open_books_def fresh_company_def)
  have val: "validate (bare ls) = None" unfolding ls_def validate_None_iff by (simp add: bare_def double_entry_def line_ok_def)
  define p where "p = posted sample_env 3 ''B'' ?d (''Betalning faktura '' @ iv_number sample_open) ls 0 open_books"
  have post: "post_verification sample_env 3 ''B'' ?d (''Betalning faktura '' @ iv_number sample_open) ls 0 open_books = (Inr (next_id open_books), p)"
    unfolding p_def by (rule fresh_post [OF fresh val]) (use core_chart_invoice core_chart_has in \<open>simp add: ls_def\<close>)
  define u where "u = p\<lparr>invoices := [sample_open\<lparr>iv_amount_paid := 1000000\<rparr>]\<rparr>"
  have add: "AddInvoicePayment 3 0 1000000 p = (Inr (), u)"
    by (simp add: AddInvoicePayment_def andthen_def reads_def update_rows_def p_def posted_def open_books_def u_def
        sample_open_def sample_draft_def in64_def)
  define w where "w = u\<lparr>invoices := [sample_open\<lparr>iv_amount_paid := 1000000, iv_status := Paid, iv_paid_at := Some (Date 2026 3 4),
     iv_payment := pg_uuid (next_id open_books)\<rparr>]\<rparr>"
  have mark: "MarkInvoicePaid 3 0 (Some (Date 2026 3 4)) (pg_uuid (next_id open_books)) u = (Inr 1, w)"
    by (simp add: MarkInvoicePaid_def update_rows_def u_def w_def sample_open_def sample_draft_def)
  have co: "companies w = companies sample_company" "audit_log w = []"
    using fresh by (simp_all add: w_def u_def p_def posted_def fresh_company_def)
  have nn: "list_all no_nul [''record_payment'', ''invoice'', fmt_nat 0, iv_number sample_open @ '' '' @ amount_string 1000000 @ '' SEK'']"
  proof -
    have "no_nul (amount_string 1000000)" by (simp add: no_nul_amount)
    then show ?thesis using no_nul_fmt_nat [of 0] by (simp add: sample_open_def) (simp add: no_nul_def)
  qed
  obtain z where log: "log_audit sample_env 3 ''record_payment'' ''invoice'' (fmt_nat 0)
      (iv_number sample_open @ '' '' @ amount_string 1000000 @ '' SEK'') w = (Inr (), z)"
    using fresh_log [OF co nn] by blast
  have tx: "payment_tx sample_env 3 0 ?d 1000000 (iv_number sample_open) ls True open_books = (Inr (next_id open_books), z)"
    unfolding payment_tx_def in_tx_ok date_of_midnight sample_env_simps if_True
    by (rule andthen_okI, rule post, rule andthen_okI, rule add, rule andthen_okI, rule andthen_okI, rule mark,
        simp add: require_ok, rule andthen_okI, rule log) simp
  have f: "iv_company sample_open = 3" "iv_status sample_open = Finalized" by (simp_all add: sample_open_def sample_draft_def)
  have "RecordPayment sample_env 3 0 ?d ''1930'' 1000000 open_books = (Inr (next_id open_books), z)"
    unfolding RecordPayment_def
    by (rule andthen_okI, rule get, (rule andthen_okI, simp add: require_ok f)+, rule andthen_okI, rule view(1),
        simp only: plan sum.case prod.case tx)
  then show ?thesis by blast
qed

theorem payment_closes_the_receivable_witness:
  "\<exists>view ls settled (t :: db). InvoiceForRender sample_env 3 0 open_books = (Inr view, open_books) \<and> double_entry ls \<and>
     map iv_amount_paid (invoices t) = [1000000] \<and>
     (if settled then receivable_credit ls = iw_total_sek view
      else receivable_credit ls = 1000000 \<and> 100 \<le> sint (iw_total_sek view - 1000000))"
proof -
  obtain ver t where p: "RecordPayment sample_env 3 0 (midnight (Date 2026 3 4)) ''1930'' 1000000 open_books = (Inr ver, t)"
    using sample_payment by blast
  have i: "invoices open_books = [sample_open]" "iv_amount_paid sample_open = 0" "iv_id sample_open = 0" "iv_company sample_open = 3"
    by (simp_all add: open_books_def sample_open_def sample_draft_def)
  from payment_closes_the_receivable [OF p] obtain row view ls settled where row: "row \<in> set (invoices open_books)"
    and v: "InvoiceForRender sample_env 3 0 open_books = (Inr view, open_books)" "double_entry ls"
    and t: "invoices t = map (after_payment 3 0 (midnight (Date 2026 3 4)) 1000000 ver settled) (invoices open_books)"
    and st: "if settled then iv_amount_paid row + receivable_credit ls = iw_total_sek view
     else receivable_credit ls = 1000000 \<and> iv_currency row = ''SEK'' \<and>
       100 \<le> sint (iw_total_sek view - (iv_amount_paid row + 1000000))"
    by auto
  from row have "row = sample_open" by (simp add: i)
  moreover have "map iv_amount_paid (invoices t) = [1000000]" unfolding t by (simp add: after_payment_def Let_def i)
  ultimately show ?thesis using v st i(2)
    by (intro exI [of _ view] exI [of _ ls] exI [of _ settled] exI [of _ t] conjI) (simp_all split: if_splits)
qed

end
