(* ===== verification/Year_Laws.thy ===== *)
theory Year_Laws
  imports Invoice_Laws
begin

text \<open>
  Properties of the year-end close: what it posts and locks, and the year it can never close.
\<close>

section \<open>The close\<close>

definition closing_lines :: "account_balance list \<Rightarrow> line list" where
  "closing_lines tb = zeroing_lines tb @ [result_line (result_of tb)]"

definition net_on :: "string \<Rightarrow> line list \<Rightarrow> amount" where
  "net_on a ls = sum_list (map line_net (filter (\<lambda>l. account l = a) ls))"

lemma net_on_zeroing:
  assumes "distinct (map ab_account tb)" and "r \<in> set tb" and "is_result (ab_class r)"
  shows "net_on (ab_account r) (zeroing_lines tb) = - ab_net r"
  using assms
proof (induction tb)
  case (Cons x tb)
  have line: "account (closing_line y) = ab_account y" "line_net (closing_line y) = - ab_net y" for y
    by (simp_all add: closing_line_def line_net_def)
  have none: "net_on a (zeroing_lines ys) = 0" if "a \<notin> ab_account ` set ys" for a ys
    using that by (induction ys) (auto simp: net_on_def zeroing_lines_def line)
  show ?case
  proof (cases "r = x")
    case True
    then have "net_on (ab_account r) (zeroing_lines tb) = 0" using Cons.prems(1) by (intro none) auto
    with True Cons.prems show ?thesis by (auto simp: net_on_def zeroing_lines_def line)
  next
    case False
    with Cons.prems have "ab_account x \<noteq> ab_account r" by auto
    with False Cons show ?thesis by (auto simp: net_on_def zeroing_lines_def line)
  qed
qed simp

lemma net_on_closing:
  assumes "books_ok s" and "TrialBalanceBetweenExclSeries c t1 t2 sr s = (Inr tb, s)"
    and "r \<in> set tb" and "is_result (ab_class r)"
  shows "net_on (ab_account r) (closing_lines tb) = - ab_net r"
proof -
  obtain P where tb: "tb = trial_balance (journal P s)"
    using assms(2) net_rows_refines [OF assms(1)]
    by (auto simp: TrialBalanceBetweenExclSeries_def q_TrialBalanceBetweenExclSeries_def split: if_splits)
  have "distinct (map ab_account tb)" using trial_balance_sorted tb by (metis strict_sorted_iff)
  then have z: "net_on (ab_account r) (zeroing_lines tb) = - ab_net r" by (rule net_on_zeroing) (use assms in blast)+
  have "ab_class r = classify (ab_account r)" using assms(3) by (auto simp: tb trial_balance_rows)
  moreover have "\<not> is_result (classify ''2099'')" by code_simp
  ultimately have "ab_account r \<noteq> ''2099''" using assms(4) by metis
  then have "net_on (ab_account r) [result_line x] = 0" for x by (simp add: net_on_def result_line_def)
  moreover have "net_on a (xs @ ys) = net_on a xs + net_on a ys" for a xs ys by (simp add: net_on_def)
  ultimately show ?thesis using z by (simp add: closing_lines_def)
qed

definition close_year :: "uuid \<Rightarrow> uuid \<Rightarrow> gotime \<Rightarrow> fiscal_row \<Rightarrow> fiscal_row" where
  "close_year c i nw r = (if fy_id r = i \<and> fy_company r = c \<and> fy_closed r = None then r\<lparr>fy_closed := Some nw\<rparr> else r)"

lemma lock_of_set: 
  assumes "SetLockedThrough c d s = (Inr u, t)"
  shows "t = s\<lparr>companies := companies t\<rparr>" "lock_of c' t = (if c' = c \<and> company_exists c s then d else lock_of c' s)"
proof -
  let ?up = "\<lambda>r. if co_id r = c then r\<lparr>locked_through := d\<rparr> else r"
  from assms have t: "t = s\<lparr>companies := map ?up (companies s)\<rparr>"
    by (auto simp: SetLockedThrough_def andthen_def update_rows_def)
  then show "t = s\<lparr>companies := companies t\<rparr>" by simp
  have f: "filter (\<lambda>r. co_id r = c') (map ?up rs) = map ?up (filter (\<lambda>r. co_id r = c') rs)" for rs
    by (induction rs) auto
  have l: "lock_of c' t = (case filter (\<lambda>r. co_id r = c') (companies s) of [] \<Rightarrow> None | co # _ \<Rightarrow> locked_through (?up co))"
  proof -
    have "companies t = map ?up (companies s)" by (simp add: t)
    then show ?thesis unfolding lock_of_def by (simp only: f) (simp split: list.split)
  qed
  have ex: "company_exists c s \<longleftrightarrow> filter (\<lambda>r. co_id r = c) (companies s) \<noteq> []"
    by (simp add: company_exists_def list_ex_iff filter_empty_conv)
  show "lock_of c' t = (if c' = c \<and> company_exists c s then d else lock_of c' s)"
  proof (cases "filter (\<lambda>r. co_id r = c') (companies s)")
    case Nil
    then have "\<not> (c' = c \<and> company_exists c s)" using ex by auto
    with Nil l show ?thesis by (auto simp: lock_of_def)
  next
    case (Cons r rs)
    then have "co_id r = c'" by (auto simp: filter_eq_Cons_iff)
    moreover have "c' = c \<Longrightarrow> company_exists c s" using Cons ex by simp
    ultimately show ?thesis using l Cons by (auto simp: lock_of_def)
  qed
qed

text \<open>C23. Closing a year posts one verification in series O on its last day, whose lines bring every result
  account of the year to zero and carry the result to account 2099; the year is closed once and the
  period is locked through its last day, all in one transaction.\<close>

theorem closing_empties_the_year:
  assumes "books_ok s" and "CloseFiscalYear f c i s = (Inr ver, t)"
  shows "\<exists>fy tb. fy \<in> set (fiscal_years s) \<and> fy_id fy = i \<and> fy_company fy = c \<and> fy_closed fy = None \<and>
    TrialBalanceBetweenExclSeries c (midnight (fy_start fy)) (midnight (fy_end fy)) ''O'' s = (Inr tb, s) \<and>
    zeroing_lines tb \<noteq> [] \<and> double_entry (closing_lines tb) \<and>
    (\<forall>r \<in> set tb. is_result (ab_class r) \<longrightarrow> net_on (ab_account r) (closing_lines tb) = - ab_net r) \<and>
    verifications t = verifications s @ [posted_row f c ''O'' (midnight (fy_end fy)) (''Bokslut '' @ fy_label fy) 0 s] \<and>
    vlines t = vlines s @ map (line_row ver) (closing_lines tb) \<and>
    fiscal_years t = map (close_year c i (e_now f)) (fiscal_years s) \<and>
    lock_of c t = Some (fy_end fy)"
proof -
  from assms(2) obtain fy s1 tb s2 where get: "GetFiscalYear i s = (Inr fy, s1)"
    and fy: "fy_company fy = c" "fy_closed fy = None"
    and tb: "TrialBalanceBetweenExclSeries c (midnight (fy_start fy)) (midnight (fy_end fy)) close_series s1 = (Inr tb, s2)"
    and ne: "zeroing_lines tb \<noteq> []"
    and tx: "in_tx (
       andthen (post_verification f c close_series (midnight (fy_end fy)) (''Bokslut '' @ fy_label fy) (closing_lines tb) 0) (\<lambda>ver.
       andthen (q_CloseFiscalYear (e_now f) c i) (\<lambda>n.
       andthen (require (n \<noteq> 0) ErrYearClosed) (\<lambda>_.
       andthen (SetLockedThrough c (Some (fy_end fy))) (\<lambda>_.
       andthen (log_audit f c ''close_fiscal_year'' ''fiscal_year'' (e_uuid_text f i)
         (''bokslut '' @ fy_label fy @ '', resultat '' @ amount_string (result_of tb))) (\<lambda>_.
       ret ver)))))) s2 = (Inr ver, t)"
    unfolding CloseFiscalYear_def andthen_ok require_ok Let_def closing_lines_def by (elim exE conjE) blast
  have s: "s1 = s" using get by (auto simp: GetFiscalYear_def fetch_ok)
  have "s2 = s1" by (rule read_state [OF TrialBalanceBetweenExclSeries_read tb])
  with s have s2: "s2 = s" by simp
  have mem: "fy \<in> set (filter (\<lambda>r. fy_id r = i) (fiscal_years s))"
    using get unfolding GetFiscalYear_def fetch_ok by (metis list.set_intros(1))
  note tb = tb [unfolded s s2]
  from tx obtain p q r n u w where
    post: "post_verification f c close_series (midnight (fy_end fy)) (''Bokslut '' @ fy_label fy) (closing_lines tb) 0 s = (Inr ver, p)"
    and cl: "q_CloseFiscalYear (e_now f) c i p = (Inr n, q)"
    and lk: "SetLockedThrough c (Some (fy_end fy)) q = (Inr u, r)"
    and lg: "log_audit f c ''close_fiscal_year'' ''fiscal_year'' (e_uuid_text f i)
      (''bokslut '' @ fy_label fy @ '', resultat '' @ amount_string (result_of tb)) r = (Inr w, t)"
    unfolding in_tx_ok andthen_ok require_ok s2 ret_def prod.inject sum.inject by (elim exE conjE) blast
  note ok = post_verification_ok [OF post]
  have q: "q = p\<lparr>fiscal_years := map (close_year c i (e_now f)) (fiscal_years p)\<rparr>"
    using cl by (auto simp: q_CloseFiscalYear_def update_rows_def close_year_def)
  note r = lock_of_set [OF lk]
  obtain rw where t: "t = r\<lparr>audit_log := audit_log r @ [rw], next_id := Suc (next_id r)\<rparr>"
    by (rule that) (rule log_audit_result [OF lg [unfolded unit_eq [of w]]])
  have co: "company_exists c q" using ok(6) by (auto simp: q ok(2) posted_def company_exists_def list_ex_iff filter_eq_Cons_iff)
  have p: "verifications p = verifications s @ [posted_row f c ''O'' (midnight (fy_end fy)) (''Bokslut '' @ fy_label fy) 0 s]"
    "vlines p = vlines s @ map (line_row ver) (closing_lines tb)" "fiscal_years p = fiscal_years s"
    using ok(1,2) by (simp_all add: posted_def close_series_def)
  have rq: "verifications r = verifications q" "vlines r = vlines q" "fiscal_years r = fiscal_years q"
    using arg_cong [OF r(1), of verifications] arg_cong [OF r(1), of vlines] arg_cong [OF r(1), of fiscal_years] by simp_all
  have tv: "verifications t = verifications p" "vlines t = vlines p"
    "fiscal_years t = map (close_year c i (e_now f)) (fiscal_years p)" "lock_of c t = lock_of c r"
    unfolding t using rq by (simp_all add: q lock_of_def)
  have lt: "lock_of c t = Some (fy_end fy)" unfolding tv(4) r(2) using co by simp
  have net: "\<forall>r \<in> set tb. is_result (ab_class r) \<longrightarrow> net_on (ab_account r) (closing_lines tb) = - ab_net r"
    using net_on_closing [OF assms(1) tb] by blast
  show ?thesis
    by (intro exI [of _ fy] exI [of _ tb] conjI)
      (use mem fy tb ne ok(3) net lt in \<open>simp_all only: tv(1-3) p close_series_def mem_Collect_eq set_filter simp_thms\<close>)
qed

text \<open>The sample books with their year on record.\<close>

definition sample_year :: fiscal_row where
  "sample_year = \<lparr>fy_id = 0, fy_company = 3, fy_label = ''2026'', fy_start = Date 2026 1 1, fy_end = Date 2026 12 31,
     fy_closed = None\<rparr>"

definition year_books :: db where
  "year_books = sample_books\<lparr>fiscal_years := [sample_year]\<rparr>"

lemma year_books_ok: "books_ok year_books"
  using reachable_ok [OF reachable_sample(2)]
  by (simp add: books_ok_def year_books_def ver_lines_def company_accounts_def series_numbers_def)

abbreviation sample_rows :: "account_balance list" where
  "sample_rows \<equiv> [\<lparr>ab_account = ''1930'', ab_class = ClassAsset, ab_net = - 1000\<rparr>,
     \<lparr>ab_account = ''6110'', ab_class = ClassExpense, ab_net = 1000\<rparr>]"

lemma year_balance:
  "TrialBalanceBetweenExclSeries 3 (midnight (Date 2026 1 1)) (midnight (Date 2026 12 31)) ''O'' year_books = (Inr sample_rows, year_books)"
proof -
  define P where "P = (\<lambda>v :: ver_row. v_company v = 3 \<and> Date 2026 1 1 \<le> v_date v \<and> v_date v \<le> Date 2026 12 31 \<and> v_series v \<noteq> ''O'')"
  define i where "i = next_id sample_company"
  have "P (posted_row sample_env 3 ''A'' (midnight (Date 2026 3 1)) ''Kontorsmaterial'' 0 sample_company)"
    by (simp add: P_def posted_row_def) code_simp
  then have "joined_lines P year_books = map (line_row i) [debit_line ''6110'' 1000, credit_line ''1930'' 1000]"
    by (simp add: joined_lines_def year_books_def sample_books_facts(3,7) posted_row_def line_row_def i_def)
  then have "net_rows P year_books = (Inr [(''1930'', - 1000), (''6110'', 1000)], year_books)"
    by (simp add: net_rows_def reads_def Let_def account_sums_def line_row_def debit_line_def credit_line_def vl_net_def in64_def)
  moreover have "map to_balance [(''1930'', - 1000), (''6110'', 1000)] = sample_rows" by code_simp
  ultimately show ?thesis
    by (simp add: TrialBalanceBetweenExclSeries_def q_TrialBalanceBetweenExclSeries_def P_def andthen_def)
qed

lemma core_chart_result: "''2099'' \<in> ca_number ` set core_chart"
proof -
  have "''2099'' \<in> set (map ca_number core_chart)" by code_simp
  then show ?thesis by simp
qed

lemma sample_close: "\<exists>ver t. CloseFiscalYear sample_env 3 0 year_books = (Inr ver, t)"
proof -
  define ls where "ls = [credit_line ''6110'' 1000, debit_line ''2099'' 1000]"
  have z: "zeroing_lines sample_rows = [credit_line ''6110'' 1000]" "result_of sample_rows = - 1000"
    "result_line (- 1000) = debit_line ''2099'' 1000" by code_simp+
  have zl: "zeroing_lines sample_rows @ [result_line (- 1000)] = ls" by (simp only: z ls_def append.simps)
  obtain co where co: "companies year_books = [co]" "co_id co = 3" "locked_through co = None"
    using sample_books_facts(1,2) by (cases "companies sample_books") (auto simp: year_books_def)
  define v where "v = posted_row sample_env 3 ''A'' (midnight (Date 2026 3 1)) ''Kontorsmaterial'' 0 sample_company"
  have vs: "verifications year_books = [v]" "v_series v = ''A''"
    by (simp_all add: v_def year_books_def sample_books_facts(3) posted_row_def)
  have "company_accounts 3 year_books = company_accounts 3 sample_company"
    using sample_books_facts(5) by (simp add: year_books_def company_accounts_def)
  then have acc: "''6110'' \<in> company_accounts 3 year_books" "''2099'' \<in> company_accounts 3 year_books"
    using sample_company_facts(6) core_chart_has core_chart_result by auto
  have val: "validate (bare ls) = None"
    unfolding validate_None_iff ls_def by (simp add: bare_def double_entry_def line_ok_def)
  have nn: "next_number 3 ''O'' year_books = 1" by (simp add: next_number_def series_numbers_def vs)
  define p where "p = posted sample_env 3 ''O'' (midnight (Date 2026 12 31)) (''Bokslut '' @ ''2026'') ls 0 year_books"
  have post: "post_verification sample_env 3 ''O'' (midnight (Date 2026 12 31)) (''Bokslut '' @ ''2026'') ls 0 year_books = (Inr (next_id year_books), p)"
    using acc by (simp add: p_def post_verification_eq val co period_open_def nn pg_uuid_def) (simp add: ls_def)
  define q where "q = p\<lparr>fiscal_years := [sample_year\<lparr>fy_closed := Some (e_now sample_env)\<rparr>]\<rparr>"
  have cl: "q_CloseFiscalYear (e_now sample_env) 3 0 p = (Inr 1, q)"
    by (simp add: q_CloseFiscalYear_def update_rows_def p_def posted_def year_books_def sample_year_def q_def)
  obtain r where lk: "SetLockedThrough 3 (Some (Date 2026 12 31)) q = (Inr (), r)" and
    r: "companies r = [co\<lparr>locked_through := Some (Date 2026 12 31)\<rparr>]" "audit_log r = audit_log sample_books"
    by (simp add: SetLockedThrough_def andthen_def update_rows_def q_def p_def posted_def co) (simp add: year_books_def)
  obtain a where a: "audit_log sample_books = [a]" "au_company a = 3" "au_prev a = []" "au_hash a \<noteq> []"
    using sample_books_facts(6) by blast
  have "no_nul (amount_string (- 1000))" by (simp add: no_nul_amount)
  then have n: "list_all no_nul [''kim'', ''close_fiscal_year'', ''fiscal_year'', fmt_nat 0, ''bokslut '' @ ''2026'' @ '', resultat '' @ amount_string (- 1000)]"
    using no_nul_fmt_nat [of 0] by simp (simp add: no_nul_def)
  have "\<exists>t. log_audit sample_env 3 ''close_fiscal_year'' ''fiscal_year'' (fmt_nat 0)
      (''bokslut '' @ ''2026'' @ '', resultat '' @ amount_string (- 1000)) r = (Inr (), t)"
    by (rule exI, rule log_audit_fresh)
      (use n a in \<open>simp_all add: r co company_exists_def company_audit_def last_hash_def actor_from_def\<close>)
  then obtain t where lg: "log_audit sample_env 3 ''close_fiscal_year'' ''fiscal_year'' (fmt_nat 0)
      (''bokslut '' @ ''2026'' @ '', resultat '' @ amount_string (- 1000)) r = (Inr (), t)" by blast
  have get: "GetFiscalYear 0 year_books = (Inr sample_year, year_books)"
    by (simp add: GetFiscalYear_def fetch_def year_books_def sample_year_def)
  have y: "fy_company sample_year = 3" "fy_closed sample_year = None" "fy_start sample_year = Date 2026 1 1"
    "fy_end sample_year = Date 2026 12 31" "fy_label sample_year = ''2026''" by (simp_all add: sample_year_def)
  have "CloseFiscalYear sample_env 3 0 year_books = (Inr (next_id year_books), t)"
    unfolding CloseFiscalYear_def
    by (rule andthen_okI, rule get, unfold y close_series_def, rule andthen_okI, simp add: require_ok, rule andthen_okI, simp add: require_ok,
        rule andthen_okI, rule year_balance, unfold Let_def z(2) zl, rule andthen_okI, simp add: require_ok z(1),
        unfold in_tx_ok sample_env_simps(5), rule andthen_okI, rule post, rule andthen_okI, rule cl, rule andthen_okI, simp add: require_ok,
        rule andthen_okI, rule lk, rule andthen_okI, rule lg) simp
  then show ?thesis by blast
qed

theorem closing_empties_the_year_witness:
  "\<exists>t :: db. map v_series (verifications t) = [''A'', ''O''] \<and> map v_date (verifications t) = [Date 2026 3 1, Date 2026 12 31] \<and>
     lock_of 3 t = Some (Date 2026 12 31) \<and> net_on ''6110'' (closing_lines sample_rows) = - 1000"
proof -
  obtain ver t where c: "CloseFiscalYear sample_env 3 0 year_books = (Inr ver, t)" using sample_close by blast
  from closing_empties_the_year [OF year_books_ok c] obtain fy tb where fy: "fy \<in> set (fiscal_years year_books)"
    and tb: "TrialBalanceBetweenExclSeries 3 (midnight (fy_start fy)) (midnight (fy_end fy)) ''O'' year_books = (Inr tb, year_books)"
    and net: "\<forall>r \<in> set tb. is_result (ab_class r) \<longrightarrow> net_on (ab_account r) (closing_lines tb) = - ab_net r"
    and v: "verifications t = verifications year_books @ [posted_row sample_env 3 ''O'' (midnight (fy_end fy)) (''Bokslut '' @ fy_label fy) 0 year_books]"
    and l: "lock_of 3 t = Some (fy_end fy)" by auto
  have y: "fy_start fy = Date 2026 1 1" "fy_end fy = Date 2026 12 31" using fy by (simp_all add: year_books_def sample_year_def)
  have "tb = sample_rows" using tb unfolding y year_balance by simp
  moreover have "is_result ClassExpense" by code_simp
  ultimately have "net_on ''6110'' (closing_lines sample_rows) = - 1000" using net by simp
  moreover have "verifications year_books = [posted_row sample_env 3 ''A'' (midnight (Date 2026 3 1)) ''Kontorsmaterial'' 0 sample_company]"
    by (simp add: year_books_def sample_books_facts(3))
  ultimately show ?thesis using v l y by (intro exI [of _ t]) (simp add: posted_row_def)
qed

section \<open>A year without a result\<close>

text \<open>C24. A year whose revenues and costs are exactly equal can never be closed: there are result accounts to
  empty, but the line for the result has neither a debit nor a credit, so the posting is refused and
  the year stays open, however often it is tried.\<close>

theorem even_year_cannot_close:
  assumes "GetFiscalYear i s = (Inr fy, s)" and "fy_company fy = c" and "fy_closed fy = None"
    and "TrialBalanceBetweenExclSeries c (midnight (fy_start fy)) (midnight (fy_end fy)) ''O'' s = (Inr tb, s)"
    and "zeroing_lines tb \<noteq> []" and "result_of tb = 0"
    and "\<forall>r \<in> set tb. ab_account r \<noteq> [] \<and> sint (ab_net r) \<noteq> min64"
    and "sum_debit (zeroing_lines tb) \<le> max64" and "sum_credit (zeroing_lines tb) \<le> max64"
  shows "CloseFiscalYear f c i s = (Inl (LedgerErr ErrLineSide), s)"
proof -
  have "validate (bare (zeroing_lines tb @ [result_line (result_of tb)])) = Some ErrLineSide"
    by (rule validate_close_zero [OF assms(6,5,7,8,9)]) (simp add: bare_def)
  then have post: "post_verification f c ''O'' (midnight (fy_end fy)) (''Bokslut '' @ fy_label fy)
      (zeroing_lines tb @ [result_line (result_of tb)]) 0 s = (Inl (LedgerErr ErrLineSide), s)"
    by (simp add: post_verification_eq)
  show ?thesis
    unfolding CloseFiscalYear_def close_series_def
    by (simp only: andthen_simps(2) [where m = "GetFiscalYear i", OF assms(1)] assms(2,3) require_def simp_thms if_True andthen_io
        andthen_simps(2) [where m = "TrialBalanceBetweenExclSeries c t1 t2 ''O''" and s = s for t1 t2, OF assms(4)] Let_def assms(5)
        in_tx_error andthen_simps(1) [where m = "post_verification f c ''O'' d x ls 0" and s = s for d x ls, OF post]) simp
qed

text \<open>A sale and a cost of 10 kronor each.\<close>

definition even_books :: db where
  "even_books = sample_company\<lparr>fiscal_years := [sample_year],
     verifications := [\<lparr>v_id = 0, v_company = 3, v_series = ''A'', v_number = 1, v_date = Date 2026 3 1,
       v_description = [], v_reversal_of = None, v_posted_at = Some (midnight (Date 2026 3 1))\<rparr>],
     vlines := map (line_row 0) [debit_line ''1930'' 1000, credit_line ''3001'' 1000, debit_line ''6110'' 1000, credit_line ''1930'' 1000]\<rparr>"

abbreviation even_rows :: "account_balance list" where
  "even_rows \<equiv> [\<lparr>ab_account = ''1930'', ab_class = ClassAsset, ab_net = 0\<rparr>,
     \<lparr>ab_account = ''3001'', ab_class = ClassIncome, ab_net = - 1000\<rparr>,
     \<lparr>ab_account = ''6110'', ab_class = ClassExpense, ab_net = 1000\<rparr>]"

lemma even_balance:
  "TrialBalanceBetweenExclSeries 3 (midnight (Date 2026 1 1)) (midnight (Date 2026 12 31)) ''O'' even_books = (Inr even_rows, even_books)"
proof -
  define P where "P = (\<lambda>v :: ver_row. v_company v = 3 \<and> Date 2026 1 1 \<le> v_date v \<and> v_date v \<le> Date 2026 12 31 \<and> v_series v \<noteq> ''O'')"
  have "Date 2026 1 1 \<le> Date 2026 3 1" "Date 2026 3 1 \<le> Date 2026 12 31" by code_simp+
  then have "joined_lines P even_books = map (line_row 0) [debit_line ''1930'' 1000, credit_line ''3001'' 1000, debit_line ''6110'' 1000, credit_line ''1930'' 1000]"
    by (simp add: joined_lines_def even_books_def P_def line_row_def)
  then have "net_rows P even_books = (Inr [(''1930'', 0), (''3001'', - 1000), (''6110'', 1000)], even_books)"
    by (simp add: net_rows_def reads_def Let_def account_sums_def line_row_def debit_line_def credit_line_def vl_net_def in64_def)
  moreover have "map to_balance [(''1930'', 0), (''3001'', - 1000), (''6110'', 1000)] = even_rows" by code_simp
  ultimately show ?thesis
    by (simp add: TrialBalanceBetweenExclSeries_def q_TrialBalanceBetweenExclSeries_def P_def andthen_def)
qed

theorem even_year_cannot_close_witness:
  "CloseFiscalYear sample_env 3 0 even_books = (Inl (LedgerErr ErrLineSide), even_books)"
proof -
  have get: "GetFiscalYear 0 even_books = (Inr sample_year, even_books)" and y: "fy_company sample_year = 3" "fy_closed sample_year = None"
    by (simp_all add: GetFiscalYear_def fetch_def even_books_def sample_year_def)
  have tb: "TrialBalanceBetweenExclSeries 3 (midnight (fy_start sample_year)) (midnight (fy_end sample_year)) ''O'' even_books = (Inr even_rows, even_books)"
    using even_balance by (simp add: sample_year_def)
  have z: "zeroing_lines even_rows = [debit_line ''3001'' 1000, credit_line ''6110'' 1000]" "result_of even_rows = 0" by code_simp+
  show ?thesis
    by (rule even_year_cannot_close [OF get y tb]) (simp_all add: z)
qed

end
