(* ===== verification/Shield.thy ===== *)
theory Shield
  imports Store_Sie
begin

text \<open>
  The shield between the books and an assistant (\<open>internal/shield\<close>): session keys, stable tokens, the
  token vault with its two stores, the walk that replaces the tagged fields of a result by markers, and
  the inverse on text. A session is the pair of the master key \<open>m\<close> and its id.
\<close>

section \<open>Tokens and markers (shield.go)\<close>

definition pii_fields :: "string list" where
  "pii_fields = [''name'', ''orgnr'', ''personnummer'', ''iban'', ''address'', ''email'', ''phone'']"

definition marker :: "string \<Rightarrow> string \<Rightarrow> string" where
  "marker kind tok = ''[shield:'' @ kind @ '':'' @ tok @ '']''"

definition token_id :: "env \<Rightarrow> string \<Rightarrow> string \<Rightarrow> string \<Rightarrow> string" where
  "token_id e key kind v = ''tok_'' @ take 32 (hex_encode (hmac_sha256 e key (kind @ CHR 0x00 # v)))"

definition derive_session_key :: "env \<Rightarrow> string \<Rightarrow> string \<Rightarrow> string" where
  "derive_session_key e m sid = hmac_sha256 e m (''pare/shield/session/'' @ sid)"

definition parse_tag :: "string \<Rightarrow> string option" where
  "parse_tag tag =
     (if tag = [] \<or> tag = ''-'' then None
      else case split_on CHR '','' tag of
        p # ps \<Rightarrow>
          if p \<noteq> ''tokenize'' then None
          else map_option (drop 5) (find (\<lambda>q. has_prefix q ''kind='') ps)
      | [] \<Rightarrow> None)"

text \<open>
  The pattern \<open>\[shield:([a-z]+):(tok_[0-9a-f]+)\]\<close> at the start of a text: the two groups and what
  follows. The character after each repetition is outside its class, so the match is unique.
\<close>

definition lower_letter :: "char \<Rightarrow> bool" where
  "lower_letter c \<longleftrightarrow> 97 \<le> byte c \<and> byte c \<le> 122"

definition hex_char :: "char \<Rightarrow> bool" where
  "hex_char c \<longleftrightarrow> is_digit c \<or> (97 \<le> byte c \<and> byte c \<le> 102)"

definition match_marker :: "string \<Rightarrow> (string \<times> string \<times> string) option" where
  "match_marker s =
     (if \<not> has_prefix s ''[shield:'' then None
      else
        let kind = takeWhile lower_letter (drop 8 s); s1 = dropWhile lower_letter (drop 8 s) in
        if kind = [] \<or> \<not> has_prefix s1 '':tok_'' then None
        else
          let h = takeWhile hex_char (drop 5 s1); s2 = dropWhile hex_char (drop 5 s1) in
          if h = [] \<or> \<not> has_prefix s2 '']'' then None
          else Some (kind, ''tok_'' @ h, tl s2))"

text \<open>\<open>ReplaceAllStringFunc\<close>: a text cut into its leftmost, non-overlapping markers and the rest.\<close>

datatype segment = Raw char | Mark string string

lemma match_marker_shorter:
  assumes "match_marker s = Some (k, t, r)"
  shows "length r < length s"
proof -
  have "length r \<le> length (drop 8 s) - 1" "has_prefix s ''[shield:''"
    using assms length_dropWhile_le [of lower_letter "drop 8 s"]
      length_dropWhile_le [of hex_char "drop 5 (dropWhile lower_letter (drop 8 s))"]
    by (auto simp: match_marker_def Let_def split: if_splits)
  then show ?thesis by (cases s) (auto simp: has_prefix_def)
qed

function segments :: "string \<Rightarrow> segment list" where
  "segments s =
     (case s of [] \<Rightarrow> []
      | c # t \<Rightarrow> (case match_marker s of
          Some (k, tok, r) \<Rightarrow> Mark k tok # segments r
        | None \<Rightarrow> Raw c # segments t))"
  by pat_completeness auto
termination
  by (relation "measure length") (auto dest: match_marker_shorter)

declare segments.simps [simp del]

section \<open>The vault (session.go, store\_pg.go)\<close>

text \<open>The stores over PostgreSQL, where the first writer wins, and in memory, where the last does.\<close>

definition pg_put :: "env \<Rightarrow> string \<Rightarrow> string \<Rightarrow> string \<Rightarrow> string \<Rightarrow> unit io" where
  "pg_put e sid tok kind ct = UpsertShieldToken
     \<lparr>sh_session = sid, sh_token = tok, sh_kind = kind, sh_ciphertext = ct, sh_created = e_now e\<rparr>"

definition pg_get :: "string \<Rightarrow> string \<Rightarrow> string io" where
  "pg_get sid tok = andthen (attempt (GetShieldToken sid tok)) (\<lambda>r.
     case r of Inl x \<Rightarrow> if x = NoRows then ret [] else fail x | Inr ct \<Rightarrow> ret ct)"

type_synonym mem_store = "string \<rightharpoonup> string"

definition mem_put :: "string \<Rightarrow> string \<Rightarrow> string \<Rightarrow> string \<Rightarrow> mem_store \<Rightarrow> mem_store" where
  "mem_put sid tok kind ct s = s(sid @ ''|'' @ tok \<mapsto> ct)"

definition mem_get :: "string \<Rightarrow> string \<Rightarrow> mem_store \<Rightarrow> string" where
  "mem_get sid tok s = (case s (sid @ ''|'' @ tok) of None \<Rightarrow> [] | Some ct \<Rightarrow> ct)"

definition Tokenize :: "env \<Rightarrow> string \<Rightarrow> string \<Rightarrow> string \<Rightarrow> string \<Rightarrow> string io" where
  "Tokenize e m sid kind v =
     (if v = [] then ret []
      else
        let tok = token_id e (derive_session_key e m sid) kind v in
        andthen (encrypt_field e m v) (\<lambda>ct.
        andthen (pg_put e sid tok kind ct) (\<lambda>_.
        ret (marker kind tok))))"

definition Resolve :: "env \<Rightarrow> string \<Rightarrow> string \<Rightarrow> string \<Rightarrow> string io" where
  "Resolve e m sid tok =
     andthen (pg_get sid tok) (\<lambda>ct.
     if ct = [] then ret [] else reads (\<lambda>_. decrypt_field e m ct))"

text \<open>\<open>UnshieldString\<close>: the text and the first error; a marker that cannot be resolved stays.\<close>

fun unshield_segments :: "env \<Rightarrow> string \<Rightarrow> string \<Rightarrow> segment list \<Rightarrow> (string \<times> err option) io" where
  "unshield_segments e m sid [] = ret ([], None)"
| "unshield_segments e m sid (Raw c # gs) =
     andthen (unshield_segments e m sid gs) (\<lambda>(out, x). ret (c # out, x))"
| "unshield_segments e m sid (Mark k tok # gs) =
     andthen (attempt (Resolve e m sid tok)) (\<lambda>r.
     andthen (unshield_segments e m sid gs) (\<lambda>(out, x).
     case r of
       Inl y \<Rightarrow> ret (marker k tok @ out, Some y)
     | Inr v \<Rightarrow> ret ((if v = [] then marker k tok else v) @ out, x)))"

definition UnshieldString :: "env \<Rightarrow> string \<Rightarrow> string \<Rightarrow> string \<Rightarrow> (string \<times> err option) io" where
  "UnshieldString e m sid txt' = unshield_segments e m sid (segments txt')"

section \<open>The walk over a result\<close>

text \<open>
  A Go value as \<open>reflect\<close> sees it: strings, other leaves (an integer, or a boolean as 0 or 1), nil, what a pointer or an interface holds, the
  elements of a slice or an array, and the fields of a struct with their tag and whether they are
  exported. A string can be set when it was reached through a pointer or a slice and no unexported field.
\<close>

datatype gval = GString string | GLeaf int | GNil | GPointer gval | GInterface gval | GSlice "gval list"
  | GArray "gval list" | GStruct "(bool \<times> string \<times> gval) list"

text \<open>\<open>addr\<close>: the value is addressable; \<open>ro\<close>: it was reached through an unexported field.\<close>

fun walk :: "env \<Rightarrow> string \<Rightarrow> string \<Rightarrow> bool \<Rightarrow> bool \<Rightarrow> gval \<Rightarrow> gval io"
  and walk_list :: "env \<Rightarrow> string \<Rightarrow> string \<Rightarrow> bool \<Rightarrow> bool \<Rightarrow> gval list \<Rightarrow> gval list io"
  and walk_fields :: "env \<Rightarrow> string \<Rightarrow> string \<Rightarrow> bool \<Rightarrow> bool \<Rightarrow> (bool \<times> string \<times> gval) list \<Rightarrow> (bool \<times> string \<times> gval) list io" where
  "walk e m sid addr ro (GPointer v) = andthen (walk e m sid True ro v) (\<lambda>w. ret (GPointer w))"
| "walk e m sid addr ro (GInterface v) = andthen (walk e m sid False ro v) (\<lambda>w. ret (GInterface w))"
| "walk e m sid addr ro (GSlice vs) = andthen (walk_list e m sid True ro vs) (\<lambda>ws. ret (GSlice ws))"
| "walk e m sid addr ro (GArray vs) = andthen (walk_list e m sid addr ro vs) (\<lambda>ws. ret (GArray ws))"
| "walk e m sid addr ro (GStruct fs) = andthen (walk_fields e m sid addr ro fs) (\<lambda>gs. ret (GStruct gs))"
| "walk e m sid addr ro (GString s) = ret (GString s)"
| "walk e m sid addr ro (GLeaf n) = ret (GLeaf n)"
| "walk e m sid addr ro GNil = ret GNil"
| "walk_list e m sid addr ro [] = ret []"
| "walk_list e m sid addr ro (v # vs) =
     andthen (walk e m sid addr ro v) (\<lambda>w. andthen (walk_list e m sid addr ro vs) (\<lambda>ws. ret (w # ws)))"
| "walk_fields e m sid addr ro [] = ret []"
| "walk_fields e m sid addr ro ((x, tag, v) # fs) =
     andthen (case parse_tag tag of
         Some kind \<Rightarrow> (case v of
             GString s \<Rightarrow>
               if addr \<and> x \<and> \<not> ro
               then andthen (Tokenize e m sid kind s) (\<lambda>mk. ret (GString (if mk \<noteq> [] then mk else s)))
               else ret v
           | _ \<Rightarrow> ret v)
       | None \<Rightarrow> walk e m sid addr (ro \<or> \<not> x) v) (\<lambda>w.
     andthen (walk_fields e m sid addr ro fs) (\<lambda>gs. ret ((x, tag, w) # gs)))"

definition ShieldStruct :: "env \<Rightarrow> string \<Rightarrow> string \<Rightarrow> gval \<Rightarrow> gval io" where
  "ShieldStruct e m sid v = walk e m sid False False v"

end
