(* ===== verification/Mcp.thy ===== *)
theory Mcp
  imports Shield Bank
begin

text \<open>
  The endpoint for an assistant (\<open>internal/mcp\<close>): JSON-RPC requests with their authentication and
  dispatch, the arguments of the tools as \<open>encoding/json\<close> decodes them, the nine tools over the store,
  and what becomes of their results and errors before they leave the process. A body is given as the
  JSON value it parses to; \<open>None\<close> is a body that does not parse or is larger than a mebibyte.
\<close>

section \<open>Decoding JSON into structs\<close>

datatype json = JNull | JBool bool | JNum string | JStr string | JArr "json list" | JObj "(string \<times> json) list"

text \<open>Keys are matched exactly first and otherwise by case folding, in which the long s and the Kelvin sign
  are the letters S and K.\<close>

function fold_key :: "string \<Rightarrow> string" where
  "fold_key s =
     (if s = [] then []
      else if has_prefix s [CHR 0xC5, CHR 0xBF] then CHR ''S'' # fold_key (drop 2 s)
      else if has_prefix s [CHR 0xE2, CHR 0x84, CHR 0xAA] then CHR ''K'' # fold_key (drop 3 s)
      else ascii_upper (hd s) # fold_key (tl s))"
  by pat_completeness auto
termination
  by (relation "measure length") auto

declare fold_key.simps [simp del]

definition field_of :: "string list \<Rightarrow> string \<Rightarrow> string" where
  "field_of names k =
     (if k \<in> set names then k
      else case find (\<lambda>n. fold_key n = fold_key k) names of None \<Rightarrow> [] | Some n \<Rightarrow> n)"

text \<open>
  A decoder takes a value and what the field held, and gives what it holds then and whether there was no
  type error. \<open>null\<close> leaves strings, numbers, booleans and structs as they are and empties a slice; a type
  error is remembered and the other members are still decoded.
\<close>

type_synonym 'a decoder = "json \<Rightarrow> 'a \<Rightarrow> 'a \<times> bool"

fun get_string :: "string decoder" where
  "get_string (JStr s) x = (s, True)"
| "get_string JNull x = (x, True)"
| "get_string _ x = (x, False)"

fun get_int :: "int64 decoder" where
  "get_int (JNum l) x = (case parse_int64 l of (n, ok) \<Rightarrow> if ok then (word_of_int n, True) else (x, False))"
| "get_int JNull x = (x, True)"
| "get_int _ x = (x, False)"

fun get_bool :: "bool decoder" where
  "get_bool (JBool b) x = (b, True)"
| "get_bool JNull x = (x, True)"
| "get_bool _ x = (x, False)"

definition get_raw :: "json option decoder" where
  "get_raw j x = (Some j, True)"

fun get_list :: "'a decoder \<Rightarrow> 'a \<Rightarrow> json list \<Rightarrow> 'a list \<Rightarrow> 'a list \<times> bool" where
  "get_list d z [] xs = ([], True)"
| "get_list d z (j # js) xs =
     (let (y, ok) = d j (case xs of [] \<Rightarrow> z | x # _ \<Rightarrow> x); (ys, oks) = get_list d z js (drop 1 xs)
      in (y # ys, ok \<and> oks))"

fun get_slice :: "'a decoder \<Rightarrow> 'a \<Rightarrow> 'a list decoder" where
  "get_slice d z (JArr js) xs = get_list d z js xs"
| "get_slice d z JNull xs = ([], True)"
| "get_slice d z _ xs = (xs, False)"

fun get_members :: "(string \<Rightarrow> 'a decoder) \<Rightarrow> (string \<times> json) list \<Rightarrow> 'a \<Rightarrow> 'a \<times> bool" where
  "get_members f [] x = (x, True)"
| "get_members f ((k, j) # ms) x =
     (let (y, ok) = f k j x; (z, oks) = get_members f ms y in (z, ok \<and> oks))"

fun get_struct :: "(string \<Rightarrow> 'a decoder) \<Rightarrow> 'a decoder" where
  "get_struct f (JObj ms) x = get_members f ms x"
| "get_struct f JNull x = (x, True)"
| "get_struct f _ x = (x, False)"

text \<open>A member that goes to a field: what a decoder makes of the field is put back.\<close>

definition via :: "'b decoder \<Rightarrow> ('a \<Rightarrow> 'b) \<Rightarrow> ('b \<Rightarrow> 'a \<Rightarrow> 'a) \<Rightarrow> 'a decoder" where
  "via d get put j x = (let (y, ok) = d j (get x) in (put y x, ok))"

definition unmarshal :: "(string \<Rightarrow> 'a decoder) \<Rightarrow> 'a \<Rightarrow> json option \<Rightarrow> 'a \<times> bool" where
  "unmarshal f z raw = (case raw of None \<Rightarrow> (z, False) | Some j \<Rightarrow> get_struct f j z)"

section \<open>Requests\<close>

record rpc_req =
  rq_version :: string
  rq_id :: "json option"
  rq_method :: string
  rq_params :: "json option"

definition rpc_field :: "string \<Rightarrow> rpc_req decoder" where
  "rpc_field k =
     (let n = field_of [''jsonrpc'', ''id'', ''method'', ''params''] k in
      if n = ''jsonrpc'' then via get_string rq_version (\<lambda>x r. r\<lparr>rq_version := x\<rparr>)
      else if n = ''id'' then via get_raw rq_id (\<lambda>x r. r\<lparr>rq_id := x\<rparr>)
      else if n = ''method'' then via get_string rq_method (\<lambda>x r. r\<lparr>rq_method := x\<rparr>)
      else if n = ''params'' then via get_raw rq_params (\<lambda>x r. r\<lparr>rq_params := x\<rparr>)
      else (\<lambda>j r. (r, True)))"

record call_params =
  cl_name :: string
  cl_arguments :: "json option"

definition call_field :: "string \<Rightarrow> call_params decoder" where
  "call_field k =
     (let n = field_of [''name'', ''arguments''] k in
      if n = ''name'' then via get_string cl_name (\<lambda>x r. r\<lparr>cl_name := x\<rparr>)
      else if n = ''arguments'' then via get_raw cl_arguments (\<lambda>x r. r\<lparr>cl_arguments := x\<rparr>)
      else (\<lambda>j r. (r, True)))"

record period_args =
  pd_from :: string
  pd_to :: string

definition period_field :: "string \<Rightarrow> period_args decoder" where
  "period_field k =
     (let n = field_of [''from'', ''to''] k in
      if n = ''from'' then via get_string pd_from (\<lambda>x r. r\<lparr>pd_from := x\<rparr>)
      else if n = ''to'' then via get_string pd_to (\<lambda>x r. r\<lparr>pd_to := x\<rparr>)
      else (\<lambda>j r. (r, True)))"

definition match_field :: "string \<Rightarrow> int64 decoder" where
  "match_field k = (if field_of [''received_sek_ore''] k \<noteq> [] then get_int else (\<lambda>j x. (x, True)))"

definition line_field :: "string \<Rightarrow> line decoder" where
  "line_field k =
     (let n = field_of [''account'', ''debit_ore'', ''credit_ore'', ''vat_code''] k in
      if n = ''account'' then via get_string account (\<lambda>x l. l\<lparr>account := x\<rparr>)
      else if n = ''debit_ore'' then via get_int debit (\<lambda>x l. l\<lparr>debit := x\<rparr>)
      else if n = ''credit_ore'' then via get_int credit (\<lambda>x l. l\<lparr>credit := x\<rparr>)
      else if n = ''vat_code'' then via get_string vat_code (\<lambda>x l. l\<lparr>vat_code := x\<rparr>)
      else (\<lambda>j l. (l, True)))"

definition zero_line :: line where
  "zero_line = \<lparr>account = [], debit = 0, credit = 0, vat_code = []\<rparr>"

record post_args =
  pa_series :: string
  pa_date :: string
  pa_description :: string
  pa_dry_run :: bool
  pa_lines :: "line list"

definition post_field :: "string \<Rightarrow> post_args decoder" where
  "post_field k =
     (let n = field_of [''series'', ''date'', ''description'', ''dry_run'', ''lines''] k in
      if n = ''series'' then via get_string pa_series (\<lambda>x r. r\<lparr>pa_series := x\<rparr>)
      else if n = ''date'' then via get_string pa_date (\<lambda>x r. r\<lparr>pa_date := x\<rparr>)
      else if n = ''description'' then via get_string pa_description (\<lambda>x r. r\<lparr>pa_description := x\<rparr>)
      else if n = ''dry_run'' then via get_bool pa_dry_run (\<lambda>x r. r\<lparr>pa_dry_run := x\<rparr>)
      else if n = ''lines'' then via (get_slice (get_struct line_field) zero_line) pa_lines (\<lambda>x r. r\<lparr>pa_lines := x\<rparr>)
      else (\<lambda>j r. (r, True)))"

record pay_args =
  py_number :: string
  py_date :: string
  py_ore :: int64
  py_account :: string
  py_dry_run :: bool

definition pay_field :: "string \<Rightarrow> pay_args decoder" where
  "pay_field k =
     (let n = field_of [''invoice_number'', ''date'', ''received_sek_ore'', ''account'', ''dry_run''] k in
      if n = ''invoice_number'' then via get_string py_number (\<lambda>x r. r\<lparr>py_number := x\<rparr>)
      else if n = ''date'' then via get_string py_date (\<lambda>x r. r\<lparr>py_date := x\<rparr>)
      else if n = ''received_sek_ore'' then via get_int py_ore (\<lambda>x r. r\<lparr>py_ore := x\<rparr>)
      else if n = ''account'' then via get_string py_account (\<lambda>x r. r\<lparr>py_account := x\<rparr>)
      else if n = ''dry_run'' then via get_bool py_dry_run (\<lambda>x r. r\<lparr>py_dry_run := x\<rparr>)
      else (\<lambda>j r. (r, True)))"

section \<open>Errors\<close>

definition errInvalidArgs :: err where
  "errInvalidArgs = OtherErr ''invalid arguments''"

definition errBadDate :: err where
  "errBadDate = OtherErr ''date must be YYYY-MM-DD''"

definition errCeiling :: err where
  "errCeiling = OtherErr ''amount exceeds the assistant write ceiling; a human must do this in the Pare UI''"

text \<open>Only the listed errors keep their text; wrapping adds the account to \<open>ErrUnknownAccount\<close>.\<close>

definition scrub_error :: "err \<Rightarrow> string" where
  "scrub_error x =
     (case x of
        LedgerErr ErrUnbalanced \<Rightarrow> ''ledger: verification does not balance (debit != credit)''
      | LedgerErr ErrTooFewLines \<Rightarrow> ''ledger: verification needs at least two lines''
      | LedgerErr ErrLineSide \<Rightarrow> ''ledger: each line must have exactly one of debit or credit''
      | LedgerErr ErrNoAccount \<Rightarrow> ''ledger: line has no account''
      | LedgerErr ErrNegative \<Rightarrow> ''ledger: amounts must be non-negative''
      | ErrPeriodClosed \<Rightarrow> ''store: the accounting period is closed for that date; post the correction in the current period''
      | ErrUnknownAccount a \<Rightarrow> ''store: account not in the chart of accounts: '' @ a
      | ErrForeignCompany \<Rightarrow> ''store: counterparty belongs to another company''
      | ErrNotDraft \<Rightarrow> ''store: invoice is not a draft''
      | ErrNoCompany \<Rightarrow> ''store: no company''
      | OtherErr m \<Rightarrow> if x = errInvalidArgs \<or> x = errBadDate then m else ''internal error''
      | _ \<Rightarrow> ''internal error'')"

section \<open>Results (tools.go)\<close>

definition plain_field :: "gval \<Rightarrow> bool \<times> string \<times> gval" where
  "plain_field v = (True, [], v)"

definition plain_string :: "string \<Rightarrow> bool \<times> string \<times> gval" where
  "plain_string v = plain_field (GString v)"

definition flag_value :: "bool \<Rightarrow> gval" where
  "flag_value b = GLeaf (if b then 1 else 0)"

definition shielded_field :: "string \<Rightarrow> string \<Rightarrow> bool \<times> string \<times> gval" where
  "shielded_field kind v = (True, ''tokenize,kind='' @ kind, GString v)"

definition overview_result :: "amount \<Rightarrow> vat_declaration \<Rightarrow> invoice_summary list \<Rightarrow> gval" where
  "overview_result res d unpaid = GPointer (GStruct [
     plain_string (amount_string res),
     plain_string (amount_string (box10 d + box11 d + box12 d)),
     plain_string (amount_string (box48 d)),
     plain_string (amount_string (box49 d)),
     plain_field (GLeaf (int (length unpaid))),
     plain_string (amount_string (foldl (\<lambda>t u. t + is_total_sek u) 0 unpaid))])"

definition unpaid_row :: "invoice_summary \<Rightarrow> gval" where
  "unpaid_row u = GStruct [
     plain_string (is_number u),
     shielded_field ''name'' (is_customer u),
     shielded_field ''orgnr'' (is_orgnr u),
     plain_string (amount_string (is_total u)),
     plain_string (is_currency u),
     plain_string (amount_string (is_total_sek u)),
     plain_string (is_due u)]"

definition match_row :: "amount \<Rightarrow> invoice_summary \<Rightarrow> gval" where
  "match_row received m =
     (let out = is_total_sek m - is_paid m in GStruct [
     plain_string (is_number m),
     shielded_field ''name'' (is_customer m),
     plain_string (amount_string out),
     plain_string (is_due m),
     plain_field (flag_value (out = received))])"

definition class_code :: "account_class \<Rightarrow> int" where
  "class_code k = (case k of ClassUnknown \<Rightarrow> 0 | ClassAsset \<Rightarrow> 1 | ClassEquityLiability \<Rightarrow> 2 | ClassIncome \<Rightarrow> 3
     | ClassExpense \<Rightarrow> 4 | ClassFinancial \<Rightarrow> 5)"

definition tb_row :: "account_balance \<Rightarrow> gval" where
  "tb_row r = GStruct [plain_string (ab_account r), plain_field (GLeaf (class_code (ab_class r))),
     plain_string (amount_string (ab_net r))]"

definition moms_result :: "vat_declaration \<Rightarrow> gval" where
  "moms_result d = GPointer (GStruct (map (\<lambda>x. plain_string (amount_string x))
     [box05 d, box10 d, box11 d, box12 d, box21 d, box22 d, box30 d, box39 d, box48 d, box49 d]))"

definition sie_result :: "string \<Rightarrow> int \<Rightarrow> string \<Rightarrow> gval" where
  "sie_result file n note = GPointer (GStruct [plain_string file, plain_field (GLeaf n), plain_string note])"

definition post_result :: "string \<Rightarrow> bool \<Rightarrow> bool \<Rightarrow> string \<Rightarrow> gval" where
  "post_result i ok dry note = GPointer (GStruct [plain_string i, plain_field (flag_value ok),
     plain_field (flag_value dry), plain_string note])"

definition payment_result :: "string \<Rightarrow> string \<Rightarrow> bool \<Rightarrow> bool \<Rightarrow> string \<Rightarrow> gval" where
  "payment_result i number ok dry note = GPointer (GStruct [plain_string i, plain_string number,
     plain_field (flag_value ok), plain_field (flag_value dry), plain_string note])"

text \<open>\<open>time.RFC3339\<close>, for a process that runs in UTC.\<close>

definition rfc3339 :: "gotime \<Rightarrow> string" where
  "rfc3339 t = (let secs = nanos t div 1000000000 in
     format_date iso_layout (date_of t) @ ''T'' @ fmt_pad 2 (int (secs div 3600)) @ '':'' @
     fmt_pad 2 (int (secs div 60 mod 60)) @ '':'' @ fmt_pad 2 (int (secs mod 60)) @ ''Z'')"

definition audit_result_row :: "audit_entry \<Rightarrow> gval" where
  "audit_result_row x = GStruct [plain_string (rfc3339 (ae_at x)), plain_string (ae_actor x),
     plain_string (ae_action x), plain_string (ae_target_type x @ '':'' @ ae_target_id x)]"

definition rows_result :: "gval list \<Rightarrow> gval" where
  "rows_result rows = GPointer (GStruct [plain_field (GSlice rows)])"

section \<open>The tools\<close>

definition check_ceiling :: "int64 \<Rightarrow> int64 \<Rightarrow> bool" where
  "check_ceiling maxw ore \<longleftrightarrow> \<not> (0 < sint maxw \<and> sint maxw < sint ore)"

definition period_balances :: "uuid \<Rightarrow> json option \<Rightarrow> account_balance list io" where
  "period_balances c args =
     (let p = fst (unmarshal period_field \<lparr>pd_from = [], pd_to = []\<rparr> args) in
      case (time_parse iso_layout (pd_from p), time_parse iso_layout (pd_to p)) of
        (Some d1, Some d2) \<Rightarrow> TrialBalanceBetween c (midnight d1) (midnight d2)
      | _ \<Rightarrow> TrialBalance c)"

definition balance_of_rows :: "account_balance list \<Rightarrow> balance_map" where
  "balance_of_rows tb = map (\<lambda>r. (ab_account r, ab_net r)) tb"

definition run_overview :: "env \<Rightarrow> uuid \<Rightarrow> gval io" where
  "run_overview e c =
     andthen (TrialBalance c) (\<lambda>tb.
     let net = foldl (\<lambda>n r. if is_result (ab_class r) then n + ab_net r else n) 0 tb;
         d = Report (balance_of_rows tb) in
     andthen (UnpaidInvoices e c) (\<lambda>unpaid.
     ret (overview_result (- net) d unpaid)))"

definition run_unpaid :: "env \<Rightarrow> uuid \<Rightarrow> gval io" where
  "run_unpaid e c = andthen (UnpaidInvoices e c) (\<lambda>unpaid. ret (rows_result (map unpaid_row unpaid)))"

definition run_match_payment :: "env \<Rightarrow> uuid \<Rightarrow> json option \<Rightarrow> gval io" where
  "run_match_payment e c args =
     (case unmarshal match_field 0 args of (ore, ok) \<Rightarrow>
        if \<not> ok then fail errInvalidArgs
        else andthen (MatchOpenInvoices e c ore) (\<lambda>ms. ret (rows_result (map (match_row ore) ms))))"

definition run_trial_balance :: "uuid \<Rightarrow> json option \<Rightarrow> gval io" where
  "run_trial_balance c args =
     andthen (period_balances c args) (\<lambda>tb.
     ret (GPointer (GStruct [plain_field (GSlice (map tb_row tb)),
       plain_string (amount_string (foldl (\<lambda>t r. t + ab_net r) 0 tb))])))"

definition run_moms :: "uuid \<Rightarrow> json option \<Rightarrow> gval io" where
  "run_moms c args =
     andthen (period_balances c args) (\<lambda>tb. ret (moms_result (Report (balance_of_rows tb))))"

definition run_export_sie :: "env \<Rightarrow> uuid \<Rightarrow> gval io" where
  "run_export_sie e c =
     andthen (ExportSIE c (e_now e)) (\<lambda>x.
     ret (sie_result ''pare-export.se'' (int (length (ex_vouchers x)))
       ''The SIE file contains identifying free text and is not exposed to the assistant. Download it from the Rapporter page in the Pare UI.''))"

definition run_audit :: "uuid \<Rightarrow> gval io" where
  "run_audit c = andthen (ListAudit c 50) (\<lambda>xs. ret (rows_result (map audit_result_row xs)))"

definition run_post_verification :: "env \<Rightarrow> uuid \<Rightarrow> int64 \<Rightarrow> json option \<Rightarrow> gval io" where
  "run_post_verification e c maxw args =
     (case unmarshal post_field \<lparr>pa_series = [], pa_date = [], pa_description = [], pa_dry_run = False, pa_lines = []\<rparr> args of
      (p, ok) \<Rightarrow>
        if \<not> ok then fail errInvalidArgs
        else case time_parse iso_layout (pa_date p) of
          None \<Rightarrow> fail errBadDate
        | Some d \<Rightarrow>
            if \<not> check_ceiling maxw (foldl (\<lambda>t l. t + debit l) 0 (pa_lines p)) then fail errCeiling
            else if pa_dry_run p then
              (case validate \<lparr>series = pa_series p, vnumber = 0, vdate = midnight d, description = pa_description p,
                  lines = pa_lines p, reversal_of = []\<rparr> of
                 Some x \<Rightarrow> fail (LedgerErr x)
               | None \<Rightarrow> ret (post_result [] False True
                   (sv ''Balanserad. Inget bokf|rdes (dry_run). Be en m{nniska bekr{fta i Pare.'')))
            else
              andthen (PostVerification e c (pa_series p) (midnight d) (pa_description p) (pa_lines p) 0) (\<lambda>i.
              ret (post_result (e_uuid_text e i) True False [])))"

definition run_record_payment :: "env \<Rightarrow> uuid \<Rightarrow> int64 \<Rightarrow> json option \<Rightarrow> gval io" where
  "run_record_payment e c maxw args =
     (case unmarshal pay_field \<lparr>py_number = [], py_date = [], py_ore = 0, py_account = [], py_dry_run = False\<rparr> args of
      (p, ok) \<Rightarrow>
        if \<not> ok then fail errInvalidArgs
        else case time_parse iso_layout (py_date p) of
          None \<Rightarrow> fail errBadDate
        | Some d \<Rightarrow>
            let acct = (if py_account p = [] then ''1930'' else py_account p) in
            if \<not> check_ceiling maxw (py_ore p) then fail errCeiling
            else if py_dry_run p then
              ret (payment_result [] (py_number p) False True
                (sv ''Inget bokf|rdes (dry_run). Be en m{nniska bekr{fta betalningen i Pare.''))
            else
              andthen (RecordPaymentByNumber e c (py_number p) (midnight d) acct (py_ore p)) (\<lambda>i.
              ret (payment_result (e_uuid_text e i) (py_number p) True False [])))"

section \<open>Registration\<close>

record tool =
  tl_name :: string
  tl_desc :: string
  tl_write :: bool
  tl_schema :: json

definition empty_schema :: json where
  "empty_schema = JObj [(''type'', JStr ''object''), (''properties'', JObj [])]"

definition typed :: "string \<Rightarrow> json" where
  "typed ty = JObj [(''type'', JStr ty)]"

definition described :: "string \<Rightarrow> string \<Rightarrow> json" where
  "described ty desc = JObj [(''type'', JStr ty), (''description'', JStr (sv desc))]"

definition object_schema :: "(string \<times> json) list \<Rightarrow> string list \<Rightarrow> json" where
  "object_schema ps req = JObj [(''type'', JStr ''object''), (''properties'', JObj ps),
     (''required'', JArr (map JStr req))]"

definition period_schema :: json where
  "period_schema = JObj [(''type'', JStr ''object''), (''properties'', JObj [
     (''from'', described ''string'' ''period start, YYYY-MM-DD (optional)''),
     (''to'', described ''string'' ''period end, YYYY-MM-DD (optional)'')])]"

definition dry_run_schema :: json where
  "dry_run_schema = described ''boolean'' ''if true, validate and preview only; nothing is committed''"

definition tools :: "tool list" where
  "tools = [
     \<lparr>tl_name = ''pare_financial_overview'', tl_desc = ''Snapshot of the books: profit/loss, VAT position, and unpaid invoices, all for the active company. No identities.'', tl_write = False, tl_schema = empty_schema\<rparr>,
     \<lparr>tl_name = ''pare_unpaid_invoices'', tl_desc = ''Finalized invoices that are not yet paid, with amounts and due dates. Customer identities are tokenized.'', tl_write = False, tl_schema = empty_schema\<rparr>,
     \<lparr>tl_name = ''pare_trial_balance'', tl_desc = ''Per-account net balances (huvudbok summary). Optional from/to (YYYY-MM-DD) scope it to a period; omit for all time. Account codes and amounts only.'', tl_write = False, tl_schema = period_schema\<rparr>,
     \<lparr>tl_name = ''pare_moms_report'', tl_desc = ''The momsdeklaration boxes (rutor). Optional from/to (YYYY-MM-DD) scope it to a filing period (recommended); omit for all time.'', tl_write = False, tl_schema = period_schema\<rparr>,
     \<lparr>tl_name = ''pare_export_sie'', tl_desc = ''Export the full ledger as a SIE type 4 file (base64) for an accountant or Fortnox/Visma to import.'', tl_write = False, tl_schema = empty_schema\<rparr>,
     \<lparr>tl_name = ''pare_recent_activity'', tl_desc = ''The audit log: recent postings by ai, users and the system, with actor attribution. No identities. Undo is a human-only action in the UI.'', tl_write = False, tl_schema = empty_schema\<rparr>,
     \<lparr>tl_name = ''pare_post_verification'', tl_desc = ''Post a manual balanced verifikat (debit must equal credit). Immutable once posted.'', tl_write = True,
       tl_schema = object_schema [
         (''series'', described ''string'' ''voucher series, e.g. A''),
         (''date'', described ''string'' ''YYYY-MM-DD''),
         (''description'', typed ''string''),
         (''lines'', JObj [(''type'', JStr ''array''), (''items'', object_schema [
            (''account'', typed ''string''), (''debit_ore'', typed ''integer''), (''credit_ore'', typed ''integer''),
            (''vat_code'', typed ''string'')] [''account''])]),
         (''dry_run'', dry_run_schema)] [''series'', ''date'', ''lines'']\<rparr>,
     \<lparr>tl_name = ''pare_match_payment'', tl_desc = ''Given an incoming payment amount (received_sek_ore), return the open customer invoices whose outstanding balance matches it, best first. Use to reconcile a bank payment to the right invoice before calling pare_record_payment. Customer identities are tokenized.'', tl_write = False,
       tl_schema = object_schema [(''received_sek_ore'', described ''integer'' ''the amount received, in |re (SEK)'')] [''received_sek_ore'']\<rparr>,
     \<lparr>tl_name = ''pare_record_payment'', tl_desc = ''Settle a finalized invoice: book the received amount to a bank account, clear Kundfordringar (1510), and post any currency difference (3960/7960). Reference the invoice by its number.'', tl_write = True,
       tl_schema = object_schema [
         (''invoice_number'', described ''string'' (''the finalized invoice'' @ [CHR 0x27] @ ''s number, e.g. 2026-0001'')),
         (''date'', described ''string'' ''payment date, YYYY-MM-DD''),
         (''received_sek_ore'', described ''integer'' ''amount actually received, in |re (SEK). For a foreign-currency invoice this is the SEK that landed in the bank.''),
         (''account'', described ''string'' ''bank account to debit; defaults to 1930''),
         (''dry_run'', dry_run_schema)] [''invoice_number'', ''date'', ''received_sek_ore'']\<rparr>]"

text \<open>The handler a tool is registered with.\<close>

definition run_tool :: "env \<Rightarrow> uuid \<Rightarrow> int64 \<Rightarrow> string \<Rightarrow> json option \<Rightarrow> gval io" where
  "run_tool e c maxw n args =
     (if n = ''pare_financial_overview'' then run_overview e c
      else if n = ''pare_unpaid_invoices'' then run_unpaid e c
      else if n = ''pare_trial_balance'' then run_trial_balance c args
      else if n = ''pare_moms_report'' then run_moms c args
      else if n = ''pare_export_sie'' then run_export_sie e c
      else if n = ''pare_recent_activity'' then run_audit c
      else if n = ''pare_post_verification'' then run_post_verification e c maxw args
      else if n = ''pare_match_payment'' then run_match_payment e c args
      else run_record_payment e c maxw args)"

section \<open>The endpoint (mcp.go)\<close>

record mcp_server =
  mc_shield_key :: string
  mc_api_key :: string
  mc_max :: int64

record mcp_request =
  mq_api_key :: string
  mq_authorization :: string
  mq_session :: string
  mq_body :: "json option"

datatype rpc_result = RInitialize | RTools "tool list" | RToolError string | RToolOk gval | RError int string

datatype mcp_reply = Unauthorized | ParseFailed | NoContent | Reply "json option" rpc_result

definition authed :: "mcp_server \<Rightarrow> mcp_request \<Rightarrow> bool" where
  "authed srv q =
     (if mc_api_key srv = [] then False
      else let got = (if mq_api_key q \<noteq> [] then mq_api_key q
                      else if has_prefix (mq_authorization q) ''Bearer '' \<and> 7 < length (mq_authorization q)
                      then drop 7 (mq_authorization q) else []) in got = mc_api_key srv)"

definition session_id :: "mcp_request \<Rightarrow> string" where
  "session_id q = (if mq_session q \<noteq> [] then mq_session q else ''default'')"

definition as_assistant :: "env \<Rightarrow> env" where
  "as_assistant e = e\<lparr>e_actor_kind := ''ai'', e_actor_detail := ''mcp''\<rparr>"

definition call_tool :: "env \<Rightarrow> mcp_server \<Rightarrow> mcp_request \<Rightarrow> json option \<Rightarrow> rpc_result io" where
  "call_tool e srv q params =
     (case unmarshal call_field \<lparr>cl_name = [], cl_arguments = None\<rparr> params of (p, ok) \<Rightarrow>
        if \<not> ok then ret (RError (- 32602) ''invalid params'')
        else case find (\<lambda>t. tl_name t = cl_name p) tools of
          None \<Rightarrow> ret (RError (- 32602) (''unknown tool: '' @ cl_name p))
        | Some t \<Rightarrow>
            andthen (attempt DefaultCompany) (\<lambda>r. case r of
              Inl x \<Rightarrow> ret (RToolError ''no company configured yet'')
            | Inr c \<Rightarrow>
                let e' = as_assistant e in
                andthen (attempt (run_tool e' c (mc_max srv) (tl_name t) (cl_arguments p))) (\<lambda>r. case r of
                  Inl x \<Rightarrow> ret (RToolError (scrub_error x))
                | Inr v \<Rightarrow>
                    andthen (attempt (ShieldStruct e' (mc_shield_key srv) (session_id q) v)) (\<lambda>r. case r of
                      Inl x \<Rightarrow> ret (RToolError ''shield error'')
                    | Inr w \<Rightarrow> ret (RToolOk w)))))"

definition dispatch :: "env \<Rightarrow> mcp_server \<Rightarrow> mcp_request \<Rightarrow> rpc_req \<Rightarrow> mcp_reply io" where
  "dispatch e srv q req =
     (if rq_method req = ''initialize'' then ret (Reply (rq_id req) RInitialize)
      else if rq_method req = ''notifications/initialized'' \<or> rq_method req = ''notifications/cancelled'' then ret NoContent
      else if rq_method req = ''tools/list'' then ret (Reply (rq_id req) (RTools tools))
      else if rq_method req = ''tools/call'' then
        andthen (call_tool e srv q (rq_params req)) (\<lambda>r. ret (Reply (rq_id req) r))
      else ret (Reply (rq_id req) (RError (- 32601) (''method not found: '' @ rq_method req))))"

definition mcp_handle :: "env \<Rightarrow> mcp_server \<Rightarrow> mcp_request \<Rightarrow> mcp_reply io" where
  "mcp_handle e srv q =
     (if \<not> authed srv q then ret Unauthorized
      else case unmarshal rpc_field \<lparr>rq_version = [], rq_id = None, rq_method = [], rq_params = None\<rparr> (mq_body q) of
        (req, ok) \<Rightarrow> if \<not> ok then ret ParseFailed else dispatch e srv q req)"

end
