(* ===== verification/Go_Float.thy ===== *)
theory Go_Float
  imports Go_Decimal
begin

text \<open>
  \<open>float64\<close> as the forms use it (\<open>internal/handler/web.go\<close>): \<open>strconv.ParseFloat\<close>, the product with a
  whole number, \<open>math.Round\<close> and the conversion to \<open>int64\<close>. A finite value is a signed mantissa and a
  power of two; rounding is to nearest, ties to even, with the subnormal and overflow limits of the
  format. Negative zero is zero. The conversion of what is outside the range of \<open>int64\<close> is the least
  value, which is what amd64 gives.
\<close>

section \<open>Values and rounding\<close>

datatype float64 = Finite int int | Infinite bool | NotANumber

fun bit_len :: "nat \<Rightarrow> nat" where
  "bit_len n = (if n = 0 then 0 else Suc (bit_len (n div 2)))"

declare bit_len.simps [simp del]

definition nearest_even :: "nat \<Rightarrow> nat \<Rightarrow> nat" where
  "nearest_even n d = (let q = n div d; r = n mod d in
     if 2 * r < d \<or> (2 * r = d \<and> even q) then q else Suc q)"

text \<open>\<open>n * 2 ^ k\<close> over \<open>d * 2 ^ l\<close>, for a signed difference of exponents, as a pair of naturals.\<close>

definition scaled :: "nat \<Rightarrow> nat \<Rightarrow> int \<Rightarrow> nat \<times> nat" where
  "scaled n d q = (if 0 \<le> q then (n, d * 2 ^ nat q) else (n * 2 ^ nat (- q), d))"

text \<open>The exponent of the leading bit of \<open>n / d\<close>.\<close>

definition lead_bit :: "nat \<Rightarrow> nat \<Rightarrow> int" where
  "lead_bit n d = (let k = int (bit_len n) - int (bit_len d) in
     case scaled n d k of (a, b) \<Rightarrow> if b \<le> a then k else k - 1)"

definition round_float :: "bool \<Rightarrow> nat \<Rightarrow> nat \<Rightarrow> float64" where
  "round_float neg n d =
     (if n = 0 then Finite 0 0
      else let q = max (lead_bit n d - 52) (- 1074);
               m = (case scaled n d q of (a, b) \<Rightarrow> nearest_even a b)
           in if 1024 < int (bit_len m) + q then Infinite neg
              else Finite (if neg then - int m else int m) q)"

section \<open>Arithmetic\<close>

definition float_mult :: "float64 \<Rightarrow> nat \<Rightarrow> float64" where
  "float_mult f k = (case f of
     Finite m e \<Rightarrow> (if 0 \<le> e then round_float (m < 0) (nat \<bar>m\<bar> * k * 2 ^ nat e) 1
                   else round_float (m < 0) (nat \<bar>m\<bar> * k) (2 ^ nat (- e)))
   | Infinite b \<Rightarrow> Infinite b
   | NotANumber \<Rightarrow> NotANumber)"

definition float_positive :: "float64 \<Rightarrow> bool" where  \<comment> \<open>not \<open>f <= 0\<close>\<close>
  "float_positive f = (case f of Finite m e \<Rightarrow> 0 < m | Infinite b \<Rightarrow> \<not> b | NotANumber \<Rightarrow> True)"

text \<open>\<open>int64(math.Round(f))\<close>: half away from zero.\<close>

definition round_half_away :: "int \<Rightarrow> int \<Rightarrow> int" where
  "round_half_away m e =
     (if 0 \<le> e then m * 2 ^ nat e
      else let p = 2 ^ nat (- e); r = (2 * \<bar>m\<bar> + p) div (2 * p) in if m < 0 then - r else r)"

definition least_int64 :: int where
  "least_int64 = - (2 ^ 63)"

definition float_to_int64 :: "float64 \<Rightarrow> int64" where
  "float_to_int64 f = (case f of
     Finite m e \<Rightarrow> (let r = round_half_away m e in
       if least_int64 \<le> r \<and> r < 2 ^ 63 then word_of_int r else word_of_int least_int64)
   | Infinite b \<Rightarrow> word_of_int least_int64
   | NotANumber \<Rightarrow> word_of_int least_int64)"

section \<open>strconv.ParseFloat\<close>

definition lower_byte :: "char \<Rightarrow> nat" where  \<comment> \<open>\<open>c | ('x' - 'X')\<close>\<close>
  "lower_byte c = (if byte c div 32 mod 2 = 0 then byte c + 32 else byte c)"

definition hex_letter :: "char \<Rightarrow> bool" where
  "hex_letter c \<longleftrightarrow> 97 \<le> lower_byte c \<and> lower_byte c \<le> 102"

definition hex_value :: "char \<Rightarrow> nat" where
  "hex_value c = (if is_digit c then digit_val c else lower_byte c - 87)"

text \<open>The digits of the mantissa, how many of them follow the point, and what is left.\<close>

fun scan_mantissa :: "bool \<Rightarrow> bool \<Rightarrow> string \<Rightarrow> string \<times> nat \<times> string" where
  "scan_mantissa hex dot [] = ([], 0, [])"
| "scan_mantissa hex dot (c # s) =
     (if c = CHR ''_'' then scan_mantissa hex dot s
      else if c = CHR ''.'' then (if dot then ([], 0, c # s) else scan_mantissa hex True s)
      else if is_digit c \<or> hex \<and> hex_letter c then
        (case scan_mantissa hex dot s of (ds, k, r) \<Rightarrow> (c # ds, if dot then Suc k else k, r))
      else ([], 0, c # s))"

fun scan_exponent :: "nat \<Rightarrow> string \<Rightarrow> nat \<times> string" where
  "scan_exponent x [] = (x, [])"
| "scan_exponent x (c # s) =
     (if c = CHR ''_'' then scan_exponent x s
      else if is_digit c then scan_exponent (if x < 10000 then x * 10 + digit_val c else x) s
      else (x, c # s))"

datatype seen = AtStart | AfterDigit | AfterUnderscore | AfterOther

fun underscores_from :: "bool \<Rightarrow> seen \<Rightarrow> string \<Rightarrow> bool" where
  "underscores_from hex saw [] \<longleftrightarrow> saw \<noteq> AfterUnderscore"
| "underscores_from hex saw (c # s) \<longleftrightarrow>
     (if is_digit c \<or> hex \<and> hex_letter c then underscores_from hex AfterDigit s
      else if c = CHR ''_'' then saw = AfterDigit \<and> underscores_from hex AfterUnderscore s
      else saw \<noteq> AfterUnderscore \<and> underscores_from hex AfterOther s)"

definition base_prefix :: "nat list \<Rightarrow> string \<Rightarrow> bool" where
  "base_prefix letters s \<longleftrightarrow> 2 \<le> length s \<and> s ! 0 = CHR ''0'' \<and> lower_byte (s ! 1) \<in> set letters"

definition underscore_ok :: "string \<Rightarrow> bool" where  \<comment> \<open>after the sign\<close>
  "underscore_ok s =
     (if base_prefix [98, 111, 120] s then underscores_from (lower_byte (s ! 1) = 120) AfterDigit (drop 2 s)
      else underscores_from False AtStart s)"

definition number_value :: "nat \<Rightarrow> string \<Rightarrow> nat" where
  "number_value b ds = foldl (\<lambda>n c. n * b + hex_value c) 0 ds"

text \<open>The exponent part, if there is one: its value, or \<open>None\<close> when it is malformed.\<close>

definition read_exponent :: "bool \<Rightarrow> string \<Rightarrow> int option" where
  "read_exponent hex r =
     (case r of
        [] \<Rightarrow> if hex then None else Some 0
      | c # s \<Rightarrow>
          if lower_byte c \<noteq> (if hex then 112 else 101) then None
          else let (neg, t) = (case s of [] \<Rightarrow> (False, [])
                 | d # u \<Rightarrow> if d = CHR ''+'' then (False, u) else if d = CHR ''-'' then (True, u) else (False, s))
               in case t of [] \<Rightarrow> None
                | d # u \<Rightarrow> if \<not> is_digit d then None
                    else (case scan_exponent 0 t of (x, rest) \<Rightarrow>
                      if rest = [] then Some (if neg then - int x else int x) else None))"

definition read_number :: "bool \<Rightarrow> string \<Rightarrow> float64 option" where
  "read_number neg s =
     (let hex = (3 \<le> length s \<and> base_prefix [120] s) in
      case scan_mantissa hex False (if hex then drop 2 s else s) of (ds, k, r) \<Rightarrow>
        if ds = [] \<or> (CHR ''_'' \<in> set s \<and> \<not> underscore_ok s) then None
        else (case read_exponent hex r of
          None \<Rightarrow> None
        | Some x \<Rightarrow>
            let v = number_value (if hex then 16 else 10) ds;
                p = (if hex then 2 else 10); y = x - int k * (if hex then 4 else 1);
                f = (if 0 \<le> y then round_float neg (v * p ^ nat y) 1 else round_float neg v (p ^ nat (- y)))
            in (case f of Infinite b \<Rightarrow> None | _ \<Rightarrow> Some f)))"

definition fold_text :: "string \<Rightarrow> string" where
  "fold_text s = map (\<lambda>c. if 65 \<le> byte c \<and> byte c \<le> 90 then char_of (byte c + 32) else c) s"

definition split_sign :: "string \<Rightarrow> bool \<times> bool \<times> string" where
  "split_sign s = (case s of [] \<Rightarrow> (False, False, [])
     | c # t \<Rightarrow> if c = CHR ''+'' then (True, False, t) else if c = CHR ''-'' then (True, True, t) else (False, False, s))"

definition parse_float :: "string \<Rightarrow> float64 option" where
  "parse_float s =
     (case split_sign s of (explicit, neg, t) \<Rightarrow>
        if fold_text t \<in> {''inf'', ''infinity''} then Some (Infinite neg)
        else if \<not> explicit \<and> fold_text t = ''nan'' then Some NotANumber
        else read_number neg t)"

end
