(* ===== verification/Web_Forms.thy ===== *)
theory Web_Forms
  imports Service Mcp Go_Float
begin

text \<open>
  What the operator UI receives and answers (\<open>internal/handler\<close>): the request with the form parsing of
  \<open>net/http\<close>, which is stateful (\<open>r.PostForm\<close> is filled once), the page model of \<open>templates.go\<close>, and the
  helpers of \<open>web.go\<close> that read and write form values. Bodies are given decoded, as the pairs of the form
  and the uploaded files in order. Templates are named, not rendered.
\<close>

section \<open>Requests\<close>

type_synonym fields = "(string \<times> string) list"

record upload =
  up_filename :: string
  up_mime :: string
  up_content :: string

datatype web_body = Urlencoded fields | Multipart fields "(string \<times> upload) list" | OtherBody

record web_request =
  wr_method :: string
  wr_path :: string
  wr_query :: fields
  wr_cookies :: fields
  wr_body :: web_body
  wr_length :: nat
  wr_limit :: "nat option"  \<comment> \<open>of \<open>http.MaxBytesReader\<close>\<close>
  wr_post :: "fields option"  \<comment> \<open>\<open>r.PostForm\<close>\<close>
  wr_files :: "(string \<times> upload) list option"  \<comment> \<open>\<open>r.MultipartForm\<close>\<close>
  wr_id :: string  \<comment> \<open>\<open>chi.URLParam(r, "id")\<close>\<close>
  wr_csrf :: string  \<comment> \<open>the values of the context\<close>
  wr_session :: "session_info option"
  wr_company :: uuid
  wr_mcp :: mcp_request

definition values_of :: "fields \<Rightarrow> string \<Rightarrow> string list" where
  "values_of fs k = map snd (filter (\<lambda>f. fst f = k) fs)"

definition first_value :: "fields \<Rightarrow> string \<Rightarrow> string" where
  "first_value fs k = (case values_of fs k of [] \<Rightarrow> [] | v # _ \<Rightarrow> v)"

definition query_get :: "web_request \<Rightarrow> string \<Rightarrow> string" where
  "query_get r k = first_value (wr_query r) k"

definition get_cookie :: "web_request \<Rightarrow> string \<Rightarrow> string option" where
  "get_cookie r k = (case values_of (wr_cookies r) k of [] \<Rightarrow> None | v # _ \<Rightarrow> Some v)"

definition too_long :: "web_request \<Rightarrow> bool" where
  "too_long r = (case wr_limit r of None \<Rightarrow> False | Some n \<Rightarrow> n < wr_length r)"

text \<open>
  \<open>r.ParseForm()\<close> fills \<open>r.PostForm\<close> when it is nil, for a POST, PUT or PATCH from a URL-encoded body; a
  multipart body is left to \<open>ParseMultipartForm\<close>, and a body over the limit reads as no form.
\<close>

definition parse_form :: "web_request \<Rightarrow> web_request" where
  "parse_form r = (case wr_post r of
     Some _ \<Rightarrow> r
   | None \<Rightarrow> r\<lparr>wr_post := Some (case wr_body r of
       Urlencoded fs \<Rightarrow> if wr_method r \<in> {''POST'', ''PUT'', ''PATCH''} \<and> \<not> too_long r then fs else []
     | _ \<Rightarrow> [])\<rparr>)"

text \<open>\<open>r.ParseMultipartForm\<close>: whether it succeeds, and the request with the parts of the body added.\<close>

definition parse_multipart :: "web_request \<Rightarrow> bool \<times> web_request" where
  "parse_multipart r0 = (let r = parse_form r0 in
     case wr_files r of
       Some _ \<Rightarrow> (True, r)
     | None \<Rightarrow> (case wr_body r of
         Multipart fs ups \<Rightarrow>
           if too_long r then (False, r)
           else (True, r\<lparr>wr_post := Some (the (wr_post r) @ fs), wr_files := Some ups\<rparr>)
       | _ \<Rightarrow> (False, r)))"

definition post_form :: "web_request \<Rightarrow> fields" where
  "post_form r = (case wr_post r of None \<Rightarrow> [] | Some fs \<Rightarrow> fs)"

text \<open>\<open>r.PostFormValue(k)\<close> parses only when \<open>r.PostForm\<close> is nil.\<close>

definition post_form_value :: "web_request \<Rightarrow> string \<Rightarrow> string" where
  "post_form_value r k =
     first_value (post_form (if wr_post r = None then snd (parse_multipart r) else r)) k"

definition form_text :: "web_request \<Rightarrow> string \<Rightarrow> string" where  \<comment> \<open>\<open>strings.TrimSpace(r.PostFormValue(k))\<close>\<close>
  "form_text r k = trim_space (post_form_value r k)"

text \<open>\<open>r.FormFile(k)\<close>: the first file under that name, parsing the body when that has not been done.\<close>

definition form_file :: "web_request \<Rightarrow> string \<Rightarrow> upload option" where
  "form_file r k =
     (let q = (if wr_files r = None then snd (parse_multipart r) else r) in
      case wr_files q of None \<Rightarrow> None
      | Some ups \<Rightarrow> (case filter (\<lambda>u. fst u = k) ups of [] \<Rightarrow> None | u # _ \<Rightarrow> Some (snd u)))"

section \<open>Form values (web.go)\<close>

definition get :: "string list \<Rightarrow> nat \<Rightarrow> string" where
  "get s i = (if i < length s then s ! i else [])"

definition comma_to_point :: "string \<Rightarrow> string" where
  "comma_to_point s = map (\<lambda>c. if c = CHR '','' then CHR ''.'' else c) s"

definition parse_qty_milli :: "string \<Rightarrow> int64" where
  "parse_qty_milli s = (if s = [] then 1000
     else case parse_float (comma_to_point s) of None \<Rightarrow> 1000 | Some f \<Rightarrow> float_to_int64 (float_mult f 1000))"

definition parse_kr_ore :: "string \<Rightarrow> amount" where
  "parse_kr_ore s =
     (case parse_float (comma_to_point s) of None \<Rightarrow> 0 | Some f \<Rightarrow> float_to_int64 (float_mult f 100))"

definition parse_rate_ppm :: "string \<Rightarrow> int64" where
  "parse_rate_ppm s =
     (case parse_float (comma_to_point s) of
        None \<Rightarrow> 1000000
      | Some f \<Rightarrow> if \<not> float_positive f then 1000000 else float_to_int64 (float_mult f 1000000))"

definition ore_dot :: "amount \<Rightarrow> string" where
  "ore_dot a = (let v = (if sint a < 0 then - a else a) in
     (if sint a < 0 then ''-'' else []) @ fmt_int (sint (go_div v 100)) @ ''.'' @ fmt_pad 2 (sint (go_mod v 100)))"

definition csv_safe :: "string \<Rightarrow> string" where
  "csv_safe s = (case s of [] \<Rightarrow> []
     | c # _ \<Rightarrow> if c \<in> {CHR ''='', CHR ''+'', CHR ''-'', CHR ''@'', CHR 0x09, CHR 0x0D}
               then CHR 0x27 # s else s)"

definition date_str :: "gotime \<Rightarrow> string" where
  "date_str t = (if t = zero_time then [] else format_date iso_layout (date_of t))"

definition form_date :: "string \<Rightarrow> gotime option" where  \<comment> \<open>\<open>time.Parse("2006-01-02", v)\<close>\<close>
  "form_date v = map_option midnight (time_parse iso_layout v)"

definition form_date_or :: "string \<Rightarrow> gotime \<Rightarrow> gotime" where
  "form_date_or v def = (case form_date v of Some t \<Rightarrow> t | None \<Rightarrow> def)"

definition add_days :: "nat \<Rightarrow> gotime \<Rightarrow> gotime" where
  "add_days n t = At ((next_day ^^ n) (date_of t)) (nanos t)"

definition derive_momsregnr :: "string \<Rightarrow> string" where
  "derive_momsregnr orgnr = (let digits = filter is_digit orgnr in
     if length digits \<noteq> 10 then [] else ''SE'' @ digits @ ''01'')"

definition inline_safe_types :: "string list" where
  "inline_safe_types = [''application/pdf'', ''image/png'', ''image/jpeg'', ''image/gif'', ''image/webp'']"

definition inline_safe_receipt_type :: "string \<Rightarrow> bool" where
  "inline_safe_receipt_type t \<longleftrightarrow> list_ex (has_prefix t) inline_safe_types"

text \<open>
  \<open>http.DetectContentType\<close> on the types that list names. Its other answers, none of which begins with one
  of them, are all given as the neutral type, which is what the handler serves for each of them.
\<close>

definition neutral_type :: string where
  "neutral_type = ''application/octet-stream''"

definition detect_content_type :: "string \<Rightarrow> string" where
  "detect_content_type x = (let b = map byte x in
     if take 5 b = [0x25, 0x50, 0x44, 0x46, 0x2D] then ''application/pdf''
     else if take 6 x \<in> {''GIF87a'', ''GIF89a''} then ''image/gif''
     else if take 4 x = ''RIFF'' \<and> take 6 (drop 8 x) = ''WEBPVP'' then ''image/webp''
     else if take 8 b = [0x89, 0x50, 0x4E, 0x47, 0x0D, 0x0A, 0x1A, 0x0A] then ''image/png''
     else if take 3 b = [0xFF, 0xD8, 0xFF] then ''image/jpeg''
     else neutral_type)"

definition html_char :: "char \<Rightarrow> string" where
  "html_char c = (if c = CHR ''&'' then ''&amp;'' else if c = CHR 0x27 then ''&#39;''
     else if c = CHR ''<'' then ''&lt;'' else if c = CHR ''>'' then ''&gt;''
     else if c = CHR 0x22 then ''&#34;'' else [c])"

definition html_escape :: "string \<Rightarrow> string" where
  "html_escape s = concat (map html_char s)"

section \<open>Pages and answers (templates.go)\<close>

record dashboard =
  db_year :: int
  db_revenue :: string
  db_costs :: string
  db_result :: string
  db_cash :: string
  db_receivables :: string
  db_payables :: string
  db_unpaid_count :: nat
  db_unpaid_total :: string
  db_overdue_count :: nat
  db_overdue_total :: string
  db_moms_to_pay :: string
  db_output_vat :: string
  db_input_vat :: string
  db_moms :: vat_declaration

record pay_data =
  py_id :: string
  py_number :: string
  py_customer :: string
  py_total :: amount
  py_currency :: string
  py_total_sek :: amount
  py_total_input :: string
  py_banks :: "chart_account list"

record reports_data =
  rd_statements :: statements
  rd_moms :: vat_declaration
  rd_rows :: "account_balance list"
  rd_from :: string
  rd_to :: string

record aging_bucket =
  ag_label :: string
  ag_count :: nat
  ag_total :: amount

record customer_row =
  cr_number :: string
  cr_customer :: string
  cr_due :: string
  cr_outstanding :: amount
  cr_days :: int

record payable_row =
  pr_supplier :: string
  pr_number :: string
  pr_due :: string
  pr_payable :: amount

record reskontra =
  rk_buckets :: "aging_bucket list"
  rk_customers :: "customer_row list"
  rk_suppliers :: "payable_row list"
  rk_receivables :: amount
  rk_payables :: amount

record log_page =
  lp_locked :: bool
  lp_through :: string
  lp_entries :: "(string \<times> string \<times> string \<times> string \<times> string) list"
  lp_chain_ok :: bool
  lp_broken_at :: nat

datatype (plugins only:) page_content = NoData | DashboardData dashboard | CompanyData company
  | CounterpartiesData "counterparty list" | CounterpartyData counterparty
  | InvoicesData "invoice_summary list" "uuid list" string nat  \<comment> \<open>the list, those matched, the input, their number\<close>
  | PayData pay_data | DocumentsData "document_meta list" | SuppliersData "supplier_view list"
  | SupplierNewData "counterparty list" "chart_account list" string
  | ReportsData reports_data | ReskontraData reskontra
  | BankData "bank_view list" "chart_account list" "chart_account list"
  | YearsData "fiscal_year list" | VerificationsData "chart_account list" "verification_summary list"
  | LogData log_page | ApiData bool "(string \<times> string \<times> bool) list" bool bool

record page_data =
  pd_title :: string
  pd_email :: string
  pd_company :: string
  pd_flash :: string
  pd_error :: string
  pd_csrf :: string
  pd_data :: page_content

datatype (plugins only:) answer = Redirect string | Page string page_data nat | HttpError string nat
  | Download string string string string  \<comment> \<open>content type, disposition, file name, body\<close>
  | HealthOk | McpAnswer mcp_reply

record web_reply =
  rp_answer :: answer
  rp_cookies :: "cookie list"

definition page_names :: "string list" where
  "page_names = [''setup'', ''login'', ''dashboard'', ''counterparties'', ''counterparty_edit'', ''invoices'',
     ''invoice_new'', ''pay'', ''supplier_invoices'', ''supplier_invoice_new'', ''supplier_pay'', ''kvitton'',
     ''verifikat'', ''reports'', ''reskontra'', ''bank'', ''bokslut'', ''logg'', ''settings'', ''sie_import'',
     ''hjalp'', ''api'']"

definition render :: "string \<Rightarrow> page_data \<Rightarrow> nat \<Rightarrow> answer" where
  "render page d status = (if page \<in> set page_names then Page page d status else HttpError ''unknown page'' 500)"

end
