(* ===== verification/Render.thy ===== *)
theory Render
  imports Store_Invoice
begin

text \<open>
  What leaves the program for a customer: the invoice as HTML (\<open>internal/render/invoice.go\<close>, the template
  of \<open>html/template\<close> written out with its escaping), its conversion by Gotenberg with retries
  (\<open>internal/render/gotenberg.go\<close>) and the message that carries it (\<open>internal/email/email.go\<close>). The HTTP
  responses of Gotenberg and the delivery of \<open>net/smtp\<close> are functions of the records that stand for
  the services.
\<close>

section \<open>Formatted data (invoice.go, store_invoice.go)\<close>

record render_line =
  rl_description :: string
  rl_quantity :: string
  rl_price :: string
  rl_label :: string
  rl_net :: string

record render_vat =
  rv_label :: string
  rv_net :: string
  rv_vat :: string

record render_invoice =
  ri_number :: string
  ri_date :: string
  ri_due :: string
  ri_company :: string
  ri_company_orgnr :: string
  ri_momsregnr :: string
  ri_address :: string
  ri_postal :: string
  ri_fskatt :: bool
  ri_bankgiro :: string
  ri_iban :: string
  ri_customer :: string
  ri_customer_orgnr :: string
  ri_customer_address :: string
  ri_ocr :: string
  ri_lines :: "render_line list"
  ri_summary :: "render_vat list"
  ri_notes :: "string list"
  ri_net :: string
  ri_vat :: string
  ri_total :: string
  ri_currency :: string
  ri_is_credit :: bool
  ri_credits_number :: string

definition render_of :: "invoice_view \<Rightarrow> render_invoice" where
  "render_of v = \<lparr>ri_number = iw_number v, ri_date = fmt_date (iw_date v), ri_due = fmt_date (iw_due v),
     ri_company = co_name (iw_company v), ri_company_orgnr = co_orgnr (iw_company v),
     ri_momsregnr = momsregnr (iw_company v), ri_address = co_address (iw_company v), ri_postal = iw_postal v,
     ri_fskatt = fskatt (iw_company v), ri_bankgiro = bankgiro (iw_company v), ri_iban = co_iban (iw_company v),
     ri_customer = c_name (iw_customer v), ri_customer_orgnr = c_orgnr (iw_customer v),
     ri_customer_address = c_address (iw_customer v), ri_ocr = iw_ocr v,
     ri_lines = map (\<lambda>l. \<lparr>rl_description = vw_description l, rl_quantity = milli_str (vw_quantity l),
       rl_price = amount_string (vw_price l), rl_label = vw_label l, rl_net = amount_string (vw_net l)\<rparr>) (iw_lines v),
     ri_summary = map (\<lambda>(c, r). \<lparr>rv_label = sm_label r, rv_net = amount_string (sm_net r),
       rv_vat = amount_string (sm_vat r)\<rparr>) (iw_summary v),
     ri_notes = iw_notes v, ri_net = amount_string (iw_net v), ri_vat = amount_string (iw_vat v),
     ri_total = amount_string (iw_total v), ri_currency = iw_currency v, ri_is_credit = iw_is_credit v,
     ri_credits_number = iw_credits_number v\<rparr>"

section \<open>The template (invoice.go)\<close>

text \<open>The escaper of \<open>html/template\<close> in element content.\<close>

definition html_text_char :: "char \<Rightarrow> string" where
  "html_text_char c =
     (if c = CHR ''&'' then ''&amp;'' else if c = CHR ''<'' then ''&lt;'' else if c = CHR ''>'' then ''&gt;''
      else if c = CHR 0x22 then ''&#34;'' else if c = CHR 0x27 then ''&#39;'' else if c = CHR ''+'' then ''&#43;''
      else if c = CHR 0x00 then [CHR 0xEF, CHR 0xBF, CHR 0xBD] else [c])"

definition html_text :: "string \<Rightarrow> string" where
  "html_text s = concat (map html_text_char s)"

definition shown_if :: "bool \<Rightarrow> string \<Rightarrow> string" where  \<comment> \<open>\<open>{{if b}}...{{end}}\<close>\<close>
  "shown_if b s = (if b then s else [])"

abbreviation nl :: string where "nl \<equiv> [CHR 0x0A]"

definition invoice_row_html :: "render_line \<Rightarrow> string" where
  \<open>invoice_row_html x =
    ''<tr>'' @ nl @ ''      <td>'' @ html_text (rl_description x) @ ''</td>'' @ nl @ ''      <td class="num">'' @
     html_text (rl_quantity x) @ ''</td>'' @ nl @ ''      <td class="num">'' @ html_text (rl_price x) @ ''</td>'' @
     nl @ ''      <td class="num">'' @ html_text (rl_label x) @ ''</td>'' @ nl @ ''      <td class="num">'' @
     html_text (rl_net x) @ ''</td>'' @ nl @ ''    </tr>''\<close>

definition vat_row_html :: "render_invoice \<Rightarrow> render_vat \<Rightarrow> string" where
  \<open>vat_row_html i x =
    ''<tr><td>'' @ html_text (rv_label x) @ '' p'' @ sv ''}'' @ '' '' @ html_text (rv_net x) @
     ''</td><td class="num">'' @ html_text (rv_vat x) @ '' '' @ html_text (ri_currency i) @ ''</td></tr>''\<close>

definition note_html :: "string \<Rightarrow> string" where
  \<open>note_html x =
    ''<div>'' @ html_text x @ ''</div>''\<close>

definition invoice_style :: string where
  \<open>invoice_style =
    ''<!doctype html>'' @ nl @ ''<html lang="sv"><head><meta charset="utf-8"><style>'' @ nl @
     ''  * { box-sizing: border-box; }'' @ nl @
     ''  body { font-family: -apple-system, "Segoe UI", Roboto, Helvetica, Arial, sans-serif;'' @ nl @
     ''         color: #1a1a2e; font-size: 13px; line-height: 1.5; margin: 0; }'' @ nl @
     ''  .head { display: flex; justify-content: space-between; align-items: flex-start; margin-bottom: 36px; }'' @
     nl @ ''  .title { font-size: 30px; font-weight: 700; letter-spacing: -0.5px; margin: 0 0 2px; }'' @ nl @
     ''  .muted { color: #6b7280; }'' @ nl @
     ''  .parties { display: flex; justify-content: space-between; gap: 40px; margin-bottom: 28px; }'' @ nl @
     ''  .parties h3 { font-size: 11px; text-transform: uppercase; letter-spacing: 0.6px; color: #6b7280; margin: 0 0 6px; }'' @
     nl @ ''  .meta td { padding: 2px 0; }'' @ nl @
     ''  .meta td:first-child { color: #6b7280; padding-right: 18px; }'' @ nl @
     ''  table.lines { width: 100%; border-collapse: collapse; margin: 8px 0 20px; }'' @ nl @
     ''  table.lines th { text-align: left; font-size: 11px; text-transform: uppercase; letter-spacing: 0.5px;'' @
     nl @ ''                   color: #6b7280; border-bottom: 2px solid #1a1a2e; padding: 7px 8px; }'' @ nl @
     ''  table.lines td { padding: 8px; border-bottom: 1px solid #e5e7eb; }'' @ nl @
     ''  .num { text-align: right; font-variant-numeric: tabular-nums; }'' @ nl @
     ''  .totals { width: 260px; margin-left: auto; }'' @ nl @ ''  .totals td { padding: 4px 8px; }'' @ nl @
     ''  .totals .grand td { border-top: 2px solid #1a1a2e; font-weight: 700; font-size: 15px; padding-top: 8px; }'' @
     nl @ ''  .pay { margin-top: 34px; padding: 14px 16px; background: #f6f7fb; border-radius: 8px; }'' @ nl @
     ''  .pay strong { display: inline-block; min-width: 130px; color: #6b7280; font-weight: 500; }'' @ nl @
     ''  .notes { margin-top: 18px; font-size: 12px; color: #374151; }'' @ nl @
     ''  .notes div { margin-bottom: 3px; }'' @ nl\<close>

definition invoice_head :: "render_invoice \<Rightarrow> string" where
  \<open>invoice_head i =
    ''</style></head><body>'' @ nl @ ''  <div class="head">'' @ nl @ ''    <div>'' @ nl @
     ''      <p class="title">'' @ (if ri_is_credit i then ''Kreditfaktura'' else ''Faktura'') @ ''</p>'' @ nl @
     ''      <div class="muted">Nr '' @ html_text (ri_number i) @ ''</div>'' @ nl @ ''      '' @
     shown_if (ri_is_credit i) (''<div class="muted">Avser faktura '' @ html_text (ri_credits_number i) @ ''</div>'') @
     nl @ ''    </div>'' @ nl @ ''    <table class="meta">'' @ nl @ ''      <tr><td>Fakturadatum</td><td>'' @
     html_text (ri_date i) @ ''</td></tr>'' @ nl @ ''      <tr><td>F'' @ sv ''|'' @ ''rfallodatum</td><td>'' @
     html_text (ri_due i) @ ''</td></tr>'' @ nl @ ''    </table>'' @ nl @ ''  </div>'' @ nl @ nl\<close>

definition invoice_parties :: "render_invoice \<Rightarrow> string" where
  \<open>invoice_parties i =
    ''  <div class="parties">'' @ nl @ ''    <div>'' @ nl @ ''      <h3>S'' @ sv ''{'' @ ''ljare</h3>'' @ nl @
     ''      <div><strong>'' @ html_text (ri_company i) @ ''</strong></div>'' @ nl @ ''      '' @
     shown_if (ri_address i \<noteq> []) (''<div class="muted">'' @ html_text (ri_address i) @ ''</div>'') @ nl @
     ''      '' @
     shown_if (ri_postal i \<noteq> []) (''<div class="muted">'' @ html_text (ri_postal i) @ ''</div>'') @ nl @
     ''      '' @
     shown_if (ri_company_orgnr i \<noteq> []) (''<div class="muted">Org.nr '' @ html_text (ri_company_orgnr i) @ ''</div>'') @
     nl @ ''      '' @
     shown_if (ri_momsregnr i \<noteq> []) (''<div class="muted">Momsreg.nr '' @ html_text (ri_momsregnr i) @ ''</div>'') @
     nl @ ''      '' @
     shown_if (ri_fskatt i) (''<div class="muted">Godk'' @ sv ''{'' @ ''nd f'' @ sv ''|'' @ ''r F-skatt</div>'') @
     nl @ ''    </div>'' @ nl @ ''    <div>'' @ nl @ ''      <h3>K'' @ sv ''|'' @ ''pare</h3>'' @ nl @
     ''      <div><strong>'' @ html_text (ri_customer i) @ ''</strong></div>'' @ nl @ ''      '' @
     shown_if (ri_customer_orgnr i \<noteq> []) (''<div class="muted">Org.nr '' @ html_text (ri_customer_orgnr i) @ ''</div>'') @
     nl @ ''      '' @
     shown_if (ri_customer_address i \<noteq> []) (''<div class="muted">'' @ html_text (ri_customer_address i) @ ''</div>'') @
     nl @ ''    </div>'' @ nl @ ''  </div>'' @ nl @ nl\<close>

definition invoice_rows_html :: "render_invoice \<Rightarrow> string" where
  \<open>invoice_rows_html i =
    ''  <table class="lines">'' @ nl @ ''    <thead><tr>'' @ nl @
     ''      <th>Beskrivning</th><th class="num">Antal</th><th class="num">'' @ [CHR 0xC3, CHR 0x80] @
     ''-pris</th>'' @ nl @ ''      <th class="num">Moms</th><th class="num">Belopp</th>'' @ nl @
     ''    </tr></thead>'' @ nl @ ''    <tbody>'' @ nl @ ''    '' @ concat (map invoice_row_html (ri_lines i)) @ nl @
     ''    </tbody>'' @ nl @ ''  </table>'' @ nl @ nl\<close>

definition invoice_totals :: "render_invoice \<Rightarrow> string" where
  \<open>invoice_totals i =
    ''  <table class="totals">'' @ nl @ ''    <tr><td>Netto</td><td class="num">'' @ html_text (ri_net i) @ '' '' @
     html_text (ri_currency i) @ ''</td></tr>'' @ nl @ ''    '' @ concat (map (vat_row_html i) (ri_summary i)) @ nl @
     ''    <tr class="grand"><td>Att betala</td><td class="num">'' @ html_text (ri_total i) @ '' '' @
     html_text (ri_currency i) @ ''</td></tr>'' @ nl @ ''  </table>'' @ nl @ nl @ ''  '' @
     shown_if (ri_notes i \<noteq> []) (''<div class="notes">'' @ concat (map note_html (ri_notes i)) @ ''</div>'') @
     nl @ nl\<close>

definition invoice_pay :: "render_invoice \<Rightarrow> string" where
  \<open>invoice_pay i =
    ''  <div class="pay">'' @ nl @ ''    <div><strong>Att betala</strong>'' @ html_text (ri_total i) @ '' '' @
     html_text (ri_currency i) @ ''</div>'' @ nl @ ''    <div><strong>F'' @ sv ''|'' @ ''rfallodatum</strong>'' @
     html_text (ri_due i) @ ''</div>'' @ nl @ ''    '' @
     shown_if (ri_bankgiro i \<noteq> []) (''<div><strong>Bankgiro</strong>'' @ html_text (ri_bankgiro i) @ ''</div>'') @
     nl @ ''    '' @
     shown_if (ri_iban i \<noteq> []) (''<div><strong>IBAN</strong>'' @ html_text (ri_iban i) @ ''</div>'') @ nl @
     ''    '' @
     shown_if (ri_ocr i \<noteq> []) (''<div><strong>OCR / referens</strong>'' @ html_text (ri_ocr i) @ ''</div>'') @
     nl @ ''  </div>'' @ nl @ ''</body></html>''\<close>

definition InvoiceHTML :: "render_invoice \<Rightarrow> string" where
  "InvoiceHTML i = invoice_style @ invoice_head i @ invoice_parties i @ invoice_rows_html i @ invoice_totals i @
     invoice_pay i"

section \<open>Conversion (gotenberg.go)\<close>

datatype gb_response = NoResponse | GbResponse nat "string option"  \<comment> \<open>\<open>None\<close>: the body cannot be read\<close>

text \<open>
  \<open>gb_respond html n\<close> is the outcome of the attempt with number \<open>n\<close>, \<open>gb_cancelled n\<close> whether the context
  ends while waiting before it.
\<close>

record gotenberg =
  gb_url :: string
  gb_cancelled :: "nat \<Rightarrow> bool"
  gb_respond :: "string \<Rightarrow> nat \<Rightarrow> gb_response"

definition worth_retry :: "nat \<Rightarrow> bool" where
  "worth_retry status \<longleftrightarrow> 500 \<le> status \<or> status = 408 \<or> status = 429"

definition gb_refusal :: "nat \<Rightarrow> string option \<Rightarrow> err" where
  "gb_refusal status body = OtherErr (''gotenberg returned '' @ fmt_nat status @ '': '' @
     take 4096 (case body of None \<Rightarrow> [] | Some x \<Rightarrow> x))"

text \<open>The loop with \<open>k\<close> attempts left, the next one being \<open>n\<close>, after the error \<open>prev\<close>.\<close>

fun gb_attempts :: "gotenberg \<Rightarrow> string \<Rightarrow> nat \<Rightarrow> nat \<Rightarrow> err \<Rightarrow> err + string" where
  "gb_attempts g html 0 n prev = Inl prev"
| "gb_attempts g html (Suc k) n prev =
     (if 0 < n \<and> gb_cancelled g n then Inl (OtherErr ''context canceled'')
      else case gb_respond g html n of
        NoResponse \<Rightarrow> gb_attempts g html k (Suc n) (OtherErr ''gotenberg request'')
      | GbResponse status body \<Rightarrow>
          if status = 200 then (case body of None \<Rightarrow> Inl (OtherErr ''read'') | Some pdf \<Rightarrow> Inr pdf)
          else if \<not> worth_retry status then Inl (gb_refusal status body)
          else gb_attempts g html k (Suc n) (gb_refusal status body))"

definition HTMLToPDF :: "gotenberg \<Rightarrow> string \<Rightarrow> err + string" where
  "HTMLToPDF g html =
     (if gb_url g = [] then Inl (OtherErr ''gotenberg base url not configured'')
      else gb_attempts g html 3 0 (OtherErr ''''))"

definition RenderInvoicePDF :: "env \<Rightarrow> gotenberg \<Rightarrow> uuid \<Rightarrow> uuid \<Rightarrow> string io" where
  "RenderInvoicePDF e g c i =
     andthen (InvoiceForRender e c i) (\<lambda>v. reads (\<lambda>_. HTMLToPDF g (InvoiceHTML (render_of v))))"

section \<open>Mail (email.go)\<close>

record mailer =
  ml_host :: string
  ml_port :: int64
  ml_user :: string
  ml_pass :: string
  ml_from :: string
  ml_from_name :: string
  ml_tls :: string

definition new_mailer :: "string \<Rightarrow> int64 \<Rightarrow> string \<Rightarrow> string \<Rightarrow> string \<Rightarrow> string \<Rightarrow> string \<Rightarrow> mailer" where
  "new_mailer host port user pass mfrom from_name tls = \<lparr>ml_host = host, ml_port = port, ml_user = user,
     ml_pass = pass, ml_from = mfrom, ml_from_name = (if from_name = [] then ''Pare'' else from_name),
     ml_tls = (if tls = [] then ''starttls'' else tls)\<rparr>"

definition mail_enabled :: "mailer option \<Rightarrow> bool" where
  "mail_enabled m = (case m of None \<Rightarrow> False | Some x \<Rightarrow> ml_host x \<noteq> [] \<and> ml_from x \<noteq> [])"

record attachment =
  at_name :: string
  at_mime :: string
  at_content :: string

abbreviation crlf :: string where "crlf \<equiv> [CHR 0x0D, CHR 0x0A]"

text \<open>\<open>%q\<close>; a rune outside ASCII is taken to be printable.\<close>

definition quote_char :: "char \<Rightarrow> string" where
  "quote_char c =
     (if c = CHR 0x22 \<or> c = CHR 0x5C then [CHR 0x5C, c]
      else if c = CHR 0x07 then [CHR 0x5C, CHR ''a''] else if c = CHR 0x08 then [CHR 0x5C, CHR ''b'']
      else if c = CHR 0x0C then [CHR 0x5C, CHR ''f''] else if c = CHR 0x0A then [CHR 0x5C, CHR ''n'']
      else if c = CHR 0x0D then [CHR 0x5C, CHR ''r''] else if c = CHR 0x09 then [CHR 0x5C, CHR ''t'']
      else if c = CHR 0x0B then [CHR 0x5C, CHR ''v'']
      else if byte c < 32 \<or> byte c = 127 then [CHR 0x5C, CHR ''x''] @ hex_encode [c] else [c])"

definition go_quote :: "string \<Rightarrow> string" where
  "go_quote s = [CHR 0x22] @ concat (map quote_char s) @ [CHR 0x22]"

fun in_lines :: "nat \<Rightarrow> string \<Rightarrow> string list" where  \<comment> \<open>pieces of \<open>Suc n\<close> bytes\<close>
  "in_lines n [] = []"
| "in_lines n (c # s) = take (Suc n) (c # s) # in_lines n (drop n s)"

definition mixed_boundary :: string where "mixed_boundary = ''pare-mixed-7f3a''"

definition alt_boundary :: string where "alt_boundary = ''pare-alt-9d7c''"

definition attachment_part :: "attachment \<Rightarrow> string" where
  "attachment_part a = ''--'' @ mixed_boundary @ crlf @
     ''Content-Type: '' @ (if at_mime a = [] then ''application/octet-stream'' else at_mime a) @ crlf @
     ''Content-Transfer-Encoding: base64'' @ crlf @
     ''Content-Disposition: attachment; filename='' @ go_quote (at_name a) @ crlf @ crlf @
     concat (map (\<lambda>l. l @ crlf) (in_lines 75 (b64_encode (at_content a)))) @ crlf"

definition build_message ::
  "mailer \<Rightarrow> string \<Rightarrow> string \<Rightarrow> string \<Rightarrow> string \<Rightarrow> attachment list \<Rightarrow> string" where
  "build_message m to subject txt html atts =
     ''From: '' @ ml_from_name m @ '' <'' @ ml_from m @ ''>'' @ crlf @ ''To: '' @ to @ crlf @
     ''Subject: '' @ subject @ crlf @ ''MIME-Version: 1.0'' @ crlf @
     ''Content-Type: multipart/mixed; boundary='' @ go_quote mixed_boundary @ crlf @ crlf @
     ''--'' @ mixed_boundary @ crlf @
     ''Content-Type: multipart/alternative; boundary='' @ go_quote alt_boundary @ crlf @ crlf @
     ''--'' @ alt_boundary @ crlf @ ''Content-Type: text/plain; charset=UTF-8'' @ crlf @ crlf @ txt @ crlf @ crlf @
     ''--'' @ alt_boundary @ crlf @ ''Content-Type: text/html; charset=UTF-8'' @ crlf @ crlf @ html @ crlf @ crlf @
     ''--'' @ alt_boundary @ ''--'' @ crlf @ crlf @
     concat (map attachment_part atts) @ ''--'' @ mixed_boundary @ ''--'' @ crlf"

text \<open>\<open>deliver\<close> is \<open>net/smtp\<close>: the settings, the recipient and the message, and whether it was accepted.\<close>

definition Send ::
  "(mailer \<Rightarrow> string \<Rightarrow> string \<Rightarrow> bool) \<Rightarrow> mailer \<Rightarrow> string \<Rightarrow> string \<Rightarrow> string \<Rightarrow> string \<Rightarrow> attachment list \<Rightarrow> bool" where
  "Send deliver m to subject html txt atts =
     (mail_enabled (Some m) \<and> to \<noteq> [] \<and> deliver m to (build_message m to subject txt html atts))"

end
