(* ===== verification/Web_Pages.thy ===== *)
theory Web_Pages
  imports Web_Forms Render
begin

text \<open>
  The pages of the operator UI (\<open>internal/handler/web.go\<close>): one definition per handler of a GET route, with
  the server it runs in and the steps handlers share. A handler is a database program that answers; it
  never ends in an error, which it turns into an answer (\<open>or_fail\<close>).
\<close>

section \<open>The server\<close>

text \<open>
  The settings of \<open>handler.Server\<close> and, as functions, the code that is not of this repository: bcrypt,
  \<open>uuid.Parse\<close>, the XML decoder, the SIE character table, the rate limiter and \<open>net/smtp\<close>.
\<close>

record web_server =
  ws_mcp :: "mcp_server option"
  ws_gotenberg :: "gotenberg option"
  ws_mailer :: "mailer option"
  ws_secure :: bool
  ws_flare_dsn :: string
  ws_hash :: "string \<Rightarrow> string \<Rightarrow> string option"
  ws_check :: "string \<Rightarrow> string \<Rightarrow> bool"
  ws_uuid :: "string \<Rightarrow> uuid option"
  ws_camt :: "string \<Rightarrow> camt_entry list option"
  ws_sie_read :: "string \<Rightarrow> string"
  ws_sie_write :: "string \<Rightarrow> string option"
  ws_limited :: "web_request \<Rightarrow> bool"
  ws_deliver :: "mailer \<Rightarrow> string \<Rightarrow> string \<Rightarrow> bool"

definition internal_error :: answer where
  "internal_error = HttpError ''internal error'' 500"

definition not_found :: answer where
  "not_found = HttpError ''404 page not found'' 404"

text \<open>\<open>if err != nil { s.fail(w, err); return }\<close>, \<open>_ = op\<close> and \<open>x, _ := op\<close>.\<close>

definition or_fail :: "'a io \<Rightarrow> ('a \<Rightarrow> answer io) \<Rightarrow> answer io" where
  "or_fail m k = andthen (attempt m) (\<lambda>r. case r of Inl _ \<Rightarrow> ret internal_error | Inr x \<Rightarrow> k x)"

definition ignore_error :: "'a io \<Rightarrow> unit io" where
  "ignore_error m = andthen (attempt m) (\<lambda>_. ret ())"

definition or_zero :: "'a \<Rightarrow> 'a io \<Rightarrow> 'a io" where
  "or_zero z m = andthen (attempt m) (\<lambda>r. ret (case r of Inl _ \<Rightarrow> z | Inr x \<Rightarrow> x))"

text \<open>\<open>Store.Company\<close>: the profile, without the key and the lock.\<close>

definition Company :: "uuid \<Rightarrow> company io" where
  "Company c = andthen (GetCompany c) (\<lambda>co. ret (co\<lparr>dek_wrapped := [], locked_through := None, key_id := []\<rparr>))"

text \<open>\<open>uuid.Parse(chi.URLParam(r, "id"))\<close>, not found when it fails.\<close>

definition with_id :: "web_server \<Rightarrow> web_request \<Rightarrow> (uuid \<Rightarrow> answer io) \<Rightarrow> answer io" where
  "with_id srv r k = (case ws_uuid srv (wr_id r) of None \<Rightarrow> ret not_found | Some i \<Rightarrow> k i)"

definition page_base :: "web_request \<Rightarrow> string \<Rightarrow> page_data io" where
  "page_base r title =
     (let d = \<lparr>pd_title = title, pd_email = [], pd_company = [], pd_flash = [], pd_error = [],
               pd_csrf = wr_csrf r, pd_data = NoData\<rparr> in
      case wr_session r of
        None \<Rightarrow> ret d
      | Some info \<Rightarrow> andthen (attempt (Company (wr_company r))) (\<lambda>co. ret (d\<lparr>pd_email := si_email info,
          pd_company := (case co of Inl _ \<Rightarrow> [] | Inr ci \<Rightarrow> co_name ci)\<rparr>)))"

definition show_page ::
  "web_request \<Rightarrow> string \<Rightarrow> string \<Rightarrow> string \<times> string \<Rightarrow> page_content \<Rightarrow> nat \<Rightarrow> answer io" where
  "show_page r title page note content status =
     andthen (page_base r title) (\<lambda>d. ret (render page
       (d\<lparr>pd_flash := fst note, pd_error := snd note, pd_data := content\<rparr>) status))"

abbreviation no_note :: "string \<times> string" where "no_note \<equiv> ([], [])"

definition note_for :: "(string \<times> string \<times> string) list \<Rightarrow> string \<Rightarrow> string \<times> string" where
  "note_for table msg = (case map_of table msg of None \<Rightarrow> no_note | Some n \<Rightarrow> n)"

abbreviation flash :: "string \<Rightarrow> string \<times> string" where "flash t \<equiv> (sv t, [])"
abbreviation problem :: "string \<Rightarrow> string \<times> string" where "problem t \<equiv> ([], sv t)"

section \<open>Before a session\<close>

definition bare_page :: "web_request \<Rightarrow> string \<Rightarrow> string \<Rightarrow> page_data" where
  "bare_page r title problem_text = \<lparr>pd_title = title, pd_email = [], pd_company = [], pd_flash = [],
     pd_error = problem_text, pd_csrf = wr_csrf r, pd_data = NoData\<rparr>"

text \<open>The session of the cookie, if it is valid.\<close>

definition cookie_session :: "env \<Rightarrow> web_request \<Rightarrow> session_info option io" where
  "cookie_session e r = (case get_cookie r cookie_name of None \<Rightarrow> ret None | Some tok \<Rightarrow> Validate e tok)"

definition handle_root :: "web_server \<Rightarrow> env \<Rightarrow> web_request \<Rightarrow> answer io" where
  "handle_root srv e r =
     andthen (or_zero False HasUsers) (\<lambda>has.
     if \<not> has then ret (Redirect ''/setup'')
     else andthen (cookie_session e r) (\<lambda>i.
       ret (Redirect (if i \<noteq> None then ''/dashboard'' else ''/login''))))"

definition handle_setup_form :: "web_server \<Rightarrow> env \<Rightarrow> web_request \<Rightarrow> answer io" where
  "handle_setup_form srv e r =
     andthen (or_zero False HasUsers) (\<lambda>has.
     ret (if has then Redirect ''/login'' else render ''setup'' (bare_page r (sv ''Kom ig}ng'') []) 200))"

definition handle_login_form :: "web_server \<Rightarrow> env \<Rightarrow> web_request \<Rightarrow> answer io" where
  "handle_login_form srv e r = ret (render ''login'' (bare_page r ''Logga in'' []) 200)"

section \<open>The overview\<close>

definition sum_rows :: "(string \<Rightarrow> bool) \<Rightarrow> account_balance list \<Rightarrow> amount" where
  "sum_rows P tb = foldl (\<lambda>x b. if P (ab_account b) then x + ab_net b else x) 0 tb"

definition is_open_receivable :: "invoice_summary \<Rightarrow> bool" where
  "is_open_receivable u \<longleftrightarrow> is_status u = Finalized \<and> \<not> is_is_credit u"

definition summed :: "('a \<Rightarrow> amount) \<Rightarrow> 'a list \<Rightarrow> amount" where
  "summed f xs = foldl (\<lambda>x y. x + f y) 0 xs"

definition remaining :: "invoice_summary \<Rightarrow> amount" where
  "remaining u = is_total_sek u - is_paid u"

definition dashboard_of ::
  "gotime \<Rightarrow> account_balance list \<Rightarrow> account_balance list \<Rightarrow> invoice_summary list \<Rightarrow> dashboard" where
  "dashboard_of now period_tb asof_tb invs =
     (let st = build_statements_period period_tb asof_tb None;
          d = Report (balance_of_rows period_tb);
          unpaid = filter is_open_receivable invs;
          overdue = filter is_overdue unpaid
      in \<lparr>db_year = year (date_of now), db_revenue = amount_string (income_total st),
          db_costs = amount_string (expense_total st - financial_total st), db_result = amount_string (st_result st),
          db_cash = amount_string (sum_rows (\<lambda>a. has_prefix a ''19'') asof_tb),
          db_receivables = amount_string (sum_rows (\<lambda>a. \<not> has_prefix a ''19'' \<and> a = ''1510'') asof_tb),
          db_payables = amount_string (- sum_rows (\<lambda>a. \<not> has_prefix a ''19'' \<and> a = ''2440'') asof_tb),
          db_unpaid_count = length unpaid, db_unpaid_total = amount_string (summed remaining unpaid),
          db_overdue_count = length overdue, db_overdue_total = amount_string (summed remaining overdue),
          db_moms_to_pay = amount_string (box49 d), db_output_vat = amount_string (box10 d + box11 d + box12 d),
          db_input_vat = amount_string (box48 d), db_moms = d\<rparr>)"

definition handle_dashboard :: "web_server \<Rightarrow> env \<Rightarrow> web_request \<Rightarrow> answer io" where
  "handle_dashboard srv e r =
     (let c = wr_company r; now = e_now e; start = midnight (Date (year (date_of now)) 1 1) in
      or_fail (TrialBalanceBetweenExclSeries c start now ''O'') (\<lambda>period_tb.
      or_fail (TrialBalanceAsOf c now) (\<lambda>asof_tb.
      andthen (or_zero [] (ListInvoiceSummaries e c)) (\<lambda>invs.
      show_page r (sv ''^versikt'') ''dashboard'' no_note
        (DashboardData (dashboard_of now period_tb asof_tb invs)) 200))))"

section \<open>The company and its counterparties\<close>

definition settings_notes :: "(string \<times> string \<times> string) list" where
  "settings_notes = [
     (''saved'', flash ''F|retagsuppgifterna sparades.''),
     (''userok'', flash ''Revisorskontot skapades (l{sbeh|righet).''),
     (''userbad'', problem ''Ange e-post och l|senord (minst 8 tecken).''),
     (''userexists'', problem ''Kunde inte skapa kontot (e-posten kan redan finnas).'')]"

definition handle_settings :: "web_server \<Rightarrow> env \<Rightarrow> web_request \<Rightarrow> answer io" where
  "handle_settings srv e r =
     or_fail (Company (wr_company r)) (\<lambda>ci.
     show_page r (sv ''F|retag'') ''settings'' (note_for settings_notes (query_get r ''msg'')) (CompanyData ci) 200)"

definition counterparty_notes :: "(string \<times> string \<times> string) list" where
  "counterparty_notes = [
     (''retention'', problem (''Kunden kan inte raderas: den har bokf|rda fakturor som m}ste sparas i sju }r '' @
        ''(bokf|ringslagen). Radering blockeras tills lagringstiden l|pt ut.'')),
     (''erased'', flash ''Identitetsuppgifterna raderades.''),
     (''saved'', flash ''Kunden sparades.'')]"

definition handle_counterparties :: "web_server \<Rightarrow> env \<Rightarrow> web_request \<Rightarrow> answer io" where
  "handle_counterparties srv e r =
     or_fail (ListCounterparties e (wr_company r)) (\<lambda>cps.
     show_page r ''Kunder'' ''counterparties'' (note_for counterparty_notes (query_get r ''msg''))
       (CounterpartiesData cps) 200)"

definition handle_counterparty_edit :: "web_server \<Rightarrow> env \<Rightarrow> web_request \<Rightarrow> answer io" where
  "handle_counterparty_edit srv e r = with_id srv r (\<lambda>i.
     or_fail (GetCounterparty e (wr_company r) i) (\<lambda>cp.
     if c_erased cp then ret (Redirect ''/counterparties'')
     else show_page r ''Redigera kund'' ''counterparty_edit'' no_note (CounterpartyData cp) 200))"

section \<open>Customer invoices\<close>

definition invoice_notes :: "(string \<times> string \<times> string) list" where
  "invoice_notes = [
     (''sent'', flash ''E-post skickad.''),
     (''nomail'', flash ''E-post {r inte konfigurerad (PARE_SMTP_*). Ingen e-post skickades.''),
     (''noemail'', flash ''Kunden saknar e-postadress. L{gg till den under Redigera.''),
     (''mailfail'', flash ''E-post kunde inte skickas.'')]"

definition handle_invoices :: "web_server \<Rightarrow> env \<Rightarrow> web_request \<Rightarrow> answer io" where
  "handle_invoices srv e r =
     or_fail (ListInvoiceSummaries e (wr_company r)) (\<lambda>invs.
     let m = trim_space (query_get r ''match'');
         hits = (if m = [] then [] else
           filter (\<lambda>u. is_open_receivable u \<and> remaining u = parse_kr_ore m) invs)
     in show_page r ''Fakturor'' ''invoices'' (note_for invoice_notes (query_get r ''msg''))
          (InvoicesData invs (map is_id hits) m (length hits)) 200)"

definition handle_invoice_new :: "web_server \<Rightarrow> env \<Rightarrow> web_request \<Rightarrow> answer io" where
  "handle_invoice_new srv e r =
     or_fail (ListCounterparties e (wr_company r)) (\<lambda>cps.
     show_page r ''Ny faktura'' ''invoice_new'' no_note (CounterpartiesData cps) 200)"

definition handle_invoice_pdf :: "web_server \<Rightarrow> env \<Rightarrow> web_request \<Rightarrow> answer io" where
  "handle_invoice_pdf srv e r = with_id srv r (\<lambda>i.
     case ws_gotenberg srv of
       None \<Rightarrow> ret (HttpError ''PDF rendering not configured'' 503)
     | Some g \<Rightarrow> or_fail (RenderInvoicePDF e g (wr_company r) i) (\<lambda>pdf.
         ret (Download ''application/pdf'' ''inline'' ''faktura.pdf'' pdf)))"

definition bank_accounts :: "chart_account list \<Rightarrow> chart_account list" where
  "bank_accounts accts = filter (\<lambda>a. has_prefix (ca_number a) ''19'') accts"

definition handle_pay_form :: "web_server \<Rightarrow> env \<Rightarrow> web_request \<Rightarrow> answer io" where
  "handle_pay_form srv e r = with_id srv r (\<lambda>i.
     or_fail (InvoiceForRender e (wr_company r) i) (\<lambda>v.
     if iw_status v \<noteq> Finalized then ret (Redirect ''/invoices'')
     else andthen (or_zero [] (ChartAccounts (wr_company r))) (\<lambda>accts.
       show_page r ''Registrera betalning'' ''pay'' no_note
         (PayData \<lparr>py_id = e_uuid_text e i, py_number = iw_number v, py_customer = c_name (iw_customer v),
            py_total = iw_total v, py_currency = iw_currency v, py_total_sek = outstanding v,
            py_total_input = ore_dot (outstanding v), py_banks = bank_accounts accts\<rparr>) 200)))"

section \<open>Receipts\<close>

definition receipt_notes :: "(string \<times> string \<times> string) list" where
  "receipt_notes = [
     (''uploaded'', flash ''Underlaget laddades upp och krypterades.''),
     (''deleted'', flash ''Underlaget togs bort.''),
     (''attached'', problem ''Underlaget {r kopplat till en bokf|rd post och kan inte tas bort.'')]"

definition handle_receipts :: "web_server \<Rightarrow> env \<Rightarrow> web_request \<Rightarrow> answer io" where
  "handle_receipts srv e r =
     or_fail (ListDocuments e (wr_company r)) (\<lambda>docs.
     show_page r ''Kvitton'' ''kvitton'' (note_for receipt_notes (query_get r ''msg'')) (DocumentsData docs) 200)"

definition handle_receipt_file :: "web_server \<Rightarrow> env \<Rightarrow> web_request \<Rightarrow> answer io" where
  "handle_receipt_file srv e r = with_id srv r (\<lambda>i.
     or_fail (GetDocumentContent e (wr_company r) i) (\<lambda>doc.
     let detected = detect_content_type (df_content doc); safe = inline_safe_receipt_type detected in
     ret (Download (if safe then detected else ''application/octet-stream'')
       (if safe then ''inline'' else ''attachment'') (go_quote (df_filename doc)) (df_content doc))))"

section \<open>Supplier invoices\<close>

definition handle_supplier_invoices :: "web_server \<Rightarrow> env \<Rightarrow> web_request \<Rightarrow> answer io" where
  "handle_supplier_invoices srv e r =
     or_fail (ListSupplierInvoiceViews e (wr_company r)) (\<lambda>vs.
     show_page r ''Kostnader'' ''supplier_invoices'' no_note (SuppliersData vs) 200)"

definition is_cost_account :: "chart_account \<Rightarrow> bool" where
  "is_cost_account a \<longleftrightarrow> ca_number a \<noteq> [] \<and> byte (CHR ''4'') \<le> byte (ca_number a ! 0) \<and>
     byte (ca_number a ! 0) \<le> byte (CHR ''7'')"

definition handle_supplier_invoice_new :: "web_server \<Rightarrow> env \<Rightarrow> web_request \<Rightarrow> answer io" where
  "handle_supplier_invoice_new srv e r =
     andthen (or_zero [] (ListCounterparties e (wr_company r))) (\<lambda>cps.
     andthen (or_zero [] (ChartAccounts (wr_company r))) (\<lambda>accts.
     show_page r (sv ''Ny leverant|rsfaktura'') ''supplier_invoice_new'' no_note
       (SupplierNewData (filter (\<lambda>c. \<not> c_erased c) cps) (filter is_cost_account accts) (query_get r ''doc'')) 200))"

definition handle_supplier_pay_form :: "web_server \<Rightarrow> env \<Rightarrow> web_request \<Rightarrow> answer io" where
  "handle_supplier_pay_form srv e r = with_id srv r (\<lambda>i.
     or_fail (SupplierInvoiceForView e (wr_company r) i) (\<lambda>v.
     if sv_status v \<noteq> SFinalized then ret (Redirect ''/supplier-invoices'')
     else andthen (or_zero [] (ChartAccounts (wr_company r))) (\<lambda>accts.
       show_page r (sv ''Betala leverant|rsfaktura'') ''supplier_pay'' no_note
         (PayData \<lparr>py_id = e_uuid_text e i, py_number = sv_number v, py_customer = sv_name v,
            py_total = sv_payable v, py_currency = ''SEK'', py_total_sek = sv_payable v,
            py_total_input = ore_dot (sv_payable v), py_banks = bank_accounts accts\<rparr>) 200)))"

end
