(* ===== verification/Web_Reports.thy ===== *)
theory Web_Reports
  imports Web_Pages
begin

text \<open>
  The reports, exports and remaining pages of \<open>internal/handler/web.go\<close>: statements, the ageing of
  receivables, the bank view, fiscal years, the SIE and CSV exports, the journal and the log.
\<close>

section \<open>Reports\<close>

definition account_names :: "chart_account list \<Rightarrow> string \<Rightarrow> string" where
  "account_names accts a = (case map_of (map (\<lambda>x. (ca_number x, ca_name x)) (rev accts)) a of None \<Rightarrow> [] | Some n \<Rightarrow> n)"

definition handle_reports :: "web_server \<Rightarrow> env \<Rightarrow> web_request \<Rightarrow> answer io" where
  "handle_reports srv e r =
     (let c = wr_company r; to = form_date_or (query_get r ''to'') (e_now e);
          t0 = form_date_or (query_get r ''from'') (midnight (Date (year (date_of to)) 1 1)) in
      or_fail (TrialBalanceBetweenExclSeries c t0 to ''O'') (\<lambda>period_tb.
      or_fail (TrialBalanceAsOf c to) (\<lambda>asof_tb.
      andthen (or_zero [] (ChartAccounts c)) (\<lambda>accts.
      show_page r ''Rapporter'' ''reports'' no_note
        (ReportsData \<lparr>rd_statements = build_statements_period period_tb asof_tb (Some (account_names accts)),
           rd_moms = Report (balance_of_rows period_tb), rd_rows = asof_tb,
           rd_from = format_date iso_layout (date_of t0), rd_to = format_date iso_layout (date_of to)\<rparr>) 200))))"

section \<open>Ageing\<close>

text \<open>
  Days since the start of the calendar. \<open>now.Sub(due)\<close> between two midnights is a multiple of a day, held
  to the range of \<open>time.Duration\<close>, 106751 whole days either way.
\<close>

definition day_number :: "date \<Rightarrow> int" where
  "day_number d = (let p = year d - 1 in
     365 * p + p div 4 - p div 100 + p div 400 +
     int (sum_list (map (days_in (year d)) [1..<month d])) + int (mday d))"

definition days_overdue :: "date \<Rightarrow> string \<Rightarrow> int" where
  "days_overdue today due = (case time_parse iso_layout due of
     None \<Rightarrow> 0
   | Some d \<Rightarrow> max (- 106751) (min 106751 (day_number today - day_number d)))"

definition bucket_of :: "int \<Rightarrow> nat" where
  "bucket_of days = (if days \<le> 0 then 0 else if days \<le> 30 then 1 else if days \<le> 60 then 2 else 3)"

definition aging_labels :: "string list" where
  "aging_labels = [sv ''Ej f|rfallet'', ''1-30 dagar'', ''31-60 dagar'', ''61+ dagar'']"

definition empty_buckets :: "aging_bucket list" where
  "empty_buckets = map (\<lambda>l. \<lparr>ag_label = l, ag_count = 0, ag_total = 0\<rparr>) aging_labels"

definition is_outstanding :: "invoice_summary \<Rightarrow> bool" where
  "is_outstanding u \<longleftrightarrow> \<not> (is_status u \<noteq> Finalized \<or> is_is_credit u) \<and> \<not> sint (remaining u) \<le> 0"

definition age_step :: "date \<Rightarrow> reskontra \<Rightarrow> invoice_summary \<Rightarrow> reskontra" where
  "age_step today k u =
     (if \<not> is_outstanding u then k
      else let out = remaining u; days = days_overdue today (is_due u); bi = bucket_of days; b = rk_buckets k ! bi in
        k\<lparr>rk_receivables := rk_receivables k + out,
          rk_buckets := (rk_buckets k)[bi := b\<lparr>ag_count := Suc (ag_count b), ag_total := ag_total b + out\<rparr>],
          rk_customers := rk_customers k @ [\<lparr>cr_number = is_number u, cr_customer = is_customer u,
            cr_due = is_due u, cr_outstanding = out, cr_days = max 0 days\<rparr>]\<rparr>)"

definition payable_step :: "reskontra \<Rightarrow> supplier_view \<Rightarrow> reskontra" where
  "payable_step k v =
     (if sv_status v \<noteq> SFinalized then k
      else k\<lparr>rk_payables := rk_payables k + sv_payable v,
             rk_suppliers := rk_suppliers k @ [\<lparr>pr_supplier = sv_name v, pr_number = sv_number v,
               pr_due = date_str (sv_due v), pr_payable = sv_payable v\<rparr>]\<rparr>)"

definition reskontra_of :: "date \<Rightarrow> invoice_summary list \<Rightarrow> supplier_view list \<Rightarrow> reskontra" where
  "reskontra_of today invs sups = foldl payable_step (foldl (age_step today)
     \<lparr>rk_buckets = empty_buckets, rk_customers = [], rk_suppliers = [], rk_receivables = 0, rk_payables = 0\<rparr> invs) sups"

definition handle_reskontra :: "web_server \<Rightarrow> env \<Rightarrow> web_request \<Rightarrow> answer io" where
  "handle_reskontra srv e r =
     or_fail (ListInvoiceSummaries e (wr_company r)) (\<lambda>invs.
     or_fail (ListSupplierInvoiceViews e (wr_company r)) (\<lambda>sups.
     show_page r ''Reskontra'' ''reskontra'' no_note
       (ReskontraData (reskontra_of (date_of (e_now e)) invs sups)) 200))"

section \<open>Bank, years, help\<close>

definition bank_notes :: "(string \<times> string \<times> string) list" where
  "bank_notes = [
     (''imported'', flash ''Kontoutdraget importerades (dubbletter hoppades |ver).''),
     (''parsefail'', problem ''Filen kunde inte tolkas (st|d: camt.053 XML eller CSV).''),
     (''mismatch'', problem ''Beloppet matchar inte fakturans utest}ende. Kontera manuellt i st{llet.'')]"

definition handle_bank :: "web_server \<Rightarrow> env \<Rightarrow> web_request \<Rightarrow> answer io" where
  "handle_bank srv e r =
     or_fail (ListBankTransactions e (wr_company r)) (\<lambda>txns.
     andthen (or_zero [] (ChartAccounts (wr_company r))) (\<lambda>accts.
     show_page r ''Bank'' ''bank'' (note_for bank_notes (query_get r ''msg''))
       (BankData txns (bank_accounts accts) accts) 200))"

definition year_notes :: "(string \<times> string \<times> string) list" where
  "year_notes = [
     (''closed'', flash ''R{kenskaps}ret st{ngdes och perioden l}stes.''),
     (''nothing'', problem ''Inget resultat att st{nga f|r det }ret.''),
     (''added'', flash ''R{kenskaps}r tillagt.'')]"

definition handle_fiscal_years :: "web_server \<Rightarrow> env \<Rightarrow> web_request \<Rightarrow> answer io" where
  "handle_fiscal_years srv e r =
     or_fail (ListFiscalYears (wr_company r)) (\<lambda>fys.
     show_page r ''Bokslut'' ''bokslut'' (note_for year_notes (query_get r ''msg'')) (YearsData fys) 200)"

definition handle_help :: "web_server \<Rightarrow> env \<Rightarrow> web_request \<Rightarrow> answer io" where
  "handle_help srv e r = show_page r (sv ''Hj{lp'') ''hjalp'' no_note NoData 200"

definition tool_docs :: "(string \<times> string \<times> bool) list" where
  "tool_docs = map (\<lambda>t. (tl_name t, tl_desc t, tl_write t)) tools"

definition handle_api :: "web_server \<Rightarrow> env \<Rightarrow> web_request \<Rightarrow> answer io" where
  "handle_api srv e r =
     show_page r ''API och integrationer'' ''api'' no_note
       (ApiData (ws_mcp srv \<noteq> None) (if ws_mcp srv \<noteq> None then tool_docs else [])
         (mail_enabled (ws_mailer srv)) (ws_flare_dsn srv \<noteq> [])) 200"

section \<open>Exports\<close>

definition handle_sie :: "web_server \<Rightarrow> env \<Rightarrow> web_request \<Rightarrow> answer io" where
  "handle_sie srv e r =
     or_fail (ExportSIE (wr_company r) (e_now e)) (\<lambda>ex.
     ret (Download ''application/octet-stream'' ''attachment'' ''pare-export.se''
       (case sie_write (ws_sie_write srv) ex of Inl _ \<Rightarrow> [] | Inr out \<Rightarrow> out)))"

definition handle_sie_import_form :: "web_server \<Rightarrow> env \<Rightarrow> web_request \<Rightarrow> answer io" where
  "handle_sie_import_form srv e r = show_page r ''Importera SIE'' ''sie_import'' no_note NoData 200"

text \<open>\<open>encoding/csv.Writer\<close> with a comma.\<close>

definition csv_needs_quotes :: "string \<Rightarrow> bool" where
  "csv_needs_quotes f \<longleftrightarrow> f \<noteq> [] \<and>
     (f = [CHR 0x5C, CHR ''.''] \<or> list_ex (\<lambda>c. c \<in> {CHR '','', CHR 0x22, CHR 0x0A, CHR 0x0D}) f \<or> 0 < space_len id f)"

definition csv_field :: "string \<Rightarrow> string" where
  "csv_field f = (if csv_needs_quotes f
     then [CHR 0x22] @ concat (map (\<lambda>c. if c = CHR 0x22 then [CHR 0x22, CHR 0x22] else [c]) f) @ [CHR 0x22] else f)"

definition csv_record :: "string list \<Rightarrow> string" where
  "csv_record fs = join_with '','' (map csv_field fs) @ [CHR 0x0A]"

definition csv_cells :: "voucher \<Rightarrow> sie_line \<Rightarrow> string list" where
  "csv_cells v l = (let x = sl_amount l; neg = \<not> 0 \<le> sint x in
     [format_date iso_layout (date_of (vo_date v)), vo_series v, fmt_int (vo_number v), csv_safe (sl_account l),
      fmt_int (sint (if neg then 0 else x)), fmt_int (sint (if neg then - x else 0)), csv_safe (vo_text v)])"

definition csv_export :: "sie_export \<Rightarrow> string" where
  "csv_export ex =
     csv_record [''datum'', ''serie'', ''nummer'', ''konto'', ''debet_ore'', ''kredit_ore'', ''beskrivning''] @
     concat (map (\<lambda>v. concat (map (\<lambda>l. csv_record (csv_cells v l)) (vo_lines v))) (ex_vouchers ex))"

definition handle_csv :: "web_server \<Rightarrow> env \<Rightarrow> web_request \<Rightarrow> answer io" where
  "handle_csv srv e r =
     or_fail (ExportSIE (wr_company r) (e_now e)) (\<lambda>ex.
     ret (Download ''text/csv; charset=utf-8'' ''attachment'' ''pare-verifikat.csv'' (csv_export ex)))"

section \<open>The journal and the log\<close>

definition handle_verifications :: "web_server \<Rightarrow> env \<Rightarrow> web_request \<Rightarrow> answer io" where
  "handle_verifications srv e r =
     or_fail (ChartAccounts (wr_company r)) (\<lambda>accts.
     or_fail (ListVerificationSummaries (wr_company r)) (\<lambda>vers.
     show_page r ''Verifikat'' ''verifikat'' no_note (VerificationsData accts vers) 200))"

definition minute_text :: "gotime \<Rightarrow> string" where  \<comment> \<open>\<open>2006-01-02 15:04\<close>\<close>
  "minute_text t = (let secs = nanos t div 1000000000 in
     format_date iso_layout (date_of t) @ '' '' @ fmt_pad 2 (int (secs div 3600)) @ '':'' @
     fmt_pad 2 (int (secs div 60 mod 60)))"

definition handle_logg :: "web_server \<Rightarrow> env \<Rightarrow> web_request \<Rightarrow> answer io" where
  "handle_logg srv e r =
     (let c = wr_company r in
      or_fail (LockedThrough c) (\<lambda>(through, locked).
      or_fail (ListAudit c 500) (\<lambda>entries.
      andthen (or_zero (False, 0) (VerifyAuditChain e c)) (\<lambda>(chain, broken).
      show_page r ''Logg'' ''logg'' no_note
        (LogData \<lparr>lp_locked = locked, lp_through = (if locked then format_date iso_layout (date_of through) else []),
           lp_entries = map (\<lambda>x. (minute_text (ae_at x), ae_actor x, ae_actor_detail x, ae_action x, ae_detail x)) entries,
           lp_chain_ok = chain, lp_broken_at = broken\<rparr>) 200))))"

end
