(* ===== verification/Web_Actions.thy ===== *)
theory Web_Actions
  imports Web_Reports
begin

text \<open>
  The handlers of the POST routes of \<open>internal/handler/web.go\<close>: what each reads from the form, the store
  operation it runs and the answer for every outcome. \<open>time.Now()\<close> is the time of the environment.
\<close>

section \<open>Accounts of operators\<close>

definition plain_reply :: "answer \<Rightarrow> web_reply" where
  "plain_reply a = \<lparr>rp_answer = a, rp_cookies = []\<rparr>"

definition no_company :: company where
  "no_company = \<lparr>co_id = 0, co_name = [], co_orgnr = [], dek_wrapped = [], locked_through = None, momsregnr = [],
     co_address = [], postal_code = [], city = [], bankgiro = [], co_iban = [], fskatt = False, key_id = []\<rparr>"

definition company_profile_from_form :: "web_request \<Rightarrow> uuid \<Rightarrow> string \<Rightarrow> string \<Rightarrow> company" where
  "company_profile_from_form r c nm orgnr =
     (let m = form_text r ''momsregnr'' in
      no_company\<lparr>co_id := c, co_name := nm, co_orgnr := orgnr,
        momsregnr := (if m = [] then derive_momsregnr orgnr else m),
        co_address := form_text r ''address'', postal_code := form_text r ''postal_code'', city := form_text r ''city'',
        bankgiro := form_text r ''bankgiro'', co_iban := form_text r ''iban'',
        fskatt := (post_form_value r ''fskatt'' = ''1'')\<rparr>)"

definition setup_problem :: "web_request \<Rightarrow> string \<Rightarrow> web_reply" where
  "setup_problem r t = plain_reply (render ''setup'' (bare_page r (sv ''Kom ig}ng'') (sv t)) 400)"

definition handle_setup :: "web_server \<Rightarrow> env \<Rightarrow> web_request \<Rightarrow> web_reply io" where
  "handle_setup srv e r0 =
     andthen (or_zero False HasUsers) (\<lambda>has.
     if has then ret (plain_reply (Redirect ''/login''))
     else let r = parse_form r0; email = form_text r ''email''; pw = post_form_value r ''password'';
              company = form_text r ''company''; orgnr = form_text r ''orgnr'' in
       if email = [] \<or> length pw < 8 \<or> company = []
       then ret (setup_problem r ''Fyll i alla f{lt (l|senord minst 8 tecken).'')
       else andthen (attempt (BootstrapCompany e company orgnr)) (\<lambda>b. case b of
           Inl _ \<Rightarrow> ret (setup_problem r ''Kunde inte skapa f|retaget (det kan redan finnas ett).'')
         | Inr c \<Rightarrow>
             andthen (ignore_error (UpdateCompanyProfile_op e (company_profile_from_form r c company orgnr))) (\<lambda>_.
             andthen (attempt (CreateUser (ws_hash srv) e email pw ''owner'')) (\<lambda>u. case u of
               Inl _ \<Rightarrow> ret (setup_problem r ''Kunde inte skapa konto.'')
             | Inr _ \<Rightarrow>
                 andthen (attempt (Login (ws_check srv) e email pw)) (\<lambda>l.
                 ret \<lparr>rp_answer = Redirect ''/dashboard'',
                      rp_cookies = (case l of Inl _ \<Rightarrow> [] | Inr tok \<Rightarrow> [SetCookie e (ws_secure srv) tok])\<rparr>)))))"

definition handle_login :: "web_server \<Rightarrow> env \<Rightarrow> web_request \<Rightarrow> web_reply io" where
  "handle_login srv e r0 =
     (let r = parse_form r0 in
      andthen (attempt (Login (ws_check srv) e (form_text r ''email'') (post_form_value r ''password''))) (\<lambda>l. case l of
        Inl _ \<Rightarrow> ret (plain_reply (render ''login'' (bare_page r ''Logga in'' (sv ''Fel e-post eller l|senord.'')) 401))
      | Inr tok \<Rightarrow> ret \<lparr>rp_answer = Redirect ''/dashboard'', rp_cookies = [SetCookie e (ws_secure srv) tok]\<rparr>))"

definition handle_logout :: "web_server \<Rightarrow> env \<Rightarrow> web_request \<Rightarrow> web_reply io" where
  "handle_logout srv e r =
     andthen (case get_cookie r cookie_name of None \<Rightarrow> ret () | Some tok \<Rightarrow> ignore_error (Logout tok)) (\<lambda>_.
     ret \<lparr>rp_answer = Redirect ''/login'', rp_cookies = [ClearCookie (ws_secure srv)]\<rparr>)"

definition handle_invite_user :: "web_server \<Rightarrow> env \<Rightarrow> web_request \<Rightarrow> answer io" where
  "handle_invite_user srv e r0 =
     (let r = parse_form r0; email = form_text r ''email''; pw = post_form_value r ''password'' in
      if email = [] \<or> length pw < 8 then ret (Redirect ''/settings?msg=userbad'')
      else andthen (attempt (CreateUser (ws_hash srv) e email pw ''viewer'')) (\<lambda>u.
        ret (Redirect (case u of Inl _ \<Rightarrow> ''/settings?msg=userexists'' | Inr _ \<Rightarrow> ''/settings?msg=userok''))))"

definition handle_settings_save :: "web_server \<Rightarrow> env \<Rightarrow> web_request \<Rightarrow> answer io" where
  "handle_settings_save srv e r0 =
     (let r = parse_form r0; nm = form_text r ''name''; orgnr = form_text r ''orgnr'' in
      if nm = [] then ret (Redirect ''/settings'')
      else or_fail (UpdateCompanyProfile_op e (company_profile_from_form r (wr_company r) nm orgnr)) (\<lambda>_.
        ret (Redirect ''/settings?msg=saved'')))"

section \<open>Counterparties\<close>

definition kind_of :: "web_request \<Rightarrow> string" where
  "kind_of r = (if post_form_value r ''kind'' \<noteq> ''supplier'' then ''customer'' else ''supplier'')"

definition counterparty_form :: "web_request \<Rightarrow> counterparty" where
  "counterparty_form r = \<lparr>c_id = 0, c_kind = kind_of r, c_name = form_text r ''name'', c_orgnr = form_text r ''orgnr'',
     c_personnummer = form_text r ''personnummer'', c_address = form_text r ''address'', c_iban = form_text r ''iban'',
     c_email = form_text r ''email'', c_erased = False\<rparr>"

definition handle_counterparty_update :: "web_server \<Rightarrow> env \<Rightarrow> web_request \<Rightarrow> answer io" where
  "handle_counterparty_update srv e r0 = with_id srv r0 (\<lambda>i.
     let cp = counterparty_form (parse_form r0) in
     if c_name cp = [] then ret (Redirect (''/counterparties/'' @ e_uuid_text e i @ ''/edit''))
     else or_fail (UpdateCounterparty e (wr_company r0) i cp) (\<lambda>_. ret (Redirect ''/counterparties?msg=saved'')))"

definition handle_counterparty_erase :: "web_server \<Rightarrow> env \<Rightarrow> web_request \<Rightarrow> answer io" where
  "handle_counterparty_erase srv e r = with_id srv r (\<lambda>i.
     andthen (attempt (EraseCounterparty e (wr_company r) i)) (\<lambda>x.
     ret (case x of
       Inr _ \<Rightarrow> Redirect ''/counterparties?msg=erased''
     | Inl er \<Rightarrow> if er = ErrRetentionBlocked then Redirect ''/counterparties?msg=retention'' else internal_error)))"

definition handle_add_counterparty :: "web_server \<Rightarrow> env \<Rightarrow> web_request \<Rightarrow> answer io" where
  "handle_add_counterparty srv e r0 =
     (let r = parse_form r0; nm = form_text r ''name'' in
      if nm = [] then ret (Redirect ''/counterparties'')
      else or_fail (CreateCounterparty e (wr_company r) \<lparr>c_id = 0, c_kind = kind_of r, c_name = nm,
          c_orgnr = form_text r ''orgnr'', c_personnummer = [], c_address = [], c_iban = [], c_email = [],
          c_erased = False\<rparr>) (\<lambda>_. ret (Redirect ''/counterparties'')))"

section \<open>Customer invoices\<close>

definition invoice_form_lines :: "web_request \<Rightarrow> invoice_line list" where
  "invoice_form_lines r =
     (let fs = post_form r; descs = values_of fs ''desc''; qtys = values_of fs ''qty'';
          prices = values_of fs ''price''; vats = values_of fs ''vat'' in
      map (\<lambda>i. \<lparr>il_description = trim_space (descs ! i), quantity_milli = parse_qty_milli (get qtys i),
                unit_price = parse_kr_ore (get prices i), il_code = get vats i\<rparr>)
        (filter (\<lambda>i. trim_space (descs ! i) \<noteq> []) [0..<length descs]))"

text \<open>\<open>strings.ToUpper\<close> of the currency, a code of ASCII letters.\<close>

definition currency_form :: "web_request \<Rightarrow> string" where
  "currency_form r = (let cur = map ascii_upper (form_text r ''currency'') in if cur = [] then ''SEK'' else cur)"

definition handle_invoice_create :: "web_server \<Rightarrow> env \<Rightarrow> web_request \<Rightarrow> answer io" where
  "handle_invoice_create srv e r0 =
     (let r = parse_form r0 in
      case ws_uuid srv (post_form_value r ''counterparty'') of
        None \<Rightarrow> ret (Redirect ''/invoices/new'')
      | Some p \<Rightarrow>
          let cur = currency_form r; ls = invoice_form_lines r;
              ppm = (if cur \<noteq> ''SEK'' then parse_rate_ppm (post_form_value r ''rate'') else 1000000) in
          if ls = [] then ret (Redirect ''/invoices/new'')
          else or_fail (CreateInvoice e (wr_company r) p \<lparr>inv_number = [], inv_date = zero_time, inv_due = zero_time,
              inv_currency = cur, rate_ppm = ppm, inv_lines = ls\<rparr>) (\<lambda>_. ret (Redirect ''/invoices'')))"

definition handle_invoice_finalize :: "web_server \<Rightarrow> env \<Rightarrow> web_request \<Rightarrow> answer io" where
  "handle_invoice_finalize srv e r = with_id srv r (\<lambda>i.
     or_fail (FinalizeInvoice e (wr_company r) i (e_now e) (add_days 30 (e_now e))) (\<lambda>_. ret (Redirect ''/invoices'')))"

definition handle_invoice_delete :: "web_server \<Rightarrow> env \<Rightarrow> web_request \<Rightarrow> answer io" where
  "handle_invoice_delete srv e r = with_id srv r (\<lambda>i.
     andthen (attempt (DeleteDraftInvoice e (wr_company r) i)) (\<lambda>x.
     ret (case x of Inl er \<Rightarrow> if er \<noteq> ErrNotDraft then internal_error else Redirect ''/invoices''
          | Inr _ \<Rightarrow> Redirect ''/invoices'')))"

definition handle_invoice_credit :: "web_server \<Rightarrow> env \<Rightarrow> web_request \<Rightarrow> answer io" where
  "handle_invoice_credit srv e r = with_id srv r (\<lambda>i.
     andthen (attempt (CreditInvoice e (wr_company r) i)) (\<lambda>x.
     ret (case x of Inl er \<Rightarrow> if er = ErrNotFinalized then Redirect ''/invoices'' else internal_error
          | Inr _ \<Rightarrow> Redirect ''/invoices'')))"

definition mail_texts :: "bool \<Rightarrow> invoice_view \<Rightarrow> string \<times> string \<times> string" where
  "mail_texts reminder v =
     (let nm = html_escape (c_name (iw_customer v)); number = iw_number v; due = date_str (iw_due v);
          amt = amount_string (iw_total v) @ '' '' @ iw_currency v; sender = co_name (iw_company v);
          greet = ''</p><p>'' @ sv ''V{nliga h{lsningar,'' @ ''<br>'' @ html_escape sender @ ''</p>'';
          para = [CHR 0x0A, CHR 0x0A] in
      if reminder then
        (sv ''P}minnelse: faktura '' @ number,
         ''<p>Hej '' @ nm @ '',</p><p>'' @ sv ''Detta {r en v{nlig p}minnelse om faktura '' @ number @ sv '' p} '' @ amt @
           sv '' som f|rfaller '' @ due @ ''. Bifogat finner du fakturan.'' @ greet,
         ''Hej,'' @ para @ sv ''V{nlig p}minnelse om faktura '' @ number @ sv '' p} '' @ amt @ sv '' (f|rfaller '' @ due @
           ''). Fakturan bifogas.'' @ para @ sender)
      else
        (''Faktura '' @ number,
         ''<p>Hej '' @ nm @ '',</p><p>Bifogat finner du faktura '' @ number @ sv '' p} '' @ amt @ '', att betala senast '' @
           due @ ''.'' @ greet,
         ''Hej,'' @ para @ ''Bifogat finner du faktura '' @ number @ sv '' p} '' @ amt @ sv '' (f|rfaller '' @ due @ '').'' @
           para @ sender))"

definition email_invoice :: "bool \<Rightarrow> web_server \<Rightarrow> env \<Rightarrow> web_request \<Rightarrow> answer io" where
  "email_invoice reminder srv e r = with_id srv r (\<lambda>i.
     or_fail (InvoiceForRender e (wr_company r) i) (\<lambda>v.
     if iw_status v \<noteq> Finalized \<and> iw_status v \<noteq> Paid then ret (Redirect ''/invoices'')
     else case ws_mailer srv of
       None \<Rightarrow> ret (Redirect ''/invoices?msg=nomail'')
     | Some m \<Rightarrow>
         if \<not> mail_enabled (Some m) then ret (Redirect ''/invoices?msg=nomail'')
         else if c_email (iw_customer v) = [] then ret (Redirect ''/invoices?msg=noemail'')
         else or_fail (case ws_gotenberg srv of None \<Rightarrow> fail (OtherErr ''no gotenberg'')
             | Some g \<Rightarrow> RenderInvoicePDF e g (wr_company r) i) (\<lambda>pdf.
           case mail_texts reminder v of (subject, html, txt) \<Rightarrow>
             if Send (ws_deliver srv) m (c_email (iw_customer v)) subject html txt
                  [\<lparr>at_name = ''faktura-'' @ iw_number v @ ''.pdf'', at_mime = ''application/pdf'', at_content = pdf\<rparr>]
             then andthen (ignore_error (LogUserAction e (wr_company r)
                    (if reminder then ''remind_invoice'' else ''send_invoice'') ''invoice'' (e_uuid_text e i) (iw_number v)))
                  (\<lambda>_. ret (Redirect ''/invoices?msg=sent''))
             else ret (Redirect ''/invoices?msg=mailfail''))))"

definition handle_invoice_send :: "web_server \<Rightarrow> env \<Rightarrow> web_request \<Rightarrow> answer io" where
  "handle_invoice_send = email_invoice False"

definition handle_invoice_remind :: "web_server \<Rightarrow> env \<Rightarrow> web_request \<Rightarrow> answer io" where
  "handle_invoice_remind = email_invoice True"

definition account_form :: "web_request \<Rightarrow> string" where
  "account_form r = (let a = form_text r ''account'' in if a = [] then ''1930'' else a)"

definition payment_answer :: "string \<Rightarrow> string \<Rightarrow> err + 'a \<Rightarrow> answer" where
  "payment_answer done again x = (case x of
     Inr _ \<Rightarrow> Redirect done
   | Inl er \<Rightarrow> if er = ErrPaymentMismatch \<or> er = ErrNotFinalized then Redirect again else internal_error)"

definition handle_pay :: "web_server \<Rightarrow> env \<Rightarrow> web_request \<Rightarrow> answer io" where
  "handle_pay srv e r0 = with_id srv r0 (\<lambda>i.
     let r = parse_form r0; again = ''/invoices/'' @ e_uuid_text e i @ ''/pay'' in
     case form_date (post_form_value r ''date'') of
       None \<Rightarrow> ret (Redirect again)
     | Some d \<Rightarrow>
         let x = parse_kr_ore (post_form_value r ''amount'') in
         if sint x \<le> 0 then ret (Redirect again)
         else andthen (attempt (RecordPayment e (wr_company r) i d (account_form r) x)) (\<lambda>p.
           ret (payment_answer ''/invoices'' again p)))"

end
