(* ===== verification/Web_Books.thy ===== *)
theory Web_Books
  imports Web_Actions
begin

text \<open>
  The remaining handlers of POST routes: uploads, supplier invoices, bank bookings, the SIE import, fiscal
  years, verifications and the period lock (\<open>internal/handler/web.go\<close>).
\<close>

section \<open>Receipts and supplier invoices\<close>

text \<open>The id of the stored document, 0 (\<open>uuid.Nil\<close>) when nothing was uploaded.\<close>

definition save_uploaded_receipt :: "env \<Rightarrow> web_request \<Rightarrow> uuid \<Rightarrow> uuid io" where
  "save_uploaded_receipt e r c = (case form_file r ''file'' of
     None \<Rightarrow> ret 0
   | Some u \<Rightarrow> if up_content u = [] then ret 0
       else SaveDocument e c (up_filename u) (up_mime u) (up_content u) (form_text r ''note''))"

definition handle_receipt_upload :: "web_server \<Rightarrow> env \<Rightarrow> web_request \<Rightarrow> answer io" where
  "handle_receipt_upload srv e r0 = (case parse_multipart r0 of (ok, r) \<Rightarrow>
     if \<not> ok then ret (Redirect ''/kvitton'')
     else or_fail (save_uploaded_receipt e r (wr_company r)) (\<lambda>i.
       ret (Redirect (if i = 0 then ''/kvitton'' else ''/kvitton?msg=uploaded''))))"

definition handle_receipt_delete :: "web_server \<Rightarrow> env \<Rightarrow> web_request \<Rightarrow> answer io" where
  "handle_receipt_delete srv e r = with_id srv r (\<lambda>i.
     andthen (attempt (DeleteDocument e (wr_company r) i)) (\<lambda>x.
     ret (case x of Inr _ \<Rightarrow> Redirect ''/kvitton?msg=deleted''
          | Inl er \<Rightarrow> if er = ErrDocumentAttached then Redirect ''/kvitton?msg=attached'' else internal_error)))"

definition handle_supplier_invoice_create :: "web_server \<Rightarrow> env \<Rightarrow> web_request \<Rightarrow> answer io" where
  "handle_supplier_invoice_create srv e r0 =
     (let r = snd (parse_multipart r0); c = wr_company r in
      case ws_uuid srv (post_form_value r ''counterparty'') of
        None \<Rightarrow> ret (Redirect ''/supplier-invoices/new'')
      | Some p \<Rightarrow>
          let d = form_date_or (post_form_value r ''date'') (e_now e);
              due = form_date_or (post_form_value r ''due'') (add_days 30 d) in
          or_fail (CreateSupplierInvoice e c p (form_text r ''supplier_number'') d due (form_text r ''account'')
              (parse_kr_ore (post_form_value r ''net'')) (post_form_value r ''vat'') (form_text r ''description'')) (\<lambda>i.
          andthen (case ws_uuid srv (post_form_value r ''doc_id'') of
              None \<Rightarrow> ret () | Some doc \<Rightarrow> ignore_error (AttachDocumentToSupplier e c doc i)) (\<lambda>_.
          andthen (or_zero 0 (save_uploaded_receipt e r c)) (\<lambda>doc.
          andthen (if doc \<noteq> 0 then ignore_error (AttachDocumentToSupplier e c doc i) else ret ()) (\<lambda>_.
          ret (Redirect ''/supplier-invoices''))))))"

definition handle_supplier_invoice_finalize :: "web_server \<Rightarrow> env \<Rightarrow> web_request \<Rightarrow> answer io" where
  "handle_supplier_invoice_finalize srv e r = with_id srv r (\<lambda>i.
     or_fail (FinalizeSupplierInvoice e (wr_company r) i) (\<lambda>_. ret (Redirect ''/supplier-invoices'')))"

definition handle_supplier_pay :: "web_server \<Rightarrow> env \<Rightarrow> web_request \<Rightarrow> answer io" where
  "handle_supplier_pay srv e r0 = with_id srv r0 (\<lambda>i.
     let r = parse_form r0; again = ''/supplier-invoices/'' @ e_uuid_text e i @ ''/pay'' in
     case form_date (post_form_value r ''date'') of
       None \<Rightarrow> ret (Redirect again)
     | Some d \<Rightarrow>
         andthen (attempt (RecordSupplierPayment e (wr_company r) i d (account_form r)
           (parse_kr_ore (post_form_value r ''amount'')))) (\<lambda>p.
         ret (payment_answer ''/supplier-invoices'' again p)))"

section \<open>Bank\<close>

definition statement_entries :: "web_server \<Rightarrow> string \<Rightarrow> bank_entry list option" where
  "statement_entries srv x =
     (if has_prefix (trim_space x) ''<'' then ParseCAMT (ws_camt srv) x else Some (ParseCSV x))"

definition handle_bank_import :: "web_server \<Rightarrow> env \<Rightarrow> web_request \<Rightarrow> answer io" where
  "handle_bank_import srv e r0 = (case parse_multipart r0 of (ok, r) \<Rightarrow>
     if \<not> ok then ret (Redirect ''/bank'')
     else case form_file r ''file'' of
       None \<Rightarrow> ret (Redirect ''/bank'')
     | Some u \<Rightarrow>
         if up_content u = [] then ret (Redirect ''/bank?msg=parsefail'')
         else case statement_entries srv (up_content u) of
           None \<Rightarrow> ret (Redirect ''/bank?msg=parsefail'')
         | Some es \<Rightarrow> or_fail (ImportBankStatement e (wr_company r) (form_text r ''bank_account'') es) (\<lambda>_.
             ret (Redirect ''/bank?msg=imported'')))"

definition handle_bank_book_invoice :: "web_server \<Rightarrow> env \<Rightarrow> web_request \<Rightarrow> answer io" where
  "handle_bank_book_invoice srv e r0 = with_id srv r0 (\<lambda>t.
     let r = parse_form r0 in
     case ws_uuid srv (post_form_value r ''invoice_id'') of
       None \<Rightarrow> ret (Redirect ''/bank'')
     | Some i \<Rightarrow> andthen (attempt (BookBankTxnToInvoice e (wr_company r) t i)) (\<lambda>x.
         ret (case x of Inr _ \<Rightarrow> Redirect ''/bank''
              | Inl er \<Rightarrow> if er = ErrPaymentMismatch then Redirect ''/bank?msg=mismatch'' else internal_error)))"

definition handle_bank_book_account :: "web_server \<Rightarrow> env \<Rightarrow> web_request \<Rightarrow> answer io" where
  "handle_bank_book_account srv e r0 = with_id srv r0 (\<lambda>t.
     let r = parse_form r0 in
     or_fail (BookBankTxnToAccount e (wr_company r) t (form_text r ''account'')) (\<lambda>_. ret (Redirect ''/bank'')))"

definition handle_bank_ignore :: "web_server \<Rightarrow> env \<Rightarrow> web_request \<Rightarrow> answer io" where
  "handle_bank_ignore srv e r = with_id srv r (\<lambda>t.
     andthen (ignore_error (IgnoreBankTxn (wr_company r) t)) (\<lambda>_. ret (Redirect ''/bank'')))"

section \<open>Fiscal years and the SIE import\<close>

definition handle_add_fiscal_year :: "web_server \<Rightarrow> env \<Rightarrow> web_request \<Rightarrow> answer io" where
  "handle_add_fiscal_year srv e r0 =
     (let r = parse_form r0; (y, ok) = parse_int64 (form_text r ''year'') in
      if \<not> ok \<or> y < 2000 \<or> 2100 < y then ret (Redirect ''/bokslut'')
      else or_fail (EnsureFiscalYear (wr_company r) y) (\<lambda>_. ret (Redirect ''/bokslut?msg=added'')))"

definition handle_close_fiscal_year :: "web_server \<Rightarrow> env \<Rightarrow> web_request \<Rightarrow> answer io" where
  "handle_close_fiscal_year srv e r = with_id srv r (\<lambda>i.
     andthen (attempt (CloseFiscalYear e (wr_company r) i)) (\<lambda>x.
     ret (case x of
       Inr _ \<Rightarrow> Redirect ''/bokslut?msg=closed''
     | Inl er \<Rightarrow> if er = ErrNothingToClose then Redirect ''/bokslut?msg=nothing''
               else if er = ErrYearClosed then Redirect ''/bokslut'' else internal_error)))"

text \<open>The scanner of \<open>sie.Parse\<close> refuses a line of 4 MiB.\<close>

definition sie_readable :: "(string \<Rightarrow> string) \<Rightarrow> string \<Rightarrow> bool" where
  "sie_readable dec x \<longleftrightarrow> list_all (\<lambda>l. length l < 4 * 1024 * 1024) (split_on (CHR 0x0A) (dec x))"

definition import_page :: "web_request \<Rightarrow> string \<times> string \<Rightarrow> nat \<Rightarrow> answer io" where
  "import_page r note status = show_page r ''Importera SIE'' ''sie_import'' note NoData status"

definition import_problem :: "err \<Rightarrow> string \<times> string" where
  "import_problem er =
     (if er = ErrLedgerNotEmpty
      then problem (''Importen avbr|ts: f|retaget har redan bokf|ring. SIE-import {r endast f|r '' @ ''ett tomt f|retag.'')
      else problem (''Importen avbr|ts: en verifikation balanserar inte eller ett konto saknas. '' @ ''Inget bokf|rdes.''))"

definition handle_sie_import :: "web_server \<Rightarrow> env \<Rightarrow> web_request \<Rightarrow> answer io" where
  "handle_sie_import srv e r0 = (case parse_multipart r0 of (ok, r) \<Rightarrow>
     if \<not> ok then import_page r0 (problem ''Kunde inte l{sa filen (f|r stor eller ogiltig).'') 400
     else case form_file r ''file'' of
       None \<Rightarrow> import_page r (problem ''V{lj en SIE-fil att importera.'') 400
     | Some u \<Rightarrow>
         if \<not> sie_readable (ws_sie_read srv) (up_content u)
         then import_page r (problem ''Filen kunde inte tolkas som SIE 4.'') 400
         else andthen (attempt (ImportSIE e (wr_company r) (sie_parse (ws_sie_read srv) (up_content u)))) (\<lambda>x. case x of
             Inl er \<Rightarrow> import_page r (import_problem er) 400
           | Inr res \<Rightarrow> import_page r (''Importerade '' @ fmt_nat (vouchers_posted res) @ '' verifikat och '' @
               fmt_nat (accounts_seeded res) @ '' konton.'', []) 200))"

section \<open>Verifications and the lock\<close>

definition posted_form_lines :: "web_request \<Rightarrow> line list" where
  "posted_form_lines r =
     (let fs = post_form r; accts = values_of fs ''account''; debits = values_of fs ''debit'';
          credits = values_of fs ''credit'' in
      filter (\<lambda>l. account l \<noteq> [] \<and> \<not> (debit l = 0 \<and> credit l = 0))
        (map (\<lambda>i. \<lparr>account = trim_space (accts ! i), debit = parse_kr_ore (get debits i),
                   credit = parse_kr_ore (get credits i), vat_code = []\<rparr>) [0..<length accts]))"

definition ver_err_msg :: "err \<Rightarrow> string" where
  "ver_err_msg er = sv (case er of
     LedgerErr ErrUnbalanced \<Rightarrow> ''Verifikatet balanserar inte (debet m}ste vara lika med kredit).''
   | ErrPeriodClosed \<Rightarrow> ''Perioden {r l}st f|r det datumet. Bokf|r r{ttelsen i innevarande period.''
   | ErrUnknownAccount _ \<Rightarrow> ''Ett konto finns inte i kontoplanen.''
   | LedgerErr ErrTooFewLines \<Rightarrow> ''Ett verifikat beh|ver minst tv} rader.''
   | _ \<Rightarrow> ''Kunde inte bokf|ra verifikatet.'')"

definition handle_post_verification :: "web_server \<Rightarrow> env \<Rightarrow> web_request \<Rightarrow> answer io" where
  "handle_post_verification srv e r0 =
     (let r = parse_form r0; c = wr_company r; sr = form_text r ''series'' in
      case form_date (post_form_value r ''date'') of
        None \<Rightarrow> ret (Redirect ''/verifications'')
      | Some d \<Rightarrow>
          andthen (attempt (PostVerification e c (if sr = [] then ''A'' else sr) d (form_text r ''description'')
            (posted_form_lines r) 0)) (\<lambda>x. case x of
              Inr _ \<Rightarrow> ret (Redirect ''/verifications'')
            | Inl er \<Rightarrow>
                andthen (or_zero [] (ChartAccounts c)) (\<lambda>accts.
                andthen (or_zero [] (ListVerificationSummaries c)) (\<lambda>vers.
                show_page r ''Verifikat'' ''verifikat'' ([], ver_err_msg er) (VerificationsData accts vers) 400))))"

definition handle_undo :: "web_server \<Rightarrow> env \<Rightarrow> web_request \<Rightarrow> answer io" where
  "handle_undo srv e r = with_id srv r (\<lambda>i.
     or_fail (UndoVerification e (wr_company r) i) (\<lambda>_. ret (Redirect ''/verifications'')))"

definition handle_lock :: "web_server \<Rightarrow> env \<Rightarrow> web_request \<Rightarrow> answer io" where
  "handle_lock srv e r0 =
     (let r = parse_form r0 in
      case form_date (post_form_value r ''through'') of
        None \<Rightarrow> ret (Redirect ''/logg'')
      | Some d \<Rightarrow> or_fail (LockPeriod e (wr_company r) d (form_text r ''reason'')) (\<lambda>_. ret (Redirect ''/logg'')))"

definition handle_unlock :: "web_server \<Rightarrow> env \<Rightarrow> web_request \<Rightarrow> answer io" where
  "handle_unlock srv e r0 =
     (let r = parse_form r0; reason = form_text r ''reason'' in
      if reason = [] then ret (Redirect ''/logg'')
      else or_fail (UnlockPeriod e (wr_company r) reason) (\<lambda>_. ret (Redirect ''/logg'')))"

end
