(* ===== verification/Web_Router.thy ===== *)
theory Web_Router
  imports Web_Books
begin

text \<open>
  The router (\<open>internal/handler/server.go\<close>): the table of routes, the limits on bodies, the CSRF check
  (\<open>csrf.go\<close>) and the two guards of \<open>web.go\<close>, composed as \<open>Routes\<close> composes them. Recovery, request ids and
  the time limit of the router library are left out: they answer no request of their own while the program
  is well.
\<close>

section \<open>Middleware\<close>

definition security_headers :: "(string \<times> string) list" where
  "security_headers = [
     (''X-Content-Type-Options'', ''nosniff''), (''X-Frame-Options'', ''DENY''),
     (''Referrer-Policy'', ''strict-origin-when-cross-origin''),
     (''Content-Security-Policy'',
      ''default-src 'none'; style-src 'self' 'unsafe-inline'; img-src 'self' data:; form-action 'self'; base-uri 'none'; frame-ancestors 'none'' @ [CHR 0x27]),
     (''Strict-Transport-Security'', ''max-age=31536000; includeSubDomains'')]"

definition body_limit :: "string \<Rightarrow> nat" where
  "body_limit path = (if path = ''/sie/import'' then 16 * 2 ^ 20
     else if path = ''/kvitton'' \<or> path = ''/supplier-invoices'' then 16 * 2 ^ 20
     else if path = ''/bank/import'' then 16 * 2 ^ 20 else 2 ^ 20)"

definition max_body :: "web_request \<Rightarrow> web_request" where
  "max_body r = r\<lparr>wr_limit := Some (body_limit (wr_path r))\<rparr>"

definition csrf_cookie_name :: string where
  "csrf_cookie_name = ''pare_csrf''"

text \<open>\<open>base64.RawURLEncoding\<close>: the URL alphabet, no padding.\<close>

definition b64_raw_url :: "string \<Rightarrow> string" where
  "b64_raw_url s = map (\<lambda>c. if c = CHR ''+'' then CHR ''-'' else if c = CHR ''/'' then CHR ''_'' else c)
     (filter (\<lambda>c. c \<noteq> pad_char) (b64_encode s))"

definition csrf_cookie :: "env \<Rightarrow> bool \<Rightarrow> string \<Rightarrow> cookie" where
  "csrf_cookie e secure tok = \<lparr>ck_name = csrf_cookie_name, ck_value = tok, ck_http_only = True, ck_secure = secure,
     ck_strict = True, ck_expires = Some (time_add session_ttl (e_now e)), ck_removed = False\<rparr>"

definition has_csrf_cookie :: "web_request \<Rightarrow> bool" where
  "has_csrf_cookie r \<longleftrightarrow> (case get_cookie r csrf_cookie_name of None \<Rightarrow> False | Some v \<Rightarrow> v \<noteq> [])"

text \<open>A guard answers itself, or passes the request on; either way with the cookies it sets.\<close>

definition csrf_guard ::
  "web_server \<Rightarrow> env \<Rightarrow> (web_request \<Rightarrow> web_reply io) \<Rightarrow> web_request \<Rightarrow> web_reply io" where
  "csrf_guard srv e k r =
     andthen (if has_csrf_cookie r then ret [] else andthen (draw e 32) (\<lambda>b. ret (b64_raw_url b))) (\<lambda>drawn.
     let q = (if safe_method (wr_method r) then r else parse_form r);
         out = csrf_protect drawn (get_cookie r csrf_cookie_name) (wr_method r) (post_form_value q ''csrf'');
         set = (if has_csrf_cookie r then [] else [csrf_cookie e (ws_secure srv) drawn]) in
     case out of
       CsrfRefuse \<Rightarrow> ret \<lparr>rp_answer = HttpError ''invalid CSRF token'' 403, rp_cookies = set\<rparr>
     | CsrfPass tok _ \<Rightarrow>
         andthen (k (q\<lparr>wr_csrf := tok\<rparr>)) (\<lambda>p. ret (p\<lparr>rp_cookies := set @ rp_cookies p\<rparr>)))"

definition as_user :: "session_info \<Rightarrow> env \<Rightarrow> env" where
  "as_user i e = e\<lparr>e_actor_kind := ''user'', e_actor_detail := si_email i\<rparr>"

definition require_session ::
  "env \<Rightarrow> (env \<Rightarrow> web_request \<Rightarrow> answer io) \<Rightarrow> web_request \<Rightarrow> answer io" where
  "require_session e k r =
     (case get_cookie r cookie_name of
        None \<Rightarrow> ret (Redirect ''/login'')
      | Some tok \<Rightarrow>
          andthen (Validate e tok) (\<lambda>v. case v of
            None \<Rightarrow> ret (Redirect ''/login'')
          | Some info \<Rightarrow>
              andthen (attempt DefaultCompany) (\<lambda>c. case c of
                Inl _ \<Rightarrow> ret (Redirect ''/setup'')
              | Inr co \<Rightarrow> k (as_user info e) (r\<lparr>wr_session := Some info, wr_company := co\<rparr>))))"

definition block_viewer_writes :: "(web_request \<Rightarrow> answer io) \<Rightarrow> web_request \<Rightarrow> answer io" where
  "block_viewer_writes k r =
     (if \<not> safe_method (wr_method r) \<and> (case wr_session r of None \<Rightarrow> False | Some i \<Rightarrow> \<not> is_owner i)
      then ret (HttpError ''read-only (revisor) account'' 403) else k r)"

section \<open>Routes\<close>

datatype seg = Fixed string | Param

text \<open>A route of the application, one before it that every visitor may reach, and one of those behind the
  rate limit of the login surface.\<close>

datatype (plugins only:) handler = App "web_server \<Rightarrow> env \<Rightarrow> web_request \<Rightarrow> answer io"
  | Public "web_server \<Rightarrow> env \<Rightarrow> web_request \<Rightarrow> answer io"
  | Entry "web_server \<Rightarrow> env \<Rightarrow> web_request \<Rightarrow> web_reply io"

type_synonym route = "string \<times> seg list \<times> handler"

definition public_routes :: "route list" where
  "public_routes = [
     (''GET'', [Fixed ''''], Public handle_root),
     (''GET'', [Fixed ''setup''], Public handle_setup_form),
     (''POST'', [Fixed ''setup''], Entry handle_setup),
     (''GET'', [Fixed ''login''], Public handle_login_form),
     (''POST'', [Fixed ''login''], Entry handle_login),
     (''POST'', [Fixed ''logout''], Entry handle_logout)]"

definition get_routes :: "(seg list \<times> (web_server \<Rightarrow> env \<Rightarrow> web_request \<Rightarrow> answer io)) list" where
  "get_routes = [
     ([Fixed ''dashboard''], handle_dashboard),
     ([Fixed ''counterparties''], handle_counterparties),
     ([Fixed ''counterparties'', Param, Fixed ''edit''], handle_counterparty_edit),
     ([Fixed ''invoices''], handle_invoices),
     ([Fixed ''invoices'', Fixed ''new''], handle_invoice_new),
     ([Fixed ''invoices'', Param, Fixed ''pay''], handle_pay_form),
     ([Fixed ''invoices'', Param, Fixed ''pdf''], handle_invoice_pdf),
     ([Fixed ''kvitton''], handle_receipts),
     ([Fixed ''kvitton'', Param, Fixed ''file''], handle_receipt_file),
     ([Fixed ''supplier-invoices''], handle_supplier_invoices),
     ([Fixed ''supplier-invoices'', Fixed ''new''], handle_supplier_invoice_new),
     ([Fixed ''supplier-invoices'', Param, Fixed ''pay''], handle_supplier_pay_form),
     ([Fixed ''verifications''], handle_verifications),
     ([Fixed ''reports''], handle_reports),
     ([Fixed ''reskontra''], handle_reskontra),
     ([Fixed ''bank''], handle_bank),
     ([Fixed ''bokslut''], handle_fiscal_years),
     ([Fixed ''sie''], handle_sie),
     ([Fixed ''sie'', Fixed ''import''], handle_sie_import_form),
     ([Fixed ''export.csv''], handle_csv),
     ([Fixed ''logg''], handle_logg),
     ([Fixed ''settings''], handle_settings),
     ([Fixed ''hjalp''], handle_help),
     ([Fixed ''api''], handle_api)]"

definition post_routes :: "(seg list \<times> (web_server \<Rightarrow> env \<Rightarrow> web_request \<Rightarrow> answer io)) list" where
  "post_routes = [
     ([Fixed ''counterparties''], handle_add_counterparty),
     ([Fixed ''counterparties'', Param], handle_counterparty_update),
     ([Fixed ''counterparties'', Param, Fixed ''erase''], handle_counterparty_erase),
     ([Fixed ''invoices''], handle_invoice_create),
     ([Fixed ''invoices'', Param, Fixed ''finalize''], handle_invoice_finalize),
     ([Fixed ''invoices'', Param, Fixed ''delete''], handle_invoice_delete),
     ([Fixed ''invoices'', Param, Fixed ''credit''], handle_invoice_credit),
     ([Fixed ''invoices'', Param, Fixed ''send''], handle_invoice_send),
     ([Fixed ''invoices'', Param, Fixed ''remind''], handle_invoice_remind),
     ([Fixed ''invoices'', Param, Fixed ''pay''], handle_pay),
     ([Fixed ''kvitton''], handle_receipt_upload),
     ([Fixed ''kvitton'', Param, Fixed ''delete''], handle_receipt_delete),
     ([Fixed ''supplier-invoices''], handle_supplier_invoice_create),
     ([Fixed ''supplier-invoices'', Param, Fixed ''finalize''], handle_supplier_invoice_finalize),
     ([Fixed ''supplier-invoices'', Param, Fixed ''pay''], handle_supplier_pay),
     ([Fixed ''verifications''], handle_post_verification),
     ([Fixed ''verifications'', Param, Fixed ''undo''], handle_undo),
     ([Fixed ''bank'', Fixed ''import''], handle_bank_import),
     ([Fixed ''bank'', Param, Fixed ''book-invoice''], handle_bank_book_invoice),
     ([Fixed ''bank'', Param, Fixed ''book-account''], handle_bank_book_account),
     ([Fixed ''bank'', Param, Fixed ''ignore''], handle_bank_ignore),
     ([Fixed ''bokslut''], handle_add_fiscal_year),
     ([Fixed ''bokslut'', Param, Fixed ''close''], handle_close_fiscal_year),
     ([Fixed ''sie'', Fixed ''import''], handle_sie_import),
     ([Fixed ''lock''], handle_lock),
     ([Fixed ''unlock''], handle_unlock),
     ([Fixed ''settings''], handle_settings_save),
     ([Fixed ''users''], handle_invite_user)]"

definition routes :: "route list" where
  "routes = public_routes @ map (\<lambda>(p, h). (''GET'', p, App h)) get_routes @
     map (\<lambda>(p, h). (''POST'', p, App h)) post_routes"

text \<open>A path matches a pattern with the value of its parameter, empty if it has none; a path may not end
  in an empty parameter.\<close>

fun match_path :: "seg list \<Rightarrow> string list \<Rightarrow> string option" where
  "match_path [] [] = Some []"
| "match_path (Fixed f # ps) (s # ss) = (if f = s then match_path ps ss else None)"
| "match_path (Param # ps) (s # ss) =
     (if s = [] \<and> ss = [] then None else map_option (\<lambda>_. s) (match_path ps ss))"
| "match_path _ _ = None"

definition path_segments :: "string \<Rightarrow> string list" where
  "path_segments p = tl (split_on (CHR ''/'') p)"

fun find_route :: "string \<Rightarrow> string list \<Rightarrow> route list \<Rightarrow> (handler \<times> string) option" where
  "find_route m ss [] = None"
| "find_route m ss ((n, p, h) # rs) =
     (if n = m \<and> match_path p ss \<noteq> None then Some (h, the (match_path p ss)) else find_route m ss rs)"

definition path_known :: "string list \<Rightarrow> bool" where
  "path_known ss \<longleftrightarrow> list_ex (\<lambda>(n, p, h). match_path p ss \<noteq> None) routes"

definition too_many :: answer where
  "too_many = HttpError ''Too Many Requests'' 429"

definition answering :: "answer io \<Rightarrow> web_reply io" where
  "answering m = andthen m (\<lambda>a. ret (plain_reply a))"

definition run_handler :: "web_server \<Rightarrow> env \<Rightarrow> handler \<Rightarrow> web_request \<Rightarrow> web_reply io" where
  "run_handler srv e h r = (case h of
     App f \<Rightarrow> csrf_guard srv e (\<lambda>q. answering (require_session e (\<lambda>e' q'. block_viewer_writes (f srv e') q') q)) r
   | Public f \<Rightarrow> csrf_guard srv e (\<lambda>q. answering (f srv e q)) r
   | Entry f \<Rightarrow> csrf_guard srv e (\<lambda>q. if ws_limited srv q then ret (plain_reply too_many) else f srv e q) r)"

definition is_mcp_path :: "string list \<Rightarrow> bool" where
  "is_mcp_path ss \<longleftrightarrow> ss \<noteq> [] \<and> ss ! 0 = ''mcp''"

definition handle_mcp :: "web_server \<Rightarrow> env \<Rightarrow> mcp_server \<Rightarrow> web_request \<Rightarrow> web_reply io" where
  "handle_mcp srv e m r =
     (if ws_limited srv r then ret (plain_reply too_many)
      else andthen (mcp_handle e m (wr_mcp r)) (\<lambda>a. ret (plain_reply (McpAnswer a))))"

text \<open>\<open>Routes().ServeHTTP\<close>: the reply to a request, with the headers every reply carries.\<close>

record http_reply =
  hr_headers :: "(string \<times> string) list"
  hr_reply :: web_reply

definition dispatch_http :: "web_server \<Rightarrow> env \<Rightarrow> web_request \<Rightarrow> web_reply io" where
  "dispatch_http srv e r =
     (let ss = path_segments (wr_path r) in
      if ss = [''health''] then ret (plain_reply (if wr_method r = ''GET'' then HealthOk else HttpError [] 405))
      else case (if is_mcp_path ss then ws_mcp srv else None) of
        Some m \<Rightarrow> handle_mcp srv e m r
      | None \<Rightarrow>
          (case find_route (wr_method r) ss routes of
             Some (h, i) \<Rightarrow> run_handler srv e h (r\<lparr>wr_id := i\<rparr>)
           | None \<Rightarrow> ret (plain_reply (if path_known ss then HttpError [] 405 else not_found))))"

definition serve_http :: "web_server \<Rightarrow> env \<Rightarrow> web_request \<Rightarrow> http_reply io" where
  "serve_http srv e r =
     andthen (dispatch_http srv e (max_body r)) (\<lambda>p. ret \<lparr>hr_headers = security_headers, hr_reply = p\<rparr>)"

text \<open>A request as it comes in: nothing parsed, nobody identified.\<close>

definition incoming :: "web_request \<Rightarrow> bool" where
  "incoming r \<longleftrightarrow> wr_post r = None \<and> wr_files r = None \<and> wr_session r = None"

end
