(* ===== verification/Flare.thy ===== *)
theory Flare
  imports Web_Forms "HOL-Library.AList" "HOL-Library.Sublist"
begin

text \<open>
  What leaves the program for the error reporting service (\<open>internal/flarereport\<close>): which log records are
  shipped and in what form (\<open>logship.go\<close>, with its five regular expressions as terms of a small matcher
  that follows the leftmost-first rule of \<open>regexp\<close>), the bounded queue and the batches of the shipper as
  a state machine, and the choice and the names of traced requests (\<open>tracing.go\<close>). Texts are valid UTF-8.
  The SDK of the service and the HTTP client are not modelled.
\<close>

section \<open>Regular expressions\<close>

datatype re = Nothing | One "char \<Rightarrow> bool" | Both re re | Either re re | Many re | Few re | Group nat re | Edge

text \<open>The character before, what is left, and the groups closed so far.\<close>

record pos =
  ps_prev :: "char option"
  ps_rest :: string
  ps_groups :: "(nat \<times> string) list"

definition word_char :: "char \<Rightarrow> bool" where
  "word_char c \<longleftrightarrow> is_digit c \<or> (65 \<le> byte c \<and> byte c \<le> 90) \<or> (97 \<le> byte c \<and> byte c \<le> 122) \<or> c = CHR ''_''"

definition at_edge :: "pos \<Rightarrow> bool" where  \<comment> \<open>\<open>\b\<close>\<close>
  "at_edge p \<longleftrightarrow> (case ps_prev p of None \<Rightarrow> False | Some c \<Rightarrow> word_char c) \<noteq>
     (case ps_rest p of [] \<Rightarrow> False | c # _ \<Rightarrow> word_char c)"

definition closed_group :: "nat \<Rightarrow> pos \<Rightarrow> pos \<Rightarrow> pos" where
  "closed_group n p t =
     t\<lparr>ps_groups := (n, take (length (ps_rest p) - length (ps_rest t)) (ps_rest p)) # ps_groups t\<rparr>"

text \<open>The ends of the matches that start at a position, the preferred one first.\<close>

function runs :: "re \<Rightarrow> pos \<Rightarrow> pos list" where
  "runs Nothing p = [p]"
| "runs (One P) p = (case ps_rest p of [] \<Rightarrow> []
     | c # s \<Rightarrow> if P c then [p\<lparr>ps_prev := Some c, ps_rest := s\<rparr>] else [])"
| "runs (Both r q) p = concat (map (runs q) (runs r p))"
| "runs (Either r q) p = runs r p @ runs q p"
| "runs (Many r) p =
     concat (map (runs (Many r)) (filter (\<lambda>t. length (ps_rest t) < length (ps_rest p)) (runs r p))) @ [p]"
| "runs (Few r) p =
     p # concat (map (runs (Few r)) (filter (\<lambda>t. length (ps_rest t) < length (ps_rest p)) (runs r p)))"
| "runs (Group n r) p = map (closed_group n p) (runs r p)"
| "runs Edge p = (if at_edge p then [p] else [])"
  by pat_completeness auto

termination
  by (relation "measures [\<lambda>(r, p). size r, \<lambda>(r, p). length (ps_rest p)]") auto

text \<open>\<open>ReplaceAllString\<close>, for expressions that match no empty text.\<close>

function replace_all :: "re \<Rightarrow> ((nat \<times> string) list \<Rightarrow> string) \<Rightarrow> char option \<Rightarrow> string \<Rightarrow> string" where
  "replace_all r out pc [] = []"
| "replace_all r out pc (c # s) =
     (case filter (\<lambda>t. length (ps_rest t) \<le> length s)
         (take 1 (runs r \<lparr>ps_prev = pc, ps_rest = c # s, ps_groups = []\<rparr>)) of
        [] \<Rightarrow> c # replace_all r out (Some c) s
      | t # _ \<Rightarrow> out (ps_groups t) @ replace_all r out (ps_prev t) (ps_rest t))"
  by pat_completeness auto

termination
  by (relation "measure (\<lambda>(r, out, pc, s). length s)") (auto simp: filter_eq_Cons_iff)

definition the_group :: "nat \<Rightarrow> (nat \<times> string) list \<Rightarrow> string" where
  "the_group n gs = (case map_of gs n of None \<Rightarrow> [] | Some s \<Rightarrow> s)"

definition lit :: "string \<Rightarrow> re" where
  "lit s = foldr (\<lambda>c r. Both (One ((=) c)) r) s Nothing"

definition one_of :: "string \<Rightarrow> re" where "one_of s = One (\<lambda>c. c \<in> set s)"

definition none_of :: "string \<Rightarrow> re" where "none_of s = One (\<lambda>c. c \<notin> set s)"

definition some_of :: "re \<Rightarrow> re" where "some_of r = Both r (Many r)"

definition maybe :: "re \<Rightarrow> re" where "maybe r = Either r Nothing"

definition choice :: "re list \<Rightarrow> re" where
  "choice rs = (case rs of [] \<Rightarrow> One (\<lambda>_. False) | r # q \<Rightarrow> foldl Either r q)"

definition in_turn :: "re list \<Rightarrow> re" where
  "in_turn rs = foldr Both rs Nothing"

text \<open>A letter in either case; the long s and the Kelvin sign fold to S and K.\<close>

definition long_s :: string where "long_s = [CHR 0xC5, CHR 0xBF]"

definition kelvin_sign :: string where "kelvin_sign = [CHR 0xE2, CHR 0x84, CHR 0xAA]"

definition folded :: "char \<Rightarrow> re" where
  "folded c = (let r = One (\<lambda>x. x = c \<or> (97 \<le> byte c \<and> byte c \<le> 122 \<and> byte x + 32 = byte c)) in
     if c = CHR ''k'' then Either r (lit kelvin_sign) else if c = CHR ''s'' then Either r (lit long_s) else r)"

definition folded_lit :: "string \<Rightarrow> re" where
  "folded_lit s = in_turn (map folded s)"

abbreviation white :: string where "white \<equiv> [CHR 0x09, CHR 0x0A, CHR 0x0C, CHR 0x0D, CHR '' '']"

section \<open>The scrub of a text (logship.go)\<close>

definition scrub_pem :: re where
  "scrub_pem = in_turn [lit ''-----BEGIN '', Many (none_of ''-''), lit ''PRIVATE KEY-----'', Few (One (\<lambda>_. True)),
     lit ''-----END '', Many (none_of ''-''), lit ''PRIVATE KEY-----'']"

definition ascii_letter :: "char \<Rightarrow> bool" where
  "ascii_letter c \<longleftrightarrow> (65 \<le> byte c \<and> byte c \<le> 90) \<or> (97 \<le> byte c \<and> byte c \<le> 122)"

definition scrub_url_creds :: re where
  "scrub_url_creds = in_turn [
     Group 1 (in_turn [One ascii_letter, Many (One (\<lambda>c. ascii_letter c \<or> is_digit c \<or> c \<in> set ''+.-'')), lit ''://'']),
     some_of (none_of (''/'' @ white @ '':@'' @ [CHR 0x22])), lit '':'',
     some_of (none_of (''/'' @ white @ ''@'' @ [CHR 0x22])), lit ''@'']"

definition or_dash :: "string \<Rightarrow> string \<Rightarrow> re" where  \<comment> \<open>\<open>a[_-]?b\<close>\<close>
  "or_dash a b = in_turn [folded_lit a, maybe (one_of ''_-''), folded_lit b]"

definition scrub_query :: re where
  "scrub_query = in_turn [
     Group 1 (in_turn [one_of ''?&'',
       choice [folded_lit ''token'', folded_lit ''key'', or_dash ''api'' ''key'', folded_lit ''apikey'', folded_lit ''secret'',
         folded_lit ''password'', folded_lit ''passwd'', folded_lit ''pwd'', folded_lit ''sig'', folded_lit ''signature'',
         or_dash ''access'' ''token'', or_dash ''refresh'' ''token'', folded_lit ''auth'', folded_lit ''session'',
         folded_lit ''code''], lit ''='']),
     some_of (none_of (''&'' @ white @ [CHR 0x22, CHR 0x27]))]"

definition token_char :: re where
  "token_char = choice [One (\<lambda>c. ascii_letter c \<or> is_digit c \<or> c \<in> set ''._-+/=''), lit long_s, lit kelvin_sign]"

definition scrub_bearer :: re where
  "scrub_bearer = in_turn ([Edge, Group 1 (choice [folded_lit ''bearer'', folded_lit ''basic'', folded_lit ''token'']),
     some_of (one_of white)] @ replicate 8 token_char @ [Many token_char])"

definition scrub_assign :: re where
  "scrub_assign = in_turn [Edge,
     Group 1 (choice [folded_lit ''token'', or_dash ''api'' ''key'', folded_lit ''apikey'', folded_lit ''secret'',
       folded_lit ''password'', folded_lit ''passwd'', folded_lit ''pwd'', or_dash ''access'' ''token'',
       or_dash ''refresh'' ''token'', folded_lit ''authorization'']), Edge,
     Group 2 (in_turn [Many (one_of white), one_of '':='', Many (one_of white)]),
     maybe (one_of [CHR 0x22, CHR 0x27]), some_of (none_of (white @ [CHR 0x22, CHR 0x27] @ '',;&)}''))]"

definition scrub_log_text :: "string \<Rightarrow> string" where
  "scrub_log_text s0 =
     (let s1 = replace_all scrub_pem (\<lambda>_. ''[private-key]'') None s0;
          s2 = replace_all scrub_url_creds (\<lambda>g. the_group 1 g @ ''[redacted]@'') None s1;
          s3 = replace_all scrub_query (\<lambda>g. the_group 1 g @ ''[secret]'') None s2;
          s4 = replace_all scrub_bearer (\<lambda>g. the_group 1 g @ '' [secret]'') None s3
      in replace_all scrub_assign (\<lambda>g. the_group 1 g @ the_group 2 g @ ''[secret]'') None s4)"

text \<open>\<open>scrubLogValue\<close>: the string leaves of a document.\<close>

fun scrub_log_value :: "json \<Rightarrow> json" where
  "scrub_log_value (JStr s) = JStr (scrub_log_text s)"
| "scrub_log_value (JObj fs) = JObj (map (\<lambda>(k, v). (k, scrub_log_value v)) fs)"
| "scrub_log_value (JArr vs) = JArr (map scrub_log_value vs)"
| "scrub_log_value v = v"

section \<open>A record and the line that is shipped (logship.go)\<close>

text \<open>
  A value of \<open>log/slog\<close>: a group, or anything else with the document \<open>encoding/json\<close> makes of it, if it
  can, and its \<open>String\<close>.
\<close>

datatype log_value = LGroup "(string \<times> log_value) list" | LValue "json option" string

record log_record =
  lr_level :: int
  lr_message :: string
  lr_attrs :: "(string \<times> log_value) list"
  lr_time :: gotime

record native_log_line =
  nl_severity :: string
  nl_body :: string
  nl_attributes :: "json option"
  nl_trace :: string
  nl_time :: string

definition sensitive_log_key_parts :: "string list" where
  "sensitive_log_key_parts = [''password'', ''passwd'', ''secret'', ''token'', ''authorization'', ''bearer'',
     ''cookie'', ''credential'', ''api_key'', ''apikey'', ''access_key'', ''accesskey'', ''private_key'', ''privatekey'',
     ''vault_key'', ''new_value'', ''jwt'', ''session_id'', ''dsn'']"

definition is_sensitive_log_key :: "string \<Rightarrow> bool" where
  "is_sensitive_log_key key = list_ex (contains_str (to_lower key)) sensitive_log_key_parts"

text \<open>The attributes so far, the last one of a key counting, and the trace id.\<close>

type_synonym shipped_attrs = "(string \<times> json option) list \<times> string"

definition put_attr :: "string \<Rightarrow> json option \<Rightarrow> shipped_attrs \<Rightarrow> shipped_attrs" where
  "put_attr k v st = (AList.update k v (fst st), snd st)"

function add_attr :: "string \<Rightarrow> string \<times> log_value \<Rightarrow> shipped_attrs \<Rightarrow> shipped_attrs" where
  "add_attr pfx (k, LGroup as) st =
     foldl (\<lambda>st a. add_attr (if k \<noteq> [] then pfx @ k @ ''.'' else pfx) a st) st as"
| "add_attr pfx (k, LValue v t) st = (let key = pfx @ k in
     if key = ''trace_id'' then (fst st, t)
     else if is_sensitive_log_key key then put_attr key (Some (JStr ''[redacted]'')) st
     else put_attr key v st)"
  by pat_completeness auto

termination
proof (relation "measure (\<lambda>(pfx, a, st). size (snd a))")
  show "((if k \<noteq> [] then pfx @ k @ ''.'' else pfx, a, st'), pfx, (k, LGroup as), st) \<in> measure (\<lambda>(pfx, a, st). size (snd a))"
    if "a \<in> set as" for pfx k as st st' a
    using size_list_estimation' [OF that order_refl, of "size_prod (\<lambda>_. 0) size"] by (cases a) auto
qed simp

text \<open>\<open>encoding/json\<close> on a document; what it writes for the keys of a map is in their order.\<close>

definition json_char :: "char \<Rightarrow> string" where
  "json_char c =
     (if c = CHR 0x22 \<or> c = CHR 0x5C then [CHR 0x5C, c]
      else if c = CHR 0x08 then [CHR 0x5C, CHR ''b''] else if c = CHR 0x0C then [CHR 0x5C, CHR ''f'']
      else if c = CHR 0x0A then [CHR 0x5C, CHR ''n''] else if c = CHR 0x0D then [CHR 0x5C, CHR ''r'']
      else if c = CHR 0x09 then [CHR 0x5C, CHR ''t'']
      else if byte c < 32 \<or> c \<in> set ''<>&'' then [CHR 0x5C] @ ''u00'' @ hex_encode [c] else [c])"

fun json_chars :: "string \<Rightarrow> string" where
  "json_chars [] = []"
| "json_chars (c # s) =
     (if take 2 s = [CHR 0x80, CHR 0xA8] \<and> c = CHR 0xE2 then [CHR 0x5C] @ ''u2028'' @ json_chars (drop 2 s)
      else if take 2 s = [CHR 0x80, CHR 0xA9] \<and> c = CHR 0xE2 then [CHR 0x5C] @ ''u2029'' @ json_chars (drop 2 s)
      else json_char c @ json_chars s)"

definition json_string :: "string \<Rightarrow> string" where
  "json_string s = [CHR 0x22] @ json_chars s @ [CHR 0x22]"

fun json_text :: "json \<Rightarrow> string" where
  "json_text JNull = ''null''"
| "json_text (JBool b) = (if b then ''true'' else ''false'')"
| "json_text (JNum n) = n"
| "json_text (JStr s) = json_string s"
| "json_text (JArr vs) = ''['' @ join_with '','' (map json_text vs) @ '']''"
| "json_text (JObj fs) = ''{'' @ join_with '','' (map (\<lambda>(k, v). json_string k @ '':'' @ json_text v) fs) @ ''}''"

definition max_attr_bytes :: nat where
  "max_attr_bytes = 8192"

text \<open>\<open>None\<close> when a value cannot be written, the document is too long or there is none.\<close>

definition shipped_document :: "(string \<times> json option) list \<Rightarrow> json option" where
  "shipped_document m =
     (if m = [] \<or> list_ex (\<lambda>f. snd f = None) m then None
      else let doc = JObj (map (\<lambda>(k, v). (k, the v)) m) in
        if length (json_text doc) \<le> max_attr_bytes then Some (scrub_log_value doc) else None)"

text \<open>\<open>slog.Level.String\<close>, in lower case.\<close>

definition level_text :: "int \<Rightarrow> string" where
  "level_text l = (let name = (\<lambda>b d. if d = 0 then b else b @ (if 0 < d then ''+'' else []) @ fmt_int d) in
     if l < 0 then name ''debug'' (l + 4) else if l < 4 then name ''info'' l
     else if l < 8 then name ''warn'' (l - 4) else name ''error'' (l - 8))"

record flare_handler =
  fh_min :: int
  fh_attrs :: "(string \<times> log_value) list"
  fh_groups :: "string list"

definition with_attrs :: "(string \<times> log_value) list \<Rightarrow> flare_handler \<Rightarrow> flare_handler" where
  "with_attrs as h = h\<lparr>fh_attrs := fh_attrs h @ as\<rparr>"

definition with_group :: "string \<Rightarrow> flare_handler \<Rightarrow> flare_handler" where
  "with_group g h = h\<lparr>fh_groups := fh_groups h @ [g]\<rparr>"

definition ship_line :: "flare_handler \<Rightarrow> log_record \<Rightarrow> native_log_line" where
  "ship_line h r =
     (let prefix = (if fh_groups h = [] then [] else join_with ''.'' (fh_groups h) @ ''.'');
          st = foldl (\<lambda>st a. add_attr prefix a st) ([], []) (fh_attrs h @ lr_attrs r)
      in \<lparr>nl_severity = level_text (lr_level r), nl_body = scrub_log_text (lr_message r),
          nl_attributes = shipped_document (fst st), nl_trace = snd st, nl_time = rfc3339 (lr_time r)\<rparr>)"

section \<open>The shipper (logship.go)\<close>

definition log_ship_buffer :: nat where "log_ship_buffer = 512"

definition log_ship_batch :: nat where "log_ship_batch = 50"

definition log_ship_max_per_min :: nat where "log_ship_max_per_min = 300"

text \<open>
  The queue of the channel, the batch \<open>run\<close> collects and the batches posted; times are in nanoseconds from
  the zero time.
\<close>

record log_shipper =
  sh_window :: int
  sh_count :: nat
  sh_queue :: "native_log_line list"
  sh_dropped :: nat
  sh_batch :: "native_log_line list"
  sh_posted :: "native_log_line list list"

definition new_shipper :: log_shipper where
  "new_shipper = \<lparr>sh_window = 0, sh_count = 0, sh_queue = [], sh_dropped = 0, sh_batch = [], sh_posted = []\<rparr>"

definition minute :: int where
  "minute = 60 * 10 ^ 9"

definition allow :: "int \<Rightarrow> log_shipper \<Rightarrow> bool \<times> log_shipper" where
  "allow now sh =
     (let q = (if minute \<le> now - sh_window sh then sh\<lparr>sh_window := now, sh_count := 0\<rparr> else sh) in
      if log_ship_max_per_min \<le> sh_count q then (False, q) else (True, q\<lparr>sh_count := Suc (sh_count q)\<rparr>))"

definition enqueue :: "native_log_line \<Rightarrow> log_shipper \<Rightarrow> log_shipper" where
  "enqueue l sh =
     (if length (sh_queue sh) < log_ship_buffer then sh\<lparr>sh_queue := sh_queue sh @ [l]\<rparr>
      else sh\<lparr>sh_dropped := Suc (sh_dropped sh)\<rparr>)"

definition flush :: "log_shipper \<Rightarrow> log_shipper" where
  "flush sh = (if sh_batch sh = [] then sh else sh\<lparr>sh_posted := sh_posted sh @ [sh_batch sh], sh_batch := []\<rparr>)"

text \<open>\<open>ship\<close> at a time, one receive of \<open>run\<close>, one tick of its timer.\<close>

datatype ship_event = Ship int native_log_line | Receive | Tick

definition ship_step :: "ship_event \<Rightarrow> log_shipper \<Rightarrow> log_shipper" where
  "ship_step ev sh = (case ev of
     Ship now l \<Rightarrow> (case allow now sh of (ok, q) \<Rightarrow>
       if ok then enqueue l q else q\<lparr>sh_dropped := Suc (sh_dropped q)\<rparr>)
   | Receive \<Rightarrow> (case sh_queue sh of [] \<Rightarrow> sh
       | l # ls \<Rightarrow> let q = sh\<lparr>sh_queue := ls, sh_batch := sh_batch sh @ [l]\<rparr> in
           if log_ship_batch \<le> length (sh_batch q) then flush q else q)
   | Tick \<Rightarrow> flush sh)"

text \<open>\<open>flareSlogHandler.Handle\<close>: what it adds to the passing on of the record.\<close>

definition handle_record :: "flare_handler \<Rightarrow> int \<Rightarrow> log_record \<Rightarrow> log_shipper \<Rightarrow> log_shipper" where
  "handle_record h now r sh = (if fh_min h \<le> lr_level r then ship_step (Ship now (ship_line h r)) sh else sh)"

section \<open>Setting up (flarereport.go, logship.go)\<close>

definition log_ship_level :: "(string \<Rightarrow> string) \<Rightarrow> int" where
  "log_ship_level genv = (let l = to_lower (trim_space (genv ''FLARE_LOG_LEVEL'')) in
     if l = ''debug'' then - 4 else if l = ''info'' then 0 else if l = ''error'' then 8 else 4)"

text \<open>\<open>url.Parse\<close> is the function \<open>parse_url\<close>: the scheme, the user name if there is one, the host, the path.\<close>

type_synonym url_parser = "string \<Rightarrow> (string \<times> string option \<times> string \<times> string) option"

definition trim_slashes :: "string \<Rightarrow> string" where
  "trim_slashes p = rev (dropWhile (\<lambda>c. c = CHR ''/'') (rev (dropWhile (\<lambda>c. c = CHR ''/'') p)))"

definition parse_dsn_for_logs :: "url_parser \<Rightarrow> string \<Rightarrow> (string \<times> string) option" where
  "parse_dsn_for_logs parse_url dsn =
     (if dsn = [] then None
      else case parse_url dsn of
        Some (scheme, Some k, host, path) \<Rightarrow>
          let i = trim_slashes path in
          if host = [] \<or> k = [] \<or> i = [] then None
          else Some (scheme @ ''://'' @ host @ ''/api/'' @ i @ ''/logs'', k)
      | _ \<Rightarrow> None)"

definition install_log_shipper :: "url_parser \<Rightarrow> (string \<Rightarrow> string) \<Rightarrow> string \<Rightarrow> (string \<times> string \<times> flare_handler) option" where
  "install_log_shipper parse_url genv service =
     (if equal_fold (genv ''FLARE_LOG_LEVEL'') ''off'' \<or> service = ''flare'' then None
      else case parse_dsn_for_logs parse_url (genv ''FLARE_DSN'') of None \<Rightarrow> None
        | Some (endpoint, k) \<Rightarrow> Some (endpoint, k, \<lparr>fh_min = log_ship_level genv, fh_attrs = [], fh_groups = []\<rparr>))"

record flare_request =
  fq_url :: string
  fq_query :: string
  fq_cookies :: string

definition scrub_sensitive :: "flare_request option \<Rightarrow> flare_request option" where
  "scrub_sensitive q = map_option (\<lambda>r. r\<lparr>fq_query := [], fq_cookies := []\<rparr>) q"

section \<open>Traces (tracing.go)\<close>

definition float_unit :: "float64 \<Rightarrow> bool" where  \<comment> \<open>\<open>f >= 0 && f <= 1\<close>\<close>
  "float_unit f = (case f of
     Finite m e \<Rightarrow> 0 \<le> m \<and> (if 0 \<le> e then m * 2 ^ nat e \<le> 1 else m \<le> 2 ^ nat (- e))
   | _ \<Rightarrow> False)"

definition traces_sample_rate :: "(string \<Rightarrow> string) \<Rightarrow> float64" where
  "traces_sample_rate genv = (let v = trim_space (genv ''FLARE_TRACES_SAMPLE_RATE'') in
     case (if v = [] then None else parse_float v) of
       Some f \<Rightarrow> if float_unit f then f else round_float False 1 10
     | None \<Rightarrow> round_float False 1 10)"

definition is_untraceable :: "string \<Rightarrow> bool" where
  "is_untraceable p \<longleftrightarrow>
     p \<in> {''/health'', ''/healthz'', ''/readyz'', ''/livez'', ''/ready'', ''/metrics'', ''/favicon.ico'', ''/robots.txt'',
       ''/store'', ''/store/''} \<or>
     has_prefix p ''/static/'' \<or> has_prefix p ''/assets/'' \<or> has_prefix p ''/_app/'' \<or> has_prefix p ''/otlp'' \<or>
     has_prefix p ''/api/'' \<and>
       (let trimmed = rev (dropWhile (\<lambda>c. c = CHR ''/'') (rev p)) in
        list_ex (has_suffix trimmed) [''/envelope'', ''/store'', ''/logs'', ''/traces'', ''/metrics'', ''/security''])"

definition id_like :: "string \<Rightarrow> bool" where
  "id_like s \<longleftrightarrow> s \<noteq> [] \<and>
     (list_all is_digit s \<or>
      list_all (\<lambda>c. is_digit c \<or> ascii_letter c \<or> c = CHR ''-'' \<or> c = CHR ''_'') s \<and> list_ex is_digit s \<and> 20 \<le> length s)"

definition normalize_trace_path :: "string \<Rightarrow> string" where
  "normalize_trace_path p = (if p = [] \<or> p = ''/'' then p
     else join_with ''/'' (map (\<lambda>s. if id_like s then '':id'' else s) (split_on (CHR ''/'') p)))"

text \<open>The name of the transaction of a request, if it is traced.\<close>

definition traced_as :: "(string \<Rightarrow> string) \<Rightarrow> string \<Rightarrow> string \<Rightarrow> string option" where
  "traced_as genv meth path =
     (if \<not> float_positive (traces_sample_rate genv) \<or> is_untraceable path then None
      else Some (meth @ '' '' @ normalize_trace_path path))"

end
