(* ===== verification/Boot.thy ===== *)
theory Boot
  imports Web_Router Flare
begin

text \<open>
  The start of the program (\<open>cmd/server/main.go\<close>): the configuration, the steps that must succeed before a
  request is served and the server they set up. The migrations of the schema and the connection to the
  database are the inputs \<open>schema_ready\<close> and \<open>connected\<close>; \<open>lib\<close> is a server whose functions are the libraries'.
\<close>

definition level :: "string \<Rightarrow> int" where
  "level s = (if s = ''debug'' then - 4 else if s = ''warn'' then 4 else if s = ''error'' then 8 else 0)"

definition new_gotenberg :: "string \<Rightarrow> gotenberg \<Rightarrow> gotenberg" where
  "new_gotenberg url g = g\<lparr>gb_url := rev (dropWhile (\<lambda>c. c = CHR ''/'') (rev url))\<rparr>"

definition new_mcp :: "string \<Rightarrow> string \<Rightarrow> int64 \<Rightarrow> err + mcp_server" where
  "new_mcp shield_key api_key limit = (case new_dek_from shield_key of Inl x \<Rightarrow> Inl x
     | Inr k \<Rightarrow> Inr \<lparr>mc_shield_key = k, mc_api_key = api_key, mc_max = limit\<rparr>)"

datatype (plugins only:) start = Exit string | Serving string web_server

definition config_mailer :: "config \<Rightarrow> mailer" where
  "config_mailer c = new_mailer (cf_smtp_host c) (cf_smtp_port c) (cf_smtp_user c) (cf_smtp_pass c) (cf_smtp_from c)
     (cf_smtp_from_name c) (cf_smtp_tls c)"

definition config_mcp :: "config \<Rightarrow> err + mcp_server option" where
  "config_mcp c =
     (if length (cf_shield_key c) = 32 \<and> cf_mcp_key c \<noteq> [] then
        (case new_mcp (cf_shield_key c) (cf_mcp_key c) (cf_mcp_max c) of Inl x \<Rightarrow> Inl x | Inr m \<Rightarrow> Inr (Some m))
      else Inr None)"

definition server_of :: "(string \<Rightarrow> string) \<Rightarrow> web_server \<Rightarrow> gotenberg \<Rightarrow> config \<Rightarrow> mcp_server option \<Rightarrow> web_server" where
  "server_of genv lib g c m = lib\<lparr>ws_mcp := m, ws_gotenberg := Some (new_gotenberg (cf_gotenberg c) g),
     ws_mailer := Some (config_mailer c), ws_secure := (genv ''PARE_INSECURE_COOKIES'' \<noteq> ''1''),
     ws_flare_dsn := genv ''FLARE_DSN''\<rparr>"

text \<open>What runs once the database is there: the chart, the migration of legacy documents, one sweep.\<close>

definition prepare :: "env \<Rightarrow> string option io" where
  "prepare e =
     andthen (attempt SyncChart) (\<lambda>r. case r of Inl _ \<Rightarrow> ret (Some ''sync chart'') | Inr _ \<Rightarrow>
     andthen (attempt (BackfillDocumentPII e)) (\<lambda>b.
     if (case b of Inl _ \<Rightarrow> True | Inr (_, _, x) \<Rightarrow> x \<noteq> None) then ret (Some ''backfill document pii'')
     else andthen (sweep_run e) (\<lambda>_. ret None)))"

definition main_program ::
  "(string \<Rightarrow> string) \<Rightarrow> web_server \<Rightarrow> gotenberg \<Rightarrow> bool \<Rightarrow> bool \<Rightarrow> env \<Rightarrow> start io" where
  "main_program genv lib g schema_ready connected e =
     (case Load genv of
        Inl _ \<Rightarrow> ret (Exit ''config'')
      | Inr c \<Rightarrow>
        if cf_database_url c = [] then ret (Exit ''PARE_DATABASE_URL is required'')
        else if \<not> schema_ready then ret (Exit ''migrate'')
        else if \<not> connected then ret (Exit ''db pool'')
        else (case new_kek (cf_master_key c) of
          Inl _ \<Rightarrow> ret (Exit ''master key'')
        | Inr kek \<Rightarrow>
          andthen (prepare (e\<lparr>e_kek := kek\<rparr>)) (\<lambda>p. case p of
            Some step \<Rightarrow> ret (Exit step)
          | None \<Rightarrow> (case config_mcp c of
              Inl _ \<Rightarrow> ret (Exit ''mcp'')
            | Inr m \<Rightarrow> ret (Serving (cf_addr c) (server_of genv lib g c m))))))"

end
