(* ===== verification/Render_Laws.thy ===== *)
theory Render_Laws
  imports Render
begin

text \<open>
  What holds of the documents and messages that leave the program: the markup of an invoice does not
  depend on what its fields contain, the conversion gives up after three attempts, an attachment is
  decoded to the bytes that were attached.
\<close>

section \<open>The markup of an invoice\<close>

text \<open>The characters that delimit elements and attributes.\<close>

definition markup :: "string \<Rightarrow> string" where
  "markup s = filter (\<lambda>c. c \<in> {CHR ''<'', CHR ''>'', CHR 0x22, CHR 0x27}) s"

lemma markup_append [simp]: "markup (s @ t) = markup s @ markup t"
  by (simp add: markup_def)

lemma markup_html_text [simp]: "markup (html_text s) = []"
  by (induction s) (simp_all add: markup_def html_text_def html_text_char_def)

lemma markup_shown_if: "markup (shown_if b s) = (if b then markup s else [])"
  by (simp add: shown_if_def markup_def)

lemma markup_concat: "markup (concat (map f xs)) = concat (map (\<lambda>x. markup (f x)) xs)"
  by (induction xs) (simp_all add: markup_def)

lemma concat_same: "(\<And>x. f x = c) \<Longrightarrow> concat (map f xs) = concat (replicate (length xs) c)"
  by (induction xs) simp_all

lemma markup_rows:
  "markup (concat (map invoice_row_html xs)) = concat (replicate (length xs) (markup (invoice_row_html undefined)))"
  "markup (concat (map (vat_row_html i) ys)) = concat (replicate (length ys) (markup (vat_row_html undefined undefined)))"
  "markup (concat (map note_html zs)) = concat (replicate (length zs) (markup (note_html undefined)))"
  unfolding markup_concat
  by (rule concat_same, simp only: invoice_row_html_def vat_row_html_def note_html_def markup_append markup_html_text)+

text \<open>Two invoices of one shape: the same rows, the same optional parts present.\<close>

definition same_shape :: "render_invoice \<Rightarrow> render_invoice \<Rightarrow> bool" where
  "same_shape i j \<longleftrightarrow> ri_is_credit i = ri_is_credit j \<and> ri_fskatt i = ri_fskatt j \<and>
     length (ri_lines i) = length (ri_lines j) \<and> length (ri_summary i) = length (ri_summary j) \<and>
     length (ri_notes i) = length (ri_notes j) \<and>
     list_all (\<lambda>f. (f i = []) = (f j = []))
       [ri_address, ri_postal, ri_company_orgnr, ri_momsregnr, ri_customer_orgnr, ri_customer_address,
        ri_bankgiro, ri_iban, ri_ocr]"

lemma same_parts:
  assumes "same_shape i j"
  shows "ri_is_credit i = ri_is_credit j" "ri_fskatt i = ri_fskatt j" "length (ri_lines i) = length (ri_lines j)"
    "length (ri_summary i) = length (ri_summary j)" "length (ri_notes i) = length (ri_notes j)"
    "(ri_notes i = []) = (ri_notes j = [])" "(ri_address i = []) = (ri_address j = [])"
    "(ri_postal i = []) = (ri_postal j = [])" "(ri_company_orgnr i = []) = (ri_company_orgnr j = [])"
    "(ri_momsregnr i = []) = (ri_momsregnr j = [])" "(ri_customer_orgnr i = []) = (ri_customer_orgnr j = [])"
    "(ri_customer_address i = []) = (ri_customer_address j = [])" "(ri_bankgiro i = []) = (ri_bankgiro j = [])"
    "(ri_iban i = []) = (ri_iban j = [])" "(ri_ocr i = []) = (ri_ocr j = [])"
  using assms unfolding same_shape_def by (simp_all, metis length_0_conv)

lemmas markup_simps = markup_append markup_html_text markup_shown_if markup_rows append_Nil

lemma markup_sections:
  assumes "same_shape i j"
  shows "markup (invoice_head i) = markup (invoice_head j)"
    and "markup (invoice_parties i) = markup (invoice_parties j)"
    and "markup (invoice_rows_html i) = markup (invoice_rows_html j)"
    and "markup (invoice_totals i) = markup (invoice_totals j)"
    and "markup (invoice_pay i) = markup (invoice_pay j)"
  unfolding invoice_head_def invoice_parties_def invoice_rows_html_def invoice_totals_def invoice_pay_def
    markup_simps same_parts [OF assms]
  by (rule refl)+

text \<open>C36. Nobody can write markup into an invoice. The brackets and quotes of the document are those of the
  template: two invoices with the same rows and the same optional parts have the same ones in the same
  order, whatever names, addresses, descriptions and notes they carry.\<close>

theorem invoice_markup_fixed:
  assumes "same_shape i j"
  shows "markup (InvoiceHTML i) = markup (InvoiceHTML j)"
  using markup_sections [OF assms] by (simp add: InvoiceHTML_def)

definition sample_render :: "string \<Rightarrow> render_invoice" where
  "sample_render name = \<lparr>ri_number = ''2026-0001'', ri_date = ''2026-03-01'', ri_due = ''2026-03-31'', ri_company = ''Kim AB'',
     ri_company_orgnr = ''556677-8899'', ri_momsregnr = [], ri_address = [], ri_postal = [], ri_fskatt = True,
     ri_bankgiro = ''123-4567'', ri_iban = [], ri_customer = name, ri_customer_orgnr = [], ri_customer_address = name,
     ri_ocr = ''2026000100'', ri_lines = [\<lparr>rl_description = name, rl_quantity = ''1'', rl_price = ''100,00'',
       rl_label = ''25 %'', rl_net = ''100,00''\<rparr>], ri_summary = [], ri_notes = [name], ri_net = ''100,00'', ri_vat = ''25,00'',
     ri_total = ''125,00'', ri_currency = ''SEK'', ri_is_credit = False, ri_credits_number = []\<rparr>"

theorem invoice_markup_fixed_witness:
  "markup (InvoiceHTML (sample_render ''<script>alert(1)</script>'')) = markup (InvoiceHTML (sample_render ''Bo''))"
  by (rule invoice_markup_fixed) (simp add: same_shape_def sample_render_def)

section \<open>The conversion\<close>

text \<open>The attempt with number \<open>k\<close> fails in a way that is tried again, and the wait after it is not cut short.\<close>

definition tried_again :: "gotenberg \<Rightarrow> string \<Rightarrow> nat \<Rightarrow> bool" where
  "tried_again g html k \<longleftrightarrow> \<not> gb_cancelled g (Suc k) \<and> (case gb_respond g html k of
     NoResponse \<Rightarrow> True | GbResponse status _ \<Rightarrow> worth_retry status)"

lemma gb_attempts_cancelled: "0 < n \<Longrightarrow> gb_cancelled g n \<Longrightarrow> gb_attempts g html k n prev \<noteq> Inr pdf"
  by (cases k) simp_all

lemma gb_attempts_ok:
  assumes "0 < n \<longrightarrow> \<not> gb_cancelled g n"
  shows "gb_attempts g html k n prev = Inr pdf \<longleftrightarrow>
     (\<exists>m < k. gb_respond g html (n + m) = GbResponse 200 (Some pdf) \<and> (\<forall>j < m. tried_again g html (n + j)))"
  using assms
proof (induction k arbitrary: n prev)
  case (Suc k)
  define P where "P m \<longleftrightarrow> gb_respond g html (n + m) = GbResponse 200 (Some pdf)" for m
  define T where "T j \<longleftrightarrow> tried_again g html (n + j)" for j
  define later where "later \<longleftrightarrow> (\<exists>m < k. P (Suc m) \<and> (\<forall>j < m. T (Suc j)))"
  have next_one: "gb_attempts g html k (Suc n) pr = Inr pdf \<longleftrightarrow> \<not> gb_cancelled g (Suc n) \<and> later" for pr
    using gb_attempts_cancelled [of "Suc n" g html k pr pdf] Suc.IH [of "Suc n" pr]
    by (cases "gb_cancelled g (Suc n)") (auto simp: later_def P_def T_def)
  have proceed: "(0 < n \<and> gb_cancelled g n) = False" using Suc.prems by blast
  have "(\<exists>m < Suc k. P m \<and> (\<forall>j < m. T j)) \<longleftrightarrow> P 0 \<or> T 0 \<and> later"
    by (auto simp: Ex_less_Suc2 All_less_Suc2 later_def)
  moreover have "gb_attempts g html (Suc k) n prev = Inr pdf \<longleftrightarrow> P 0 \<or> T 0 \<and> later"
  proof (cases "gb_respond g html n")
    case NoResponse
    then show ?thesis unfolding gb_attempts.simps(2) proceed if_False
      by (simp add: next_one P_def T_def tried_again_def)
  next
    case (GbResponse status body)
    then show ?thesis unfolding gb_attempts.simps(2) proceed if_False
      by (cases "status = 200"; cases "worth_retry status")
        (auto simp: next_one P_def T_def tried_again_def worth_retry_def split: option.split)
  qed
  ultimately show ?case by (simp add: P_def T_def)
qed simp

text \<open>C37. The conversion of a document always comes to an end, after at most three attempts, and answers with
  a document exactly when the service delivered one to the first attempt that was not met by silence, a
  failure of the server, a time-out or a request to slow down; any other refusal is final.\<close>

theorem conversion_ends:
  "HTMLToPDF g html = Inr pdf \<longleftrightarrow> gb_url g \<noteq> [] \<and>
     (\<exists>m < 3. gb_respond g html m = GbResponse 200 (Some pdf) \<and> (\<forall>j < m. tried_again g html j))"
  using gb_attempts_ok [of 0 g html 3] by (simp add: HTMLToPDF_def)

text \<open>A service that is restarted: a failure, silence, the document.\<close>

definition sample_gotenberg :: gotenberg where
  "sample_gotenberg = \<lparr>gb_url = ''http://gotenberg:3000'', gb_cancelled = (\<lambda>_. False),
     gb_respond = (\<lambda>html n. if n = 0 then GbResponse 503 (Some []) else if n = 1 then NoResponse
       else GbResponse 200 (Some ''%PDF''))\<rparr>"

theorem conversion_ends_witness:
  "HTMLToPDF sample_gotenberg ''<p>'' = Inr ''%PDF''"
proof -
  have "tried_again sample_gotenberg ''<p>'' 0" "tried_again sample_gotenberg ''<p>'' 1"
    by (simp_all add: tried_again_def sample_gotenberg_def worth_retry_def)
  then have "\<forall>j < 2. tried_again sample_gotenberg ''<p>'' j" by (auto simp: less_2_cases_iff)
  then show ?thesis
    by (intro conversion_ends [THEN iffD2] conjI exI [of _ 2]) (simp_all add: sample_gotenberg_def)
qed

section \<open>Attachments\<close>

lemma concat_in_lines: "concat (in_lines n s) = s"
  by (induction n s rule: in_lines.induct) simp_all

lemma in_lines_bounds: "l \<in> set (in_lines n s) \<Longrightarrow> l \<noteq> [] \<and> length l \<le> Suc n"
  by (induction n s rule: in_lines.induct) auto

lemma b64_decode_lines: "b64_decode (concat (map (\<lambda>l. l @ crlf) ls)) = b64_decode (concat ls)"
proof -
  have "CHR 0x0A = char_of (10 :: nat)" "CHR 0x0D = char_of (13 :: nat)" by code_simp+
  then have "filter (\<lambda>c. c \<noteq> char_of (10 :: nat) \<and> c \<noteq> char_of (13 :: nat)) (concat (map (\<lambda>l. l @ crlf) ls)) =
      filter (\<lambda>c. c \<noteq> char_of (10 :: nat) \<and> c \<noteq> char_of (13 :: nat)) (concat ls)"
    by (induction ls) auto
  then show ?thesis by (simp add: b64_decode_def)
qed

text \<open>The body of a part of the message, in lines of at most 76 characters, is the attachment.\<close>

lemma attachment_decodes:
  obtains h ls where "attachment_part a = h @ concat (map (\<lambda>l. l @ crlf) ls) @ crlf"
    and "\<forall>l \<in> set ls. l \<noteq> [] \<and> length l \<le> 76"
    and "b64_decode (concat (map (\<lambda>l. l @ crlf) ls)) = Some (at_content a)"
proof
  let ?ls = "in_lines 75 (b64_encode (at_content a))"
  show "attachment_part a = (''--'' @ mixed_boundary @ crlf @
     ''Content-Type: '' @ (if at_mime a = [] then ''application/octet-stream'' else at_mime a) @ crlf @
     ''Content-Transfer-Encoding: base64'' @ crlf @
     ''Content-Disposition: attachment; filename='' @ go_quote (at_name a) @ crlf @ crlf) @
     concat (map (\<lambda>l. l @ crlf) ?ls) @ crlf"
    unfolding attachment_part_def append_assoc by (rule refl)
  show "\<forall>l \<in> set ?ls. l \<noteq> [] \<and> length l \<le> 76" using in_lines_bounds [of _ 75] by auto
  show "b64_decode (concat (map (\<lambda>l. l @ crlf) ?ls)) = Some (at_content a)"
    unfolding b64_decode_lines concat_in_lines by simp
qed

end
