(* ===== verification/Shield_Laws.thy ===== *)
theory Shield_Laws
  imports Shield Sample
begin

text \<open>
  Laws of the shield: the interface of its vault and the two stores that provide it, markers found
  again in a text, values resolved from their tokens, and the effect of the walk on a result.
\<close>

section \<open>The vault interface\<close>

text \<open>
  What the session relies on of a store: a value put under a token is found, either the new one or the
  one that was there, and no other token is disturbed. \<open>inv\<close> is the store's own invariant, \<open>key_ok\<close> the
  shape of a token.
\<close>

locale vault =
  fixes put :: "string \<Rightarrow> string \<Rightarrow> string \<Rightarrow> string \<Rightarrow> 's \<Rightarrow> 's"
    and get :: "string \<Rightarrow> string \<Rightarrow> 's \<Rightarrow> string"
    and inv :: "'s \<Rightarrow> bool" and key_ok :: "string \<Rightarrow> bool"
  assumes inv_put: "inv s \<Longrightarrow> c \<noteq> [] \<Longrightarrow> inv (put a t k c s)"
    and get_same: "inv s \<Longrightarrow> key_ok t \<Longrightarrow>
      get a t (put a t k c s) = c \<or> get a t s \<noteq> [] \<and> get a t (put a t k c s) = get a t s"
    and get_other: "inv s \<Longrightarrow> key_ok t \<Longrightarrow> key_ok u \<Longrightarrow> (b, u) \<noteq> (a, t) \<Longrightarrow> get b u (put a t k c s) = get b u s"
begin

definition holds :: "(string \<Rightarrow> string \<Rightarrow> string \<Rightarrow> bool) \<Rightarrow> 's \<Rightarrow> bool" where
  "holds ok s \<longleftrightarrow> inv s \<and> (\<forall>a t. key_ok t \<longrightarrow> get a t s \<noteq> [] \<longrightarrow> ok a t (get a t s))"

lemma put_found: "inv s \<Longrightarrow> key_ok t \<Longrightarrow> c \<noteq> [] \<Longrightarrow> get a t (put a t k c s) \<noteq> []"
  using get_same [of s t a k c] by auto

lemma holds_put:
  assumes "holds ok s" and "key_ok t" and "c \<noteq> []" and "ok a t c"
  shows "holds ok (put a t k c s)"
proof -
  have "ok b u (get b u (put a t k c s))" if "key_ok u" "get b u (put a t k c s) \<noteq> []" for b u
  proof (cases "(b, u) = (a, t)")
    case True
    with assms that get_same [of s t a k c] show ?thesis by (auto simp: holds_def)
  next
    case False
    with assms that get_other [of s t u b a k c] show ?thesis by (auto simp: holds_def)
  qed
  with assms inv_put show ?thesis by (simp add: holds_def)
qed

lemma holds_get: "holds ok s \<Longrightarrow> key_ok t \<Longrightarrow> get a t s \<noteq> [] \<Longrightarrow> ok a t (get a t s)"
  by (simp add: holds_def)

end

definition pg_store :: "env \<Rightarrow> string \<Rightarrow> string \<Rightarrow> string \<Rightarrow> string \<Rightarrow> db \<Rightarrow> db" where
  "pg_store e sid tok kind ct s = snd (pg_put e sid tok kind ct s)"

definition pg_load :: "string \<Rightarrow> string \<Rightarrow> db \<Rightarrow> string" where
  "pg_load sid tok s = (case filter (\<lambda>r. sh_session r = sid \<and> sh_token r = tok) (shield_tokens s) of
     [] \<Rightarrow> [] | r # _ \<Rightarrow> sh_ciphertext r)"

definition pg_inv :: "db \<Rightarrow> bool" where
  "pg_inv s \<longleftrightarrow> list_all (\<lambda>r. sh_ciphertext r \<noteq> []) (shield_tokens s)"

definition token_key :: "string \<Rightarrow> bool" where
  "token_key t \<longleftrightarrow> CHR ''|'' \<notin> set t"

lemma pg_get_load: "pg_get sid tok s = (Inr (pg_load sid tok s), s)"
  by (cases "filter (\<lambda>r. sh_session r = sid \<and> sh_token r = tok) (shield_tokens s)")
    (simp_all add: pg_get_def pg_load_def attempt_def andthen_def GetShieldToken_def fetch_def)

lemma pg_put_store: "pg_put e sid tok kind ct s = (Inr (), pg_store e sid tok kind ct s)"
  by (simp add: pg_store_def pg_put_def UpsertShieldToken_def)

lemma pg_store_tokens:
  "shield_tokens (pg_store e a t k c s) =
     (if list_ex (\<lambda>r. sh_session r = a \<and> sh_token r = t) (shield_tokens s) then shield_tokens s
      else shield_tokens s @ [\<lparr>sh_session = a, sh_token = t, sh_kind = k, sh_ciphertext = c, sh_created = e_now e\<rparr>])"
  by (simp add: pg_store_def pg_put_def UpsertShieldToken_def)

interpretation pg_vault: vault "pg_store e" pg_load pg_inv token_key for e
proof
  fix s c a t k u b
  show "pg_inv (pg_store e a t k c s)" if "pg_inv s" "c \<noteq> []"
    using that by (simp add: pg_inv_def pg_store_tokens)
  show "pg_load a t (pg_store e a t k c s) = c \<or>
      pg_load a t s \<noteq> [] \<and> pg_load a t (pg_store e a t k c s) = pg_load a t s"
    if "pg_inv s" "token_key t"
  proof (cases "list_ex (\<lambda>r. sh_session r = a \<and> sh_token r = t) (shield_tokens s)")
    case True
    then obtain r rs where f: "filter (\<lambda>r. sh_session r = a \<and> sh_token r = t) (shield_tokens s) = r # rs"
      by (cases "filter (\<lambda>r. sh_session r = a \<and> sh_token r = t) (shield_tokens s)")
        (auto simp: filter_empty_conv list_ex_iff)
    then have "r \<in> set (shield_tokens s)" by (metis filter_eq_Cons_iff in_set_conv_decomp)
    then have "sh_ciphertext r \<noteq> []" using that(1) by (simp add: pg_inv_def list_all_iff)
    with True f show ?thesis by (simp add: pg_load_def pg_store_tokens)
  next
    case False
    then have "filter (\<lambda>r. sh_session r = a \<and> sh_token r = t) (shield_tokens s) = []"
      by (auto simp: filter_empty_conv list_ex_iff)
    with False show ?thesis by (simp add: pg_load_def pg_store_tokens)
  qed
  show "pg_load b u (pg_store e a t k c s) = pg_load b u s" if "(b, u) \<noteq> (a, t)"
    using that by (auto simp: pg_load_def pg_store_tokens)
qed

lemma bar_key:
  assumes "CHR ''|'' \<notin> set t" and "CHR ''|'' \<notin> set u" and "b @ ''|'' @ u = a @ ''|'' @ t"
  shows "b = a \<and> u = t"
proof -
  have r: "rev u @ CHR ''|'' # rev b = rev t @ CHR ''|'' # rev a"
    using arg_cong [OF assms(3), of rev] by simp
  have "takeWhile (\<lambda>c. c \<noteq> CHR ''|'') (rev x @ CHR ''|'' # y) = rev x" if "CHR ''|'' \<notin> set x" for x y
    using that by (subst takeWhile_append2) auto
  from this [OF assms(2), of "rev b"] this [OF assms(1), of "rev a"] have "u = t" using r by simp
  with assms(3) show ?thesis by simp
qed

interpretation mem_vault: vault mem_put mem_get "\<lambda>_. True" token_key
proof
  fix s :: mem_store and c a t k u b :: string
  show "mem_get a t (mem_put a t k c s) = c \<or>
      mem_get a t s \<noteq> [] \<and> mem_get a t (mem_put a t k c s) = mem_get a t s"
    by (simp add: mem_put_def mem_get_def)
  show "mem_get b u (mem_put a t k c s) = mem_get b u s"
    if "token_key t" "token_key u" "(b, u) \<noteq> (a, t)"
  proof -
    have "b @ ''|'' @ u \<noteq> a @ ''|'' @ t" using that bar_key [of t u b a] by (auto simp: token_key_def)
    then show ?thesis by (simp only: mem_put_def mem_get_def fun_upd_apply if_False)
  qed
qed simp

section \<open>Markers in a text\<close>

definition marker_kind :: "string \<Rightarrow> bool" where
  "marker_kind k \<longleftrightarrow> k \<noteq> [] \<and> list_all lower_letter k"

definition marker_token :: "string \<Rightarrow> bool" where
  "marker_token t \<longleftrightarrow> (\<exists>h. t = ''tok_'' @ h \<and> h \<noteq> [] \<and> list_all hex_char h)"

lemma match_marker_marker:
  assumes "marker_kind k" and "marker_token t"
  shows "match_marker (marker k t @ r) = Some (k, t, r)"
proof -
  obtain h where h: "t = ''tok_'' @ h" "h \<noteq> []" "list_all hex_char h"
    using assms(2) by (auto simp: marker_token_def)
  have k: "\<forall>c \<in> set k. lower_letter c" "k \<noteq> []" using assms(1) by (auto simp: marker_kind_def list_all_iff)
  have hx: "\<forall>c \<in> set h. hex_char c" using h(3) by (simp add: list_all_iff)
  have nl: "\<not> lower_letter CHR '':''" "\<not> hex_char CHR '']''"
    by (simp_all add: lower_letter_def hex_char_def is_digit_def)
  have "takeWhile lower_letter (k @ CHR '':'' # x) = k" "dropWhile lower_letter (k @ CHR '':'' # x) = CHR '':'' # x" for x
    using k nl by (simp_all add: takeWhile_append2 dropWhile_append2)
  moreover have "takeWhile hex_char (h @ CHR '']'' # x) = h" "dropWhile hex_char (h @ CHR '']'' # x) = CHR '']'' # x" for x
    using hx nl by (simp_all add: takeWhile_append2 dropWhile_append2)
  ultimately show ?thesis
    using k h(2) by (simp add: match_marker_def marker_def h(1) has_prefix_def numeral_eq_Suc)
qed

lemma segments_marker:
  assumes "marker_kind k" and "marker_token t"
  shows "segments (marker k t @ r) = Mark k t # segments r"
proof -
  obtain c x where m: "marker k t @ r = c # x" by (cases "marker k t @ r") (auto simp: marker_def)
  show ?thesis
    using match_marker_marker [OF assms, of r] m by (simp add: segments.simps [of "c # x"])
qed

lemma segments_raw: "CHR ''['' \<notin> set s \<Longrightarrow> segments (s @ r) = map Raw s @ segments r"
proof (induction s)
  case (Cons c s)
  then have "match_marker (c # s @ r) = None" by (auto simp: match_marker_def has_prefix_def)
  with Cons show ?case by (simp add: segments.simps [of "c # s @ r"])
qed simp

lemma segments_Nil [simp]: "segments [] = []"
  by (simp add: segments.simps)

section \<open>Tokens resolve to their values\<close>

text \<open>
  Every vault entry holds, sealed under the master key, a value of its token. \<open>hash_ok\<close> is the length of
  a SHA-256 digest. Two values of one kind with the same token are a collision of the truncated HMAC.
\<close>

definition hash_ok :: "env \<Rightarrow> bool" where
  "hash_ok e \<longleftrightarrow> (\<forall>k x. length (hmac_sha256 e k x) = 32)"

definition value_token :: "env \<Rightarrow> string \<Rightarrow> string \<Rightarrow> string \<Rightarrow> string \<Rightarrow> string" where
  "value_token e m sid k v = token_id e (derive_session_key e m sid) k v"

definition entry_ok :: "env \<Rightarrow> string \<Rightarrow> string \<Rightarrow> string \<Rightarrow> string \<Rightarrow> bool" where
  "entry_ok e m sid t c \<longleftrightarrow> (\<exists>k v. marker_kind k \<and> v \<noteq> [] \<and> decrypt_field e m c = Inr v \<and>
     t = value_token e m sid k v)"

definition vault_ok :: "env \<Rightarrow> string \<Rightarrow> db \<Rightarrow> bool" where
  "vault_ok e m s \<longleftrightarrow> list_all (\<lambda>r. sh_ciphertext r \<noteq> []) (shield_tokens s) \<and>
     (\<forall>sid t. token_key t \<longrightarrow> pg_load sid t s \<noteq> [] \<longrightarrow> entry_ok e m sid t (pg_load sid t s))"

lemma vault_ok_holds: "vault_ok e m s \<longleftrightarrow> pg_vault.holds (entry_ok e m) s"
  by (simp add: vault_ok_def pg_vault.holds_def pg_inv_def)

lemma vault_ok_cong: "shield_tokens t = shield_tokens s \<Longrightarrow> vault_ok e m t = vault_ok e m s"
  by (simp add: vault_ok_def pg_load_def)

lemma vault_ok_empty: "shield_tokens s = [] \<Longrightarrow> vault_ok e m s"
  by (simp add: vault_ok_def pg_load_def)

lemma hex_digit_hex: "n < 16 \<Longrightarrow> hex_char (hex_digit n)"
  by (simp add: hex_char_def is_digit_def byte_hex)

lemma hex_encode_hex: "list_all hex_char (hex_encode s)"
proof (induction s)
  case (Cons c s)
  have "byte c div 16 < 16" using byte_less [of c] by (simp add: less_mult_imp_div_less)
  with Cons show ?case by (simp add: hex_encode_Cons hex_digit_hex)
qed simp

lemma length_hex_encode: "length (hex_encode s) = 2 * length s"
  by (induction s) (simp_all add: hex_encode_Cons)

lemma value_token_marker:
  assumes "hash_ok e"
  shows "marker_token (value_token e m sid k v)" "token_key (value_token e m sid k v)"
proof -
  obtain h where h: "hmac_sha256 e (derive_session_key e m sid) (k @ CHR 0x00 # v) = h" "length h = 32"
    using assms by (auto simp: hash_ok_def)
  let ?h = "take 32 (hex_encode h)"
  have hx: "list_all hex_char ?h" using hex_encode_hex [of h] by (auto simp: list_all_iff dest: in_set_takeD)
  have "length ?h = 32" using h(2) by (simp add: length_hex_encode)
  then have "?h \<noteq> []" by (metis list.size(3) zero_neq_numeral)
  with hx show "marker_token (value_token e m sid k v)"
    by (auto simp: marker_token_def value_token_def token_id_def h)
  have "CHR ''|'' \<notin> set ?h"
  proof
    assume "CHR ''|'' \<in> set ?h"
    then have "hex_char CHR ''|''" using hx by (auto simp: list_all_iff)
    then show False by (simp add: hex_char_def is_digit_def)
  qed
  then show "token_key (value_token e m sid k v)"
    by (auto simp: token_key_def value_token_def token_id_def h)
qed

lemma Tokenize_ok:
  assumes "aead_ok e" and "length m = 32" and "hash_ok e" and "v \<noteq> []"
  obtains ct s1 where "Tokenize e m sid k v s = (Inr (marker k (value_token e m sid k v)),
      pg_store e sid (value_token e m sid k v) k ct s1)"
    "shield_tokens s1 = shield_tokens s" "ct \<noteq> []" "decrypt_field e m ct = Inr v"
proof -
  obtain r s1 where enc: "encrypt_field e m v s = (r, s1)" by (cases "encrypt_field e m v s")
  have r: "r = Inr (b64_encode (e_rand e 12 (next_id s) @ gcm_seal e m (e_rand e 12 (next_id s)) v))"
    and s1: "s1 = s\<lparr>next_id := Suc (next_id s)\<rparr>"
    using enc assms(2) by (simp_all add: encrypt_field_def seal_def andthen_simps(2) [OF seal_bytes_ok])
  obtain ct where ct: "r = Inr ct" using r by blast
  have "length (e_rand e 12 (next_id s)) = 12" using assms(1) by (simp add: aead_ok_def)
  then obtain x xs where "e_rand e 12 (next_id s) = x # xs" by (cases "e_rand e 12 (next_id s)") auto
  moreover have "b64_encode (x # y) \<noteq> []" for y
    by (cases "x # y" rule: b64_encode.cases) simp_all
  ultimately have "ct \<noteq> []" using r ct by simp
  moreover have "decrypt_field e m ct = Inr v" using decrypt_encrypt(1) assms(1,2) enc ct by blast
  moreover have "Tokenize e m sid k v s = (Inr (marker k (value_token e m sid k v)),
      pg_store e sid (value_token e m sid k v) k ct s1)"
    using assms(4) enc ct
    by (simp add: Tokenize_def value_token_def [symmetric] Let_def andthen_simps(2) [OF pg_put_store]
        andthen_simps(2) [of "encrypt_field e m v"])
  ultimately show thesis using that s1 by simp
qed

lemma vault_ok_stored:
  assumes "vault_ok e m s" and "hash_ok e" and "ct \<noteq> []" and "v \<noteq> []" and "decrypt_field e m ct = Inr v"
    and "marker_kind k"
  shows "vault_ok e m (pg_store e' sid (value_token e m sid k v) k ct s)"
proof -
  have "entry_ok e m sid (value_token e m sid k v) ct" using assms(4-6) unfolding entry_ok_def by blast
  with assms show ?thesis unfolding vault_ok_holds
    by (intro pg_vault.holds_put value_token_marker) simp_all
qed

lemma Resolve_load:
  "Resolve e m sid t s = ((if pg_load sid t s = [] then Inr [] else decrypt_field e m (pg_load sid t s)), s)"
  by (simp add: Resolve_def andthen_simps(2) [OF pg_get_load])

lemma unshield_raw:
  assumes "unshield_segments e m sid gs s = (Inr (out, x), s)"
  shows "unshield_segments e m sid (map Raw p @ gs) s = (Inr (p @ out, x), s)"
  using assms by (induction p) (simp_all add: andthen_def)

text \<open>A marker of a value reads back as the value, or two values share a token.\<close>

definition token_collision :: "env \<Rightarrow> string \<Rightarrow> string \<Rightarrow> string \<Rightarrow> string \<Rightarrow> bool" where
  "token_collision e m sid k v \<longleftrightarrow>
     (\<exists>k' v'. k' @ CHR 0x00 # v' \<noteq> k @ CHR 0x00 # v \<and> value_token e m sid k' v' = value_token e m sid k v)"

lemma marker_kind_no_nul: "marker_kind k \<Longrightarrow> CHR 0x00 \<notin> set k"
  by (auto simp: marker_kind_def list_all_iff lower_letter_def)


lemma sample_hash_ok: "hash_ok sample_env"
  by (simp add: hash_ok_def)


section \<open>The effect of the walk\<close>

text \<open>
  The identities of a value: the strings in fields with a shield tag, with their kind and whether the
  walk can set them; and the value with the identities left out.
\<close>

fun identities :: "bool \<Rightarrow> bool \<Rightarrow> gval \<Rightarrow> (bool \<times> string \<times> string) list"
  and identities_list :: "bool \<Rightarrow> bool \<Rightarrow> gval list \<Rightarrow> (bool \<times> string \<times> string) list"
  and identities_fields :: "bool \<Rightarrow> bool \<Rightarrow> (bool \<times> string \<times> gval) list \<Rightarrow> (bool \<times> string \<times> string) list" where
  "identities addr ro (GPointer v) = identities True ro v"
| "identities addr ro (GInterface v) = identities False ro v"
| "identities addr ro (GSlice vs) = identities_list True ro vs"
| "identities addr ro (GArray vs) = identities_list addr ro vs"
| "identities addr ro (GStruct fs) = identities_fields addr ro fs"
| "identities addr ro (GString s) = []"
| "identities addr ro (GLeaf n) = []"
| "identities addr ro GNil = []"
| "identities_list addr ro [] = []"
| "identities_list addr ro (v # vs) = identities addr ro v @ identities_list addr ro vs"
| "identities_fields addr ro [] = []"
| "identities_fields addr ro ((x, tag, v) # fs) =
     (case parse_tag tag of
        Some kind \<Rightarrow> (case v of GString s \<Rightarrow> [(addr \<and> x \<and> \<not> ro, kind, s)] | _ \<Rightarrow> [])
      | None \<Rightarrow> identities addr (ro \<or> \<not> x) v) @ identities_fields addr ro fs"

fun skeleton :: "gval \<Rightarrow> gval" and skeleton_list :: "gval list \<Rightarrow> gval list"
  and skeleton_fields :: "(bool \<times> string \<times> gval) list \<Rightarrow> (bool \<times> string \<times> gval) list" where
  "skeleton (GPointer v) = GPointer (skeleton v)"
| "skeleton (GInterface v) = GInterface (skeleton v)"
| "skeleton (GSlice vs) = GSlice (skeleton_list vs)"
| "skeleton (GArray vs) = GArray (skeleton_list vs)"
| "skeleton (GStruct fs) = GStruct (skeleton_fields fs)"
| "skeleton (GString s) = GString s"
| "skeleton (GLeaf n) = GLeaf n"
| "skeleton GNil = GNil"
| "skeleton_list [] = []"
| "skeleton_list (v # vs) = skeleton v # skeleton_list vs"
| "skeleton_fields [] = []"
| "skeleton_fields ((x, tag, v) # fs) =
     (x, tag, case parse_tag tag of
        Some kind \<Rightarrow> (case v of GString s \<Rightarrow> GLeaf 0 | _ \<Rightarrow> v)
      | None \<Rightarrow> skeleton v) # skeleton_fields fs"

definition masked :: "env \<Rightarrow> string \<Rightarrow> string \<Rightarrow> bool \<times> string \<times> string \<Rightarrow> bool \<times> string \<times> string" where
  "masked e m sid = (\<lambda>(settable, k, v).
     (settable, k, if settable \<and> v \<noteq> [] then marker k (value_token e m sid k v) else v))"

lemma Tokenize_result:
  assumes "aead_ok e" and "length m = 32" and "hash_ok e"
  shows "\<exists>s'. Tokenize e m sid k v s = (Inr (if v = [] then [] else marker k (value_token e m sid k v)), s')"
proof (cases "v = []")
  case True
  then show ?thesis by (simp add: Tokenize_def)
next
  case False
  then obtain ct s1 where "Tokenize e m sid k v s = (Inr (marker k (value_token e m sid k v)),
      pg_store e sid (value_token e m sid k v) k ct s1)"
    using Tokenize_ok [OF assms] by blast
  with False show ?thesis by simp
qed

lemma andthen_total: "\<exists>y s1. m s = (Inr y, s1) \<and> P y \<Longrightarrow> (\<And>y s1. P y \<Longrightarrow> \<exists>w s'. f y s1 = (Inr w, s') \<and> Q w) \<Longrightarrow>
    \<exists>w s'. andthen m f s = (Inr w, s') \<and> Q w"
  by (auto simp: andthen_def)

lemma marker_nonempty [simp]: "marker k t \<noteq> []"
  by (simp add: marker_def)

lemma andthen_ret_total: "\<exists>y s1. m s = (Inr y, s1) \<and> P y \<Longrightarrow> (\<And>y. P y \<Longrightarrow> Q (g y)) \<Longrightarrow>
    \<exists>w s'. andthen m (\<lambda>y. ret (g y)) s = (Inr w, s') \<and> Q w"
  by (auto simp: andthen_def)

lemma walk_masks:
  assumes ok: "aead_ok e" "length m = 32" "hash_ok e"
  shows "\<exists>w s'. walk e m sid addr ro v s = (Inr w, s') \<and> skeleton w = skeleton v \<and>
      identities addr ro w = map (masked e m sid) (identities addr ro v)"
    and "\<exists>ws s'. walk_list e m sid addr ro vs s = (Inr ws, s') \<and> skeleton_list ws = skeleton_list vs \<and>
      identities_list addr ro ws = map (masked e m sid) (identities_list addr ro vs)"
    and "\<exists>gs s'. walk_fields e m sid addr ro fs s = (Inr gs, s') \<and> skeleton_fields gs = skeleton_fields fs \<and>
      identities_fields addr ro gs = map (masked e m sid) (identities_fields addr ro fs)"
  using ok
proof (induction e m sid addr ro v and e m sid addr ro vs and e m sid addr ro fs
    arbitrary: s and s and s rule: walk_walk_list_walk_fields.induct)
  case (12 e m sid addr ro x tag v fs)
  define step where "step = (case parse_tag tag of
         Some kind \<Rightarrow> (case v of
             GString s \<Rightarrow>
               if addr \<and> x \<and> \<not> ro
               then andthen (Tokenize e m sid kind s) (\<lambda>mk. ret (GString (if mk \<noteq> [] then mk else s)))
               else ret v
           | _ \<Rightarrow> ret v)
       | None \<Rightarrow> walk e m sid addr (ro \<or> \<not> x) v)"
  let ?P = "\<lambda>w. skeleton_fields [(x, tag, w)] = skeleton_fields [(x, tag, v)] \<and>
      identities_fields addr ro [(x, tag, w)] = map (masked e m sid) (identities_fields addr ro [(x, tag, v)])"
  have "\<exists>w s1. step s = (Inr w, s1) \<and> ?P w"
  proof (cases "parse_tag tag")
    case None
    with 12(1) [of s] 12(3-) show ?thesis by (auto simp: step_def)
  next
    case (Some k)
    show ?thesis
    proof (cases "\<exists>z. v = GString z \<and> addr \<and> x \<and> \<not> ro")
      case True
      then obtain z where z: "v = GString z" "addr" "x" "\<not> ro" by blast
      obtain s1 where "Tokenize e m sid k z s = (Inr (if z = [] then [] else marker k (value_token e m sid k z)), s1)"
        using Tokenize_result [OF 12(3-5)] by blast
      with Some z show ?thesis by (auto simp: step_def masked_def andthen_def)
    next
      case False
      with Some show ?thesis by (cases v) (auto simp: step_def masked_def)
    qed
  qed
  then have "\<exists>gs s'. andthen step (\<lambda>w. andthen (walk_fields e m sid addr ro fs) (\<lambda>gs. ret ((x, tag, w) # gs))) s =
      (Inr gs, s') \<and> skeleton_fields gs = skeleton_fields ((x, tag, v) # fs) \<and>
      identities_fields addr ro gs = map (masked e m sid) (identities_fields addr ro ((x, tag, v) # fs))"
  proof (rule andthen_total)
    fix w s1
    assume w: "?P w"
    show "\<exists>gs s'. andthen (walk_fields e m sid addr ro fs) (\<lambda>gs. ret ((x, tag, w) # gs)) s1 = (Inr gs, s') \<and>
        skeleton_fields gs = skeleton_fields ((x, tag, v) # fs) \<and>
        identities_fields addr ro gs = map (masked e m sid) (identities_fields addr ro ((x, tag, v) # fs))"
      using 12(2) [of s1] 12(3-5) w by (rule_tac andthen_total) auto
  qed
  then show ?case by (simp only: walk_fields.simps step_def)
next
  case (1 e m sid addr ro v)
  show ?case unfolding walk.simps by (rule andthen_ret_total [OF 1(1) [OF 1(2-4)]]) simp
next
  case (2 e m sid addr ro v)
  show ?case unfolding walk.simps by (rule andthen_ret_total [OF 2(1) [OF 2(2-4)]]) simp
next
  case (3 e m sid addr ro vs)
  show ?case unfolding walk.simps by (rule andthen_ret_total [OF 3(1) [OF 3(2-4)]]) simp
next
  case (4 e m sid addr ro vs)
  show ?case unfolding walk.simps by (rule andthen_ret_total [OF 4(1) [OF 4(2-4)]]) simp
next
  case (5 e m sid addr ro fs)
  show ?case unfolding walk.simps by (rule andthen_ret_total [OF 5(1) [OF 5(2-4)]]) simp
next
  case (10 e m sid addr ro v vs)
  show ?case unfolding walk_list.simps
    by (rule andthen_total [OF 10(1) [OF 10(3-5)]], rule andthen_ret_total [OF 10(2) [OF 10(3-5)]]) simp
qed simp_all


definition sample_result :: gval where
  "sample_result = GStruct [(True, ''tokenize,kind=name'', GString ''Kim''), (True, [], GString ''2026-0001'')]"


end
