(* ===== verification/Mcp_Laws.thy ===== *)
theory Mcp_Laws
  imports Mcp Shield_Laws Invoice_Laws
begin

text \<open>
  What an assistant can do through the endpoint: nothing without the key, at most one bounded entry in the
  books per request, signed in the audit log, and no identity in what it is told.
\<close>

section \<open>Signed entries\<close>

text \<open>A program is signed when every entry it adds to the audit log names the actor of the environment.\<close>

definition signed :: "env \<Rightarrow> db \<Rightarrow> db \<Rightarrow> bool" where
  "signed e s t \<longleftrightarrow> (\<exists>as. audit_log t = audit_log s @ as \<and>
     list_all (\<lambda>a. (au_actor a, au_actor_detail a) = actor_from e) as)"

interpretation signed: change "signed e" for e
proof
  show "signed e s s" for s by (simp add: signed_def)
  show "signed e s u" if "signed e s t" "signed e t u" for s t u
  proof -
    from that obtain as bs where "audit_log t = audit_log s @ as" "audit_log u = audit_log t @ bs"
      "list_all (\<lambda>a. (au_actor a, au_actor_detail a) = actor_from e) (as @ bs)"
      unfolding signed_def by auto
    then show ?thesis unfolding signed_def by (intro exI [of _ "as @ bs"]) simp
  qed
qed

lemma signed_quiet: "keeps same_audit m \<Longrightarrow> keeps (signed e) m"
  by (erule keeps_weaken) (simp add: same_audit_def signed_def)

lemma log_audit_signed: "keeps (signed e) (log_audit e c a tt ti d)"
  unfolding keeps_def
proof
  fix s
  obtain r s' where r: "log_audit e c a tt ti d s = (r, s')" by (cases "log_audit e c a tt ti d s")
  show "signed e s (snd (log_audit e c a tt ti d s))"
  proof (cases r)
    case (Inl x)
    have "s' = s" by (rule log_audit_error [OF r [unfolded Inl]])
    with r show ?thesis by (simp add: signed.change_refl)
  next
    case (Inr u)
    have "s' = s\<lparr>audit_log := audit_log s @ [audit_entry_row e c a tt ti d s], next_id := Suc (next_id s)\<rparr>"
      by (rule log_audit_result [OF r [unfolded Inr unit_eq [of u]]])
    with r show ?thesis by (simp add: signed_def audit_entry_row_def Let_def case_prod_unfold)
  qed
qed

lemma post_same_audit: "keeps same_audit (post_verification e c sr d desc ls rv)"
  unfolding keeps_def
proof
  fix s
  obtain r s' where r: "post_verification e c sr d desc ls rv s = (r, s')"
    by (cases "post_verification e c sr d desc ls rv s")
  then show "same_audit s (snd (post_verification e c sr d desc ls rv s))"
    using post_verification_error [of e c sr d desc ls rv s] post_verification_ok(2) [of e c sr d desc ls rv s]
    by (cases r) (auto simp: same_audit_def posted_def)
qed

lemmas signed_steps = signed.keeps_rules signed.keeps_reading log_audit_signed post_same_audit [THEN signed_quiet]

lemma read_signed: "keeps same_tables m \<Longrightarrow> keeps (signed e) m"
  by (erule keeps_weaken) (simp add: same_tables_def signed_def)

lemma write_tools_signed:
  "keeps (signed e) (PostVerification e c sr d desc ls rv)"
  "keeps (signed e) (RecordPaymentByNumber e c number d acct pay)"
  unfolding PostVerification_def RecordPaymentByNumber_def RecordPayment_def payment_tx_def Let_def
  by (rule signed_steps InvoiceForRender_read [THEN read_signed] | (rule signed_quiet; rule keeps_intros))+

section \<open>Tools that only read\<close>

lemma keeps_case_list: "keeps same_tables m \<Longrightarrow> (\<And>x xs. keeps same_tables (n x xs)) \<Longrightarrow>
    keeps same_tables (case l of [] \<Rightarrow> m | x # xs \<Rightarrow> n x xs)"
  by (cases l) simp_all

lemma readers_read:
  "keeps same_tables (TrialBalance c)" "keeps same_tables (TrialBalanceBetween c t1 t2)"
  "keeps same_tables (ListAudit c n)" "keeps same_tables (ExportSIE c t)"
  "keeps same_tables (UnpaidInvoices e c)" "keeps same_tables (MatchOpenInvoices e c x)"
  "keeps same_tables DefaultCompany"
  unfolding TrialBalance_def TrialBalanceBetween_def TrialBalanceAsOf_def ListAudit_def ExportSIE_def UnpaidInvoices_def
    MatchOpenInvoices_def ListInvoiceSummaries_def DefaultCompany_def voucher_of_def Let_def
  by (rule same_tables.keeps_rules same_tables.keeps_reading InvoiceForRender_read keeps_case_list)+

lemma period_balances_read: "keeps same_tables (period_balances c args)"
  unfolding period_balances_def Let_def by (rule same_tables.keeps_rules readers_read)+

lemma reading_tools_read:
  "keeps same_tables (run_overview e c)" "keeps same_tables (run_unpaid e c)"
  "keeps same_tables (run_trial_balance c args)" "keeps same_tables (run_moms c args)"
  "keeps same_tables (run_export_sie e c)" "keeps same_tables (run_audit c)"
  "keeps same_tables (run_match_payment e c args)"
  unfolding run_overview_def run_unpaid_def run_trial_balance_def run_moms_def run_export_sie_def run_audit_def
    run_match_payment_def Let_def
  by (rule same_tables.keeps_rules readers_read period_balances_read)+

section \<open>The shield touches only its own table\<close>

definition untouched :: "db \<Rightarrow> db \<Rightarrow> bool" where
  "untouched s t \<longleftrightarrow> verifications t = verifications s \<and> vlines t = vlines s \<and> audit_log t = audit_log s \<and>
     companies t = companies s"

interpretation untouched: change untouched
  by unfold_locales (simp_all add: untouched_def)

lemma untouched_draws: "keeps draws_only m \<Longrightarrow> keeps untouched m"
  by (erule keeps_weaken) (auto simp: draws_only_def untouched_def)

lemma Tokenize_untouched: "keeps untouched (Tokenize e m sid k v)"
  unfolding Tokenize_def pg_put_def UpsertShieldToken_def Let_def
  by (rule untouched.keeps_rules | (rule untouched_draws, rule keeps_intros) | simp add: untouched_def)+

context change
begin

lemma keeps_walk:
  assumes "\<And>k v. keeps R (Tokenize e m sid k v)"
  shows "keeps R (walk e m sid addr ro v)"
    and "keeps R (walk_list e m sid addr ro vs)"
    and "keeps R (walk_fields e m sid addr ro fs)"
  using assms
proof (induction e m sid addr ro v and e m sid addr ro vs and e m sid addr ro fs
    rule: walk_walk_list_walk_fields.induct)
  case (12 e m sid addr ro x tag v fs)
  then show ?case
    unfolding walk_fields.simps
    by (intro keeps_andthen keeps_case_option keeps_pure)
      (auto split: gval.split intro!: keeps_andthen keeps_pure)
qed (simp_all add: keeps_andthen keeps_pure)

end

lemmas walk_untouched = untouched.keeps_walk [OF Tokenize_untouched]

section \<open>What a request can do to the books\<close>

text \<open>At most one verification is added, whose money is within the ceiling: the whole of what is posted, or
  what is received on the bank account of a payment.\<close>

definition within :: "int64 \<Rightarrow> line list \<Rightarrow> bool" where
  "within maxw ls \<longleftrightarrow> sum_debit ls \<le> sint maxw \<or>
     (\<exists>acct pay rest. ls = debit_line acct pay # rest \<and> 0 < sint pay \<and> sint pay \<le> sint maxw)"

definition one_entry :: "env \<Rightarrow> int64 \<Rightarrow> db \<Rightarrow> db \<Rightarrow> bool" where
  "one_entry e maxw s t \<longleftrightarrow> signed e s t \<and>
     (verifications t = verifications s \<and> vlines t = vlines s \<or>
      (\<exists>v ls. verifications t = verifications s @ [v] \<and> vlines t = vlines s @ map (line_row (v_id v)) ls \<and>
         double_entry ls \<and> (0 < sint maxw \<longrightarrow> within maxw ls)))"

lemma one_entry_untouched: "one_entry e maxw s t \<Longrightarrow> untouched t u \<Longrightarrow> one_entry e maxw s u"
  by (auto simp: one_entry_def untouched_def signed_def)

lemma one_entry_refl: "one_entry e maxw s s"
  by (simp add: one_entry_def signed_def)

lemma read_one_entry: "keeps same_tables m \<Longrightarrow> one_entry e maxw s (snd (m s))"
  using one_entry_refl by (metis keeps_def same_tables_def)

lemma foldl_debits: "foldl (\<lambda>t l. t + debit l) (a :: int64) ls = a + sum_list (map debit ls)"
  by (induction ls arbitrary: a) (simp_all add: add.assoc)

lemma sum_of_checked:
  assumes "double_entry ls"
  shows "sint (foldl (\<lambda>t l. t + debit l) 0 ls) = sum_debit ls"
proof -
  have "validate (bare ls) = None" using assms by (simp add: validate_None_iff bare_def)
  from totals_exact(1) [OF this] show ?thesis by (simp add: totals_def totals_loop_sum bare_def foldl_debits)
qed

lemma PostVerification_ok:
  assumes "PostVerification e c sr d desc ls 0 s = (Inr i, t)"
  shows "double_entry ls" "\<exists>v. v_id v = i \<and> verifications t = verifications s @ [v] \<and> vlines t = vlines s @ map (line_row i) ls"
proof -
  from assms obtain u w where p: "post_verification e c sr d desc ls 0 s = (Inr i, u)"
    and l: "log_audit e c ''post_verification'' ''verification'' (e_uuid_text e i)
      (sr @ '' '' @ amount_string (foldl (\<lambda>t l. t + debit l) 0 ls)) u = (Inr w, t)"
    unfolding PostVerification_def Let_def in_tx_ok andthen_ok ret_def prod.inject sum.inject by blast
  note ok = post_verification_ok [OF p] and t = log_audit_result [OF l [unfolded unit_eq [of w]]]
  show "double_entry ls" by (rule ok)
  show "\<exists>v. v_id v = i \<and> verifications t = verifications s @ [v] \<and> vlines t = vlines s @ map (line_row i) ls"
    by (rule exI [of _ "posted_row e c sr d desc 0 s"]) (simp add: t ok(1,2) posted_def posted_row_def)
qed

lemma payment_plan_first:
  assumes "payment_plan cur paid gross acct pay = Inr (ls, b)"
  shows "\<exists>rest. ls = debit_line acct pay # rest"
  using assms unfolding payment_plan_def Let_def by (auto split: if_splits)

lemma RecordPayment_plan:
  assumes "RecordPayment e c i d acct pay s = (Inr ver, t)"
  obtains row :: invoice_row and ls settled gross where "payment_plan (iv_currency row) (iv_amount_paid row) gross acct pay = Inr (ls, settled)"
    "0 < sint pay" "payment_tx e c i d pay (iv_number row) ls settled s = (Inr ver, t)"
proof -
  from assms obtain row s1 view s2 where get: "GetInvoice i s = (Inr row, s1)" and pos: "0 < sint pay"
    and view: "InvoiceForRender e c i s1 = (Inr view, s2)"
    and rest: "(case payment_plan (iv_currency row) (iv_amount_paid row) (iw_total_sek view) acct pay of
       Inl x \<Rightarrow> fail x | Inr (ls, settled) \<Rightarrow> payment_tx e c i d pay (iv_number row) ls settled) s2 = (Inr ver, t)"
    unfolding RecordPayment_def andthen_ok require_ok by (elim exE conjE) blast
  have "s1 = s" using get by (auto simp: GetInvoice_def fetch_ok)
  moreover have "s2 = s1" by (rule read_state [OF InvoiceForRender_read view])
  ultimately have s2: "s2 = s" by simp
  show thesis
  proof (cases "payment_plan (iv_currency row) (iv_amount_paid row) (iw_total_sek view) acct pay")
    case (Inl x)
    with rest show thesis by simp
  next
    case (Inr p)
    obtain ls settled where p: "p = (ls, settled)" by (cases p)
    show thesis by (rule that [OF Inr [unfolded p] pos]) (use rest in \<open>simp only: Inr p sum.case prod.case s2\<close>)
  qed
qed

lemma RecordPayment_one_entry:
  assumes "RecordPayment e c i d acct pay s = (Inr ver, t)"
  shows "\<exists>v rest. v_id v = ver \<and> verifications t = verifications s @ [v] \<and> 0 < sint pay \<and>
    vlines t = vlines s @ map (line_row ver) (debit_line acct pay # rest) \<and> double_entry (debit_line acct pay # rest)"
  using assms
proof (rule RecordPayment_plan)
  fix row :: invoice_row and ls settled gross
  assume plan: "payment_plan (iv_currency row) (iv_amount_paid row) gross acct pay = Inr (ls, settled)" and pos: "0 < sint pay"
    and tx: "payment_tx e c i d pay (iv_number row) ls settled s = (Inr ver, t)"
  from payment_plan_first [OF plan] obtain rest where ls: "ls = debit_line acct pay # rest" by blast
  note ok = payment_tx_ok [OF tx [unfolded ls]]
  show ?thesis
    by (rule exI [of _ "posted_row e c ''B'' d (''Betalning faktura '' @ iv_number row) 0 s"], rule exI [of _ rest])
      (use ok pos in \<open>simp add: posted_row_def\<close>)
qed

lemma run_post_verification_one_entry:
  "one_entry e maxw s (snd (run_post_verification e c maxw args s))"
proof -
  obtain p ok where p: "unmarshal post_field \<lparr>pa_series = [], pa_date = [], pa_description = [], pa_dry_run = False, pa_lines = []\<rparr> args = (p, ok)"
    by fastforce
  show ?thesis
  proof (cases "ok \<and> \<not> pa_dry_run p \<and> check_ceiling maxw (foldl (\<lambda>t l. t + debit l) 0 (pa_lines p)) \<and> time_parse iso_layout (pa_date p) \<noteq> None")
    case False
    then have "snd (run_post_verification e c maxw args s) = s"
      unfolding run_post_verification_def p by (auto split: option.splits)
    then show ?thesis by (simp add: one_entry_refl)
  next
    case True
    then obtain d where d: "time_parse iso_layout (pa_date p) = Some d" by blast
    let ?post = "PostVerification e c (pa_series p) (midnight d) (pa_description p) (pa_lines p) 0"
    have run: "run_post_verification e c maxw args = andthen ?post (\<lambda>i. ret (post_result (e_uuid_text e i) True False []))"
      unfolding run_post_verification_def p using True d by simp
    obtain q t where q: "?post s = (q, t)" by (cases "?post s")
    have "snd (run_post_verification e c maxw args s) = t" unfolding run by (cases q) (simp_all add: andthen_def q)
    moreover have "one_entry e maxw s t"
    proof (cases q)
      case (Inl x)
      then have "t = s" using q by (simp add: PostVerification_def in_tx_error)
      then show ?thesis by (simp add: one_entry_refl)
    next
      case (Inr i)
      note ok = PostVerification_ok [OF q [unfolded Inr]]
      have "signed e s t" using write_tools_signed(1) q by (metis keeps_def snd_conv)
      moreover have "0 < sint maxw \<longrightarrow> within maxw (pa_lines p)"
        using True sum_of_checked [OF ok(1)] by (auto simp: within_def check_ceiling_def)
      ultimately show ?thesis using ok unfolding one_entry_def by blast
    qed
    ultimately show ?thesis by simp
  qed
qed

lemma RecordPaymentByNumber_cases:
  assumes "RecordPaymentByNumber e c n d acct pay s = (q, t)"
  shows "t = s \<or> (\<exists>i ver. q = Inr ver \<and> RecordPayment e c i d acct pay s = (Inr ver, t))"
proof -
  show ?thesis
  proof (cases q)
    case (Inl x)
    have "atomic (RecordPaymentByNumber e c n d acct pay)" by (rule operations_atomic)
    with assms Inl show ?thesis by (auto simp: atomic_def)
  next
    case (Inr ver)
    obtain r where a: "attempt (GetInvoiceByNumber c n) s = (Inr r, s)"
      by (simp add: attempt_def GetInvoiceByNumber_def case_prod_unfold)
    have "(case r of Inl _ \<Rightarrow> fail ErrInvoiceNotFound | Inr row \<Rightarrow> RecordPayment e c (iv_id row) d acct pay) s = (Inr ver, t)"
      using assms unfolding RecordPaymentByNumber_def Inr andthen_simps(2) [where m = "attempt (GetInvoiceByNumber c n)", OF a] .
    with Inr show ?thesis by (cases r) auto
  qed
qed

lemma run_record_payment_one_entry:
  "one_entry e maxw s (snd (run_record_payment e c maxw args s))"
proof -
  obtain p ok where p: "unmarshal pay_field \<lparr>py_number = [], py_date = [], py_ore = 0, py_account = [], py_dry_run = False\<rparr> args = (p, ok)"
    by fastforce
  show ?thesis
  proof (cases "ok \<and> \<not> py_dry_run p \<and> check_ceiling maxw (py_ore p) \<and> time_parse iso_layout (py_date p) \<noteq> None")
    case False
    then have "snd (run_record_payment e c maxw args s) = s"
      unfolding run_record_payment_def p by (auto simp: Let_def split: option.splits)
    then show ?thesis by (simp add: one_entry_refl)
  next
    case True
    then obtain d where d: "time_parse iso_layout (py_date p) = Some d" by blast
    let ?pay = "RecordPaymentByNumber e c (py_number p) (midnight d) (if py_account p = [] then ''1930'' else py_account p) (py_ore p)"
    have run: "run_record_payment e c maxw args = andthen ?pay (\<lambda>i. ret (payment_result (e_uuid_text e i) (py_number p) True False []))"
      unfolding run_record_payment_def p using True d by simp
    obtain q t where q: "?pay s = (q, t)" by (cases "?pay s")
    have "snd (run_record_payment e c maxw args s) = t" unfolding run by (cases q) (simp_all add: andthen_def q)
    moreover have "one_entry e maxw s t"
    proof (cases "t = s")
      case True
      then show ?thesis by (simp add: one_entry_refl)
    next
      case False
      with RecordPaymentByNumber_cases [OF q] obtain i ver acct where "RecordPayment e c i (midnight d) acct (py_ore p) s = (Inr ver, t)" by blast
      from RecordPayment_one_entry [OF this] obtain v rest where v: "v_id v = ver" "verifications t = verifications s @ [v]"
        "0 < sint (py_ore p)" "vlines t = vlines s @ map (line_row ver) (debit_line acct (py_ore p) # rest)"
        "double_entry (debit_line acct (py_ore p) # rest)" by blast
      moreover have "signed e s t" using write_tools_signed(2) q by (metis keeps_def snd_conv)
      moreover have "within maxw (debit_line acct (py_ore p) # rest)" if "0 < sint maxw"
        using True v(3) that unfolding within_def check_ceiling_def
        by (intro disjI2 exI [of _ acct] exI [of _ "py_ore p"] exI [of _ rest]) auto
      ultimately show ?thesis unfolding one_entry_def by blast
    qed
    ultimately show ?thesis by simp
  qed
qed

lemma run_tool_one_entry: "one_entry e maxw s (snd (run_tool e c maxw n args s))"
  unfolding run_tool_def
  using reading_tools_read [THEN read_one_entry] run_post_verification_one_entry run_record_payment_one_entry by simp

lemma call_tool_one_entry: "one_entry (as_assistant e) (mc_max srv) s (snd (call_tool e srv q params s))"
proof -
  obtain p ok where p: "unmarshal call_field \<lparr>cl_name = [], cl_arguments = None\<rparr> params = (p, ok)" by fastforce
  show ?thesis
  proof (cases "if ok then find (\<lambda>t. tl_name t = cl_name p) tools else None")
    case None
    then have "snd (call_tool e srv q params s) = s" unfolding call_tool_def p by (auto split: if_splits)
    then show ?thesis by (simp add: one_entry_refl)
  next
    case (Some tl)
    obtain r where dc: "attempt DefaultCompany s = (Inr r, s)"
    proof -
      obtain r s' where d: "DefaultCompany s = (r, s')" by (cases "DefaultCompany s")
      have "s' = s" by (rule read_state [OF readers_read(7) d])
      with d that show thesis by (simp add: attempt_def)
    qed
    show ?thesis
    proof (cases r)
      case (Inl x)
      then have "snd (call_tool e srv q params s) = s" unfolding call_tool_def p using Some dc
        by (auto simp: andthen_def split: if_splits)
      then show ?thesis by (simp add: one_entry_refl)
    next
      case (Inr c)
      let ?e = "as_assistant e"
      obtain w t where t: "run_tool ?e c (mc_max srv) (tl_name tl) (cl_arguments p) s = (w, t)" by fastforce
      have o: "one_entry ?e (mc_max srv) s t" using run_tool_one_entry t by (metis snd_conv)
      have "untouched t (snd (call_tool e srv q params s))"
      proof (cases w)
        case (Inl x)
        then have "snd (call_tool e srv q params s) = t" unfolding call_tool_def p using Some dc Inr t
          by (auto simp: andthen_def attempt_def Let_def split: if_splits)
        then show ?thesis by (simp add: untouched.change_refl)
      next
        case (Inr v)
        have "snd (call_tool e srv q params s) = snd (ShieldStruct ?e (mc_shield_key srv) (session_id q) v t)"
          unfolding call_tool_def p using Some dc \<open>r = Inr c\<close> t Inr
          by (auto simp: andthen_def attempt_def Let_def split: if_splits prod.splits sum.splits)
        then show ?thesis using walk_untouched(1) by (simp add: ShieldStruct_def keeps_def)
      qed
      with o show ?thesis by (rule one_entry_untouched)
    qed
  qed
qed

lemma mcp_handle_cases:
  assumes "mcp_handle e srv q s = (p, t)"
  obtains (deny) "\<not> authed srv q" "p = Inr Unauthorized" "t = s"
    | (still) "authed srv q" "t = s" "\<And>i r. p = Inr (Reply i r) \<Longrightarrow> (\<forall>w. r \<noteq> RToolOk w) \<and> (\<forall>m. r \<noteq> RToolError m)"
    | (call) r i params where "authed srv q" "call_tool e srv q params s = (r, t)"
        "p = (case r of Inl x \<Rightarrow> Inl x | Inr x \<Rightarrow> Inr (Reply i x))"
proof -
  obtain req ok where u: "unmarshal rpc_field \<lparr>rq_version = [], rq_id = None, rq_method = [], rq_params = None\<rparr> (mq_body q) = (req, ok)"
    by fastforce
  show thesis
  proof (cases "authed srv q \<and> ok \<and> rq_method req = ''tools/call''")
    case True
    then have "andthen (call_tool e srv q (rq_params req)) (\<lambda>r. ret (Reply (rq_id req) r)) s = (p, t)"
      using assms unfolding mcp_handle_def u dispatch_def by simp
    with True show thesis
      by (cases "call_tool e srv q (rq_params req) s", cases "fst (call_tool e srv q (rq_params req) s)")
        (auto simp: andthen_def intro!: call)
  next
    case False
    then show thesis
      using assms deny still unfolding mcp_handle_def u dispatch_def by (auto split: if_splits)
  qed
qed


definition sample_server :: mcp_server where
  "sample_server = \<lparr>mc_shield_key = replicate 32 CHR ''m'', mc_api_key = ''key'', mc_max = 500000\<rparr>"

definition sample_call :: mcp_request where
  "sample_call = \<lparr>mq_api_key = [], mq_authorization = ''Bearer key'', mq_session = ''s1'',
     mq_body = Some (JObj [(''jsonrpc'', JStr ''2.0''), (''id'', JNum ''1''), (''method'', JStr ''tools/call''),
       (''params'', JObj [(''name'', JStr ''pare_post_verification''), (''arguments'', JObj [(''series'', JStr ''A''),
          (''date'', JStr ''2026-03-02''), (''lines'', JArr [
            JObj [(''account'', JStr ''6110''), (''debit_ore'', JNum ''600000'')],
            JObj [(''account'', JStr ''1930''), (''credit_ore'', JNum ''600000'')]])])])])\<rparr>"


section \<open>What an assistant is told\<close>

text \<open>A result is exposed by a pointer and each of its identities can be set.\<close>

definition settable :: "gval \<Rightarrow> bool" where
  "settable v \<longleftrightarrow> (\<exists>u. v = GPointer u \<and> list_all fst (identities True False u))"

lemma plain_not_shielded: "parse_tag [] = None" "parse_tag (''tokenize,kind='' @ ''name'') = Some ''name''"
  "parse_tag (''tokenize,kind='' @ ''orgnr'') = Some ''orgnr''"
  by (simp_all add: parse_tag_def) code_simp+

lemmas field_defs = plain_field_def plain_string_def shielded_field_def flag_value_def plain_not_shielded

lemma identities_rows: "(\<And>x. x \<in> set xs \<Longrightarrow> list_all fst (identities True False x)) \<Longrightarrow> list_all fst (identities_list True False xs)"
  by (induction xs) simp_all

lemma row_identities:
  "list_all fst (identities True False (unpaid_row u))" "list_all fst (identities True False (match_row ore m))"
  "list_all fst (identities True False (tb_row r))" "list_all fst (identities True False (audit_result_row x))"
  by (simp_all add: unpaid_row_def match_row_def tb_row_def audit_result_row_def field_defs Let_def del: append.simps)

lemma results_settable:
  "settable (overview_result a d us)" "settable (moms_result d)" "settable (sie_result f n z)"
  "settable (post_result i ok dry z)" "settable (payment_result i k ok dry z)"
  "(\<And>x. x \<in> set rows \<Longrightarrow> list_all fst (identities True False x)) \<Longrightarrow> settable (rows_result rows)"
  "settable (GPointer (GStruct [plain_field (GSlice (map tb_row tb)), plain_string z]))"
  using row_identities(3)
  by (auto simp: settable_def overview_result_def moms_result_def sie_result_def post_result_def payment_result_def
      rows_result_def field_defs intro!: identities_rows)

lemma run_tool_settable:
  assumes "run_tool e c maxw n args s = (Inr v, t)"
  shows "settable v"
  using assms row_identities
  unfolding run_tool_def run_overview_def run_unpaid_def run_trial_balance_def run_moms_def run_export_sie_def
    run_audit_def run_post_verification_def run_match_payment_def run_record_payment_def Let_def
  by (auto simp: andthen_ok results_settable intro!: results_settable(6) split: if_splits prod.splits option.splits)

text \<open>The texts an error can reach an assistant as, apart from the account it named itself.\<close>

definition operator_texts :: "string list" where
  "operator_texts = [
     ''ledger: verification does not balance (debit != credit)'', ''ledger: verification needs at least two lines'',
     ''ledger: each line must have exactly one of debit or credit'', ''ledger: line has no account'',
     ''ledger: amounts must be non-negative'',
     ''store: the accounting period is closed for that date; post the correction in the current period'',
     ''store: counterparty belongs to another company'', ''store: invoice is not a draft'', ''store: no company'',
     ''invalid arguments'', ''date must be YYYY-MM-DD'', ''internal error'', ''no company configured yet'', ''shield error'']"

lemma scrub_texts:
  "scrub_error x \<in> set operator_texts \<or> (\<exists>a. scrub_error x = ''store: account not in the chart of accounts: '' @ a)"
  by (auto simp: scrub_error_def operator_texts_def errInvalidArgs_def errBadDate_def split: err.split ledger_error.split)

lemma call_tool_result:
  assumes "call_tool e srv q params s = (Inr r, t)"
  obtains (ok) c maxw n args v s1 s2 w where "r = RToolOk w" "run_tool (as_assistant e) c maxw n args s1 = (Inr v, s2)"
      "ShieldStruct (as_assistant e) (mc_shield_key srv) (session_id q) v s2 = (Inr w, t)"
    | (error) m where "r = RToolError m" "m \<in> set operator_texts \<or> (\<exists>a. m = ''store: account not in the chart of accounts: '' @ a)"
    | (protocol) n m where "r = RError n m"
proof -
  obtain p ok where p: "unmarshal call_field \<lparr>cl_name = [], cl_arguments = None\<rparr> params = (p, ok)" by fastforce
  have texts: "''no company configured yet'' \<in> set operator_texts" "''shield error'' \<in> set operator_texts"
    by (simp_all add: operator_texts_def)
  show thesis
  proof (cases "if ok then find (\<lambda>t. tl_name t = cl_name p) tools else None")
    case None
    then show thesis using assms protocol unfolding call_tool_def p by (auto split: if_splits)
  next
    case (Some tl)
    then have run: "andthen (attempt DefaultCompany) (\<lambda>r. case r of
              Inl x \<Rightarrow> ret (RToolError ''no company configured yet'')
            | Inr c \<Rightarrow>
                let e' = as_assistant e in
                andthen (attempt (run_tool e' c (mc_max srv) (tl_name tl) (cl_arguments p))) (\<lambda>r. case r of
                  Inl x \<Rightarrow> ret (RToolError (scrub_error x))
                | Inr v \<Rightarrow>
                    andthen (attempt (ShieldStruct e' (mc_shield_key srv) (session_id q) v)) (\<lambda>r. case r of
                      Inl x \<Rightarrow> ret (RToolError ''shield error'')
                    | Inr w \<Rightarrow> ret (RToolOk w)))) s = (Inr r, t)"
      using assms unfolding call_tool_def p by (simp split: if_splits)
    obtain d s1 where d: "attempt DefaultCompany s = (Inr d, s1)" by (cases "DefaultCompany s") (simp add: attempt_def)
    show thesis
    proof (cases d)
      case (Inl x)
      with run d have "r = RToolError ''no company configured yet''" by (simp add: andthen_def)
      with texts show thesis by (intro error) auto
    next
      case (Inr c)
      let ?run = "run_tool (as_assistant e) c (mc_max srv) (tl_name tl) (cl_arguments p)"
      obtain y s2 where y: "?run s1 = (y, s2)" by fastforce
      show thesis
      proof (cases y)
        case (Inl x)
        with run d \<open>d = Inr c\<close> y have "r = RToolError (scrub_error x)" by (simp add: andthen_def attempt_def Let_def)
        with scrub_texts show thesis by (intro error) auto
      next
        case (Inr v)
        let ?sh = "ShieldStruct (as_assistant e) (mc_shield_key srv) (session_id q) v"
        obtain z s3 where z: "?sh s2 = (z, s3)" by fastforce
        show thesis
        proof (cases z)
          case (Inl x)
          with run d \<open>d = Inr c\<close> y \<open>y = Inr v\<close> z have "r = RToolError ''shield error''"
            by (simp add: andthen_def attempt_def Let_def)
          with texts show thesis by (intro error) auto
        next
          case (Inr w)
          with run d \<open>d = Inr c\<close> y \<open>y = Inr v\<close> z have "r = RToolOk w" "t = s3"
            by (simp_all add: andthen_def attempt_def Let_def)
          with y \<open>y = Inr v\<close> z Inr show thesis by (intro ok) auto
        qed
      qed
    qed
  qed
qed

lemma masked_list:
  assumes "list_all fst xs" and "value_token f = value_token e"
  shows "list_all (\<lambda>(settable, k, x). x = [] \<or> (\<exists>y. x = marker k (value_token e m sid k y))) (map (masked f m sid) xs)"
  using assms(1) by (induction xs) (auto simp: masked_def assms(2) split: if_splits)



end
