(* ===== verification/Web_Laws.thy ===== *)
theory Web_Laws
  imports Web_Router Mcp_Laws
begin

text \<open>
  What holds of the operator UI as a whole: pages change nothing, an action needs the token of the form and
  the session of an owner, every request leaves the books in order, and uploads never get through.
\<close>

section \<open>Pages keep every relation\<close>

context change
begin

lemma keeps_case_answer:
  "(\<And>a b c. keeps R (m a b c)) \<Longrightarrow> keeps R (case t of (a, b, c) \<Rightarrow> m a b c)"
  by (cases t) simp

lemma keeps_or_fail: "keeps R m \<Longrightarrow> (\<And>x. keeps R (k x)) \<Longrightarrow> keeps R (or_fail m k)"
  unfolding or_fail_def by (rule keeps_rules | assumption)+

lemma keeps_ignore: "keeps R m \<Longrightarrow> keeps R (ignore_error m)"
  unfolding ignore_error_def by (rule keeps_rules | assumption)+

lemma keeps_or_zero: "keeps R m \<Longrightarrow> keeps R (or_zero z m)"
  unfolding or_zero_def by (rule keeps_rules | assumption)+

lemma keeps_with_id: "(\<And>i. keeps R (k i)) \<Longrightarrow> keeps R (with_id srv r k)"
  unfolding with_id_def by (rule keeps_rules | assumption)+

lemma keeps_Company: "keeps R (Company c)"
  unfolding Company_def by (rule keeps_rules keeps_reading)+

lemma keeps_show_page: "keeps R (show_page r title page note content status)"
  unfolding show_page_def page_base_def Let_def by (rule keeps_rules keeps_Company)+

lemma keeps_GetCounterparty: "keeps R (GetCounterparty e c i)"
  unfolding GetCounterparty_def dec_field_def company_dek_def by (rule keeps_rules keeps_reading)+

lemma keeps_InvoiceForRender: "keeps R (InvoiceForRender e c i)"
  unfolding InvoiceForRender_def Let_def by (rule keeps_rules keeps_reading keeps_GetCounterparty)+

lemma keeps_supplier_view: "keeps R (supplier_view_of e c row)"
  unfolding supplier_view_of_def by (rule keeps_rules keeps_GetCounterparty)+

lemma keeps_summaries: "keeps R (ListInvoiceSummaries e c)"
  unfolding ListInvoiceSummaries_def Let_def by (rule keeps_rules keeps_reading keeps_InvoiceForRender)+

lemma keeps_balances:
  "keeps R (TrialBalanceBetweenExclSeries c t1 t2 sr)" "keeps R (TrialBalanceAsOf c t1)"
  "keeps R (TrialBalanceBetween c t1 t2)" "keeps R (ExportSIE c t)"
  unfolding TrialBalanceBetweenExclSeries_def TrialBalanceAsOf_def TrialBalanceBetween_def ExportSIE_def Let_def
  by (rule keeps_rules keeps_reading)+

lemma keeps_lists:
  "keeps R (ChartAccounts c)" "keeps R (ListFiscalYears c)" "keeps R (LockedThrough c)" "keeps R (ListAudit c n)"
  "keeps R (VerifyAuditChain e c)" "keeps R HasUsers" "keeps R (Validate e tok)" "keeps R DefaultCompany"
  "keeps R (ListVerificationSummaries c)" "keeps R (ListSupplierInvoiceViews e c)"
  "keeps R (SupplierInvoiceForView e c i)" "keeps R (ListBankTransactions e c)" "keeps R (ListCounterparties e c)"
  unfolding ChartAccounts_def ListFiscalYears_def LockedThrough_def ListAudit_def VerifyAuditChain_def HasUsers_def
    Validate_def DefaultCompany_def ListVerificationSummaries_def ListSupplierInvoiceViews_def
    SupplierInvoiceForView_def ListBankTransactions_def ListCounterparties_def company_dek_def Let_def
  by (rule keeps_rules keeps_reading keeps_supplier_view keeps_summaries keeps_GetCounterparty | (simp only: split_def list.case_eq_if, rule keeps_if))+

end

section \<open>The pages\<close>

context change
begin

lemmas keeps_web = keeps_rules keeps_reading keeps_or_fail keeps_ignore keeps_or_zero keeps_with_id keeps_show_page keeps_Company
  keeps_GetCounterparty keeps_InvoiceForRender keeps_summaries keeps_balances keeps_lists keeps_supplier_view

lemma keeps_documents:
  "keeps R (ListDocuments e c)" "keeps R (GetDocumentContent e c i)" "keeps R (RenderInvoicePDF e g c i)"
  "keeps R (cookie_session e r)"
  unfolding ListDocuments_def GetDocumentContent_def RenderInvoicePDF_def cookie_session_def company_dek_def Let_def
  by (rule keeps_web)+

lemma keeps_public:
  "keeps R (handle_root srv e r)" "keeps R (handle_setup_form srv e r)" "keeps R (handle_login_form srv e r)"
  unfolding handle_root_def handle_setup_form_def handle_login_form_def by (rule keeps_web keeps_documents)+

lemma keeps_pages: "list_all (\<lambda>(p, h). \<forall>srv e r. keeps R (h srv e r)) get_routes"
  unfolding get_routes_def list.pred_inject prod.case handle_dashboard_def handle_counterparties_def handle_counterparty_edit_def handle_invoices_def
    handle_invoice_new_def handle_pay_form_def handle_invoice_pdf_def handle_receipts_def handle_receipt_file_def
    handle_supplier_invoices_def handle_supplier_invoice_new_def handle_supplier_pay_form_def
    handle_verifications_def handle_reports_def handle_reskontra_def handle_bank_def handle_fiscal_years_def
    handle_sie_def handle_sie_import_form_def handle_csv_def handle_logg_def handle_settings_def handle_help_def
    handle_api_def Let_def
  by (intro conjI allI TrueI; (rule keeps_web keeps_documents list.pred_inject(1))+)

end

section \<open>Every request leaves the books in order\<close>

lemma accounts_sound:
  "keeps (sound e') (CreateUser hp e email pw role0)" "keeps (sound e') (Login cp e email pw)"
  "keeps (sound e') (Logout tok)"
  unfolding CreateUser_def Login_def Logout_def rand_token_def Let_def
  by (rule sound.keeps_web | (rule sound_draws, rule keeps_intros) | (rule sound_quiet; rule keeps_intros))+

lemmas web_sound = sound.keeps_web sound.keeps_documents accounts_sound store_sound invoice_sound purchase_sound fiscal_sound
  bank_sound document_sound sie_sound EnsureFiscalYear_sound

lemma receipt_sound: "keeps (sound e) (save_uploaded_receipt e r c)"
  unfolding save_uploaded_receipt_def by (rule web_sound)+

lemma email_sound: "keeps (sound e) (email_invoice b srv e r)"
  unfolding email_invoice_def by (rule web_sound)+

lemma actions_sound: "list_all (\<lambda>(p, h). \<forall>srv e r. keeps (sound e) (h srv e r)) post_routes"
  unfolding post_routes_def list.pred_inject prod.case handle_add_counterparty_def handle_counterparty_update_def
    handle_counterparty_erase_def handle_invoice_create_def handle_invoice_finalize_def handle_invoice_delete_def
    handle_invoice_credit_def handle_invoice_send_def handle_invoice_remind_def handle_pay_def
    handle_receipt_upload_def handle_receipt_delete_def handle_supplier_invoice_create_def
    handle_supplier_invoice_finalize_def handle_supplier_pay_def handle_post_verification_def handle_undo_def
    handle_bank_import_def handle_bank_book_invoice_def handle_bank_book_account_def handle_bank_ignore_def
    handle_add_fiscal_year_def handle_close_fiscal_year_def handle_sie_import_def import_page_def handle_lock_def
    handle_unlock_def handle_settings_save_def handle_invite_user_def Let_def
  by (intro conjI allI TrueI; (rule web_sound receipt_sound email_sound list.pred_inject(1))+)

lemma entries_sound:
  "keeps (sound e) (handle_setup srv e r)" "keeps (sound e) (handle_login srv e r)"
  "keeps (sound e) (handle_logout srv e r)"
  unfolding handle_setup_def handle_login_def handle_logout_def Let_def by (rule web_sound)+


context change
begin

lemma keeps_answering: "keeps R m \<Longrightarrow> keeps R (answering m)"
  unfolding answering_def by (rule keeps_rules | assumption)+

lemma keeps_case_csrf: "(\<And>t b. keeps R (k t b)) \<Longrightarrow> keeps R m \<Longrightarrow>
    keeps R (case out of CsrfPass t b \<Rightarrow> k t b | CsrfRefuse \<Rightarrow> m)"
  by (cases out) simp_all

lemma keeps_csrf_guard: "(\<And>n. keeps R (draw e n)) \<Longrightarrow> (\<And>q. keeps R (k q)) \<Longrightarrow> keeps R (csrf_guard srv e k r)"
  unfolding csrf_guard_def Let_def
  by (rule keeps_case_csrf keeps_rules | assumption)+

lemma keeps_require_session: "(\<And>i q. keeps R (k (as_user i e) q)) \<Longrightarrow> keeps R (require_session e k r)"
  unfolding require_session_def by (rule keeps_web | assumption)+

lemma keeps_block: "(\<And>q. keeps R (k q)) \<Longrightarrow> keeps R (block_viewer_writes k r)"
  unfolding block_viewer_writes_def by (rule keeps_rules | assumption)+

end

lemma find_route_in: "find_route m ss rs = Some (h, i) \<Longrightarrow>
    \<exists>p. (m, p, h) \<in> set rs \<and> match_path p ss = Some i"
  by (induction m ss rs rule: find_route.induct) (auto split: option.splits if_splits)

lemma match_one: "match_path [Fixed f] ss = Some i \<Longrightarrow> ss = [f]"
  by (cases ss; cases "tl ss") (auto split: if_splits)

lemma sound_as_user: "sound (as_user i e) = sound e"
proof -
  have "same_process e (as_user i e)" by (simp add: same_process_def as_user_def)
  from same_process_chain [OF this] have "chain_ok (as_user i e) = chain_ok e" .
  then show ?thesis by (simp add: sound_def keeps_chain_def fun_eq_iff)
qed

lemma sound_as_assistant: "sound (as_assistant e) = sound e"
proof -
  have "same_process e (as_assistant e)" by (simp add: same_process_def as_assistant_def)
  from same_process_chain [OF this] have "chain_ok (as_assistant e) = chain_ok e" .
  then show ?thesis by (simp add: sound_def keeps_chain_def fun_eq_iff)
qed

lemma Tokenize_sound: "keeps (sound e') (Tokenize e m sid k v)"
  unfolding Tokenize_def pg_put_def Let_def
  by (rule web_sound | (rule sound_draws, rule keeps_intros) | (rule sound_quiet; rule keeps_intros))+

lemma tools_sound: "keeps (sound e) (run_tool e c maxw name args)"
  unfolding run_tool_def run_post_verification_def run_record_payment_def run_overview_def run_unpaid_def
    run_trial_balance_def run_moms_def run_export_sie_def run_audit_def run_match_payment_def period_balances_def
    UnpaidInvoices_def MatchOpenInvoices_def TrialBalance_def Let_def
  by (rule web_sound)+

lemma mcp_sound: "keeps (sound e) (mcp_handle e m q)"
  using tools_sound [of "as_assistant e"] Tokenize_sound
  unfolding mcp_handle_def dispatch_def call_tool_def ShieldStruct_def sound_as_assistant Let_def
  by (intro sound.keeps_web sound.keeps_walk)

text \<open>A route of the table is one of the pages, one of the actions or one of the public routes.\<close>

lemma route_cases:
  assumes "find_route m ss routes = Some (h, i)"
  obtains (page) p f where "m = ''GET''" "h = App f" "(p, f) \<in> set get_routes"
    | (action) p f where "m = ''POST''" "h = App f" "(p, f) \<in> set post_routes"
    | (public) f where "m = ''GET''" "h = Public f" "f \<in> {handle_root, handle_setup_form, handle_login_form}"
    | (entry) f where "m = ''POST''" "h = Entry f" "f \<in> {handle_setup, handle_login, handle_logout}"
        "ss \<in> {[''setup''], [''login''], [''logout'']}"
proof -
  obtain p where "(m, p, h) \<in> set routes" and fits: "match_path p ss = Some i"
    using find_route_in [OF assms] by blast
  then consider "(m, p, h) \<in> set public_routes" | f where "m = ''GET''" "h = App f" "(p, f) \<in> set get_routes"
    | f where "m = ''POST''" "h = App f" "(p, f) \<in> set post_routes"
    unfolding routes_def by auto
  then show thesis
  proof cases
    case 1
    then show thesis using public entry fits match_one unfolding public_routes_def by auto
  qed (use page action in blast)+
qed

lemma page_keeps:
  assumes "change R" and "(p, f) \<in> set get_routes"
  shows "keeps R (f srv e r)"
  using change.keeps_pages [OF assms(1)] assms(2) by (auto simp: list_all_iff)

lemma action_sound: "(p, f) \<in> set post_routes \<Longrightarrow> keeps (sound e) (f srv e r)"
  using actions_sound by (auto simp: list_all_iff)

lemma run_handler_sound:
  assumes "find_route m ss routes = Some (h, i)"
  shows "keeps (sound e) (run_handler srv e h r)"
proof -
  have d: "keeps (sound e) (draw e n)" for n by (rule sound_draws) (rule keeps_intros)
  from assms show ?thesis
  proof (cases rule: route_cases)
    case (page p f)
    show ?thesis unfolding run_handler_def page handler.case
      by (intro sound.keeps_csrf_guard d sound.keeps_answering sound.keeps_require_session sound.keeps_block
          page_keeps [OF _ page(3)]) (rule sound.change_axioms)
  next
    case (action p f)
    show ?thesis unfolding run_handler_def action handler.case
      by (intro sound.keeps_csrf_guard d sound.keeps_answering sound.keeps_require_session sound.keeps_block)
        (metis action_sound [OF action(3)] sound_as_user)
  next
    case (public f)
    then have "keeps (sound e) (f srv e q)" for q using sound.keeps_public by auto
    then show ?thesis unfolding run_handler_def public handler.case
      by (intro sound.keeps_csrf_guard d sound.keeps_answering)
  next
    case (entry f)
    then have "keeps (sound e) (f srv e q)" for q using entries_sound by auto
    then show ?thesis unfolding run_handler_def entry handler.case
      by (intro sound.keeps_csrf_guard d sound.keeps_if sound.keeps_pure)
  qed
qed

lemma serve_http_sound: "keeps (sound e) (serve_http srv e r)"
  unfolding serve_http_def dispatch_http_def handle_mcp_def Let_def
  by (rule sound.keeps_rules mcp_sound | (rule run_handler_sound, hypsubst, assumption))+

section \<open>Every request is answered\<close>

definition answers :: "'a io \<Rightarrow> bool" where
  "answers m \<longleftrightarrow> (\<forall>s. \<exists>x t. m s = (Inr x, t))"

lemma answers_ret: "answers (ret x)" "answers (attempt m)" "answers (draw e n)"
  by (auto simp: answers_def attempt_def draw_def case_prod_unfold)

lemma answers_andthen: "answers m \<Longrightarrow> (\<And>x. answers (f x)) \<Longrightarrow> answers (andthen m f)"
  unfolding answers_def andthen_def by (metis (no_types, lifting) old.prod.case old.sum.simps(6))

lemma answers_cases:
  "(b \<Longrightarrow> answers m) \<Longrightarrow> (\<not> b \<Longrightarrow> answers n) \<Longrightarrow> answers (if b then m else n)"
  "(v = None \<Longrightarrow> answers m) \<Longrightarrow> (\<And>x. v = Some x \<Longrightarrow> answers (k x)) \<Longrightarrow> answers (case v of None \<Rightarrow> m | Some x \<Rightarrow> k x)"
  "(\<And>x. answers (j x)) \<Longrightarrow> (\<And>x. answers (i x)) \<Longrightarrow> answers (case w of Inl x \<Rightarrow> j x | Inr x \<Rightarrow> i x)"
  "(\<And>x y. p = (x, y) \<Longrightarrow> answers (l x y)) \<Longrightarrow> answers (case p of (x, y) \<Rightarrow> l x y)"
  "(\<And>t b. answers (g t b)) \<Longrightarrow> answers h \<Longrightarrow> answers (case out of CsrfPass t b \<Rightarrow> g t b | CsrfRefuse \<Rightarrow> h)"
  by (auto split: option.split sum.split prod.split csrf_outcome.split)

lemma answers_steps:
  "(\<And>x. answers (k x)) \<Longrightarrow> answers (or_fail m k)" "answers (ignore_error m0)" "answers (or_zero z m1)"
  "(\<And>i. answers (h i)) \<Longrightarrow> answers (with_id srv r h)" "answers (show_page r title page note content status)"
  unfolding or_fail_def ignore_error_def or_zero_def with_id_def show_page_def page_base_def Let_def
  by (rule answers_cases answers_andthen answers_ret | assumption)+

lemmas answers_intros = answers_steps answers_cases answers_andthen answers_ret

lemmas page_defs = handle_dashboard_def handle_counterparties_def handle_counterparty_edit_def handle_invoices_def
  handle_invoice_new_def handle_pay_form_def handle_invoice_pdf_def handle_receipts_def handle_receipt_file_def
  handle_supplier_invoices_def handle_supplier_invoice_new_def handle_supplier_pay_form_def
  handle_verifications_def handle_reports_def handle_reskontra_def handle_bank_def handle_fiscal_years_def
  handle_sie_def handle_sie_import_form_def handle_csv_def handle_logg_def handle_settings_def handle_help_def
  handle_api_def

lemmas action_defs = handle_add_counterparty_def handle_counterparty_update_def
  handle_counterparty_erase_def handle_invoice_create_def handle_invoice_finalize_def handle_invoice_delete_def
  handle_invoice_credit_def handle_invoice_send_def handle_invoice_remind_def email_invoice_def handle_pay_def
  handle_receipt_upload_def handle_receipt_delete_def handle_supplier_invoice_create_def
  handle_supplier_invoice_finalize_def handle_supplier_pay_def handle_post_verification_def handle_undo_def
  handle_bank_import_def handle_bank_book_invoice_def handle_bank_book_account_def handle_bank_ignore_def
  handle_add_fiscal_year_def handle_close_fiscal_year_def handle_sie_import_def import_page_def handle_lock_def
  handle_unlock_def handle_settings_save_def handle_invite_user_def

lemma pages_answer: "list_all (\<lambda>(p, h). \<forall>srv e r. answers (h srv e r)) get_routes"
  unfolding get_routes_def list.pred_inject prod.case page_defs Let_def
  by (intro conjI allI TrueI; (rule answers_intros list.pred_inject(1))+)

lemma actions_answer: "list_all (\<lambda>(p, h). \<forall>srv e r. answers (h srv e r)) post_routes"
  unfolding post_routes_def list.pred_inject prod.case action_defs Let_def
  by (intro conjI allI TrueI; (rule answers_intros list.pred_inject(1))+)

lemma entries_answer:
  "answers (handle_root srv e r)" "answers (handle_setup_form srv e r)" "answers (handle_login_form srv e r)"
  "answers (handle_setup srv e r)" "answers (handle_login srv e r)" "answers (handle_logout srv e r)"
  unfolding handle_root_def handle_setup_form_def handle_login_form_def handle_setup_def handle_login_def
    handle_logout_def cookie_session_def Validate_def Let_def by (rule answers_intros)+

lemma guards_answer:
  "(\<And>q. answers (k q)) \<Longrightarrow> answers (csrf_guard srv e k r)"
  "answers m \<Longrightarrow> answers (answering m)"
  "(\<And>i q. answers (j (as_user i e) q)) \<Longrightarrow> answers (require_session e j r)"
  "(\<And>q. answers (l q)) \<Longrightarrow> answers (block_viewer_writes l r)"
  unfolding csrf_guard_def answering_def require_session_def block_viewer_writes_def Validate_def Let_def
  by (rule answers_intros | assumption)+

lemma handlers_answer: "(p, f) \<in> set get_routes \<union> set post_routes \<Longrightarrow> answers (f srv e r)"
  using pages_answer actions_answer by (auto simp: list_all_iff)

lemma run_handler_answers:
  assumes "find_route m ss routes = Some (h, i)"
  shows "answers (run_handler srv e h r)"
  using assms
proof (cases rule: route_cases)
  case (page p f)
  then have "answers (f srv e' q)" for e' q using handlers_answer by blast
  then show ?thesis unfolding run_handler_def page handler.case by (intro guards_answer)
next
  case (action p f)
  then have "answers (f srv e' q)" for e' q using handlers_answer by blast
  then show ?thesis unfolding run_handler_def action handler.case by (intro guards_answer)
next
  case (public f)
  then have "answers (f srv e q)" for q using entries_answer by auto
  then show ?thesis unfolding run_handler_def public handler.case by (intro guards_answer)
next
  case (entry f)
  then have "answers (f srv e q)" for q using entries_answer by auto
  then show ?thesis unfolding run_handler_def entry handler.case
    by (intro guards_answer answers_cases answers_ret)
qed

lemma mcp_answers: "answers (mcp_handle e m q)"
  unfolding mcp_handle_def dispatch_def call_tool_def Let_def by (rule answers_intros)+

lemma serve_http_answers: "answers (serve_http srv e r)"
  unfolding serve_http_def dispatch_http_def handle_mcp_def Let_def
  by (rule answers_intros mcp_answers | (rule run_handler_answers, hypsubst, assumption))+

text \<open>
  The program in use: it starts on empty tables and serves requests over HTTP one after another, with any
  settings and at any time, and between them the jobs of the process itself run.
\<close>

definition housekeeping :: "request set" where
  "housekeeping = {Sync, Backfill, Sweep_Now}"

inductive in_use :: "env \<Rightarrow> db \<Rightarrow> bool" for e where
  use_start: "in_use e empty_db"
| use_http: "in_use e s \<Longrightarrow> same_process e f \<Longrightarrow> in_use e (snd (serve_http srv f r s))"
| use_job: "in_use e s \<Longrightarrow> same_process e f \<Longrightarrow> q \<in> housekeeping \<Longrightarrow> in_use e (snd (serve f q s))"

lemma in_use_ok: "in_use e s \<Longrightarrow> books_ok s \<and> chain_ok e s"
proof (induction rule: in_use.induct)
  case use_start
  show ?case using books_ok_empty by blast
next
  case (use_http s f srv r)
  have "sound f s (snd (serve_http srv f r s))" using serve_http_sound [of f srv r] by (simp add: keeps_def)
  with use_http same_process_chain [OF use_http.hyps(2)] show ?case by (simp add: sound_def keeps_chain_def)
next
  case (use_job s f q)
  have "sound f s (snd (serve f q s))" using serve_sound [of f q] by (simp add: keeps_def)
  with use_job same_process_chain [OF use_job.hyps(2)] show ?case by (simp add: sound_def keeps_chain_def)
qed

text \<open>C31. However the program has been used, the next request, whatever its method, path, cookies and body,
  is answered; the reply carries the security headers, no row leaves the journal, its lines or the audit
  log, and in the state it leaves the books are in order and the audit trail of every company verifies.\<close>

theorem http_requests_keep_the_books:
  assumes "in_use e s"
  shows "\<exists>reply t. serve_http srv e r s = (Inr reply, t) \<and> hr_headers reply = security_headers \<and>
    (\<exists>vs. verifications t = verifications s @ vs) \<and> (\<exists>ls. vlines t = vlines s @ ls) \<and>
    (\<exists>as. audit_log t = audit_log s @ as) \<and> books_ok t \<and> (\<forall>c. VerifyAuditChain e c t = (Inr (True, 0), t))"
proof -
  obtain reply t where r: "serve_http srv e r s = (Inr reply, t)"
    using serve_http_answers [of srv e r] unfolding answers_def by blast
  then have "hr_headers reply = security_headers" by (auto simp: serve_http_def andthen_ok)
  moreover have "sound e s t" using serve_http_sound [of e srv r] r by (auto simp: keeps_def dest: spec [of _ s])
  moreover have "books_ok t \<and> chain_ok e t"
    using in_use_ok [OF use_http [OF assms same_process_refl, where srv = srv and r = r]] r by simp
  ultimately show ?thesis
    using r VerifyAuditChain_ok unfolding sound_def ledger_grows_def audit_grows_def by blast
qed

section \<open>Who did it\<close>

lemma signed_draws: "keeps draws_only m \<Longrightarrow> keeps (signed e) m"
  by (erule keeps_weaken) (auto simp: draws_only_def signed_def)

lemma steps_signed:
  "keeps (signed e) (company_dek e c)" "keeps (signed e') (enc_field e dek v)" "keeps (signed e) (seed_chart c)"
  "keeps (signed e) (EnsureFiscalYear c y)" "keeps (signed e) (GetCounterparty e c i)"
  unfolding company_dek_def enc_field_def seed_chart_def EnsureFiscalYear_def GetCounterparty_def dec_field_def
  by (rule signed_steps | (rule signed_draws, rule keeps_intros) | (rule signed_quiet; rule keeps_intros))+

lemmas signed_parts = signed_steps signed.keeps_web signed.keeps_documents steps_signed

lemma payments_signed:
  "keeps (signed e) (RecordPayment e c i d acct pay)"
  unfolding RecordPayment_def payment_tx_def Let_def by (rule signed_parts | (rule signed_quiet; rule keeps_intros))+

lemma ledger_signed:
  "keeps (signed e) (PostVerification e c sr d desc ls rv)" "keeps (signed e) (UndoVerification e c i)"
  "keeps (signed e) (LockPeriod e c d why)" "keeps (signed e) (UnlockPeriod e c why)"
  "keeps (signed e) (UpdateCompanyProfile_op e ci)" "keeps (signed e) (LogUserAction e c a tt ti dd)"
  "keeps (signed e) (CloseFiscalYear e c i)" "keeps (signed e) (ImportSIE e c x)"
  unfolding PostVerification_def UndoVerification_def LockPeriod_def UnlockPeriod_def UpdateCompanyProfile_op_def
    LogUserAction_def CloseFiscalYear_def ImportSIE_def import_voucher_def Let_def
  by (rule signed_parts | (rule signed_quiet; rule keeps_intros))+

lemma register_signed:
  "keeps (signed e) (CreateCounterparty e c cp)" "keeps (signed e) (UpdateCounterparty e c i cp)"
  "keeps (signed e) (EraseCounterparty e c i)" "keeps (signed e) (SaveDocument e c fn mime cont note)"
  "keeps (signed e) (AttachDocumentToSupplier e c i su)" "keeps (signed e) (DeleteDocument e c i)"
  "keeps (signed e) (ImportBankStatement e c acct entries)" "keeps (signed e') (CreateUser hp e email pw role0)"
  unfolding CreateCounterparty_def UpdateCounterparty_def EraseCounterparty_def SaveDocument_def
    AttachDocumentToSupplier_def DeleteDocument_def ImportBankStatement_def import_entry_def CreateUser_def Let_def
  by (rule signed_parts | (rule signed_draws, rule keeps_intros) | (rule signed_quiet; rule keeps_intros))+

lemma invoices_signed:
  "keeps (signed e) (CreateInvoice e c p inv0)" "keeps (signed e) (DeleteDraftInvoice e c i)"
  "keeps (signed e) (FinalizeInvoice e c i d due)" "keeps (signed e) (CreditInvoice e c i)"
  "keeps (signed e) (CreateSupplierInvoice e c p number d due cost net code desc)"
  "keeps (signed e) (FinalizeSupplierInvoice e c i)" "keeps (signed e) (RecordSupplierPayment e c i d acct pay)"
  "keeps (signed e) (BookBankTxnToInvoice e c t i)" "keeps (signed e) (BookBankTxnToAccount e c t acct)"
  "keeps (signed e) (IgnoreBankTxn c t)"
  unfolding CreateInvoice_def DeleteDraftInvoice_def FinalizeInvoice_def finalize_tx_def CreditInvoice_def credit_tx_def
    CreateSupplierInvoice_def FinalizeSupplierInvoice_def RecordSupplierPayment_def BookBankTxnToInvoice_def
    BookBankTxnToAccount_def IgnoreBankTxn_def Let_def
  by (rule signed_parts payments_signed | (rule signed_quiet; rule keeps_intros))+

lemmas operations_signed = ledger_signed register_signed invoices_signed payments_signed

lemma actions_signed: "list_all (\<lambda>(p, h). \<forall>srv e r. keeps (signed e) (h srv e r)) post_routes"
  unfolding post_routes_def list.pred_inject prod.case action_defs save_uploaded_receipt_def Let_def
  by (intro conjI allI TrueI; (rule signed_parts operations_signed list.pred_inject(1))+)

section \<open>What an action needs\<close>

definition form_token_ok :: "env \<Rightarrow> db \<Rightarrow> web_request \<Rightarrow> bool" where
  "form_token_ok e s r \<longleftrightarrow> (\<exists>fs. wr_body r = Urlencoded fs \<and> first_value fs ''csrf'' \<noteq> [] \<and>
     (get_cookie r csrf_cookie_name = Some (first_value fs ''csrf'') \<or>
      \<not> has_csrf_cookie r \<and> first_value fs ''csrf'' = b64_raw_url (e_rand e 32 (next_id s))))"

lemma first_value_Nil: "first_value [] k = []"
  by (simp add: first_value_def values_of_def)

lemma submitted_value:
  assumes "wr_post r = None" and "post_form_value (parse_form r) k = v" and "v \<noteq> []"
  shows "\<exists>fs. wr_body r = Urlencoded fs \<and> first_value fs k = v"
  using assms by (cases "wr_body r")
    (auto simp: post_form_value_def parse_form_def post_form_def first_value_Nil split: if_splits)

lemma csrf_guard_safe:
  assumes "csrf_guard srv e k r s = (Inr p, t)" and "safe_method (wr_method r)"
  obtains tok s0 p0 where "draws_only s s0" "k (r\<lparr>wr_csrf := tok\<rparr>) s0 = (Inr p0, t)"
proof -
  have step: "draws_only s (s\<lparr>next_id := Suc (next_id s)\<rparr>)"
    unfolding draws_only_def by (rule exI [of _ "Suc (next_id s)"]) simp
  show thesis
    using assms that draws_only_refl [of s] step
    by (cases "has_csrf_cookie r")
      (auto simp: csrf_guard_def csrf_protect_def Let_def andthen_ok draw_ok)
qed

lemma csrf_guard_unsafe:
  assumes run: "csrf_guard srv e k r s = (Inr p, t)" and unsafe: "\<not> safe_method (wr_method r)" and raw: "wr_post r = None"
  shows "draws_only s t \<and> rp_answer p = HttpError ''invalid CSRF token'' 403 \<or>
    form_token_ok e s r \<and> (\<exists>tok s0 p0. draws_only s s0 \<and> k ((parse_form r)\<lparr>wr_csrf := tok\<rparr>) s0 = (Inr p0, t))"
proof -
  define field where "field = post_form_value (parse_form r) ''csrf''"
  define s0 where "s0 = (if has_csrf_cookie r then s else s\<lparr>next_id := Suc (next_id s)\<rparr>)"
  define drawn where "drawn = (if has_csrf_cookie r then [] else b64_raw_url (e_rand e 32 (next_id s)))"
  define tok where "tok = (if has_csrf_cookie r then the (get_cookie r csrf_cookie_name) else drawn)"
  have d: "draws_only s s0"
    unfolding s0_def draws_only_def by (auto intro: exI [of _ "Suc (next_id s)"] exI [of _ "next_id s"])
  have first: "(if has_csrf_cookie r then ret [] else andthen (draw e 32) (\<lambda>b. ret (b64_raw_url b))) s = (Inr drawn, s0)"
    by (auto simp: drawn_def s0_def andthen_def draw_ok)
  note go_on = andthen_simps(2) [where m = "if has_csrf_cookie r then ret [] else andthen (draw e 32) (\<lambda>b. ret (b64_raw_url b))"
      and s = s, OF first]
  have out: "csrf_protect drawn (get_cookie r csrf_cookie_name) (wr_method r) field =
      (if field = [] \<or> field \<noteq> tok then CsrfRefuse else CsrfPass tok (\<not> has_csrf_cookie r))"
    using unsafe by (auto simp: csrf_protect_def has_csrf_cookie_def tok_def split: option.splits)
  show ?thesis
  proof (cases "field = [] \<or> field \<noteq> tok")
    case True
    then show ?thesis
      using run d unsafe unfolding csrf_guard_def go_on
      by (auto simp: Let_def field_def [symmetric] out)
  next
    case False
    then have go: "field \<noteq> []" "field = tok" by auto
    obtain fs where fs: "wr_body r = Urlencoded fs" "first_value fs ''csrf'' = field"
      using submitted_value [OF raw _ go(1)] field_def by blast
    have "form_token_ok e s r"
      unfolding form_token_ok_def using fs go
      by (auto simp: tok_def drawn_def has_csrf_cookie_def split: option.splits if_splits)
    moreover have pass: "csrf_protect drawn (get_cookie r csrf_cookie_name) (wr_method r) field = CsrfPass tok (\<not> has_csrf_cookie r)"
      using out False by simp
    obtain p0 where "k ((parse_form r)\<lparr>wr_csrf := tok\<rparr>) s0 = (Inr p0, t)"
      using run unsafe unfolding csrf_guard_def go_on
      by (auto simp: Let_def field_def [symmetric] pass andthen_ok)
    ultimately show ?thesis using d by blast
  qed
qed

lemma Validate_reads: "\<exists>v. Validate e tok s = (Inr v, s)"
proof -
  have "answers (Validate e tok)" unfolding Validate_def by (rule answers_intros)+
  then show ?thesis using read_state [OF same_tables.keeps_lists(7)] unfolding answers_def by metis
qed

lemma require_session_result:
  assumes "require_session e k r s = (Inr a, t)"
  shows "t = s \<or> (\<exists>ck info co. get_cookie r cookie_name = Some ck \<and> Validate e ck s = (Inr (Some info), s) \<and>
    k (as_user info e) (r\<lparr>wr_session := Some info, wr_company := co\<rparr>) s = (Inr a, t))"
proof (cases "get_cookie r cookie_name")
  case None
  then show ?thesis using assms by (simp add: require_session_def)
next
  case (Some ck)
  obtain v where v: "Validate e ck s = (Inr v, s)" using Validate_reads by blast
  obtain c where c: "DefaultCompany s = (c, s)"
    using read_state [OF same_tables.keeps_lists(8)] by (metis surj_pair)
  show ?thesis
    using assms Some v c
    by (auto simp: require_session_def andthen_def attempt_def split: option.splits sum.splits)
qed

text \<open>What a request that changed a table had to bring: the key of the assistant; or the token of the form and
  either a form of the entrance or the session of an owner.\<close>

definition entrance :: "web_request \<Rightarrow> bool" where
  "entrance r \<longleftrightarrow> path_segments (wr_path r) \<in> {[''setup''], [''login''], [''logout'']}"

definition as_owner :: "env \<Rightarrow> web_request \<Rightarrow> db \<Rightarrow> db \<Rightarrow> bool" where
  "as_owner e r s t \<longleftrightarrow> (\<exists>ck info. get_cookie r cookie_name = Some ck \<and> Validate e ck s = (Inr (Some info), s) \<and>
     is_owner info \<and> signed (as_user info e) s t)"

lemma app_action:
  assumes run: "answering (require_session e (\<lambda>e' q'. block_viewer_writes (f srv e') q') q) s0 = (Inr p, t)"
    and unsafe: "\<not> safe_method (wr_method q)" and f: "(pt, f) \<in> set post_routes"
  shows "t = s0 \<or> (\<exists>ck info. get_cookie q cookie_name = Some ck \<and> Validate e ck s0 = (Inr (Some info), s0) \<and>
    is_owner info \<and> signed (as_user info e) s0 t)"
proof -
  obtain a where "require_session e (\<lambda>e' q'. block_viewer_writes (f srv e') q') q s0 = (Inr a, t)"
    using run by (auto simp: answering_def andthen_ok)
  from require_session_result [OF this] consider "t = s0"
    | ck info co where "get_cookie q cookie_name = Some ck" "Validate e ck s0 = (Inr (Some info), s0)"
      "block_viewer_writes (f srv (as_user info e)) (q\<lparr>wr_session := Some info, wr_company := co\<rparr>) s0 = (Inr a, t)"
    by blast
  then show ?thesis
  proof cases
    case 2
    show ?thesis
    proof (cases "is_owner info")
      case True
      have "keeps (signed (as_user info e)) (f srv (as_user info e) q')" for q'
        using actions_signed f by (auto simp: list_all_iff)
      then have "signed (as_user info e) s0 t"
        using 2(3) True by (auto simp: block_viewer_writes_def intro: signed.keeps_state)
      with 2 True show ?thesis by blast
    next
      case False
      then show ?thesis using 2(3) unsafe by (simp add: block_viewer_writes_def)
    qed
  qed simp
qed

lemma Validate_draws:
  "draws_only s s0 \<Longrightarrow> Validate e ck s0 = (Inr v, s0) \<Longrightarrow> Validate e ck s = (Inr v, s)"
  by (auto simp: draws_only_def Validate_def andthen_def attempt_def q_GetSession_def fetch_def
      split: if_splits list.splits sum.splits)

text \<open>C32. A request changes the tables (beyond the counter that numbers rows and draws) only when it comes
  with the key of the assistant, or is a POST whose form carries the token of its cookie and which is a
  form of the entrance or comes with the valid session of an owner; in the last case every entry it
  adds to the audit log is signed with that owner's address.\<close>

theorem changes_need_the_owner:
  assumes run: "serve_http srv e r s = (Inr reply, t)" and raw: "incoming r" and changed: "\<not> draws_only s t"
  shows "(\<exists>m. ws_mcp srv = Some m \<and> authed m (wr_mcp r) \<and> is_mcp_path (path_segments (wr_path r))) \<or>
    wr_method r = ''POST'' \<and> form_token_ok e s r \<and> (entrance r \<or> as_owner e r s t)"
proof -
  define q where "q = max_body r"
  define ss where "ss = path_segments (wr_path r)"
  have q: "wr_path q = wr_path r" "wr_method q = wr_method r" "wr_mcp q = wr_mcp r" "wr_post q = None"
    "wr_body q = wr_body r" "wr_cookies q = wr_cookies r"
    using raw by (simp_all add: q_def max_body_def incoming_def)
  have same: "form_token_ok e s (q\<lparr>wr_id := i\<rparr>) = form_token_ok e s r" "get_cookie (q\<lparr>wr_id := i\<rparr>) k = get_cookie r k" for i k
    using q by (simp_all add: form_token_ok_def get_cookie_def has_csrf_cookie_def)
  obtain p where disp: "dispatch_http srv e q s = (Inr p, t)"
    using run by (auto simp: serve_http_def andthen_ok q_def)
  have moved: "t \<noteq> s" using changed draws_only_refl by blast
  consider (mcp) m where "is_mcp_path ss" "ws_mcp srv = Some m" "handle_mcp srv e m q s = (Inr p, t)"
    | (route) h i where "find_route (wr_method r) ss routes = Some (h, i)" "run_handler srv e h (q\<lparr>wr_id := i\<rparr>) s = (Inr p, t)"
    using disp moved unfolding dispatch_http_def Let_def q ss_def [symmetric]
    by (auto split: if_splits option.splits)
  then show ?thesis
  proof cases
    case (mcp m)
    then have "authed m (wr_mcp r)" using moved by (auto simp: handle_mcp_def mcp_handle_def q andthen_ok split: if_splits)
    with mcp show ?thesis unfolding ss_def by blast
  next
    case (route h i)
    let ?q = "q\<lparr>wr_id := i\<rparr>"
    show ?thesis
      using route(1)
    proof (cases rule: route_cases)
      case (page pt f)
      have "keeps draws_only (run_handler srv e h ?q)"
        unfolding run_handler_def page handler.case
        by (intro draws.keeps_csrf_guard draws.keeps_answering draws.keeps_require_session draws.keeps_block
            page_keeps [OF draws.change_axioms page(3)] keeps_intros)
      with route(2) changed show ?thesis by (metis draws.keeps_state)
    next
      case (public f)
      have "keeps draws_only (f srv e q')" for q' using public(3) draws.keeps_public by auto
      then have "keeps draws_only (run_handler srv e h ?q)"
        unfolding run_handler_def public handler.case
        by (intro draws.keeps_csrf_guard draws.keeps_answering keeps_intros)
      with route(2) changed show ?thesis by (metis draws.keeps_state)
    next
      case (entry f)
      have "\<not> safe_method (wr_method ?q)" "wr_post ?q = None" using entry(1) q by (simp_all add: safe_method_def)
      from csrf_guard_unsafe [OF route(2) [unfolded run_handler_def entry handler.case] this] changed
      show ?thesis using entry(1,4) same unfolding entrance_def ss_def by blast
    next
      case (action pt f)
      have "\<not> safe_method (wr_method ?q)" "wr_post ?q = None" using action(1) q by (simp_all add: safe_method_def)
      from csrf_guard_unsafe [OF route(2) [unfolded run_handler_def action handler.case] this] changed
      obtain tok s0 p0 where tok: "form_token_ok e s ?q" "draws_only s s0"
        "answering (require_session e (\<lambda>e' q'. block_viewer_writes (f srv e') q') ((parse_form ?q)\<lparr>wr_csrf := tok\<rparr>)) s0 = (Inr p0, t)"
        by blast
      have "get_cookie ((parse_form ?q)\<lparr>wr_csrf := tok\<rparr>) k = get_cookie r k" "wr_method ((parse_form ?q)\<lparr>wr_csrf := tok\<rparr>) = ''POST''" for k
        using q action(1) by (simp_all add: parse_form_def get_cookie_def split: option.split)
      with app_action [OF tok(3) _ action(3)] changed tok(2)
      obtain ck info where "get_cookie r cookie_name = Some ck" "Validate e ck s0 = (Inr (Some info), s0)" "is_owner info"
        "signed (as_user info e) s0 t" by (auto simp: safe_method_def)
      moreover have "signed (as_user info e) s s0" using tok(2) by (auto simp: draws_only_def signed_def)
      ultimately have "as_owner e r s t"
        unfolding as_owner_def using Validate_draws [OF tok(2)] signed.change_trans by blast
      with tok(1) same action(1) show ?thesis by blast
    qed
  qed
qed

section \<open>Uploads\<close>

definition upload_paths :: "string list" where
  "upload_paths = [''/kvitton'', ''/bank/import'', ''/sie/import'', ''/supplier-invoices'']"

lemma find_route_some: "(m, p, h) \<in> set rs \<Longrightarrow> match_path p ss = Some i \<Longrightarrow> \<exists>g j. find_route m ss rs = Some (g, j)"
  by (induction m ss rs rule: find_route.induct) (auto split: if_splits)

lemma upload_segments:
  assumes "path \<in> set upload_paths"
  shows "path_segments path \<in> {[''kvitton''], [''bank'', ''import''], [''sie'', ''import''], [''supplier-invoices'']}"
  using assms by (auto simp: upload_paths_def path_segments_def)

lemma upload_entries:
  "([Fixed ''kvitton''], handle_receipt_upload) \<in> set post_routes"
  "([Fixed ''bank'', Fixed ''import''], handle_bank_import) \<in> set post_routes"
  "([Fixed ''sie'', Fixed ''import''], handle_sie_import) \<in> set post_routes"
  "([Fixed ''supplier-invoices''], handle_supplier_invoice_create) \<in> set post_routes"
  unfolding post_routes_def list.set by (intro insertI1 insertI2)+

lemma action_route: "(pt, f) \<in> set post_routes \<Longrightarrow> (''POST'', pt, App f) \<in> set routes"
  unfolding routes_def by force

lemma upload_routes:
  assumes "path \<in> set upload_paths"
  obtains f i where "find_route ''POST'' (path_segments path) routes = Some (App f, i)"
proof -
  have "\<exists>g i. find_route ''POST'' (path_segments path) routes = Some (g, i)"
    using upload_segments [OF assms] upload_entries [THEN action_route, THEN find_route_some] by auto
  then obtain g i where gi: "find_route ''POST'' (path_segments path) routes = Some (g, i)" by blast
  then show thesis
    by (cases rule: route_cases) (use upload_segments [OF assms] gi that in auto)
qed

text \<open>C33. A file never arrives. The pages for receipts, bank statements, SIE files and supplier invoices
  send their forms as multipart bodies; every such request is refused by the CSRF check, with the token
  in the form or without it, because the check parses the body as a URL-encoded form first and the value
  is then looked up in what that left. No table changes.\<close>

theorem uploads_are_refused:
  assumes "incoming r" and "wr_method r = ''POST''" and "wr_path r \<in> set upload_paths"
    and "wr_body r = Multipart fs files"
  shows "\<exists>reply t. serve_http srv e r s = (Inr reply, t) \<and> draws_only s t \<and>
    rp_answer (hr_reply reply) = HttpError ''invalid CSRF token'' 403"
proof -
  obtain f i where f: "find_route ''POST'' (path_segments (wr_path r)) routes = Some (App f, i)"
    using upload_routes [OF assms(3)] by blast
  let ?q = "(max_body r)\<lparr>wr_id := i\<rparr>"
  have "path_segments (wr_path r) \<noteq> [''health'']" "\<not> is_mcp_path (path_segments (wr_path r))"
    using upload_segments [OF assms(3)] by (auto simp: is_mcp_path_def)
  note path = this
  obtain reply t where run: "serve_http srv e r s = (Inr reply, t)"
    using serve_http_answers [of srv e r] unfolding answers_def by blast
  then have "run_handler srv e (App f) ?q s = (Inr (hr_reply reply), t)"
    using path f assms(2)
    by (auto simp: serve_http_def andthen_ok dispatch_http_def Let_def max_body_def)
  moreover have "\<not> safe_method (wr_method ?q)" "wr_post ?q = None"
    using assms by (simp_all add: max_body_def incoming_def safe_method_def)
  moreover have "\<not> form_token_ok e s ?q" using assms(4) by (simp add: form_token_ok_def max_body_def)
  ultimately have "draws_only s t \<and> rp_answer (hr_reply reply) = HttpError ''invalid CSRF token'' 403"
    unfolding run_handler_def handler.case using csrf_guard_unsafe by blast
  with run show ?thesis by blast
qed

end
