(* ===== verification/Web_Samples.thy ===== *)
theory Web_Samples
  imports Web_Laws
begin

text \<open>
  The operator UI on concrete requests: a server whose parameters are functions that compute, a company with
  one operator signed in, and the properties of theory \<open>Web_Laws\<close> applied there. Then what is told of
  stored receipts.
\<close>

section \<open>A server and a desk\<close>

definition sample_server :: web_server where
  "sample_server = \<lparr>ws_mcp = None, ws_gotenberg = None, ws_mailer = None, ws_secure = True, ws_flare_dsn = [],
     ws_hash = sample_hash, ws_check = sample_check,
     ws_uuid = (\<lambda>x. case parse_int64 x of (n, ok) \<Rightarrow> if ok then Some (nat n) else None),
     ws_camt = (\<lambda>_. None), ws_sie_read = id, ws_sie_write = Some, ws_limited = (\<lambda>_. False),
     ws_deliver = (\<lambda>_ _ _. True)\<rparr>"

definition sample_owner :: user_row where
  "sample_owner = \<lparr>us_id = 1, us_email = ''kim@pare.se'', us_password = ''x'', us_role = ''owner''\<rparr>"

definition sample_desk :: db where
  "sample_desk = empty_db\<lparr>companies := [no_company\<lparr>co_id := 3, co_name := ''Kim AB''\<rparr>], users := [sample_owner],
     sessions := [\<lparr>se_token = ''tok'', se_user = 1, se_expires = At (Date 2026 3 6) 0\<rparr>], next_id := 9\<rparr>"

definition sample_request :: "string \<Rightarrow> string \<Rightarrow> web_body \<Rightarrow> web_request" where
  "sample_request m path body = \<lparr>wr_method = m, wr_path = path, wr_query = [],
     wr_cookies = [(''pare_csrf'', ''t''), (''pare_session'', ''tok'')], wr_body = body, wr_length = 20,
     wr_limit = None, wr_post = None, wr_files = None, wr_id = [], wr_csrf = [], wr_session = None, wr_company = 0,
     wr_mcp = \<lparr>mq_api_key = [], mq_authorization = [], mq_session = [], mq_body = None\<rparr>\<rparr>"

lemma sample_request_incoming [simp]: "incoming (sample_request m path body)"
  by (simp add: incoming_def sample_request_def)

theorem http_requests_keep_the_books_witness:
  "\<exists>reply t. serve_http sample_server sample_env (sample_request ''GET'' ''/login'' OtherBody)
      (snd (serve sample_env Sync empty_db)) = (Inr reply, t) \<and> hr_headers reply = security_headers \<and>
    (\<exists>vs. verifications t = verifications (snd (serve sample_env Sync empty_db)) @ vs) \<and>
    (\<exists>ls. vlines t = vlines (snd (serve sample_env Sync empty_db)) @ ls) \<and>
    (\<exists>as. audit_log t = audit_log (snd (serve sample_env Sync empty_db)) @ as) \<and> books_ok t \<and>
    (\<forall>c. VerifyAuditChain sample_env c t = (Inr (True, 0), t))"
  by (rule http_requests_keep_the_books [OF use_job [OF use_start same_process_refl]]) (simp add: housekeeping_def)

definition year_request :: web_request where
  "year_request = sample_request ''POST'' ''/bokslut'' (Urlencoded [(''csrf'', ''t''), (''year'', ''2027'')])"

lemma year_route: "find_route ''POST'' [''bokslut''] routes = Some (App handle_add_fiscal_year, [])"
  by (simp add: routes_def public_routes_def get_routes_def post_routes_def)

definition year_opened :: db where
  "year_opened = snd (EnsureFiscalYear 3 2027 sample_desk)"

lemma sample_session:
  "Validate sample_env ''tok'' sample_desk = (Inr (Some \<lparr>si_user = 1, si_email = ''kim@pare.se'', si_role = ''owner''\<rparr>), sample_desk)"
  by (simp add: Validate_def q_GetSession_def fetch_def attempt_def andthen_def sample_desk_def sample_owner_def
      less_gotime_def less_date_def less_eq_gotime_def less_eq_date_def)

lemma sample_year:
  "EnsureFiscalYear 3 2027 sample_desk = (Inr (), year_opened)" "fiscal_years year_opened \<noteq> fiscal_years sample_desk"
  unfolding year_opened_def
  by (simp_all add: EnsureFiscalYear_def InsertFiscalYear_def company_exists_def no_company_def sample_desk_def empty_db_def andthen_def attempt_def Let_def)

lemma sample_parse: "parse_int64 ''2027'' = (2027, True)" "trim_space ''2027'' = ''2027''"
  by code_simp+

lemma sample_default: "DefaultCompany sample_desk = (Inr 3, sample_desk)"
  by (simp add: DefaultCompany_def ListCompanies_def sample_desk_def no_company_def)

lemma year_served:
  "\<exists>reply. serve_http sample_server sample_env year_request sample_desk = (Inr reply, year_opened)"
proof -
  let ?q = "(parse_form ((max_body year_request)\<lparr>wr_id := []\<rparr>))\<lparr>wr_csrf := ''t''\<rparr>"
  let ?i = "\<lparr>si_user = 1, si_email = ''kim@pare.se'', si_role = ''owner''\<rparr>"
  have form: "post_form_value (parse_form ((max_body year_request)\<lparr>wr_id := []\<rparr>)) ''csrf'' = ''t''"
    "has_csrf_cookie ((max_body year_request)\<lparr>wr_id := []\<rparr>)" "safe_method ''POST'' = False"
    "wr_method ((max_body year_request)\<lparr>wr_id := []\<rparr>) = ''POST''"
    "get_cookie ((max_body year_request)\<lparr>wr_id := []\<rparr>) csrf_cookie_name = Some ''t''"
    by (simp_all add: year_request_def sample_request_def max_body_def parse_form_def too_long_def body_limit_def
        post_form_value_def post_form_def first_value_def values_of_def has_csrf_cookie_def get_cookie_def
        csrf_cookie_name_def safe_method_def)
  have year: "form_text (parse_form (?q\<lparr>wr_session := Some ?i, wr_company := 3\<rparr>)) ''year'' = ''2027''"
    "get_cookie ?q cookie_name = Some ''tok''" "wr_method ?q = ''POST''"
    by (simp_all add: year_request_def sample_request_def max_body_def parse_form_def too_long_def body_limit_def
        form_text_def post_form_value_def post_form_def first_value_def values_of_def get_cookie_def cookie_name_def
        sample_parse(2))
  have handled: "handle_add_fiscal_year sample_server (as_user ?i sample_env) (?q\<lparr>wr_session := Some ?i, wr_company := 3\<rparr>) sample_desk
      = (Inr (Redirect ''/bokslut?msg=added''), year_opened)"
    unfolding handle_add_fiscal_year_def Let_def year(1) sample_parse(1)
    by (simp add: or_fail_def attempt_def andthen_def parse_form_def max_body_def year_request_def sample_request_def sample_year(1))
  have guarded: "require_session sample_env (\<lambda>e' q'. block_viewer_writes (handle_add_fiscal_year sample_server e') q') ?q sample_desk
      = (Inr (Redirect ''/bokslut?msg=added''), year_opened)"
    using handled year(2,3)
    by (simp add: require_session_def andthen_def sample_session attempt_def sample_default block_viewer_writes_def
        is_owner_def form(3))
  have path: "path_segments (wr_path (max_body year_request)) = [''bokslut'']" "wr_method (max_body year_request) = ''POST''"
    by (simp_all add: year_request_def sample_request_def max_body_def path_segments_def)
  show ?thesis
    unfolding serve_http_def dispatch_http_def Let_def path
    using guarded
    by (simp add: is_mcp_path_def year_route run_handler_def csrf_guard_def form path(2) csrf_protect_def andthen_def
        answering_def Let_def)
qed

theorem changes_need_the_owner_witness:
  "\<exists>reply t. serve_http sample_server sample_env year_request sample_desk = (Inr reply, t) \<and> \<not> draws_only sample_desk t \<and>
    ((\<exists>m. ws_mcp sample_server = Some m \<and> authed m (wr_mcp year_request) \<and>
        is_mcp_path (path_segments (wr_path year_request))) \<or>
     wr_method year_request = ''POST'' \<and> form_token_ok sample_env sample_desk year_request \<and>
       (entrance year_request \<or> as_owner sample_env year_request sample_desk t))"
proof -
  obtain reply where r: "serve_http sample_server sample_env year_request sample_desk = (Inr reply, year_opened)"
    using year_served by blast
  have "fiscal_years t = fiscal_years s" if "draws_only s t" for s t using that by (auto simp: draws_only_def)
  with sample_year(2) have moved: "\<not> draws_only sample_desk year_opened" by blast
  show ?thesis
    by (intro exI conjI, rule r, rule moved, rule changes_need_the_owner [OF r _ moved]) (simp add: year_request_def)
qed

theorem uploads_are_refused_witness:
  "\<exists>reply t. serve_http sample_server sample_env
      (sample_request ''POST'' ''/kvitton'' (Multipart [(''csrf'', ''t'')]
        [(''file'', \<lparr>up_filename = ''kvitto.pdf'', up_mime = ''application/pdf'', up_content = ''%PDF-1.4''\<rparr>)])) sample_desk
      = (Inr reply, t) \<and> draws_only sample_desk t \<and>
    rp_answer (hr_reply reply) = HttpError ''invalid CSRF token'' 403"
  by (rule uploads_are_refused) (simp_all add: sample_request_def upload_paths_def incoming_def)

section \<open>Receipts\<close>

text \<open>The first bytes of each type that is shown in the page.\<close>

definition begins_as :: "string \<Rightarrow> string \<Rightarrow> bool" where
  "begins_as ct x \<longleftrightarrow> (let b = map byte x in
     ct = ''application/pdf'' \<and> take 4 b = [0x25, 0x50, 0x44, 0x46] \<or> ct = ''image/gif'' \<and> take 4 x = ''GIF8'' \<or>
     ct = ''image/webp'' \<and> take 4 x = ''RIFF'' \<or> ct = ''image/png'' \<and> take 4 b = [0x89, 0x50, 0x4E, 0x47] \<or>
     ct = ''image/jpeg'' \<and> take 3 b = [0xFF, 0xD8, 0xFF])"

text \<open>The same documents with other types declared at upload.\<close>

definition redeclared :: "(document_row \<Rightarrow> string) \<Rightarrow> db \<Rightarrow> db" where
  "redeclared f s = s\<lparr>documents := map (\<lambda>d. d\<lparr>dc_mime := f d\<rparr>) (documents s)\<rparr>"

lemma detected_safe:
  "if inline_safe_receipt_type (detect_content_type x) then begins_as (detect_content_type x) x
   else detect_content_type x = neutral_type"
proof -
  have four: "take 4 b = take 4 (take k b)" if "4 \<le> k" for b :: "'a list" and k
    using that by (simp add: min_def)
  have "take 4 (map byte x) = [0x25, 0x50, 0x44, 0x46]" if "take 5 (map byte x) = [0x25, 0x50, 0x44, 0x46, 0x2D]"
    using four [of 5 "map byte x"] that by simp
  moreover have "take 4 x = ''GIF8''" if "take 6 x = ''GIF87a'' \<or> take 6 x = ''GIF89a''"
  proof -
    have "take 4 (take 6 x) = ''GIF8''" using that by (elim disjE; simp only:) simp_all
    then show ?thesis by simp
  qed
  moreover have "take 4 (map byte x) = [0x89, 0x50, 0x4E, 0x47]"
    if "take 8 (map byte x) = [0x89, 0x50, 0x4E, 0x47, 0x0D, 0x0A, 0x1A, 0x0A]"
    using four [of 8 "map byte x"] that by simp
  moreover have "inline_safe_receipt_type ct" if "ct \<in> set inline_safe_types" for ct
    using that by (auto simp: inline_safe_receipt_type_def inline_safe_types_def has_prefix_def)
  moreover have "\<not> inline_safe_receipt_type neutral_type"
    by (simp add: inline_safe_receipt_type_def inline_safe_types_def has_prefix_def neutral_type_def)
  ultimately show ?thesis
    unfolding detect_content_type_def begins_as_def Let_def by (auto simp: inline_safe_types_def)
qed

lemma redeclared_content:
  "\<exists>m. fst (GetDocumentContent e c i (redeclared f s)) = map_sum id (\<lambda>d. d\<lparr>df_mime := m\<rparr>) (fst (GetDocumentContent e c i s))"
proof -
  have rows: "filter (\<lambda>d. dc_id d = i) (documents (redeclared f s)) =
      map (\<lambda>d. d\<lparr>dc_mime := f d\<rparr>) (filter (\<lambda>d. dc_id d = i) (documents s))"
    by (simp add: redeclared_def filter_map o_def)
  have dek: "company_dek e c s = (fst (company_dek e c s), s)"
    "company_dek e c (redeclared f s) = (fst (company_dek e c s), redeclared f s)"
    by (auto simp: company_dek_def GetCompany_def fetch_def andthen_def redeclared_def split: list.split sum.split)
  show ?thesis
  proof (cases "filter (\<lambda>d. dc_id d = i) (documents s)")
    case Nil
    then show ?thesis using rows by (simp add: GetDocumentContent_def q_GetDocumentContent_def fetch_def andthen_def)
  next
    case (Cons d ds)
    show ?thesis
      by (rule exI [of _ "f d"])
        (use rows Cons dek in \<open>auto simp: GetDocumentContent_def q_GetDocumentContent_def fetch_def andthen_def
          split: sum.splits prod.splits\<close>)
  qed
qed

lemma receipt_page: "([Fixed ''kvitton'', Param, Fixed ''file''], handle_receipt_file) \<in> set get_routes"
  unfolding get_routes_def list.set by (intro insertI1 insertI2)+

text \<open>C34. What is stored as a receipt is never served as a page: a download shown in the page has one of five
  types, its bytes begin with the mark of that type, and anything else is an attachment of the neutral
  type. The type declared at upload has no part in it: with any other declared types the same document
  is served the same way. Nothing is changed by reading.\<close>

theorem receipts_are_not_pages:
  assumes "handle_receipt_file srv e r s = (Inr (Download ct disp fn body), t)"
  shows "t = s \<and> (disp = ''inline'' \<and> inline_safe_receipt_type ct \<and> begins_as ct body \<or>
      disp = ''attachment'' \<and> ct = ''application/octet-stream'') \<and>
    fst (handle_receipt_file srv e r (redeclared f s)) = Inr (Download ct disp fn body)"
proof -
  have same: "t = s"
    using read_state [OF page_keeps [OF same_tables.change_axioms receipt_page]] assms by blast
  obtain i where i: "ws_uuid srv (wr_id r) = Some i"
    using assms by (auto simp: handle_receipt_file_def with_id_def not_found_def split: option.splits)
  have run: "fst (handle_receipt_file srv e r u) = Inr (case fst (GetDocumentContent e (wr_company r) i u) of
      Inl _ \<Rightarrow> internal_error
    | Inr d \<Rightarrow> let ty = detect_content_type (df_content d); safe = inline_safe_receipt_type ty in
        Download (if safe then ty else ''application/octet-stream'') (if safe then ''inline'' else ''attachment'')
          (go_quote (df_filename d)) (df_content d))" for u
    by (auto simp: handle_receipt_file_def with_id_def i or_fail_def andthen_def attempt_def Let_def split: sum.split prod.split)
  obtain d where d: "fst (GetDocumentContent e (wr_company r) i s) = Inr d"
    "Download ct disp fn body = (let ty = detect_content_type (df_content d); safe = inline_safe_receipt_type ty in
        Download (if safe then ty else ''application/octet-stream'') (if safe then ''inline'' else ''attachment'')
          (go_quote (df_filename d)) (df_content d))"
    using run [of s] assms by (auto simp: internal_error_def split: sum.splits)
  have kind: "disp = ''inline'' \<and> inline_safe_receipt_type ct \<and> begins_as ct body \<or>
      disp = ''attachment'' \<and> ct = ''application/octet-stream''"
    using d(2) detected_safe [of body] by (auto simp: Let_def split: if_splits)
  obtain m where "fst (GetDocumentContent e (wr_company r) i (redeclared f s)) = Inr (d\<lparr>df_mime := m\<rparr>)"
    using redeclared_content [of e "wr_company r" i f s] d(1) by auto
  then have "fst (handle_receipt_file srv e r (redeclared f s)) = Inr (Download ct disp fn body)"
    unfolding run d(2) by (simp add: Let_def)
  with same kind show ?thesis by blast
qed

text \<open>A page of HTML, uploaded as a picture.\<close>

definition html_receipt :: db where
  "html_receipt = sample_company\<lparr>documents := [\<lparr>dc_id = 7, dc_company = 3, dc_mime = ''image/png'', dc_size = 8,
     dc_content = replicate 12 CHR ''n'' @ ''<script>'', dc_sha = [], dc_filename_enc = [], dc_note_enc = [],
     dc_filename = [], dc_note = [], dc_supplier = None, dc_verification = None, dc_created = zero_time\<rparr>]\<rparr>"

definition receipt_request :: web_request where
  "receipt_request = (sample_request ''GET'' ''/kvitton/7/file'' OtherBody)\<lparr>wr_id := ''7'', wr_company := 3\<rparr>"

lemma html_served:
  "handle_receipt_file sample_server sample_env receipt_request html_receipt =
    (Inr (Download ''application/octet-stream'' ''attachment'' (go_quote []) ''<script>''), html_receipt)"
proof -
  have dek: "company_dek sample_env 3 html_receipt = (Inr (replicate 32 CHR ''r''), html_receipt)"
    by (rule sample_dek(2)) (simp add: html_receipt_def)
  have id: "ws_uuid sample_server ''7'' = Some 7" unfolding sample_server_def web_server.simps by code_simp
  have "q_GetDocumentContent 7 html_receipt = (Inr (documents html_receipt ! 0), html_receipt)"
    by (simp add: q_GetDocumentContent_def fetch_def html_receipt_def)
  then have doc: "GetDocumentContent sample_env 3 7 html_receipt =
      (Inr \<lparr>df_filename = [], df_mime = ''image/png'', df_content = ''<script>''\<rparr>, html_receipt)"
    using dek by (simp add: GetDocumentContent_def andthen_def decrypt_bytes_def open_bytes_def new_gcm_def nonce_size_def
        dec_blank_def html_receipt_def)
  have ty: "\<not> inline_safe_receipt_type (detect_content_type ''<script>'')" by code_simp
  show ?thesis
    using id doc ty by (simp add: handle_receipt_file_def with_id_def or_fail_def andthen_def attempt_def receipt_request_def Let_def)
qed

theorem receipts_are_not_pages_witness:
  "html_receipt = html_receipt \<and> (''attachment'' = ''inline'' \<and> inline_safe_receipt_type ''application/octet-stream'' \<and>
      begins_as ''application/octet-stream'' ''<script>'' \<or>
      ''attachment'' = ''attachment'' \<and> ''application/octet-stream'' = ''application/octet-stream'') \<and>
    fst (handle_receipt_file sample_server sample_env receipt_request (redeclared (\<lambda>_. ''text/html'') html_receipt)) =
      Inr (Download ''application/octet-stream'' ''attachment'' (go_quote []) ''<script>'')"
  by (rule receipts_are_not_pages [OF html_served])

end
