(* ===== verification/Query_Laws.thy ===== *)
theory Query_Laws
  imports Web_Laws
begin

text \<open>
  The operations of the store and the requests of the web interface change the tables through the queries
  alone. A relation on the tables that every query keeps is therefore kept by every operation, every
  request and every run of the program; the locale \<open>query_laws\<close> is that interface.
\<close>

section \<open>Programs are made of queries\<close>

text \<open>A relation on the tables that every query which writes keeps.\<close>

locale query_laws = change R for R :: "db \<Rightarrow> db \<Rightarrow> bool" +
  assumes draws: "draws_only s t \<Longrightarrow> R s t"
    and register_queries: "keeps R (InsertCompany n1 n2 n3 n4)" "keeps R (UpdateCompanyProfile ci)"
      "keeps R (SetLockedThrough c d)" "keeps R (UpsertAccount ac)" "keeps R (InsertCounterparty cp)"
      "keeps R (q_UpdateCounterparty c i cp)" "keeps R (q_EraseCounterparty nw c i n1)"
    and ledger_queries: "keeps R (InsertVerification c n1 k d1 n2 j p)" "keeps R (InsertVerificationLine l)"
      "keeps R (InsertAuditLog a)" "keeps R (InsertFiscalYear c n1 d1 d2)" "keeps R (q_CloseFiscalYear nw c i)"
    and invoice_queries: "keeps R (InsertInvoice c i d d' n1 w)" "keeps R (InsertInvoiceLine il)"
      "keeps R (AllocInvoiceNumber c k)" "keeps R (q_FinalizeInvoice c i n1 d d' j)" "keeps R (q_DeleteDraftInvoice c i)"
      "keeps R (SetInvoiceCredits i j)" "keeps R (MarkInvoiceCancelled c i)" "keeps R (MarkInvoiceCredited c i)"
      "keeps R (AddInvoicePayment c i w)" "keeps R (MarkInvoicePaid c i d j)"
    and supplier_queries: "keeps R (InsertSupplierInvoice su)" "keeps R (q_FinalizeSupplierInvoice c i j)"
      "keeps R (MarkSupplierInvoicePaid c i d j)"
    and bank_queries: "keeps R (InsertBankTxn bt)" "keeps R (ClaimBankTxn c i)" "keeps R (UnclaimBankTxn c i)"
      "keeps R (MarkBankTxnBooked c i j j')" "keeps R (MarkBankTxnIgnored c i)"
      "keeps R (AnonymizeNonRetainedBankTxns c nw)"
    and document_queries: "keeps R (InsertDocument dr)" "keeps R (q_AttachDocumentToSupplier c i j)"
      "keeps R (q_DeleteDocument c i)" "keeps R (SetDocumentPIIEnc i n1 n2)" "keeps R (AnonymizeOrphanDocuments c nw)"
    and access_queries: "keeps R (UpsertShieldToken sh)" "keeps R DeleteAllShieldTokens" "keeps R (DeleteOldShieldTokens nw)"
      "keeps R (InsertUser n1 n2 n3)" "keeps R (InsertSession se)" "keeps R (DeleteSession n1)"
      "keeps R (DeleteExpiredSessions nw)"
begin

lemmas queries = register_queries ledger_queries invoice_queries supplier_queries bank_queries document_queries access_queries

lemma drawn: "keeps draws_only m \<Longrightarrow> keeps R m"
  by (erule keeps_weaken) (rule draws)

lemma drawing:
  "keeps R (draw e n)" "keeps R (seal_bytes e k p)" "keeps R (seal e k p)" "keeps R (new_dek e)" "keeps R (wrap_dek e k)"
  "keeps R (encrypt_field e k p)" "keeps R (encrypt_bytes e k p)"
  by (rule drawn, rule keeps_intros)+

lemmas parts = keeps_web keeps_documents drawing queries

lemma helpers:
  "keeps R (log_audit e c a tt ti dt)" "keeps R (post_verification e c sr t ds ls rv)" "keeps R (seed_chart c)"
  "keeps R (EnsureFiscalYear c y)" "keeps R (enc_field e k v)" "keeps R (company_dek e c)"
  unfolding log_audit_def post_verification_def seed_chart_def EnsureFiscalYear_def enc_field_def company_dek_def Let_def
  by (rule parts | (simp only: split_def, rule keeps_if))+

lemma register_keeps:
  "keeps R (BootstrapCompany e nm orgnr)" "keeps R SyncChart" "keeps R (UpdateCompanyProfile_op e ci)"
  "keeps R (PostVerification e c sr t ds ls rv)" "keeps R (UndoVerification e c i)"
  "keeps R (CreateCounterparty e c x)" "keeps R (UpdateCounterparty e c i x)" "keeps R (EraseCounterparty e c i)"
  "keeps R (LockPeriod e c t ds)" "keeps R (UnlockPeriod e c ds)" "keeps R (LogUserAction e c a tt ti dt)"
  unfolding BootstrapCompany_def SyncChart_def UpdateCompanyProfile_op_def PostVerification_def
    UndoVerification_def CreateCounterparty_def UpdateCounterparty_def EraseCounterparty_def
    LockPeriod_def UnlockPeriod_def LogUserAction_def Let_def
  by (rule parts helpers)+

lemma CreateInvoice_keeps: "keeps R (CreateInvoice e c p x)"
  unfolding CreateInvoice_def Let_def by (rule parts helpers)+

lemma RecordPayment_keeps: "keeps R (RecordPayment e c i t acct pay)"
  unfolding RecordPayment_def payment_tx_def Let_def by (rule parts helpers)+

lemma invoice_keeps:
  "keeps R (DeleteDraftInvoice e c i)" "keeps R (FinalizeInvoice e c i t t')" "keeps R (CreditInvoice e c i)"
  "keeps R (RecordPaymentByNumber e c nr t acct pay)"
  unfolding DeleteDraftInvoice_def FinalizeInvoice_def finalize_tx_def CreditInvoice_def credit_tx_def
    RecordPaymentByNumber_def Let_def
  by (rule parts helpers CreateInvoice_keeps RecordPayment_keeps)+

lemma purchase_keeps:
  "keeps R (CreateSupplierInvoice e c p nr t t' acct net vc ds)" "keeps R (FinalizeSupplierInvoice e c i)"
  "keeps R (RecordSupplierPayment e c i t acct pay)" "keeps R (CloseFiscalYear e c i)"
  unfolding CreateSupplierInvoice_def FinalizeSupplierInvoice_def RecordSupplierPayment_def CloseFiscalYear_def Let_def
  by (rule parts helpers)+

lemma bank_keeps:
  "keeps R (ImportBankStatement e c acct es)" "keeps R (BookBankTxnToInvoice e c i j)"
  "keeps R (BookBankTxnToAccount e c i acct)" "keeps R (IgnoreBankTxn c i)" "keeps R (ImportSIE e c x)"
  unfolding ImportBankStatement_def import_entry_def BookBankTxnToInvoice_def BookBankTxnToAccount_def
    IgnoreBankTxn_def ImportSIE_def import_voucher_def Let_def
  by (rule parts helpers RecordPayment_keeps)+

lemma migrate_row_keeps: "keeps R (migrate_row e SetDocumentPIIEnc dek r)"
  unfolding migrate_row_def by (rule parts helpers)+

lemma backfill_rows_keeps: "keeps R (backfill_rows e (company_dek e) SetDocumentPIIEnc rs b)"
proof (induction rs arbitrary: b)
  case Nil
  show ?case unfolding backfill_rows.simps by (rule keeps_pure)
next
  case (Cons r rs)
  show ?case unfolding backfill_rows.simps Let_def by (rule parts helpers migrate_row_keeps Cons.IH)+
qed

lemma document_keeps:
  "keeps R (SaveDocument e c f m cont n)" "keeps R (AttachDocumentToSupplier e c i j)" "keeps R (DeleteDocument e c i)"
  "keeps R (BackfillDocumentPII e)" "keeps R (sweep_run e)"
  unfolding SaveDocument_def AttachDocumentToSupplier_def DeleteDocument_def BackfillDocumentPII_def sweep_run_def
    Sweep_def anonymize_companies_def AnonymizeNonRetainedPII_def Let_def
  by (rule parts helpers backfill_rows_keeps)+

lemma account_keeps:
  "keeps R (CreateUser hp e email pw role)" "keeps R (Login chk e email pw)" "keeps R (Logout tok)"
  unfolding CreateUser_def Login_def Logout_def rand_token_def Let_def by (rule parts)+

lemmas operations = parts helpers register_keeps CreateInvoice_keeps RecordPayment_keeps invoice_keeps purchase_keeps
  bank_keeps document_keeps account_keeps

lemma serve_keeps: "keeps R (serve e q)"
  by (cases q; simp only: serve.simps forget_def) (rule operations)+

end

context query_laws
begin

lemma receipt_keeps: "keeps R (save_uploaded_receipt e r c)"
  unfolding save_uploaded_receipt_def by (rule operations)+

lemma email_keeps: "keeps R (email_invoice b srv e r)"
  unfolding email_invoice_def by (rule operations)+

lemma actions_keep: "list_all (\<lambda>(p, h). \<forall>srv e r. keeps R (h srv e r)) post_routes"
  unfolding post_routes_def list.pred_inject prod.case action_defs Let_def
  by (intro conjI allI TrueI; (rule operations receipt_keeps email_keeps list.pred_inject(1))+)

lemma entries_keep: "keeps R (handle_setup srv e r)" "keeps R (handle_login srv e r)" "keeps R (handle_logout srv e r)"
  unfolding handle_setup_def handle_login_def handle_logout_def Let_def by (rule operations)+

lemma Tokenize_keeps: "keeps R (Tokenize e m sid k v)"
  unfolding Tokenize_def pg_put_def Let_def by (rule operations)+

lemma tools_keep: "keeps R (run_tool e c maxw nm args)"
  unfolding run_tool_def run_post_verification_def run_record_payment_def run_overview_def run_unpaid_def
    run_trial_balance_def run_moms_def run_export_sie_def run_audit_def run_match_payment_def period_balances_def
    UnpaidInvoices_def MatchOpenInvoices_def TrialBalance_def Let_def
  by (rule operations)+

lemma mcp_keeps: "keeps R (mcp_handle e m q)"
  unfolding mcp_handle_def dispatch_def call_tool_def ShieldStruct_def Let_def
  by (intro operations tools_keep keeps_walk Tokenize_keeps)

lemma run_handler_keeps:
  assumes "find_route m ss routes = Some (h, i)"
  shows "keeps R (run_handler srv e h r)"
  using assms
proof (cases rule: route_cases)
  case (page p f)
  show ?thesis unfolding run_handler_def page handler.case
    by (intro keeps_csrf_guard drawing keeps_answering keeps_require_session keeps_block page_keeps [OF change_axioms page(3)])
next
  case (action p f)
  have "keeps R (f srv e' q)" for e' q using actions_keep action(3) by (auto simp: list_all_iff)
  then show ?thesis unfolding run_handler_def action handler.case
    by (intro keeps_csrf_guard drawing keeps_answering keeps_require_session keeps_block)
next
  case (public f)
  then have "keeps R (f srv e q)" for q using keeps_public by auto
  then show ?thesis unfolding run_handler_def public handler.case by (intro keeps_csrf_guard drawing keeps_answering)
next
  case (entry f)
  then have "keeps R (f srv e q)" for q using entries_keep by auto
  then show ?thesis unfolding run_handler_def entry handler.case by (intro keeps_csrf_guard drawing keeps_if keeps_pure)
qed

lemma serve_http_keeps: "keeps R (serve_http srv e r)"
  unfolding serve_http_def dispatch_http_def handle_mcp_def Let_def
  by (rule keeps_rules mcp_keeps | (rule run_handler_keeps, hypsubst, assumption))+

lemma in_use_keeps:
  assumes "in_use e s"
  shows "R empty_db s"
  using assms
proof (induction rule: in_use.induct)
  case use_start
  show ?case by (rule change_refl)
next
  case (use_http s f srv r)
  then show ?case using change_trans [OF use_http.IH] serve_http_keeps by (simp add: keeps_def)
next
  case (use_job s f q)
  then show ?case using change_trans [OF use_job.IH] serve_keeps by (simp add: keeps_def)
qed

end

end
