(* ===== verification/Schema.thy ===== *)
theory Schema
  imports Query_Laws Web_Samples
begin

text \<open>
  The constraints of the database schema (\<open>internal/db/migrations\<close>: primary keys, foreign keys, unique keys, checks)
  are kept by every query, so they hold in every state of a program in use. A foreign key is stated
  where a query checks it.
\<close>

section \<open>The constraints of the schema\<close>

text \<open>Primary keys: distinct, and drawn from the ids already used.\<close>

definition serial :: "nat \<Rightarrow> nat list \<Rightarrow> bool" where
  "serial n is \<longleftrightarrow> distinct is \<and> list_all (\<lambda>i. 0 < i \<and> i < n) is"

definition register_ok :: "db \<Rightarrow> bool" where
  "register_ok s \<longleftrightarrow> 0 < next_id s \<and> length (companies s) \<le> 1 \<and> serial (next_id s) (map co_id (companies s)) \<and>
     serial (next_id s) (map cp_id (counterparties s)) \<and>
     list_all (\<lambda>r. company_exists (cp_company r) s \<and> valid_kind (cp_kind r)) (counterparties s) \<and>
     distinct (map (\<lambda>a. (ac_company a, ac_number a)) (accounts s)) \<and>
     list_all (\<lambda>a. company_exists (ac_company a) s) (accounts s)"

definition journal_ok :: "db \<Rightarrow> bool" where
  "journal_ok s \<longleftrightarrow> serial (next_id s) (map v_id (verifications s)) \<and>
     distinct (map (\<lambda>v. (v_company v, v_series v, v_number v)) (verifications s)) \<and>
     list_all (\<lambda>v. company_exists (v_company v) s \<and> pred_option (\<lambda>i. ver_exists i s) (v_reversal_of v))
       (verifications s) \<and>
     list_all (\<lambda>l. ver_exists (vl_verification l) s \<and> 0 \<le> sint (vl_debit l) \<and> 0 \<le> sint (vl_credit l) \<and>
       (vl_debit l = 0) \<noteq> (vl_credit l = 0)) (vlines s)"

definition log_ok :: "db \<Rightarrow> bool" where
  "log_ok s \<longleftrightarrow> serial (next_id s) (map au_id (audit_log s)) \<and>
     list_all (\<lambda>a. company_exists (au_company a) s \<and> au_actor a \<in> {''user'', ''ai'', ''system''}) (audit_log s) \<and>
     distinct (map (\<lambda>a. (au_company a, au_prev a)) (audit_log s))"

definition years_ok :: "db \<Rightarrow> bool" where
  "years_ok s \<longleftrightarrow> serial (next_id s) (map fy_id (fiscal_years s)) \<and>
     list_all (\<lambda>r. company_exists (fy_company r) s) (fiscal_years s) \<and>
     distinct (map (\<lambda>r. (fy_company r, fy_start r)) (fiscal_years s))"

definition invoice_key :: "invoice_row \<Rightarrow> uuid \<times> string" where
  "invoice_key r = (iv_company r, iv_number r)"

definition invoices_ok :: "db \<Rightarrow> bool" where
  "invoices_ok s \<longleftrightarrow> serial (next_id s) (map iv_id (invoices s)) \<and>
     list_all (\<lambda>r. company_exists (iv_company r) s \<and> counterparty_exists (iv_counterparty r) s) (invoices s) \<and>
     distinct (map invoice_key (filter (\<lambda>r. iv_number r \<noteq> []) (invoices s))) \<and>
     list_all (\<lambda>l. invoice_exists (ir_invoice l) s) (invoice_rows s)"

definition numbers_ok :: "db \<Rightarrow> bool" where
  "numbers_ok s \<longleftrightarrow> distinct (map fst (invoice_seq s)) \<and>
     list_all (\<lambda>x. company_exists (fst (fst x)) s \<and> 1 \<le> snd x \<and> snd x \<le> max64) (invoice_seq s)"

definition suppliers_ok :: "db \<Rightarrow> bool" where
  "suppliers_ok s \<longleftrightarrow> serial (next_id s) (map su_id (suppliers s)) \<and>
     list_all (\<lambda>r. company_exists (su_company r) s \<and> counterparty_exists (su_counterparty r) s) (suppliers s)"

definition bank_ok :: "db \<Rightarrow> bool" where
  "bank_ok s \<longleftrightarrow> serial (next_id s) (map bt_id (bank_txns s)) \<and>
     list_all (\<lambda>r. company_exists (bt_company r) s) (bank_txns s) \<and>
     distinct (map (\<lambda>r. (bt_company r, bt_fingerprint r)) (bank_txns s))"

definition supplier_exists :: "uuid \<Rightarrow> db \<Rightarrow> bool" where
  "supplier_exists i s \<longleftrightarrow> list_ex (\<lambda>r. su_id r = i) (suppliers s)"

definition documents_ok :: "db \<Rightarrow> bool" where
  "documents_ok s \<longleftrightarrow> serial (next_id s) (map dc_id (documents s)) \<and>
     list_all (\<lambda>r. company_exists (dc_company r) s \<and>
       pred_option (\<lambda>i. supplier_exists i s) (dc_supplier r)) (documents s)"

definition user_exists :: "uuid \<Rightarrow> db \<Rightarrow> bool" where
  "user_exists i s \<longleftrightarrow> list_ex (\<lambda>u. us_id u = i) (users s)"

definition access_ok :: "db \<Rightarrow> bool" where
  "access_ok s \<longleftrightarrow> serial (next_id s) (map us_id (users s)) \<and> distinct (map us_email (users s)) \<and>
     list_all (\<lambda>u. us_role u \<in> {''owner'', ''viewer''}) (users s) \<and>
     distinct (map se_token (sessions s)) \<and> list_all (\<lambda>x. user_exists (se_user x) s) (sessions s) \<and>
     distinct (map (\<lambda>r. (sh_session r, sh_token r)) (shield_tokens s))"

definition schema_ok :: "db \<Rightarrow> bool" where
  "schema_ok s \<longleftrightarrow> register_ok s \<and> journal_ok s \<and> log_ok s \<and> years_ok s \<and> invoices_ok s \<and> numbers_ok s \<and>
     suppliers_ok s \<and> bank_ok s \<and> documents_ok s \<and> access_ok s"

lemmas schema_defs = schema_ok_def register_ok_def journal_ok_def log_ok_def years_ok_def invoices_ok_def numbers_ok_def
  suppliers_ok_def bank_ok_def documents_ok_def access_ok_def

definition keeps_schema :: "db \<Rightarrow> db \<Rightarrow> bool" where
  "keeps_schema s t \<longleftrightarrow> (schema_ok s \<longrightarrow> schema_ok t)"

lemmas exists_defs = company_exists_def ver_exists_def counterparty_exists_def invoice_exists_def supplier_exists_def
  user_exists_def

section \<open>Rows updated, added and removed\<close>

lemma serial_grows: "serial n is \<Longrightarrow> serial (Suc n) is"
  by (auto simp: serial_def list_all_iff)

lemma serial_mono: "serial n is \<Longrightarrow> n \<le> m \<Longrightarrow> serial m is"
  by (auto simp: serial_def list_all_iff)

lemma serial_add: "serial n is \<Longrightarrow> 0 < n \<Longrightarrow> serial (Suc n) (is @ [n])"
  by (auto simp: serial_def list_all_iff)

lemma serial_filter: "serial n (map h xs) \<Longrightarrow> serial n (map h (filter P xs))"
  by (auto simp: serial_def list_all_iff distinct_map_filter)

lemma update_rows_map:
  assumes "\<And>r. h (g r) = h r"
  shows "map (h \<circ> (\<lambda>r. if P r then g r else r)) xs = map h xs"
    and "map (\<lambda>r. h (if P r then g r else r)) xs = map h xs"
  using assms by auto

lemma update_rows_all:
  assumes "\<And>r. Q (g r) = Q r"
  shows "list_all Q (map (\<lambda>r. if P r then g r else r) xs) = list_all Q xs"
    and "list_ex Q (map (\<lambda>r. if P r then g r else r) xs) = list_ex Q xs"
  using assms by (induction xs) auto

lemma update_rows_filter:
  assumes "\<And>r. N (g r) = N r"
  shows "filter N (map (\<lambda>r. if P r then g r else r) xs) = map (\<lambda>r. if P r then g r else r) (filter N xs)"
  using assms by (induction xs) auto

lemmas schema_simps = keeps_schema_def invoice_key_def update_rows_map update_rows_all update_rows_filter map_map

lemma read_check: "andthen (reads (\<lambda>s. if P s then Inl x else Inr ())) (\<lambda>_. m) s = (if P s then (Inl x, s) else m s)"
  by (simp add: andthen_def reads_def)

lemma keeps_schemaI: "(\<And>s. schema_ok s \<Longrightarrow> schema_ok (snd (m s))) \<Longrightarrow> keeps keeps_schema m"
  by (simp add: keeps_def keeps_schema_def)

lemma all_updated:
  "list_all Q xs \<Longrightarrow> (\<And>r. r \<in> set xs \<Longrightarrow> P r \<Longrightarrow> Q r \<Longrightarrow> Q (g r)) \<Longrightarrow> list_all Q (map (\<lambda>r. if P r then g r else r) xs)"
  by (auto simp: list_all_iff)

section \<open>Updates\<close>

lemma updates_kept:
  "keeps keeps_schema (UpdateCompanyProfile ci)" "keeps keeps_schema (SetLockedThrough c d)"
  "keeps keeps_schema (q_EraseCounterparty nw c i n1)" "keeps keeps_schema (q_CloseFiscalYear nw c i)"
  "keeps keeps_schema (SetInvoiceCredits i j)" "keeps keeps_schema (MarkInvoiceCancelled c i)"
  "keeps keeps_schema (MarkInvoiceCredited c i)" "keeps keeps_schema (MarkInvoicePaid c i d j)"
  "keeps keeps_schema (AddInvoicePayment c i w)"
  "keeps keeps_schema (q_FinalizeSupplierInvoice c i j)" "keeps keeps_schema (MarkSupplierInvoicePaid c i d j)"
  "keeps keeps_schema (ClaimBankTxn c i)" "keeps keeps_schema (UnclaimBankTxn c i)"
  "keeps keeps_schema (MarkBankTxnBooked c i j j')" "keeps keeps_schema (MarkBankTxnIgnored c i)"
  "keeps keeps_schema (AnonymizeNonRetainedBankTxns c nw)"
  "keeps keeps_schema (SetDocumentPIIEnc i n1 n2)" "keeps keeps_schema (AnonymizeOrphanDocuments c nw)"
  by (simp_all add: keeps_def query_defs update_rows_def andthen_def schema_simps schema_defs exists_defs)

section \<open>Rows removed and added\<close>

lemma deletes_kept:
  "keeps keeps_schema (DeleteOldShieldTokens nw)" "keeps keeps_schema DeleteAllShieldTokens"
  "keeps keeps_schema (DeleteSession n1)" "keeps keeps_schema (DeleteExpiredSessions nw)"
  "keeps keeps_schema (q_DeleteDocument c i)"
  by (simp_all add: keeps_def query_defs delete_rows_def andthen_def schema_simps schema_defs exists_defs
      distinct_map_filter serial_filter) (simp_all add: list_all_iff)

lemmas insert_simps = query_defs andthen_def Let_def schema_simps schema_defs exists_defs serial_grows serial_add

lemma pred_option_mono_strong: "pred_option P x \<Longrightarrow> (\<And>i. P i \<Longrightarrow> Q i) \<Longrightarrow> pred_option Q x"
  by (cases x) auto

lemma InsertCompany_schema: "keeps keeps_schema (InsertCompany n1 n2 n3 n4)"
  by (rule keeps_schemaI, simp add: insert_simps) (auto simp: list_all_iff serial_def)

lemma plain_inserts_kept:
  "keeps keeps_schema (InsertInvoiceLine il)" "keeps keeps_schema (InsertDocument dr)"
  "keeps keeps_schema (InsertVerificationLine l)"
  by (rule keeps_schemaI, simp add: insert_simps)+

lemma inserts_kept:
  "keeps keeps_schema (InsertCounterparty cp)" "keeps keeps_schema (InsertInvoice c i d d' n1 w)"
  "keeps keeps_schema (InsertSupplierInvoice su)" "keeps keeps_schema (InsertAuditLog a)"
  by (rule keeps_schemaI, simp add: insert_simps,
      (auto simp: list_all_iff company_audit_def elim: pred_option_mono_strong split: option.splits) [1])+

lemma unique_inserts_kept:
  "keeps keeps_schema (InsertFiscalYear c n1 d1 d2)" "keeps keeps_schema (InsertBankTxn bt)"
  "keeps keeps_schema (InsertUser n1 n2 n3)"
  "keeps keeps_schema (InsertSession se)" "keeps keeps_schema (UpsertShieldToken sh)"
  by (rule keeps_schemaI, simp add: insert_simps, (auto simp: list_all_iff list_ex_iff) [1])+

section \<open>Conditional changes\<close>

lemma UpdateCounterparty_schema: "keeps keeps_schema (q_UpdateCounterparty c i cp)"
proof (rule keeps_schemaI)
  fix s
  assume ok: "schema_ok s"
  let ?up = "\<lambda>r. r\<lparr>cp_kind := cp_kind cp, name_enc := name_enc cp, orgnr_enc := orgnr_enc cp,
               personnummer_enc := personnummer_enc cp, address_enc := address_enc cp,
               iban_enc := iban_enc cp, email_enc := email_enc cp\<rparr>"
  let ?rs = "map (\<lambda>r. if live_counterparty c i r then ?up r else r) (counterparties s)"
  show "schema_ok (snd (q_UpdateCounterparty c i cp s))"
  proof (cases "list_ex (live_counterparty c i) (counterparties s) \<and> \<not> valid_kind (cp_kind cp)")
    case False
    then have "list_all (\<lambda>r. company_exists (cp_company r) s \<and> valid_kind (cp_kind r)) ?rs"
      using ok by (intro all_updated) (auto simp: schema_ok_def register_ok_def list_ex_iff list_all_iff)
    with ok False show ?thesis
      by (simp add: q_UpdateCounterparty_def read_check update_rows_def andthen_def schema_simps schema_defs exists_defs)
  qed (use ok in \<open>simp add: q_UpdateCounterparty_def read_check\<close>)
qed

lemma AttachDocument_schema: "keeps keeps_schema (q_AttachDocumentToSupplier c i j)"
proof (rule keeps_schemaI)
  fix s
  assume ok: "schema_ok s"
  let ?none = "list_ex (\<lambda>r. dc_id r = i \<and> dc_company r = c) (documents s) \<and>
    (case j of None \<Rightarrow> False | Some k \<Rightarrow> \<not> list_ex (\<lambda>r. su_id r = k) (suppliers s))"
  show "schema_ok (snd (q_AttachDocumentToSupplier c i j s))"
  proof (cases ?none)
    case False
    then have "list_all (\<lambda>r. company_exists (dc_company r) s \<and> pred_option (\<lambda>i. supplier_exists i s) (dc_supplier r))
        (map (\<lambda>r. if dc_id r = i \<and> dc_company r = c then r\<lparr>dc_supplier := j\<rparr> else r) (documents s))"
      using ok by (intro all_updated) (auto simp: schema_ok_def documents_ok_def supplier_exists_def list_ex_iff list_all_iff
          split: option.splits)
    with ok False show ?thesis
      by (simp add: q_AttachDocumentToSupplier_def read_check update_rows_def andthen_def schema_simps schema_defs exists_defs)
  qed (use ok in \<open>simp add: q_AttachDocumentToSupplier_def read_check\<close>)
qed

lemma InsertVerification_schema: "keeps keeps_schema (InsertVerification c n1 k d1 n2 j p)"
proof (rule keeps_schemaI)
  fix s
  assume ok: "schema_ok s"
  let ?bad = "\<lambda>s. \<not> company_exists c s \<or> k \<in> set (series_numbers c n1 s) \<or>
          (case j of None \<Rightarrow> False | Some i \<Rightarrow> \<not> ver_exists i s)"
  show "schema_ok (snd (InsertVerification c n1 k d1 n2 j p s))"
  proof (cases "?bad s")
    case False
    then have "(c, n1, k) \<notin> (\<lambda>v. (v_company v, v_series v, v_number v)) ` set (verifications s)"
      and "list_ex (\<lambda>r. co_id r = c) (companies s)" and "pred_option (\<lambda>i. list_ex (\<lambda>v. v_id v = i) (verifications s)) j"
      by (auto simp: series_numbers_def exists_defs split: option.splits)
    with ok False show ?thesis
      by (simp add: InsertVerification_def read_check Let_def schema_defs exists_defs serial_grows serial_add)
        (auto simp: list_all_iff elim: pred_option_mono_strong)
  qed (use ok in \<open>simp add: InsertVerification_def read_check\<close>)
qed

lemma UpsertAccount_schema: "keeps keeps_schema (UpsertAccount a)"
proof (rule keeps_schemaI)
  fix s
  assume ok: "schema_ok s"
  let ?up = "map (\<lambda>r. if same_account a r then a else r) (accounts s)"
  let ?key = "\<lambda>a. (ac_company a, ac_number a)"
  have keys: "map ?key ?up = map ?key (accounts s)" by (simp add: same_account_def)
  show "schema_ok (snd (UpsertAccount a s))"
  proof (cases "company_exists (ac_company a) s")
    case True
    have "list_all (\<lambda>a. company_exists (ac_company a) s) ?up"
      using ok True by (auto simp: schema_ok_def register_ok_def list_all_iff)
    moreover have "distinct (map ?key ?up)" using ok unfolding keys by (simp add: schema_ok_def register_ok_def)
    moreover have "?key a \<notin> ?key ` set (accounts s)" if "\<not> list_ex (same_account a) (accounts s)"
      using that by (auto simp: list_ex_iff same_account_def)
    ultimately show ?thesis using ok True
      by (simp add: UpsertAccount_def andthen_def schema_defs exists_defs del: map_map)
  qed (use ok in \<open>simp add: UpsertAccount_def\<close>)
qed

lemma AllocInvoiceNumber_schema: "keeps keeps_schema (AllocInvoiceNumber c y)"
proof (rule keeps_schemaI)
  fix s
  assume ok: "schema_ok s"
  let ?seq = "invoice_seq s"
  let ?ok = "\<lambda>x. company_exists (fst (fst x)) s \<and> 1 \<le> snd x \<and> snd x \<le> max64"
  have seq: "distinct (map fst ?seq)" "list_all ?ok ?seq" using ok by (simp_all add: schema_ok_def numbers_ok_def)
  have seq_change: "schema_ok (s\<lparr>invoice_seq := q\<rparr>)" if "distinct (map fst q)" "list_all ?ok q" for q
    using ok that by (simp add: schema_defs exists_defs)
  show "schema_ok (snd (AllocInvoiceNumber c y s))"
  proof (cases "map_of ?seq (c, y)")
    case None
    then have "(c, y) \<notin> set (map fst ?seq)" by (simp add: map_of_eq_None_iff)
    then show ?thesis using ok None seq by (auto simp: AllocInvoiceNumber_def intro!: seq_change)
  next
    case (Some n)
    let ?q = "map (\<lambda>(k, m). if k = (c, y) then (k, m + 1) else (k, m)) ?seq"
    have "map fst ?q = map fst ?seq" by auto
    then have "distinct (map fst ?q)" using seq(1) by (simp only:)
    moreover have "list_all ?ok ?q" if "n + 1 \<le> max64"
    proof -
      have "m = n" if "((c, y), m) \<in> set ?seq" for m using seq(1) Some that by (simp add: map_of_is_SomeI)
      with that seq(2) show ?thesis by (fastforce simp: list_all_iff)
    qed
    ultimately show ?thesis using ok Some seq_change by (simp add: AllocInvoiceNumber_def not_less del: map_map)
  qed
qed

lemma invoice_keys_distinct:
  assumes "distinct (map iv_id rs)" and "distinct (map invoice_key (filter (\<lambda>r. iv_number r \<noteq> []) rs))"
    and "\<And>r. P r \<Longrightarrow> iv_id r = i \<and> iv_company r = c" and "\<And>r. iv_id (g r) = iv_id r \<and> iv_company (g r) = iv_company r \<and> iv_number (g r) = n"
    and "n = [] \<or> list_all (\<lambda>r. iv_id r \<noteq> i \<longrightarrow> invoice_key r \<noteq> (c, n)) rs"
  shows "distinct (map invoice_key (filter (\<lambda>r. iv_number r \<noteq> []) (map (\<lambda>r. if P r then g r else r) rs)))"
  using assms(1,2,5)
proof (induction rs)
  case (Cons r rs)
  let ?up = "\<lambda>r. if P r then g r else r"
  let ?keys = "\<lambda>rs. map invoice_key (filter (\<lambda>r. iv_number r \<noteq> []) rs)"
  have ih: "distinct (?keys (map ?up rs))" using Cons by (auto split: if_splits)
  have new: "k = (c, n) \<and> n \<noteq> [] \<or> k \<in> set (?keys rs)" if "k \<in> set (?keys (map ?up rs))" for k
    using that assms(3,4) by (auto simp: invoice_key_def split: if_splits)
  have "invoice_key (?up r) \<notin> set (?keys (map ?up rs))" if "iv_number (?up r) \<noteq> []"
  proof (cases "iv_id r = i")
    case True
    then have "map ?up rs = rs" using Cons.prems(1) assms(3) by (intro map_idI) (metis distinct.simps(2) image_eqI list.simps(9) list.set_map)
    then show ?thesis
      using that True Cons.prems assms(3,4) by (auto simp: invoice_key_def list_all_iff split: if_splits)
  next
    case False
    then have "?up r = r" using assms(3) by auto
    then show ?thesis using that False new [of "invoice_key r"] Cons.prems by (auto simp: list_all_iff split: if_splits)
  qed
  with ih show ?case by simp
qed simp

lemma FinalizeInvoice_schema: "keeps keeps_schema (q_FinalizeInvoice c i n1 d d' j)" 
proof (rule keeps_schemaI)
  fix s
  assume ok: "schema_ok s"
  let ?set = "\<lambda>r. r\<lparr>iv_status := Finalized, iv_number := n1, iv_date := d, iv_due := d', iv_verification := j\<rparr>"
  let ?rs = "map (\<lambda>r. if finalizable c i r then ?set r else r) (invoices s)"
  let ?taken = "list_ex (finalizable c i) (invoices s) \<and> n1 \<noteq> [] \<and>
          list_ex (\<lambda>r. iv_id r \<noteq> i \<and> iv_company r = c \<and> iv_number r = n1) (invoices s)"
  have keys: "distinct (map invoice_key (filter (\<lambda>r. iv_number r \<noteq> []) (invoices s)))" "distinct (map iv_id (invoices s))"
    using ok by (auto simp: schema_ok_def invoices_ok_def serial_def)
  show "schema_ok (snd (q_FinalizeInvoice c i n1 d d' j s))"
  proof (cases ?taken)
    case False
    have "distinct (map invoice_key (filter (\<lambda>r. iv_number r \<noteq> []) ?rs))"
    proof (cases "list_ex (finalizable c i) (invoices s)")
      case True
      with False have "n1 = [] \<or> list_all (\<lambda>r. iv_id r \<noteq> i \<longrightarrow> invoice_key r \<noteq> (c, n1)) (invoices s)"
        by (auto simp: list_ex_iff list_all_iff invoice_key_def)
      then show ?thesis by (rule invoice_keys_distinct [OF keys(2,1), rotated 2]) (simp_all add: finalizable_def)
    next
      case False
      then have "?rs = invoices s" by (intro map_idI) (auto simp: list_ex_iff)
      with keys show ?thesis by simp
    qed
    with ok False show ?thesis
      by (simp add: q_FinalizeInvoice_def read_check update_rows_def andthen_def schema_simps schema_defs exists_defs)
  qed (use ok in \<open>simp add: q_FinalizeInvoice_def read_check\<close>)
qed

lemma DeleteDraftInvoice_schema: "keeps keeps_schema (q_DeleteDraftInvoice c i)"
proof (rule keeps_schemaI)
  fix s
  assume ok: "schema_ok s"
  let ?is = "filter (\<lambda>r. \<not> finalizable c i r) (invoices s)"
  let ?t = "s\<lparr>invoices := ?is, invoice_rows := filter (\<lambda>l. ir_invoice l \<noteq> i) (invoice_rows s)\<rparr>"
  have inv: "invoices_ok s" using ok by (simp add: schema_ok_def)
  have "list_all (\<lambda>l. invoice_exists (ir_invoice l) ?t) (invoice_rows ?t)"
    using inv by (fastforce simp: invoices_ok_def invoice_exists_def finalizable_def list_all_iff list_ex_iff)
  moreover have "distinct (map invoice_key (filter (\<lambda>r. iv_number r \<noteq> []) ?is))"
  proof -
    have swap: "filter (\<lambda>r. iv_number r \<noteq> []) ?is = filter (\<lambda>r. \<not> finalizable c i r) (filter (\<lambda>r. iv_number r \<noteq> []) (invoices s))"
      by (simp add: conj_commute)
    show ?thesis unfolding swap using inv by (simp only: invoices_ok_def distinct_map_filter)
  qed
  moreover have "serial (next_id s) (map iv_id ?is)" using inv by (simp add: invoices_ok_def serial_filter)
  ultimately have "schema_ok ?t"
    using ok by (simp add: schema_defs exists_defs list_all_iff)
  with ok show "schema_ok (snd (q_DeleteDraftInvoice c i s))" by (simp add: q_DeleteDraftInvoice_def)
qed

section \<open>Every state in use\<close>

interpretation schema: query_laws keeps_schema
proof
  show "keeps_schema s s" for s by (simp add: keeps_schema_def)
  show "keeps_schema s t \<Longrightarrow> keeps_schema t u \<Longrightarrow> keeps_schema s u" for s t u by (simp add: keeps_schema_def)
  show "draws_only s t \<Longrightarrow> keeps_schema s t" for s t
    by (auto simp: draws_only_def keeps_schema_def schema_defs exists_defs intro: serial_mono)
qed (rule updates_kept deletes_kept inserts_kept plain_inserts_kept unique_inserts_kept InsertCompany_schema
    InsertVerification_schema UpsertAccount_schema UpdateCounterparty_schema AttachDocument_schema
    AllocInvoiceNumber_schema FinalizeInvoice_schema DeleteDraftInvoice_schema)+

lemma schema_ok_empty: "schema_ok empty_db"
  by (simp add: schema_defs empty_db_def serial_def)


text \<open>The first request of a new installation: the form that makes the company and its owner.\<close>

definition setup_request :: web_request where
  "setup_request = sample_request ''POST'' ''/setup'' (Urlencoded [(''csrf'', ''t''), (''company'', ''Kim AB''),
     (''orgnr'', ''556000-0000''), (''email'', ''kim@example.se''), (''password'', ''a long password'')])"


end
