(* ===== verification/Boot_Laws.thy ===== *)
theory Boot_Laws
  imports Boot Render_Laws Web_Samples Schema
begin

text \<open>
  A program with a good configuration always comes up: a company whose key cannot be recovered keeps its
  legacy documents as they are and stops nobody else.
\<close>

section \<open>Fields of a document\<close>

lemma dek_from_wrapped_length: "dek_from_wrapped e w = Inr dek \<Longrightarrow> length dek = 32"
  by (auto simp: dek_from_wrapped_def new_dek_from_def key_size_def split: sum.splits if_splits)

lemma enc_field_ok:
  assumes "aead_ok e" and "length dek = 32"
  obtains x t where "enc_field e dek v s = (Inr x, t)" and "draws_only s t" and "dec_blank e dek x = v"
proof (cases "v = []")
  case True
  then show thesis using that [of "[]" s] by (simp add: enc_field_def dec_blank_def draws_only_refl ret_def)
next
  case False
  define x where "x = b64_encode (e_rand e 12 (next_id s) @ gcm_seal e dek (e_rand e 12 (next_id s)) v)"
  have run: "encrypt_field e dek v s = (Inr x, s\<lparr>next_id := Suc (next_id s)\<rparr>)"
    by (simp add: encrypt_field_def seal_def andthen_simps(2) [OF seal_bytes_ok [OF assms(2)]] x_def ret_def)
  have "length (e_rand e 12 (next_id s)) = 12" using assms(1) by (simp add: aead_ok_def)
  then have "b64_decode x \<noteq> Some []" by (auto simp: x_def)
  then have "x \<noteq> []" by (auto simp: b64_decode_def)
  then have "dec_blank e dek x = v" using decrypt_encrypt(1) [OF assms run] by (simp add: dec_blank_def)
  with run show thesis
    by (intro that [of x "s\<lparr>next_id := Suc (next_id s)\<rparr>"])
      (simp_all add: enc_field_def False draws_only_def, rule exI [of _ "Suc (next_id s)"], simp)
qed

section \<open>The migration of the documents\<close>

definition legacy :: "document_row \<Rightarrow> bool" where
  "legacy r \<longleftrightarrow> dc_filename_enc r = [] \<and> (dc_filename r \<noteq> [] \<or> dc_note r \<noteq> [])"

text \<open>The key of a company, if there is a usable one.\<close>

definition key_of :: "env \<Rightarrow> db \<Rightarrow> uuid \<Rightarrow> err + string" where
  "key_of e s c = fst (company_dek e c s)"

lemma company_dek_key: "company_dek e c s = (key_of e s c, s)"
  by (auto simp: key_of_def company_dek_def andthen_def GetCompany_def fetch_def reads_def split: list.splits)

lemma key_of_companies: "companies t = companies s \<Longrightarrow> key_of e t c = key_of e s c"
  by (auto simp: key_of_def company_dek_def andthen_def GetCompany_def fetch_def reads_def split: list.splits)

lemma key_of_length: "key_of e s c = Inr dek \<Longrightarrow> length dek = 32"
  by (auto simp: key_of_def company_dek_def andthen_def GetCompany_def fetch_def reads_def
      split: list.splits dest: dek_from_wrapped_length)

lemma key_of_unusable:
  "company_exists c s \<Longrightarrow> key_of e s c = Inl x \<Longrightarrow> x = ErrDEKUnusable"
  by (auto simp: key_of_def company_dek_def andthen_def GetCompany_def fetch_def reads_def company_exists_def
      dek_from_wrapped_def filter_empty_conv list_ex_iff split: list.splits sum.splits)

text \<open>A document after the migration: its texts readable under the key of its company and nowhere else.\<close>

definition migrated :: "env \<Rightarrow> string \<Rightarrow> document_row \<Rightarrow> document_row \<Rightarrow> bool" where
  "migrated e dek r r' \<longleftrightarrow> dec_blank e dek (dc_filename_enc r') = dc_filename r \<and> dec_blank e dek (dc_note_enc r') = dc_note r \<and>
     r' = r\<lparr>dc_filename_enc := dc_filename_enc r', dc_note_enc := dc_note_enc r', dc_filename := [], dc_note := []\<rparr>"

definition settled :: "env \<Rightarrow> db \<Rightarrow> document_row \<Rightarrow> document_row \<Rightarrow> bool" where
  "settled e s r r' \<longleftrightarrow> (if legacy r then (case key_of e s (dc_company r) of Inl _ \<Rightarrow> r' = r | Inr dek \<Rightarrow> migrated e dek r r')
     else r' = r)"

lemma migrate_row_ok:
  assumes "aead_ok e" and "length dek = 32"
  obtains f n t where "migrate_row e SetDocumentPIIEnc dek r s =
      (Inr (), t\<lparr>documents := map (\<lambda>d. if dc_id d = dc_id r then
        d\<lparr>dc_filename_enc := f, dc_note_enc := n, dc_filename := [], dc_note := []\<rparr> else d) (documents t)\<rparr>)"
    and "draws_only s t" and "dec_blank e dek f = dc_filename r" and "dec_blank e dek n = dc_note r"
proof -
  obtain f t where f: "enc_field e dek (dc_filename r) s = (Inr f, t)" "draws_only s t" "dec_blank e dek f = dc_filename r"
    by (rule enc_field_ok [OF assms])
  obtain n u where n: "enc_field e dek (dc_note r) t = (Inr n, u)" "draws_only t u" "dec_blank e dek n = dc_note r"
    by (rule enc_field_ok [OF assms])
  have "draws_only s u" using f(2) n(2) draws.change_trans by blast
  with f n show thesis
    by (intro that [where f = f and n = n and t = u])
      (simp_all add: migrate_row_def SetDocumentPIIEnc_def andthen_def update_rows_def ret_def)
qed

text \<open>The state of the loop with the rows \<open>rs\<close> still to come.\<close>

definition only_documents :: "db \<Rightarrow> db \<Rightarrow> bool" where
  "only_documents s t \<longleftrightarrow> t = s\<lparr>documents := documents t, next_id := next_id t\<rparr>"

lemma only_documents_frame:
  assumes "only_documents s t"
  shows "companies t = companies s" "verifications t = verifications s" "vlines t = vlines s" "audit_log t = audit_log s"
proof -
  have eq: "t = s\<lparr>documents := documents t, next_id := next_id t\<rparr>" using assms by (simp add: only_documents_def)
  show "companies t = companies s" "verifications t = verifications s" "vlines t = vlines s" "audit_log t = audit_log s"
    by (subst eq, simp)+
qed

definition docs_during :: "env \<Rightarrow> db \<Rightarrow> document_row list \<Rightarrow> db \<Rightarrow> bool" where
  "docs_during e s0 rs s \<longleftrightarrow>
     list_all2 (\<lambda>r r'. if r \<in> set rs then r' = r else settled e s0 r r') (documents s0) (documents s)"

definition keys_ok :: "env \<Rightarrow> db \<Rightarrow> backfill \<Rightarrow> bool" where
  "keys_ok e s0 b \<longleftrightarrow> (\<forall>c d. map_of (bf_deks b) c = Some d \<longrightarrow> key_of e s0 c = Inr d) \<and>
     (\<forall>c \<in> set (bf_unusable b). \<exists>x. key_of e s0 c = Inl x)"

lemma keys_ok_updates [simp]:
  "keys_ok e s0 (b\<lparr>bf_skipped := m\<rparr>) = keys_ok e s0 b" "keys_ok e s0 (b\<lparr>bf_migrated := m\<rparr>) = keys_ok e s0 b"
  "key_of e s0 c = Inl x \<Longrightarrow> keys_ok e s0 b \<Longrightarrow> keys_ok e s0 (b\<lparr>bf_unusable := c # bf_unusable b\<rparr>)"
  "key_of e s0 c = Inr d \<Longrightarrow> keys_ok e s0 b \<Longrightarrow> keys_ok e s0 (b\<lparr>bf_deks := (c, d) # bf_deks b\<rparr>)"
  by (auto simp: keys_ok_def)

definition documents_known :: "db \<Rightarrow> bool" where
  "documents_known s \<longleftrightarrow> distinct (map dc_id (documents s)) \<and>
     list_all (\<lambda>r. company_exists (dc_company r) s) (documents s)"

lemma documents_ok_known: "documents_ok s \<Longrightarrow> documents_known s"
  by (auto simp: documents_ok_def documents_known_def serial_def list_all_iff)

lemma docs_during_skip:
  assumes "docs_during e s0 (r # rs) s" and "legacy r" and "key_of e s0 (dc_company r) = Inl x"
  shows "docs_during e s0 rs s"
proof -
  have "settled e s0 r r" using assms(2,3) by (simp add: settled_def)
  with assms(1) show ?thesis unfolding docs_during_def by (elim list.rel_mono_strong) (auto split: if_splits)
qed

lemma migrated_id: "migrated e dek r r' \<Longrightarrow> dc_id r' = dc_id r"
  unfolding migrated_def by (elim conjE, drule arg_cong [where f = dc_id]) simp

lemma settled_id: "settled e s r r' \<Longrightarrow> dc_id r' = dc_id r"
  by (auto simp: settled_def dest: migrated_id split: if_splits sum.splits)

lemma migrate_step:
  assumes "docs_during e s0 (r # rs) s" and "only_documents s0 s" and "aead_ok e" and "legacy r"
    and "key_of e s0 (dc_company r) = Inr dek" and "documents_known s0" and "r \<in> set (documents s0)" and "r \<notin> set rs"
  obtains t where "migrate_row e SetDocumentPIIEnc dek r s = (Inr (), t)" and "only_documents s0 t" and "docs_during e s0 rs t"
proof -
  obtain f k u where m: "migrate_row e SetDocumentPIIEnc dek r s =
      (Inr (), u\<lparr>documents := map (\<lambda>d. if dc_id d = dc_id r then
        d\<lparr>dc_filename_enc := f, dc_note_enc := k, dc_filename := [], dc_note := []\<rparr> else d) (documents u)\<rparr>)"
    "draws_only s u" "dec_blank e dek f = dc_filename r" "dec_blank e dek k = dc_note r"
    by (rule migrate_row_ok [OF assms(3) key_of_length [OF assms(5)]])
  obtain n where u: "u = s\<lparr>next_id := n\<rparr>" using m(2) unfolding draws_only_def by blast
  have one: "x = r" if "x \<in> set (documents s0)" "dc_id x = dc_id r" for x
    using that assms(6,7) by (auto simp: documents_known_def distinct_map inj_on_def)
  have new: "settled e s0 r (r\<lparr>dc_filename_enc := f, dc_note_enc := k, dc_filename := [], dc_note := []\<rparr>)"
    using m(3,4) assms(4,5) by (simp add: settled_def migrated_def)
  have step: "if x \<in> set rs then y = x else settled e s0 x y"
    if "x \<in> set (documents s0)" "if x \<in> set (r # rs) then x' = x else settled e s0 x x'"
      "y = (if dc_id x' = dc_id r then x'\<lparr>dc_filename_enc := f, dc_note_enc := k, dc_filename := [], dc_note := []\<rparr> else x')"
    for x x' y
  proof (cases "x = r")
    case True
    with that new assms(8) show ?thesis by simp
  next
    case False
    then have "dc_id x' \<noteq> dc_id r" using that(2) one [OF that(1)] settled_id by (auto split: if_splits)
    with False that show ?thesis by (auto split: if_splits)
  qed
  have "list_all2 (\<lambda>x y. if x \<in> set rs then y = x else settled e s0 x y) (documents s0)
      (map (\<lambda>d. if dc_id d = dc_id r then d\<lparr>dc_filename_enc := f, dc_note_enc := k, dc_filename := [], dc_note := []\<rparr> else d)
        (documents s))"
    unfolding list.rel_map
    by (rule list.rel_mono_strong [OF assms(1) [unfolded docs_during_def]]) (rule step, assumption+, rule refl)
  then have "docs_during e s0 rs (u\<lparr>documents := map (\<lambda>d. if dc_id d = dc_id r then
        d\<lparr>dc_filename_enc := f, dc_note_enc := k, dc_filename := [], dc_note := []\<rparr> else d) (documents u)\<rparr>)"
    by (simp add: docs_during_def u)
  moreover have "only_documents s0 (u\<lparr>documents := ds\<rparr>)" for ds
  proof -
    have "s = s0\<lparr>documents := documents s, next_id := next_id s\<rparr>" using assms(2) by (simp add: only_documents_def)
    then have "u\<lparr>documents := ds\<rparr> = s0\<lparr>documents := documents s, next_id := next_id s\<rparr>\<lparr>next_id := n, documents := ds\<rparr>"
      unfolding u by (rule arg_cong [where f = "\<lambda>s. s\<lparr>next_id := n, documents := ds\<rparr>"])
    then show ?thesis by (simp add: only_documents_def u)
  qed
  ultimately show thesis using that [OF m(1)] by blast
qed

lemma backfill_rows_ok:
  assumes "aead_ok e" and "documents_known s0"
    and "docs_during e s0 rs s" and "only_documents s0 s" and "keys_ok e s0 b"
    and "set rs \<subseteq> set (documents s0)" and "distinct rs" and "list_all legacy rs"
  shows "\<exists>b' t. backfill_rows e (company_dek e) SetDocumentPIIEnc rs b s = (Inr (b', None), t) \<and>
    docs_during e s0 [] t \<and> only_documents s0 t"
  using assms(3-)
proof (induction rs arbitrary: b s)
  case Nil
  then show ?case by (auto simp: ret_def)
next
  case (Cons r rs)
  let ?c = "dc_company r"
  have r: "legacy r" "r \<in> set (documents s0)" "r \<notin> set rs" "company_exists ?c s0"
    using Cons.prems assms(2) by (auto simp: documents_known_def list_all_iff)
  have rest: "set rs \<subseteq> set (documents s0)" "distinct rs" "list_all legacy rs" using Cons.prems by auto
  have dek: "company_dek e ?c s = (key_of e s0 ?c, s)"
  proof -
    have "companies s = companies s0" using Cons.prems(2) by (rule only_documents_frame)
    from key_of_companies [OF this] show ?thesis by (simp only: company_dek_key)
  qed
  show ?case
  proof (cases "key_of e s0 ?c")
    case (Inl x)
    then have x: "x = ErrDEKUnusable" using key_of_unusable r(4) by blast
    have fresh: "map_of (bf_deks b) ?c = None"
      using Cons.prems(3) Inl by (cases "map_of (bf_deks b) ?c") (auto simp: keys_ok_def)
    note docs = docs_during_skip [OF Cons.prems(1) r(1) Inl]
    show ?thesis
    proof (cases "?c \<in> set (bf_unusable b)")
      case True
      then show ?thesis
        using Cons.IH [OF docs Cons.prems(2) _ rest, of "b\<lparr>bf_skipped := Suc (bf_skipped b)\<rparr>"] Cons.prems(3) by simp
    next
      case False
      then show ?thesis
        using Cons.IH [OF docs Cons.prems(2) _ rest, of "b\<lparr>bf_unusable := ?c # bf_unusable b, bf_skipped := Suc (bf_skipped b)\<rparr>"]
          Cons.prems(3) fresh dek Inl x
        by (simp add: andthen_def attempt_def)
    qed
  next
    case (Inr dek')
    obtain t where t: "migrate_row e SetDocumentPIIEnc dek' r s = (Inr (), t)" "only_documents s0 t" "docs_during e s0 rs t"
      by (rule migrate_step [OF Cons.prems(1,2) assms(1) r(1) Inr assms(2) r(2,3)])
    have usable: "?c \<notin> set (bf_unusable b)" using Cons.prems(3) Inr by (auto simp: keys_ok_def)
    show ?thesis
    proof (cases "map_of (bf_deks b) ?c")
      case None
      then show ?thesis
        using Cons.IH [OF t(3,2) _ rest, of "b\<lparr>bf_deks := (?c, dek') # bf_deks b, bf_migrated := Suc (bf_migrated b)\<rparr>"]
          Cons.prems(3) usable dek Inr t(1)
        by (simp add: andthen_def attempt_def)
    next
      case (Some d)
      then have "d = dek'" using Cons.prems(3) Inr by (auto simp: keys_ok_def)
      with Some show ?thesis
        using Cons.IH [OF t(3,2) _ rest, of "b\<lparr>bf_migrated := Suc (bf_migrated b)\<rparr>"] Cons.prems(3) usable t(1)
        by (simp add: andthen_def attempt_def)
    qed
  qed
qed

lemma BackfillDocumentPII_ok:
  assumes "aead_ok e" and "documents_known s"
  obtains m k t where "BackfillDocumentPII e s = (Inr (m, k, None), t)" and "only_documents s t"
    and "list_all2 (settled e s) (documents s) (documents t)"
proof -
  let ?rows = "filter legacy (documents s)"
  let ?b = "\<lparr>bf_deks = [], bf_unusable = [], bf_migrated = 0, bf_skipped = 0\<rparr>"
  have "docs_during e s ?rows s"
    unfolding docs_during_def by (rule list.rel_refl_strong) (auto simp: settled_def)
  moreover have "only_documents s s" by (simp add: only_documents_def)
  moreover have "keys_ok e s ?b" by (simp add: keys_ok_def)
  moreover have "distinct ?rows" using assms(2) by (auto simp: documents_known_def distinct_map)
  ultimately obtain b' t where "backfill_rows e (company_dek e) SetDocumentPIIEnc ?rows ?b s = (Inr (b', None), t)"
    "docs_during e s [] t" "only_documents s t"
    using backfill_rows_ok [OF assms, of ?rows s ?b] by (auto simp: list_all_iff)
  moreover have "ListDocumentsForPIIBackfill = fetch_all (\<lambda>s. filter legacy (documents s))"
    unfolding ListDocumentsForPIIBackfill_def legacy_def [abs_def] ..
  moreover note this [unfolded fetch_all_def reads_def, THEN fun_cong, of s]
  ultimately show thesis
    by (intro that) (simp_all add: BackfillDocumentPII_def andthen_def docs_during_def ret_def)
qed

section \<open>The other steps\<close>

text \<open>\<open>SyncChart\<close> changes nothing but the charts, and cannot fail: it seeds companies that exist.\<close>

lemma upsert_all_ok:
  "company_exists c s \<Longrightarrow> \<exists>as. each (\<lambda>a. UpsertAccount (chart_entry c (f a) (g a) (h a))) xs s = (Inr (), s\<lparr>accounts := as\<rparr>)"
proof (induction xs arbitrary: s)
  case Nil
  show ?case by (simp add: ret_def, rule exI [of _ "accounts s"], simp)
next
  case (Cons x xs)
  then obtain as where "UpsertAccount (chart_entry c (f x) (g x) (h x)) s = (Inr (), s\<lparr>accounts := as\<rparr>)"
    by (simp add: UpsertAccount_def andthen_def reads_def writes_def chart_entry_def)
  moreover have "company_exists c (s\<lparr>accounts := as\<rparr>)" using Cons.prems by (simp add: company_exists_def)
  ultimately show ?case using Cons.IH [of "s\<lparr>accounts := as\<rparr>"] by (auto simp: andthen_def)
qed

lemma seed_all_ok:
  "list_all (\<lambda>co. company_exists (co_id co) s) cs \<Longrightarrow> \<exists>as. each (\<lambda>co. seed_chart (co_id co)) cs s = (Inr (), s\<lparr>accounts := as\<rparr>)"
proof (induction cs arbitrary: s)
  case Nil
  show ?case by (simp add: ret_def, rule exI [of _ "accounts s"], simp)
next
  case (Cons co cs)
  then obtain as where "seed_chart (co_id co) s = (Inr (), s\<lparr>accounts := as\<rparr>)"
    using upsert_all_ok [of "co_id co" s] unfolding seed_chart_def by fastforce
  moreover have "list_all (\<lambda>co. company_exists (co_id co) (s\<lparr>accounts := as\<rparr>)) cs" using Cons.prems by (simp add: company_exists_def)
  ultimately show ?case using Cons.IH [of "s\<lparr>accounts := as\<rparr>"] by (auto simp: andthen_def)
qed

lemma SyncChart_ok: obtains as where "SyncChart s = (Inr (), s\<lparr>accounts := as\<rparr>)"
proof -
  have "list_all (\<lambda>co. company_exists (co_id co) s) (companies s)"
    by (auto simp: list_all_iff company_exists_def list_ex_iff)
  from seed_all_ok [OF this] show thesis
    using that by (auto simp: SyncChart_def ListCompanies_def andthen_def fetch_all_def reads_def)
qed

text \<open>The sweep may blank a document nothing refers to, and touches no other document.\<close>

definition wiped :: "document_row \<Rightarrow> document_row" where
  "wiped r = r\<lparr>dc_filename_enc := [], dc_note_enc := [], dc_filename := [], dc_note := []\<rparr>"

definition kept_or_wiped :: "document_row \<Rightarrow> document_row \<Rightarrow> bool" where
  "kept_or_wiped r r' \<longleftrightarrow> r' = r \<or> orphan_document r \<and> r' = wiped r"

definition sweeps :: "db \<Rightarrow> db \<Rightarrow> bool" where
  "sweeps s t \<longleftrightarrow> list_all2 kept_or_wiped (documents s) (documents t) \<and> verifications t = verifications s \<and> vlines t = vlines s"

lemma kept_or_wiped_trans: "kept_or_wiped r r' \<Longrightarrow> kept_or_wiped r' r'' \<Longrightarrow> kept_or_wiped r r''"
  by (auto simp: kept_or_wiped_def wiped_def orphan_document_def)

interpretation sweeps: change sweeps
proof
  show "sweeps s s" for s by (simp add: sweeps_def kept_or_wiped_def list.rel_refl)
  show "sweeps s u" if "sweeps s t" "sweeps t u" for s t u
    using that list_all2_trans [of kept_or_wiped kept_or_wiped kept_or_wiped] kept_or_wiped_trans unfolding sweeps_def by metis
qed

lemma sweeps_same: "documents t = documents s \<Longrightarrow> verifications t = verifications s \<Longrightarrow> vlines t = vlines s \<Longrightarrow> sweeps s t"
  by (simp add: sweeps_def kept_or_wiped_def list.rel_refl)

lemma log_audit_sweeps: "keeps sweeps (log_audit e c a tt ti d)"
  unfolding log_audit_def InsertAuditLog_def GetLastAuditHash_def
  by (rule sweeps.keeps_rules sweeps_same | simp)+

lemma sweep_run_sweeps: "keeps sweeps (sweep_run e)"
proof -
  have docs: "keeps sweeps (AnonymizeOrphanDocuments c d)" for c d
  proof -
    have "sweeps s (s\<lparr>documents := map (\<lambda>r. if stale_document c d r
        then r\<lparr>dc_filename_enc := [], dc_note_enc := [], dc_filename := [], dc_note := []\<rparr> else r) (documents s)\<rparr>)" for s
      by (auto simp: sweeps_def list.rel_map kept_or_wiped_def wiped_def stale_document_def intro!: list.rel_refl_strong)
    then show ?thesis by (simp add: keeps_def AnonymizeOrphanDocuments_def update_rows_def)
  qed
  show ?thesis
    unfolding sweep_run_def Sweep_def anonymize_companies_def AnonymizeNonRetainedPII_def ListCompanies_def
      AnonymizeNonRetainedBankTxns_def DeleteExpiredSessions_def DeleteOldShieldTokens_def
    by (rule docs log_audit_sweeps sweeps.keeps_rules sweeps_same | simp)+
qed

lemma sweep_run_ok: obtains t where "sweep_run e s = (Inr (), t)" and "sweeps s t"
proof -
  have each_ok: "\<exists>t. each (\<lambda>co. andthen (attempt (f co)) (\<lambda>_. ret ())) cs s = (Inr (), t)" for f :: "company \<Rightarrow> (nat \<times> nat) io" and cs s
    by (induction cs arbitrary: s) (auto simp: andthen_def attempt_def ret_def split: prod.split)
  then have "\<exists>t. sweep_run e s = (Inr (), t)"
    by (auto simp: sweep_run_def anonymize_companies_def ListCompanies_def andthen_def attempt_def fetch_all_def reads_def split: prod.split)
  then obtain t where "sweep_run e s = (Inr (), t)" by blast
  with sweeps.keeps_state [OF sweep_run_sweeps this] that show thesis by blast
qed

section \<open>The start\<close>

text \<open>A document after the start: what \<open>settled\<close> says, unless the sweep has blanked it.\<close>

definition started :: "env \<Rightarrow> db \<Rightarrow> document_row \<Rightarrow> document_row \<Rightarrow> bool" where
  "started e s r r' \<longleftrightarrow> settled e s r r' \<or> orphan_document r \<and> r' = wiped r"

lemma settled_then_swept:
  assumes "settled e s r r1" and "kept_or_wiped r1 r2"
  shows "started e s r r2"
proof (cases "r2 = r1")
  case False
  then have two: "orphan_document r1" "r2 = wiped r1" using assms(2) by (auto simp: kept_or_wiped_def)
  have "orphan_document r1 = orphan_document r \<and> wiped r1 = wiped r"
  proof (cases "r1 = r")
    case False
    then have "r1 = r\<lparr>dc_filename_enc := dc_filename_enc r1, dc_note_enc := dc_note_enc r1, dc_filename := [], dc_note := []\<rparr>"
      using assms(1) by (auto simp: settled_def migrated_def split: if_splits sum.splits)
    then show ?thesis by (elim ssubst) (simp add: orphan_document_def wiped_def)
  qed simp
  with two show ?thesis by (simp add: started_def)
qed (use assms in \<open>simp add: started_def\<close>)

lemma prepare_ok:
  assumes "aead_ok e" and "documents_known s"
  obtains t where "prepare e s = (Inr None, t)" and "list_all2 (started e s) (documents s) (documents t)"
    and "verifications t = verifications s" and "vlines t = vlines s"
proof -
  obtain as where sync: "SyncChart s = (Inr (), s\<lparr>accounts := as\<rparr>)" by (rule SyncChart_ok)
  let ?s = "s\<lparr>accounts := as\<rparr>"
  have known: "documents_known ?s" using assms(2) by (simp add: documents_known_def company_exists_def)
  obtain m k t where mig: "BackfillDocumentPII e ?s = (Inr (m, k, None), t)" "only_documents ?s t"
    "list_all2 (settled e ?s) (documents ?s) (documents t)"
    by (rule BackfillDocumentPII_ok [OF assms(1) known])
  obtain u where sweep: "sweep_run e t = (Inr (), u)" "sweeps t u" by (rule sweep_run_ok)
  have "settled e ?s = settled e s" by (intro ext) (simp add: settled_def key_of_companies [of ?s s])
  then have "list_all2 (started e s) (documents s) (documents u)"
    using list_all2_trans [of "settled e s" kept_or_wiped "started e s"] settled_then_swept mig(3) sweep(2)
    by (auto simp: sweeps_def)
  moreover have "verifications u = verifications s" "vlines u = vlines s"
    using only_documents_frame [OF mig(2)] sweep(2) by (simp_all add: sweeps_def)
  moreover have "prepare e s = (Inr None, u)"
    using sync mig(1) sweep(1) by (simp add: prepare_def andthen_def attempt_def ret_def)
  ultimately show thesis using that by blast
qed


text \<open>Two companies with a legacy document each, one of them with a key that is lost.\<close>

definition sample_genv :: "string \<Rightarrow> string" where
  "sample_genv k = (if k = ''PARE_MASTER_KEY'' then b64_encode (replicate 32 CHR ''k'')
     else if k = ''PARE_DATABASE_URL'' then ''postgres://db/pare'' else [])"

definition legacy_document :: "uuid \<Rightarrow> uuid \<Rightarrow> document_row" where
  "legacy_document i c = \<lparr>dc_id = i, dc_company = c, dc_mime = ''application/pdf'', dc_size = 4, dc_content = ''blob'', dc_sha = [],
     dc_filename_enc = [], dc_note_enc = [], dc_filename = ''kvitto Kim.pdf'', dc_note = [], dc_supplier = None,
     dc_verification = Some 9, dc_created = zero_time\<rparr>"

definition legacy_desk :: db where
  "legacy_desk = sample_company\<lparr>companies := companies sample_company @ [hd (companies sample_company)\<lparr>co_id := 4, dek_wrapped := ''lost''\<rparr>],
     documents := [legacy_document 7 3, legacy_document 8 4], next_id := 9\<rparr>"


end
