(* ===== verification/Erasure_Laws.thy ===== *)
theory Erasure_Laws
  imports Boot_Laws
begin

text \<open>
  Erasure of a counterparty (\<open>EraseCounterparty\<close> of store_counterparty.go): refused while a customer
  invoice that has left the draft state names the counterparty, and otherwise nothing of its identity
  can be read back, neither from its row nor from the token vault of the shield.
\<close>

definition retained :: "uuid \<Rightarrow> uuid \<Rightarrow> db \<Rightarrow> bool" where
  "retained c i s \<longleftrightarrow>
     list_ex (\<lambda>r. iv_company r = c \<and> iv_counterparty r = i \<and> iv_status r \<noteq> Draft) (invoices s)"

lemma CountRetainedInvoices_retained:
  "\<exists>n. CountRetainedInvoices c i s = (Inr n, s) \<and> (n = 0 \<longleftrightarrow> \<not> retained c i s)"
  by (auto simp: CountRetainedInvoices_def reads_def retained_def list_ex_iff filter_empty_conv)

text \<open>The row behind a counterparty that was read.\<close>

lemma GetCounterparty_row:
  assumes "GetCounterparty e c i s = (Inr cp, s')"
  obtains row rs dek where "filter (\<lambda>r. cp_id r = i) (counterparties s) = row # rs" and "cp_id row = i"
    and "cp_company row = c" and "key_of e s c = Inr dek" and "c_kind cp = cp_kind row"
    and "c_erased cp \<longleftrightarrow> erased_at row \<noteq> None"
proof -
  from assms obtain row rs where f: "filter (\<lambda>r. cp_id r = i) (counterparties s) = row # rs"
    by (auto simp: GetCounterparty_def andthen_ok q_GetCounterparty_def fetch_def reads_def split: list.splits)
  then have "row \<in> set (filter (\<lambda>r. cp_id r = i) (counterparties s))" by simp
  then have i: "cp_id row = i" by simp
  from assms f obtain dek where "cp_company row = c" "key_of e s c = Inr dek" "c_kind cp = cp_kind row"
      "c_erased cp \<longleftrightarrow> erased_at row \<noteq> None"
    by (auto simp: GetCounterparty_def andthen_ok q_GetCounterparty_def fetch_def reads_def require_def
        ret_def fail_def company_dek_key split: if_splits)
  with f i show thesis by (rule that)
qed

definition wiped :: "gotime \<Rightarrow> string \<Rightarrow> counterparty_row \<Rightarrow> counterparty_row" where
  "wiped nw tomb r = r\<lparr>name_enc := tomb, orgnr_enc := [], personnummer_enc := [], address_enc := [],
     iban_enc := [], email_enc := [], erased_at := Some nw\<rparr>"

definition wipe :: "gotime \<Rightarrow> uuid \<Rightarrow> uuid \<Rightarrow> string \<Rightarrow> db \<Rightarrow> db" where
  "wipe nw c i tomb s = s\<lparr>next_id := Suc (next_id s), counterparties :=
     map (\<lambda>r. if live_counterparty c i r then wiped nw tomb r else r) (counterparties s), shield_tokens := []\<rparr>"

text \<open>The whole operation, up to its entry in the audit log.\<close>

lemma EraseCounterparty_run:
  assumes get: "GetCounterparty e c i s = (Inr cp, s)" and "\<not> c_erased cp" and "\<not> retained c i s"
    and a: "aead_ok e"
  obtains dek tomb where "key_of e s c = Inr dek" and "tomb \<noteq> []" and "decrypt_field e dek tomb = Inr erasure_tombstone"
    and "EraseCounterparty e c i s = log_audit e c ''erase_counterparty'' ''counterparty'' (e_uuid_text e i) (c_kind cp)
           (wipe (e_now e) c i tomb s)"
proof -
  obtain n where n: "CountRetainedInvoices c i s = (Inr n, s)" "n = 0"
    using CountRetainedInvoices_retained [of c i s] assms(3) by blast
  obtain dek where dek: "key_of e s c = Inr dek" using get by (rule GetCounterparty_row)
  have len: "length dek = 32" by (rule key_of_length [OF dek])
  define tomb where "tomb = b64_encode (e_rand e 12 (next_id s) @ gcm_seal e dek (e_rand e 12 (next_id s)) erasure_tombstone)"
  have seal: "encrypt_field e dek erasure_tombstone s = (Inr tomb, s\<lparr>next_id := Suc (next_id s)\<rparr>)"
    by (simp add: encrypt_field_def seal_def andthen_simps(2) [OF seal_bytes_ok [OF len]] tomb_def ret_def)
  have d: "decrypt_field e dek tomb = Inr erasure_tombstone" by (rule decrypt_encrypt(1) [OF a len seal])
  have "length (e_rand e 12 (next_id s)) = 12" using a by (simp add: aead_ok_def)
  then have "b64_decode tomb \<noteq> Some []" by (auto simp: tomb_def)
  then have t: "tomb \<noteq> []" by (auto simp: b64_decode_def)
  have k: "company_dek e c s = (Inr dek, s)" by (simp add: company_dek_key dek)
  have "EraseCounterparty e c i s = log_audit e c ''erase_counterparty'' ''counterparty'' (e_uuid_text e i) (c_kind cp)
           (wipe (e_now e) c i tomb s)"
    unfolding EraseCounterparty_def
    by (simp add: andthen_def get assms(2) n require_def k seal q_EraseCounterparty_def DeleteAllShieldTokens_def
        update_rows_def delete_rows_def ret_def wipe_def wiped_def cong: if_cong)
  with dek t d show thesis by (rule that)
qed

lemma EraseCounterparty_refused:
  assumes "GetCounterparty e c i s = (Inr cp, s)" and "\<not> c_erased cp" and "retained c i s"
  shows "EraseCounterparty e c i s = (Inl ErrRetentionBlocked, s)"
proof -
  obtain n where n: "CountRetainedInvoices c i s = (Inr n, s)" "n \<noteq> 0"
    using CountRetainedInvoices_retained [of c i s] assms(3) by blast
  then show ?thesis
    by (simp add: EraseCounterparty_def andthen_def assms n require_def fail_def)
qed

text \<open>What the log changes is nothing of the counterparties.\<close>

definition logged :: "db \<Rightarrow> db \<Rightarrow> bool" where
  "logged s t \<longleftrightarrow> (\<exists>l n. t = s\<lparr>audit_log := l, next_id := n\<rparr>)"

lemma logged_log_audit: "logged s (snd (log_audit e c a tt ti d s))"
proof (cases "fst (log_audit e c a tt ti d s)")
  case (Inl x)
  then have "log_audit e c a tt ti d s = (Inl x, snd (log_audit e c a tt ti d s))" by (metis prod.collapse)
  from log_audit_error [OF this] have "snd (log_audit e c a tt ti d s) = s" .
  then show ?thesis
    by (simp add: logged_def) (rule exI [of _ "audit_log s"], rule exI [of _ "next_id s"], simp)
next
  case (Inr u)
  then have "log_audit e c a tt ti d s = (Inr (), snd (log_audit e c a tt ti d s))" by (metis prod.collapse old.unit.exhaust)
  from log_audit_result [OF this] show ?thesis by (auto simp: logged_def)
qed

definition forgotten :: "uuid \<Rightarrow> string \<Rightarrow> counterparty" where
  "forgotten i kind = \<lparr>c_id = i, c_kind = kind, c_name = erasure_tombstone, c_orgnr = [], c_personnummer = [],
     c_address = [], c_iban = [], c_email = [], c_erased = True\<rparr>"

lemma wiped_reads:
  assumes "key_of e t c = Inr dek" and "tomb \<noteq> []" and "decrypt_field e dek tomb = Inr erasure_tombstone"
    and "filter (\<lambda>r. cp_id r = i) (counterparties t) = [wiped nw tomb row]" and "cp_company row = c" and "cp_id row = i"
  shows "GetCounterparty e c i t = (Inr (forgotten i (cp_kind row)), t)"
  using assms
  by (simp add: GetCounterparty_def q_GetCounterparty_def fetch_def reads_def andthen_def require_def ret_def
      company_dek_key dec_field_def wiped_def forgotten_def)

text \<open>The rows after the wipe.\<close>

lemma wiped_row:
  assumes "distinct (map cp_id rs)" and "filter (\<lambda>r. cp_id r = i) rs = row # qs"
    and "cp_company row = c" and "erased_at row = None"
  shows "filter (\<lambda>r. cp_id r = i) (map (\<lambda>r. if live_counterparty c i r then wiped nw tomb r else r) rs) = [wiped nw tomb row]"
  using assms
proof (induction rs)
  case (Cons r rs)
  show ?case
  proof (cases "cp_id r = i")
    case True
    then have "filter (\<lambda>r. cp_id r = i) rs = []" using Cons.prems(1) by (auto simp: filter_empty_conv) (metis image_eqI)
    then have "filter (\<lambda>r. cp_id r = i) (map (\<lambda>r. if live_counterparty c i r then wiped nw tomb r else r) rs) = []"
      by (auto simp: filter_empty_conv wiped_def)
    with True Cons.prems show ?thesis by (simp add: live_counterparty_def wiped_def)
  qed (use Cons in \<open>simp add: live_counterparty_def\<close>)
qed simp

lemma wiped_others:
  "filter (\<lambda>r. cp_id r \<noteq> i) (map (\<lambda>r. if live_counterparty c i r then wiped nw tomb r else r) rs) =
   filter (\<lambda>r. cp_id r \<noteq> i) rs"
  by (induction rs) (auto simp: live_counterparty_def wiped_def)

text \<open>C27.  Erasure (GDPR, article 17).  Let a counterparty of the company be read that is not erased yet.
  Is it named by a customer invoice that has left the draft state, the request is refused and changes
  nothing.  Otherwise, whatever becomes of the entry in the audit log, the counterparty reads back as
  the tombstone alone, no token of the shield resolves any more, the other counterparties, the
  verifications and the invoices are as before, and erasing once more changes nothing.\<close>

theorem erased_counterparty_is_forgotten:
  assumes "aead_ok e" and "distinct (map cp_id (counterparties s))"
    and "GetCounterparty e c i s = (Inr cp, s)" and "\<not> c_erased cp"
  shows "if retained c i s then EraseCounterparty e c i s = (Inl ErrRetentionBlocked, s)
    else (let t = snd (EraseCounterparty e c i s) in
      GetCounterparty e c i t = (Inr (forgotten i (c_kind cp)), t) \<and> shield_tokens t = [] \<and>
      filter (\<lambda>r. cp_id r \<noteq> i) (counterparties t) = filter (\<lambda>r. cp_id r \<noteq> i) (counterparties s) \<and>
      verifications t = verifications s \<and> vlines t = vlines s \<and> invoices t = invoices s \<and>
      EraseCounterparty e c i t = (Inr (), t))"
proof (cases "retained c i s")
  case True
  then show ?thesis using EraseCounterparty_refused [OF assms(3,4)] by simp
next
  case False
  let ?t = "snd (EraseCounterparty e c i s)"
  obtain dek tomb where dek: "key_of e s c = Inr dek" and tomb: "tomb \<noteq> []" "decrypt_field e dek tomb = Inr erasure_tombstone"
    and run: "EraseCounterparty e c i s = log_audit e c ''erase_counterparty'' ''counterparty'' (e_uuid_text e i) (c_kind cp)
           (wipe (e_now e) c i tomb s)"
    using EraseCounterparty_run [OF assms(3,4) False assms(1)] by blast
  from run logged_log_audit obtain l n where t: "?t = (wipe (e_now e) c i tomb s)\<lparr>audit_log := l, next_id := n\<rparr>"
    unfolding logged_def by metis
  obtain row rs where row: "filter (\<lambda>r. cp_id r = i) (counterparties s) = row # rs" "cp_id row = i" "cp_company row = c"
    "c_kind cp = cp_kind row" "c_erased cp \<longleftrightarrow> erased_at row \<noteq> None"
    using assms(3) by (rule GetCounterparty_row) blast
  have "counterparties ?t = counterparties (wipe (e_now e) c i tomb s)" by (simp add: t)
  then have rows: "filter (\<lambda>r. cp_id r = i) (counterparties ?t) = [wiped (e_now e) tomb row]"
    "filter (\<lambda>r. cp_id r \<noteq> i) (counterparties ?t) = filter (\<lambda>r. cp_id r \<noteq> i) (counterparties s)"
    using wiped_row [OF assms(2) row(1)] row(3,5) assms(4) wiped_others by (simp_all add: wipe_def)
  have "companies ?t = companies s" by (simp add: t wipe_def)
  from key_of_companies [OF this] dek have "key_of e ?t c = Inr dek" by simp
  from wiped_reads [OF this tomb rows(1) row(3,2)]
  have get: "GetCounterparty e c i ?t = (Inr (forgotten i (c_kind cp)), ?t)" by (simp add: row(4))
  then have "EraseCounterparty e c i ?t = (Inr (), ?t)"
    by (simp add: EraseCounterparty_def andthen_def [of "GetCounterparty e c i"] forgotten_def ret_def)
  with get rows(2) False show ?thesis by (simp add: Let_def t) (simp add: wipe_def)
qed

text \<open>Two customers of the sample company, one of them on a finalized invoice.\<close>

definition sample_sealed :: "string \<Rightarrow> string" where
  "sample_sealed v = b64_encode (replicate 12 CHR ''r'' @ v)"

lemma sample_sealed_opens: "dec_field sample_env (replicate 32 CHR ''r'') (sample_sealed v) s = (Inr v, s)"
proof -
  have len: "length (replicate 32 CHR ''r'') = 32" by simp
  have "encrypt_field sample_env (replicate 32 CHR ''r'') v s = (Inr (sample_sealed v), s\<lparr>next_id := Suc (next_id s)\<rparr>)"
    by (simp add: encrypt_field_def seal_def andthen_simps(2) [OF seal_bytes_ok [OF len]] sample_sealed_def ret_def)
  from decrypt_encrypt(1) [OF sample_aead_ok len this] have "decrypt_field sample_env (replicate 32 CHR ''r'') (sample_sealed v) = Inr v" .
  moreover have "b64_decode (sample_sealed v) \<noteq> Some []" by (auto simp: sample_sealed_def)
  then have "sample_sealed v \<noteq> []" by (auto simp: b64_decode_def)
  ultimately show ?thesis by (simp add: dec_field_def reads_def)
qed

definition sample_customer :: "uuid \<Rightarrow> string \<Rightarrow> counterparty_row" where
  "sample_customer i nm = \<lparr>cp_id = i, cp_company = 3, cp_kind = ''customer'', name_enc = sample_sealed nm, orgnr_enc = [],
     personnummer_enc = sample_sealed ''19121212-1212'', address_enc = [], iban_enc = [],
     email_enc = sample_sealed ''post@example.se'', erased_at = None\<rparr>"

lemma sample_customer_simps:
  "cp_id (sample_customer i nm) = i" "cp_company (sample_customer i nm) = 3" "cp_kind (sample_customer i nm) = ''customer''"
  "name_enc (sample_customer i nm) = sample_sealed nm" "orgnr_enc (sample_customer i nm) = []"
  "personnummer_enc (sample_customer i nm) = sample_sealed ''19121212-1212''" "address_enc (sample_customer i nm) = []"
  "iban_enc (sample_customer i nm) = []" "email_enc (sample_customer i nm) = sample_sealed ''post@example.se''"
  "erased_at (sample_customer i nm) = None"
  by (simp_all add: sample_customer_def)

lemma dec_field_empty: "dec_field e dek [] s = (Inr [], s)"
  by (simp add: dec_field_def ret_def)

definition customer_books :: db where
  "customer_books = open_books\<lparr>counterparties := [sample_customer 1 ''Anna Berg'', sample_customer 2 ''Bo Ek'']\<rparr>"

lemma customer_read:
  assumes "filter (\<lambda>r. cp_id r = i) (counterparties customer_books) = [sample_customer i nm]"
  shows "GetCounterparty sample_env 3 i customer_books =
    (Inr \<lparr>c_id = i, c_kind = ''customer'', c_name = nm, c_orgnr = [], c_personnummer = ''19121212-1212'',
       c_address = [], c_iban = [], c_email = ''post@example.se'', c_erased = False\<rparr>, customer_books)"
proof -
  have "company_dek sample_env 3 customer_books = (Inr (replicate 32 CHR ''r''), customer_books)"
    by (rule sample_dek(2)) (simp add: customer_books_def open_books_def draft_books_def)
  with assms show ?thesis
    by (simp add: GetCounterparty_def q_GetCounterparty_def fetch_def reads_def andthen_def require_def ret_def
        sample_customer_simps sample_sealed_opens dec_field_empty)
qed

theorem erased_counterparty_is_forgotten_witness:
  "EraseCounterparty sample_env 3 1 customer_books = (Inl ErrRetentionBlocked, customer_books) \<and>
   (let t = snd (EraseCounterparty sample_env 3 2 customer_books) in
      GetCounterparty sample_env 3 2 t = (Inr (forgotten 2 ''customer''), t) \<and>
      EraseCounterparty sample_env 3 2 t = (Inr (), t))"
proof
  have d: "distinct (map cp_id (counterparties customer_books))"
    and f: "filter (\<lambda>r. cp_id r = 1) (counterparties customer_books) = [sample_customer 1 ''Anna Berg'']"
      "filter (\<lambda>r. cp_id r = 2) (counterparties customer_books) = [sample_customer 2 ''Bo Ek'']"
    by (simp_all add: customer_books_def sample_customer_simps)
  have r: "retained 3 1 customer_books" "\<not> retained 3 2 customer_books"
    by (simp_all add: retained_def customer_books_def open_books_def sample_open_def sample_draft_def)
  show "EraseCounterparty sample_env 3 1 customer_books = (Inl ErrRetentionBlocked, customer_books)"
    using erased_counterparty_is_forgotten [OF sample_aead_ok d customer_read [OF f(1)]] r(1) by simp
  show "let t = snd (EraseCounterparty sample_env 3 2 customer_books) in
      GetCounterparty sample_env 3 2 t = (Inr (forgotten 2 ''customer''), t) \<and>
      EraseCounterparty sample_env 3 2 t = (Inr (), t)"
    using erased_counterparty_is_forgotten [OF sample_aead_ok d customer_read [OF f(2)]] r(2) by (simp add: Let_def)
qed

end
