(* ===== verification/Go_Float_Laws.thy ===== *)
theory Go_Float_Laws
  imports Complex_Main Web_Forms
begin

text \<open>
  The amounts of a form go through \<open>float64\<close>. The error of one rounding is bounded relative to the value
  (\<open>round_float_error\<close>), two roundings of a value in ore stay below half an ore (\<open>cents_survive\<close>), and an
  amount printed for a form is therefore read back (\<open>form_amounts_read_back\<close>).
\<close>

section \<open>The error of a rounding\<close>

lemma bit_len_bounds: "0 < n \<Longrightarrow> 2 ^ (bit_len n - 1) \<le> n \<and> n < 2 ^ bit_len n \<and> 0 < bit_len n"
proof (induction n rule: bit_len.induct)
  case (1 n)
  show ?case
  proof (cases "n div 2 = 0")
    case True
    then have "n = 1" using 1 by simp
    then show ?thesis by (subst (1 2 3) bit_len.simps) (simp add: bit_len.simps)
  next
    case False
    then have ih: "2 ^ (bit_len (n div 2) - 1) \<le> n div 2" "n div 2 < 2 ^ bit_len (n div 2)" "0 < bit_len (n div 2)"
      using 1 by auto
    have len: "bit_len n = Suc (bit_len (n div 2))" using 1 by (subst bit_len.simps) simp
    obtain k where k: "bit_len (n div 2) = Suc k" using ih(3) gr0_conv_Suc by blast
    show ?thesis using ih unfolding len k by (simp add: power_Suc) linarith
  qed
qed

lemma scaled_ratio:
  assumes "scaled n d q = (a, b)" and "0 < d"
  shows "0 < b" and "real a / real b = real n / real d * 2 powi (- q)"
  using assms by (auto simp: scaled_def power_int_def field_simps power_inverse split: if_splits)

lemma nearest_even_error:
  assumes "0 < b"
  shows "\<bar>real (nearest_even a b) - real a / real b\<bar> \<le> 1 / 2"
proof -
  have a: "real a = real b * real (a div b) + real (a mod b)"
    by (metis mult_div_mod_eq of_nat_add of_nat_mult)
  have "a mod b < b" using assms by simp
  then show ?thesis using assms
    by (auto simp: nearest_even_def Let_def a field_simps abs_le_iff)
qed

lemma lead_bit_bounds:
  assumes n: "0 < n" and d: "0 < d"
  shows "2 powi lead_bit n d \<le> real n / real d" and "real n / real d < 2 powi (lead_bit n d + 1)"
proof -
  define k where "k = int (bit_len n) - int (bit_len d)"
  obtain a b where ab: "scaled n d k = (a, b)" by fastforce
  note r = scaled_ratio [OF ab d]
  note bn = bit_len_bounds [OF n] note bd = bit_len_bounds [OF d]
  have up: "real n < 2 powi int (bit_len n)" "real d < 2 powi int (bit_len d)"
    using bn bd by (metis of_nat_less_numeral_power_cancel_iff power_int_of_nat)+
  have lo: "2 powi (int (bit_len n) - 1) \<le> real n" "2 powi (int (bit_len d) - 1) \<le> real d"
    using bn bd
    by (metis numeral_power_le_of_nat_cancel_iff of_nat_1 of_nat_diff One_nat_def Suc_leI power_int_of_nat)+
  have pos: "0 < (2::real) powi j" for j by simp
  have hi: "real n / real d < 2 powi (k + 1)"
  proof -
    have "real n / real d \<le> real n / 2 powi (int (bit_len d) - 1)"
      using lo(2) d by (intro divide_left_mono) auto
    also have "\<dots> < 2 powi int (bit_len n) / 2 powi (int (bit_len d) - 1)"
      using up(1) pos by (intro divide_strict_right_mono) auto
    also have "\<dots> = 2 powi (k + 1)"
      unfolding k_def by (subst power_int_diff [symmetric]) (simp_all add: algebra_simps)
    finally show ?thesis .
  qed
  have lw: "2 powi (k - 1) \<le> real n / real d"
  proof -
    have "(2::real) powi (k - 1) = 2 powi (int (bit_len n) - 1) / 2 powi int (bit_len d)"
      unfolding k_def by (subst power_int_diff [symmetric]) (simp_all add: algebra_simps)
    also have "\<dots> \<le> real n / 2 powi int (bit_len d)" using lo(1) pos by (intro divide_right_mono) auto
    also have "\<dots> \<le> real n / real d" using up(2) d by (intro divide_left_mono) auto
    finally show ?thesis .
  qed
  have le: "b \<le> a \<longleftrightarrow> 2 powi k \<le> real n / real d"
  proof -
    have "b \<le> a \<longleftrightarrow> 1 \<le> real a / real b" using r(1) by simp
    also have "\<dots> \<longleftrightarrow> 2 powi k \<le> real n / real d"
      unfolding r(2) using d by (simp add: power_int_minus divide_inverse [symmetric] pos_le_divide_eq mult.commute)
    finally show ?thesis .
  qed
  show "2 powi lead_bit n d \<le> real n / real d" "real n / real d < 2 powi (lead_bit n d + 1)"
    using hi lw le ab by (auto simp: lead_bit_def k_def [symmetric] Let_def)
qed

lemma powi_less: "(2::real) powi m < 2 powi n \<Longrightarrow> m < n"
  using power_int_increasing [of n m "2::real"] by (cases "m < n") auto

lemma round_float_error:
  assumes n: "0 < n" and d: "0 < d"
    and lo: "2 powi l \<le> real n / real d" "- 1022 \<le> l" and hi: "real n / real d < 2 powi h" "h \<le> 1000"
  obtains m q where "round_float neg n d = Finite (if neg then - int m else int m) q" and "0 < m"
    and "\<bar>real m * 2 powi q - real n / real d\<bar> \<le> real n / real d * 2 powi (- 53)"
proof -
  define L x where "L = lead_bit n d" and "x = real n / real d"
  have L: "2 powi L \<le> x" "x < 2 powi (L + 1)" using lead_bit_bounds [OF n d] by (simp_all add: L_def x_def)
  have "(2::real) powi l < 2 powi (L + 1)" "(2::real) powi L < 2 powi h"
    using L lo hi unfolding x_def by linarith+
  then have range: "- 1022 \<le> L" "L < 1000" using powi_less lo(2) hi(2) by fastforce+
  define q where "q = L - 52"
  obtain a b where ab: "scaled n d q = (a, b)" by fastforce
  define m where "m = nearest_even a b"
  have b: "0 < b" "real a / real b = x * 2 powi (- q)" using scaled_ratio [OF ab d] by (simp_all add: x_def)
  have err: "\<bar>real m - x * 2 powi (- q)\<bar> \<le> 1 / 2"
    using nearest_even_error [OF b(1), of a] unfolding m_def b(2) .
  have pq: "(2::real) powi (- q) * 2 powi q = 1" by (simp add: power_int_minus)
  have "\<bar>real m * 2 powi q - x\<bar> = \<bar>real m - x * 2 powi (- q)\<bar> * 2 powi q"
  proof -
    have "real m * 2 powi q - x = (real m - x * 2 powi (- q)) * 2 powi q"
      using pq by (simp add: left_diff_distrib mult.assoc)
    then show ?thesis by (simp add: abs_mult)
  qed
  also have "\<dots> \<le> 1 / 2 * 2 powi q" using err by (intro mult_right_mono) auto
  also have "\<dots> = 2 powi L * 2 powi (- 53)"
    unfolding q_def by (simp add: power_int_diff power_int_minus)
  also have "\<dots> \<le> x * 2 powi (- 53)" using L by (intro mult_right_mono) auto
  finally have bound: "\<bar>real m * 2 powi q - x\<bar> \<le> x * 2 powi (- 53)" .
  have "2 powi (- 53) \<le> (1 / 2 :: real)" by (simp add: power_int_minus)
  then have "x * 2 powi (- 53) \<le> x * (1 / 2)" using L by (intro mult_left_mono) (auto simp: x_def)
  moreover have x: "0 < x" using n d by (simp add: x_def)
  ultimately have "0 < real m * 2 powi q" using bound by linarith
  then have m: "0 < m" by (simp add: zero_less_mult_iff)
  have "x * 2 powi (- q) < 2 powi (L + 1) * 2 powi (- q)" using L(2) by simp
  also have "\<dots> = 2 ^ 53"
    unfolding q_def by (subst power_int_add [symmetric]) simp_all
  finally have "real m < 2 ^ 53 + 1" using err by linarith
  then have "m < 2 ^ 54" by simp
  moreover have "2 ^ (bit_len m - 1) \<le> m" using bit_len_bounds [OF m] by blast
  ultimately have "2 ^ (bit_len m - 1) < (2 :: nat) ^ 54" by linarith
  then have "bit_len m - 1 < 54" by (rule power_less_imp_less_exp [rotated]) simp
  then have "int (bit_len m) \<le> 54" by simp
  then have "\<not> 1024 < int (bit_len m) + q" using range by (simp add: q_def)
  moreover have "q = max (lead_bit n d - 52) (- 1074)" using range by (simp add: q_def L_def)
  ultimately have "round_float neg n d = Finite (if neg then - int m else int m) q"
    using n ab by (simp add: round_float_def Let_def m_def)
  with m bound show thesis using that unfolding x_def by blast
qed

lemma float_mult_round:
  obtains n d where "float_mult (Finite m e) k = round_float (m < 0) n d" and "0 < d"
    and "real n / real d = real_of_int \<bar>m\<bar> * real k * 2 powi e"
proof (cases "0 \<le> e")
  case True
  show thesis
    by (rule that [of "nat \<bar>m\<bar> * k * 2 ^ nat e" 1]) (use True in \<open>simp_all add: float_mult_def power_int_def\<close>)
next
  case False
  show thesis
    by (rule that [of "nat \<bar>m\<bar> * k" "2 ^ nat (- e)"])
      (use False in \<open>simp_all add: float_mult_def power_int_def power_inverse field_simps\<close>)
qed

lemma round_half_away_near:
  assumes "\<bar>real_of_int \<bar>m\<bar> * 2 powi e - real v\<bar> < 1 / 2"
  shows "round_half_away m e = (if m < 0 then - int v else int v)"
proof (cases "0 \<le> e")
  case True
  define k where "k = \<bar>m\<bar> * 2 ^ nat e"
  have "\<bar>real_of_int (k - int v)\<bar> < 1 / 2" using assms True by (simp add: k_def power_int_def)
  then have "k = int v" by linarith
  then show ?thesis using True by (auto simp: k_def round_half_away_def)
next
  case False
  define p where "p = (2 :: int) ^ nat (- e)"
  have p: "0 < p" "real_of_int p * 2 powi e = 1" 
    using False by (simp_all add: p_def power_int_def power_inverse flip: power_mult_distrib)
  have "\<bar>real_of_int \<bar>m\<bar> - real v * real_of_int p\<bar> = \<bar>real_of_int \<bar>m\<bar> * 2 powi e - real v\<bar> * real_of_int p"
  proof -
    have "real_of_int \<bar>m\<bar> - real v * real_of_int p = (real_of_int \<bar>m\<bar> * 2 powi e - real v) * real_of_int p"
      using p(2) by (simp add: left_diff_distrib mult.assoc mult.commute [of "2 powi e"])
    then show ?thesis using p(1) by (simp only: abs_mult)
  qed
  also have "\<dots> < 1 / 2 * real_of_int p" using assms p(1) by (intro mult_strict_right_mono) auto
  finally have "\<bar>real_of_int (2 * \<bar>m\<bar> - 2 * int v * p)\<bar> < real_of_int p"
    unfolding abs_less_iff by (simp add: mult.assoc)
  then have "\<bar>2 * \<bar>m\<bar> - 2 * int v * p\<bar> < p" by (simp only: of_int_abs [symmetric] of_int_less_iff)
  then have r: "(2 * \<bar>m\<bar> + p) div (2 * p) = int v"
    using p(1) by (intro int_div_pos_eq [where r = "2 * \<bar>m\<bar> + p - 2 * p * int v"]) (auto simp: algebra_simps abs_less_iff)
  show ?thesis unfolding round_half_away_def Let_def p_def [symmetric] r using False by simp
qed

lemma cents_survive:
  assumes v: "v \<le> 2 ^ 50"
  shows "\<exists>m e. round_float neg v 100 = Finite m e \<and>
    float_to_int64 (float_mult (Finite m e) 100) = word_of_int (if neg then - int v else int v)"
proof (cases "v = 0")
  case True
  then show ?thesis
    by (auto simp: round_float_def float_mult_def float_to_int64_def round_half_away_def least_int64_def)
next
  case False
  have "1 \<le> real v" "real v \<le> 2 ^ 50" using False v by simp_all
  have small: "2 powi (- 53) = (1 / 2 ^ 53 :: real)" by (simp add: power_int_minus field_simps)
  obtain m q where m: "round_float neg v 100 = Finite (if neg then - int m else int m) q" "0 < m"
    "\<bar>real m * 2 powi q - real v / 100\<bar> \<le> real v / 100 * 2 powi (- 53)"
    by (rule round_float_error [of v 100 "- 7" 50]) (use False v in \<open>auto simp: power_int_minus field_simps\<close>)
  let ?m = "if neg then - int m else int m"
  obtain n d where nd: "float_mult (Finite ?m q) 100 = round_float (?m < 0) n d" "0 < d"
    "real n / real d = real m * 100 * 2 powi q"
    by (rule float_mult_round [of ?m q 100]) auto
  have first: "\<bar>real n / real d - real v\<bar> \<le> real v * 2 powi (- 53)" 
    unfolding nd(3) using m(3) unfolding abs_le_iff by (simp add: algebra_simps)
  have "real v * 2 powi (- 53) \<le> 1 / 8" using \<open>real v \<le> 2 ^ 50\<close> unfolding small by simp
  with first \<open>1 \<le> real v\<close> \<open>real v \<le> 2 ^ 50\<close> have x: "1 / 2 \<le> real n / real d" "real n / real d < 2 ^ 50 + 1" by linarith+
  then have n: "0 < n" by (auto intro: Nat.gr0I)
  obtain m2 q2 where m2: "round_float neg n d = Finite (if neg then - int m2 else int m2) q2" "0 < m2"
    "\<bar>real m2 * 2 powi q2 - real n / real d\<bar> \<le> real n / real d * 2 powi (- 53)"
    by (rule round_float_error [OF n nd(2), of "- 1" 51]) (use x in \<open>simp_all add: power_int_minus\<close>)
  have "real n / real d * 2 powi (- 53) \<le> 1 / 4" using x(2) unfolding small by simp
  with m2(3) first \<open>real v * 2 powi (- 53) \<le> 1 / 8\<close> have "\<bar>real m2 * 2 powi q2 - real v\<bar> < 1 / 2" by linarith
  then have "round_half_away (if neg then - int m2 else int m2) q2 = (if neg then - int v else int v)"
    using round_half_away_near [of "if neg then - int m2 else int m2" q2 v] m2(2) by (auto split: if_splits)
  moreover have "?m < 0 \<longleftrightarrow> neg" using m(2) by simp
  moreover have "int v \<le> 2 ^ 50" using v by simp
  ultimately show ?thesis using m(1) nd(1) m2(1)
    by (intro exI [of _ ?m] exI [of _ q]) (auto simp: float_to_int64_def Let_def least_int64_def)
qed

section \<open>Amounts in a form\<close>

lemma is_digit_facts:
  assumes "is_digit c"
  shows "c \<noteq> CHR ''_''" "c \<noteq> CHR ''.''" "c \<noteq> CHR '',''" "c \<noteq> CHR ''+''" "c \<noteq> CHR ''-''"
    "hex_value c = digit_val c" "lower_byte c = byte c"
proof -
  have "byte c div 32 = 1" using assms by (intro div_nat_eqI) (simp_all add: is_digit_def)
  then show "lower_byte c = byte c" by (simp add: lower_byte_def)
qed (use assms in \<open>auto simp: is_digit_def hex_value_def\<close>)

lemma scan_digits_fraction:
  "all_digits s \<Longrightarrow> scan_mantissa False True s = (s, length s, [])"
  by (induction s) (auto dest: is_digit_facts)

lemma scan_digits:
  "all_digits s \<Longrightarrow> all_digits t \<Longrightarrow> scan_mantissa False False (s @ CHR ''.'' # t) = (s @ t, length t, [])"
  by (induction s) (auto dest: is_digit_facts simp: scan_digits_fraction)

lemma number_value_digits: "all_digits s \<Longrightarrow> number_value 10 s = digits_val s"
  unfolding number_value_def digits_val_def all_digits_def list_all_iff
  by (intro foldl_cong) (auto simp: mult.commute dest: is_digit_facts)

lemma read_cents:
  assumes "all_digits s" and "s \<noteq> []" and "all_digits t" and "length t = 2"
  shows "read_number neg (s @ CHR ''.'' # t) =
    (case round_float neg (digits_val (s @ t)) 100 of Infinite b \<Rightarrow> None | f \<Rightarrow> Some f)"
proof -
  have set: "c \<in> set (s @ CHR ''.'' # t) \<Longrightarrow> is_digit c \<or> c = CHR ''.''" for c
    using assms by (auto simp: all_digits_def list_all_iff)
  have "(s @ CHR ''.'' # t) ! 1 \<in> set (s @ CHR ''.'' # t)" using assms by (intro nth_mem) simp
  then consider "is_digit ((s @ CHR ''.'' # t) ! 1)" | "(s @ CHR ''.'' # t) ! 1 = CHR ''.''" using set by blast
  then have "lower_byte ((s @ CHR ''.'' # t) ! 1) \<noteq> 120"
    by cases (simp_all add: is_digit_facts, simp_all add: is_digit_def lower_byte_def)
  then have hex: "\<not> base_prefix [120] (s @ CHR ''.'' # t)" by (simp add: base_prefix_def)
  have "CHR ''_'' \<notin> set (s @ CHR ''.'' # t)" using set is_digit_facts by force
  then show ?thesis
    using assms hex scan_digits [OF assms(1,3)] number_value_digits [of "s @ t"]
    by (simp add: read_number_def Let_def read_exponent_def eval_nat_numeral split: float64.split)
qed

lemma parse_cents:
  assumes "all_digits s" and "s \<noteq> []" and "all_digits t" and "length t = 2"
  shows "parse_float ((if neg then ''-'' else []) @ s @ CHR ''.'' # t) = read_number neg (s @ CHR ''.'' # t)"
proof -
  obtain c u where s: "s = c # u" "is_digit c" using assms by (cases s) auto
  have sign: "split_sign ((if neg then ''-'' else []) @ s @ CHR ''.'' # t) = (neg, neg, s @ CHR ''.'' # t)"
    using is_digit_facts [OF s(2)] by (auto simp: split_sign_def s(1))
  have "hd (fold_text (s @ CHR ''.'' # t)) = c" using s(2) by (simp add: fold_text_def s(1) is_digit_def)
  then have "fold_text (s @ CHR ''.'' # t) \<notin> {''inf'', ''infinity'', ''nan''}"
    using s(2) by (auto simp: is_digit_def)
  then show ?thesis unfolding parse_float_def sign by simp
qed

text \<open>C35. The amount a payment form is filled in with is read back as the same number of ore when the form
  is sent unchanged, although it passes through \<open>float64\<close>: for every amount up to a good eleven billion
  kronor, of either sign, the two roundings of \<open>ParseFloat\<close> and of the multiplication never reach half
  an ore.\<close>

theorem form_amounts_read_back:
  assumes "\<bar>sint a\<bar> \<le> 2 ^ 50"
  shows "parse_kr_ore (ore_dot a) = a"
proof -
  define v neg where "v = nat \<bar>sint a\<bar>" and "neg \<longleftrightarrow> sint a < 0"
  have v: "v \<le> 2 ^ 50" using assms by (simp add: v_def nat_le_iff)
  have abs: "sint (if sint a < 0 then - a else a) = int v"
    using assms sint_minus64 [of a] by (auto simp: v_def in64_def)
  define s t where "s = fmt_int (int v div 100)" and "t = fmt_pad 2 (int v mod 100)"
  have "\<not> int v div 100 < 0" by linarith
  then have st: "all_digits s" "s \<noteq> []" "all_digits t" "length t = 2"
    by (simp_all add: s_def t_def fmt_int_def length_fmt_pad)
  have dot: "ore_dot a = (if neg then ''-'' else []) @ s @ CHR ''.'' # t"
    using abs go_div_nonneg [of _ 100] go_mod_nonneg [of _ 100]
    by (simp add: ore_dot_def Let_def neg_def s_def t_def)
  have val: "digits_val (s @ t) = v"
  proof -
    have "digits_val s = v div 100" using \<open>\<not> int v div 100 < 0\<close> by (simp add: s_def fmt_int_def nat_div_distrib)
    moreover have "digits_val t = v mod 100" by (simp add: t_def nat_mod_distrib)
    ultimately show ?thesis using st(4) by (simp add: digits_val_append)
  qed
  have "CHR '','' \<notin> set (ore_dot a)"
    using st(1,3) is_digit_facts by (fastforce simp: dot all_digits_def list_all_iff)
  then have comma: "comma_to_point (ore_dot a) = ore_dot a"
    unfolding comma_to_point_def by (intro map_idI) auto
  obtain m e where me: "round_float neg v 100 = Finite m e"
    "float_to_int64 (float_mult (Finite m e) 100) = word_of_int (if neg then - int v else int v)"
    using cents_survive [OF v] by blast
  have "parse_float (ore_dot a) = Some (Finite m e)"
    unfolding dot parse_cents [OF st] read_cents [OF st] val me(1) by simp
  then have "parse_kr_ore (ore_dot a) = word_of_int (if neg then - int v else int v)"
    by (simp add: parse_kr_ore_def comma me(2))
  also have "(if neg then - int v else int v) = sint a" by (simp add: neg_def v_def)
  finally show ?thesis by simp
qed

theorem form_amounts_read_back_witness:
  "parse_kr_ore (ore_dot (- 123405)) = - 123405 \<and> ore_dot (- 123405) = ''-1234.05''"
  by (intro conjI form_amounts_read_back) (simp, code_simp)

end
