(* ===== verification/Flare_Laws.thy ===== *)
theory Flare_Laws
  imports Flare
begin

text \<open>
  What the log shipper guarantees: a line does not depend on the values under sensitive keys, no line is
  lost or reordered without being counted, the queue and the batches are bounded, and no minute admits
  more than two windows' worth of lines. It also shows what the scrub does not catch.
\<close>

section \<open>Sensitive values\<close>

lemma size_member: "a \<in> set as \<Longrightarrow> size (snd a) < size (LGroup as)"
  using size_list_estimation' [OF _ order_refl, of a as "size_prod (\<lambda>_. 0) size"] by (cases a) auto

text \<open>A record with every value under a sensitive key erased.\<close>

function erased :: "string \<Rightarrow> string \<times> log_value \<Rightarrow> string \<times> log_value" where
  "erased pfx (k, LGroup as) = (k, LGroup (map (erased (if k \<noteq> [] then pfx @ k @ ''.'' else pfx)) as))"
| "erased pfx (k, LValue v t) =
     (if pfx @ k \<noteq> ''trace_id'' \<and> is_sensitive_log_key (pfx @ k) then (k, LValue None []) else (k, LValue v t))"
  by pat_completeness auto

termination
  by (relation "measure (\<lambda>(pfx, a). size (snd a))") (auto dest: size_member)

lemma add_attr_erased: "add_attr pfx (erased pfx a) st = add_attr pfx a st"
proof (induction pfx a st rule: add_attr.induct)
  case (1 pfx k as st)
  let ?p = "if k \<noteq> [] then pfx @ k @ ''.'' else pfx"
  have "foldl (\<lambda>st a. add_attr ?p a st) st (map (erased ?p) as) = foldl (\<lambda>st a. add_attr ?p (erased ?p a) st) st as"
    by (simp add: foldl_map)
  also have "\<dots> = foldl (\<lambda>st a. add_attr ?p a st) st as" by (intro foldl_cong refl 1)
  finally show ?case by simp
qed simp

definition attr_prefix :: "flare_handler \<Rightarrow> string" where
  "attr_prefix h = (if fh_groups h = [] then [] else join_with ''.'' (fh_groups h) @ ''.'')"

lemma attr_prefix_attrs [simp]: "attr_prefix (h\<lparr>fh_attrs := as\<rparr>) = attr_prefix h"
  by (simp add: attr_prefix_def)

text \<open>C38. The value of an attribute whose key, with the groups around it, contains one of the sensitive words
  never leaves the process: the line that is shipped for a record, at whatever depth of groups the attribute
  stands and whether it came with the record or with the logger, is the one of the record with all such
  values erased.\<close>

theorem secret_values_stay:
  "ship_line h r = ship_line (h\<lparr>fh_attrs := map (erased (attr_prefix h)) (fh_attrs h)\<rparr>)
     (r\<lparr>lr_attrs := map (erased (attr_prefix h)) (lr_attrs r)\<rparr>)"
  unfolding ship_line_def Let_def attr_prefix_def [symmetric]
  by (simp add: attr_prefix_def [symmetric] foldl_map add_attr_erased flip: map_append)

section \<open>The shipper\<close>

definition ship_all :: "ship_event list \<Rightarrow> log_shipper \<Rightarrow> log_shipper" where
  "ship_all evs sh = foldl (\<lambda>sh ev. ship_step ev sh) sh evs"

fun offered :: "ship_event list \<Rightarrow> native_log_line list" where
  "offered [] = []"
| "offered (Ship now l # evs) = l # offered evs"
| "offered (_ # evs) = offered evs"

text \<open>The lines that were posted or are on their way, in the order they leave.\<close>

definition in_flight :: "log_shipper \<Rightarrow> native_log_line list" where
  "in_flight sh = concat (sh_posted sh) @ sh_batch sh @ sh_queue sh"

definition shipper_ok :: "log_shipper \<Rightarrow> bool" where
  "shipper_ok sh \<longleftrightarrow> length (sh_queue sh) \<le> 512 \<and> length (sh_batch sh) < 50 \<and>
     list_all (\<lambda>b. b \<noteq> [] \<and> length b \<le> 50) (sh_posted sh)"

lemmas shipper_defs = ship_step_def allow_def enqueue_def flush_def Let_def
  log_ship_buffer_def log_ship_batch_def

lemma ship_step_ok: "shipper_ok sh \<Longrightarrow> shipper_ok (ship_step ev sh)"
  by (auto simp: shipper_ok_def shipper_defs split: ship_event.splits list.splits)

text \<open>One step lets at most its own line in, at the end, or counts it as dropped.\<close>

lemma ship_step_flight:
  "\<exists>ls. in_flight (ship_step ev sh) = in_flight sh @ ls \<and> subseq ls (offered [ev]) \<and>
     sh_dropped (ship_step ev sh) + length ls = sh_dropped sh + length (offered [ev])"
  by (cases ev) (auto simp: in_flight_def shipper_defs split: list.splits)

lemma ship_all_flight:
  "\<exists>ls. in_flight (ship_all evs sh) = in_flight sh @ ls \<and> subseq ls (offered evs) \<and>
     sh_dropped (ship_all evs sh) + length ls = sh_dropped sh + length (offered evs)"
proof (induction evs arbitrary: sh)
  case Nil
  show ?case by (simp add: ship_all_def)
next
  case (Cons ev evs)
  have one: "offered (ev # evs) = offered [ev] @ offered evs" by (cases ev) simp_all
  have all: "ship_all (ev # evs) sh = ship_all evs (ship_step ev sh)" by (simp add: ship_all_def)
  obtain xs ys where "in_flight (ship_step ev sh) = in_flight sh @ xs" "subseq xs (offered [ev])"
      "sh_dropped (ship_step ev sh) + length xs = sh_dropped sh + length (offered [ev])"
    and "in_flight (ship_all evs (ship_step ev sh)) = in_flight (ship_step ev sh) @ ys" "subseq ys (offered evs)"
      "sh_dropped (ship_all evs (ship_step ev sh)) + length ys = sh_dropped (ship_step ev sh) + length (offered evs)"
    using ship_step_flight [of ev sh] Cons.IH [of "ship_step ev sh"] by blast
  then show ?case unfolding one all by (intro exI [of _ "xs @ ys"]) (auto intro: list_emb_append_mono)
qed

lemma ship_all_ok: "shipper_ok sh \<Longrightarrow> shipper_ok (ship_all evs sh)"
  unfolding ship_all_def by (induction evs arbitrary: sh) (simp_all add: ship_step_ok)


section \<open>The rate\<close>

fun event_times :: "ship_event list \<Rightarrow> int list" where
  "event_times [] = []"
| "event_times (Ship now l # evs) = now # event_times evs"
| "event_times (_ # evs) = event_times evs"

definition within_minute :: "int \<Rightarrow> ship_event list \<Rightarrow> bool" where
  "within_minute t0 evs \<longleftrightarrow> list_all (\<lambda>t. t0 \<le> t \<and> t < t0 + minute) (event_times evs)"

text \<open>How many lines \<open>allow\<close> has let through: those in flight.\<close>

lemma ship_step_count:
  assumes "sh_count sh \<le> 300" and "within_minute t0 [ev]"
  shows "sh_count (ship_step ev sh) \<le> 300"
    and "t0 \<le> sh_window sh \<Longrightarrow> t0 \<le> sh_window (ship_step ev sh) \<and>
      length (in_flight (ship_step ev sh)) + sh_count sh \<le> length (in_flight sh) + sh_count (ship_step ev sh)"
    and "\<not> t0 \<le> sh_window sh \<Longrightarrow>
      \<not> t0 \<le> sh_window (ship_step ev sh) \<and>
      length (in_flight (ship_step ev sh)) + sh_count sh \<le> length (in_flight sh) + sh_count (ship_step ev sh) \<or>
      t0 \<le> sh_window (ship_step ev sh) \<and>
      length (in_flight (ship_step ev sh)) \<le> length (in_flight sh) + sh_count (ship_step ev sh)"
  using assms unfolding within_minute_def
  by (auto simp: in_flight_def shipper_defs log_ship_max_per_min_def minute_def split: ship_event.splits list.splits)

lemma within_minute_Cons:
  assumes "within_minute t0 (ev # evs)"
  shows "within_minute t0 evs" and "within_minute t0 [ev]"
  using assms by (cases ev; simp add: within_minute_def)+

lemma ship_all_Cons: "ship_all (ev # evs) sh = ship_all evs (ship_step ev sh)"
  by (simp add: ship_all_def)

lemma one_window:
  assumes "within_minute t0 evs" and "sh_count sh \<le> 300" and "t0 \<le> sh_window sh"
  shows "length (in_flight (ship_all evs sh)) + sh_count sh \<le> length (in_flight sh) + 300"
  using assms
proof (induction evs arbitrary: sh)
  case (Cons ev evs)
  note step = ship_step_count [OF Cons.prems(2) within_minute_Cons(2) [OF Cons.prems(1)]]
  show ?case
    using Cons.IH [OF within_minute_Cons(1) [OF Cons.prems(1)] step(1)] step(2) Cons.prems(3)
    by (fastforce simp: ship_all_Cons)
qed (simp add: ship_all_def)

text \<open>The cap on log lines is kept per window, so that it bounds any minute by twice the cap: whatever
  state the shipper is in, log calls less than a minute apart let in at most 600 lines.\<close>

theorem minute_admits_two_windows:
  assumes "within_minute t0 evs" and "sh_count sh \<le> 300"
  shows "length (in_flight (ship_all evs sh)) \<le> length (in_flight sh) + 600"
proof -
  have "length (in_flight (ship_all evs sh)) + sh_count sh \<le> length (in_flight sh) + 600"
    if "within_minute t0 evs" "sh_count sh \<le> 300" "\<not> t0 \<le> sh_window sh" for sh evs
    using that
  proof (induction evs arbitrary: sh)
    case (Cons ev evs)
    note step = ship_step_count [OF Cons.prems(2) within_minute_Cons(2) [OF Cons.prems(1)]]
    note rest = within_minute_Cons(1) [OF Cons.prems(1)]
    show ?case
    proof (cases "t0 \<le> sh_window (ship_step ev sh)")
      case True
      with one_window [OF rest step(1)] step(3) [OF Cons.prems(3)] Cons.prems(2) show ?thesis
        by (fastforce simp: ship_all_Cons)
    next
      case False
      with Cons.IH [OF rest step(1)] step(3) [OF Cons.prems(3)] show ?thesis by (fastforce simp: ship_all_Cons)
    qed
  qed (simp add: ship_all_def)
  then show ?thesis using one_window [OF assms] assms by (cases "t0 \<le> sh_window sh") fastforce+
qed

section \<open>What is not caught\<close>

text \<open>
  A password in a quoted JSON key is not an assignment for the last expression, since a quote stands
  between the name and the colon; and the names inside a value are looked at by nobody.
\<close>

definition json_password :: string where
  "json_password = ''{'' @ [CHR 0x22] @ ''password'' @ [CHR 0x22] @ '':'' @ [CHR 0x22] @ ''hunter2'' @ [CHR 0x22] @ ''}''"

lemma quoted_password_ships: "nl_body (ship_line h (r\<lparr>lr_message := json_password\<rparr>)) = json_password"
proof -
  have "scrub_log_text json_password = json_password" by code_simp
  then show ?thesis by (simp add: ship_line_def Let_def)
qed

definition plain_handler :: flare_handler where
  "plain_handler = \<lparr>fh_min = 4, fh_attrs = [], fh_groups = []\<rparr>"

definition nested_record :: "gotime \<Rightarrow> log_record" where
  "nested_record t = \<lparr>lr_level = 8, lr_message = [],
     lr_attrs = [(''request'', LValue (Some (JObj [(''password'', JStr ''hunter2'')])) [])], lr_time = t\<rparr>"

lemma nested_password_ships:
  "nl_attributes (ship_line plain_handler (nested_record t)) =
     Some (JObj [(''request'', JObj [(''password'', JStr ''hunter2'')])])"
proof -
  have "is_sensitive_log_key ''request'' = False" "scrub_log_text ''hunter2'' = ''hunter2''"
    "length (json_text (JObj [(''request'', JObj [(''password'', JStr ''hunter2'')])])) \<le> max_attr_bytes" by code_simp+
  then show ?thesis by (simp add: ship_line_def shipped_document_def put_attr_def Let_def plain_handler_def nested_record_def)
qed

text \<open>Two lines less than a minute apart.\<close>

definition sample_line :: native_log_line where
  "sample_line = ship_line plain_handler (nested_record zero_time)"

theorem minute_admits_two_windows_witness:
  "length (in_flight (ship_all [Ship 5 sample_line, Receive, Ship (6 * 10 ^ 10 - 1) sample_line, Tick] new_shipper)) \<le>
     length (in_flight new_shipper) + 600"
  by (rule minute_admits_two_windows [of 0]) (simp_all add: within_minute_def minute_def new_shipper_def)

end
