(* ===== verification/Concurrency.thy ===== *)
theory Concurrency
  imports Schema
begin

text \<open>
  Requests that run at the same time. A request that touches the tables in several steps (\<open>store_invoice.go\<close>,
  \<open>store_payment.go\<close>, \<open>store_bank.go\<close>) is a process of atomic steps, one for each statement made outside a
  transaction and one for each transaction, and processes are interleaved by a schedule. A process alone is
  the program of the component theories. Transactions are atomic here: what two of them may do to each
  other under the isolation level of the database, short of one of them being rolled back, is not modelled.
\<close>

section \<open>Processes\<close>

datatype (plugins only:) proc = Stop "err option" | Atomic "db \<Rightarrow> proc \<times> db"

definition step :: "'a io \<Rightarrow> (err \<Rightarrow> proc) \<Rightarrow> ('a \<Rightarrow> proc) \<Rightarrow> proc" where
  "step m bad ok = Atomic (\<lambda>s. case m s of (Inl x, t) \<Rightarrow> (bad x, t) | (Inr y, t) \<Rightarrow> (ok y, t))"

definition halt :: "err \<Rightarrow> proc" where
  "halt x = Stop (Some x)"

definition demand :: "bool \<Rightarrow> err \<Rightarrow> proc \<Rightarrow> proc" where
  "demand b x p = (if b then p else halt x)"

text \<open>\<open>FinalizeInvoice\<close>: two reads, then the transaction.\<close>

definition finalize_proc :: "env \<Rightarrow> uuid \<Rightarrow> uuid \<Rightarrow> gotime \<Rightarrow> gotime \<Rightarrow> proc" where
  "finalize_proc e c i d due =
     step (GetInvoice i) halt (\<lambda>row.
     demand (iv_company row = c) ErrForeignCompany (
     demand (iv_status row = Draft) ErrNotDraft (
     step (ListInvoiceLines i) halt (\<lambda>rows.
     step (finalize_tx e c i d due row rows) halt (\<lambda>_. Stop None)))))"

text \<open>\<open>RecordPayment\<close>, with what follows a failure and a success; what is rendered is read in one step.\<close>

definition payment_proc ::
  "env \<Rightarrow> uuid \<Rightarrow> uuid \<Rightarrow> gotime \<Rightarrow> string \<Rightarrow> amount \<Rightarrow> (err \<Rightarrow> proc) \<Rightarrow> (uuid \<Rightarrow> proc) \<Rightarrow> proc" where
  "payment_proc e c i d acct pay bad ok =
     step (GetInvoice i) bad (\<lambda>row.
     if iv_company row \<noteq> c then bad ErrForeignCompany
     else if iv_status row \<noteq> Finalized then bad ErrNotFinalized
     else if \<not> 0 < sint pay then bad ErrPaymentMismatch
     else step (InvoiceForRender e c i) bad (\<lambda>view.
       case payment_plan (iv_currency row) (iv_amount_paid row) (iw_total_sek view) acct pay of
         Inl x \<Rightarrow> bad x
       | Inr (ls, settled) \<Rightarrow> step (payment_tx e c i d pay (iv_number row) ls settled) bad ok))"

text \<open>\<open>BookBankTxnToInvoice\<close>: the claim, the payment, and the mark or the release.\<close>

definition release_proc :: "uuid \<Rightarrow> uuid \<Rightarrow> err \<Rightarrow> proc" where
  "release_proc c t x = step (UnclaimBankTxn c t) (\<lambda>_. halt x) (\<lambda>_. halt x)"

definition mark_proc :: "uuid \<Rightarrow> uuid \<Rightarrow> uuid \<Rightarrow> uuid \<Rightarrow> proc" where
  "mark_proc c t i ver = step (MarkBankTxnBooked c t (pg_uuid ver) (pg_uuid i)) halt (\<lambda>n.
     demand (n \<noteq> 0) ErrTxnNotOpen (Stop None))"

definition claim_proc :: "env \<Rightarrow> uuid \<Rightarrow> uuid \<Rightarrow> uuid \<Rightarrow> bank_row \<Rightarrow> proc" where
  "claim_proc e c t i txn = step (ClaimBankTxn c t) halt (\<lambda>claimed.
     demand (claimed \<noteq> 0) ErrTxnNotOpen (
     payment_proc e c i (midnight (bt_date txn)) (bt_account txn) (bt_amount txn) (release_proc c t) (mark_proc c t i)))"

definition match_proc :: "env \<Rightarrow> uuid \<Rightarrow> uuid \<Rightarrow> uuid \<Rightarrow> proc" where
  "match_proc e c t i =
     step (GetBankTxn t) halt (\<lambda>txn.
     demand (bt_company txn = c) ErrForeignCompany (
     demand (bt_status txn = Unmatched \<and> 0 < sint (bt_amount txn)) ErrTxnNotOpen (
     claim_proc e c t i txn)))"

text \<open>\<open>BookBankTxnToAccount\<close>: a read, then the transaction.\<close>

definition book_tx :: "env \<Rightarrow> uuid \<Rightarrow> uuid \<Rightarrow> string \<Rightarrow> bank_row \<Rightarrow> unit io" where
  "book_tx e c t acct txn = in_tx (
     andthen (post_verification e c bank_series (midnight (bt_date txn))
       (if bt_ref txn \<noteq> [] then ''Banktransaktion '' @ bt_ref txn else ''Banktransaktion'')
       (bank_lines txn acct) 0) (\<lambda>ver.
     andthen (MarkBankTxnBooked c t (pg_uuid ver) (pg_uuid 0)) (\<lambda>n.
     andthen (require (n \<noteq> 0) ErrTxnNotOpen) (\<lambda>_.
     log_audit e c ''book_bank_account'' ''verification'' (e_uuid_text e ver)
       (acct @ '' '' @ amount_string (bt_amount txn))))))"

definition account_proc :: "env \<Rightarrow> uuid \<Rightarrow> uuid \<Rightarrow> string \<Rightarrow> proc" where
  "account_proc e c t acct =
     step (GetBankTxn t) halt (\<lambda>txn.
     demand (bt_company txn = c) ErrForeignCompany (
     demand (bt_status txn = Unmatched) ErrTxnNotOpen (
     step (book_tx e c t acct txn) halt (\<lambda>_. Stop None))))"

text \<open>The operations that run as processes; one that is a single transaction is one step.\<close>

datatype (plugins only:) operation = Do_Finalize uuid uuid gotime gotime | Do_Pay uuid uuid gotime string amount
  | Do_Match uuid uuid uuid | Do_Account uuid uuid string | Do_Request request

fun process :: "env \<Rightarrow> operation \<Rightarrow> proc" where
  "process e (Do_Finalize c i d due) = finalize_proc e c i d due"
| "process e (Do_Pay c i d a p) = payment_proc e c i d a p halt (\<lambda>_. Stop None)"
| "process e (Do_Match c t i) = match_proc e c t i"
| "process e (Do_Account c t a) = account_proc e c t a"
| "process e (Do_Request q) = step (serve e q) halt (\<lambda>_. Stop None)"

section \<open>A process alone\<close>

primrec alone :: "proc \<Rightarrow> unit io" where
  "alone (Stop r) = (case r of None \<Rightarrow> ret () | Some x \<Rightarrow> fail x)"
| "alone (Atomic m) = (\<lambda>s. case map_prod alone (\<lambda>t. t) (m s) of (k, t) \<Rightarrow> k t)"

fun request_of :: "operation \<Rightarrow> request" where
  "request_of (Do_Finalize c i d due) = Finalize c i d due"
| "request_of (Do_Pay c i d a p) = Pay c i d a p"
| "request_of (Do_Match c t i) = Book_Invoice c t i"
| "request_of (Do_Account c t a) = Book_Account c t a"
| "request_of (Do_Request q) = q"

lemma alone_step:
  "alone (step m bad ok) s = (case m s of (Inl x, t) \<Rightarrow> alone (bad x) t | (Inr y, t) \<Rightarrow> alone (ok y) t)"
  by (simp add: step_def split: prod.split sum.split)

lemma alone_halting:
  "alone (step m halt ok) = andthen m (\<lambda>y. alone (ok y))"
  "alone (demand b x p) = andthen (require b x) (\<lambda>_. alone p)"
  "alone (halt x) = fail x"
  by (auto simp: fun_eq_iff alone_step andthen_def halt_def demand_def require_def fail_def ret_def split: prod.split sum.split)

lemma alone_payment:
  "alone (payment_proc e c i d acct pay bad ok) =
     andthen (attempt (RecordPayment e c i d acct pay)) (\<lambda>r. case r of Inl x \<Rightarrow> alone (bad x) | Inr v \<Rightarrow> alone (ok v))"
  by (auto simp: fun_eq_iff payment_proc_def RecordPayment_def alone_step andthen_def attempt_def require_def fail_def ret_def
      split: prod.split sum.split)

lemma andthen_unit [simp]: "andthen m (\<lambda>_. ret ()) = m" for m :: "unit io"
  by (auto simp: fun_eq_iff andthen_def ret_def split: prod.split sum.split)

lemma andthen_ret [simp]: "andthen m ret = m"
  by (auto simp: fun_eq_iff andthen_def ret_def split: prod.split sum.split)

lemma alone_release: "alone (release_proc c t x) = andthen (attempt (UnclaimBankTxn c t)) (\<lambda>_. fail x)"
  by (auto simp: release_proc_def fun_eq_iff alone_step andthen_def attempt_def halt_def split: prod.split sum.split)

lemma alone_mark:
  "alone (mark_proc c t i ver) = andthen (MarkBankTxnBooked c t (pg_uuid ver) (pg_uuid i)) (\<lambda>n. require (n \<noteq> 0) ErrTxnNotOpen)"
  by (simp add: mark_proc_def alone_halting)

lemma alone_process: "alone (process e p) = serve e (request_of p)"
proof (cases p)
  case (Do_Pay c i d a x)
  show ?thesis
    by (auto simp: Do_Pay alone_payment alone_halting forget_def andthen_def attempt_def ret_def fail_def fun_eq_iff
        split: prod.split sum.split)
next
  case (Do_Match c t i)
  show ?thesis
    by (simp add: Do_Match match_proc_def claim_proc_def BookBankTxnToInvoice_def alone_halting alone_payment alone_release alone_mark cong: sum.case_cong)
qed (simp_all add: finalize_proc_def account_proc_def FinalizeInvoice_def BookBankTxnToAccount_def book_tx_def alone_halting forget_def
    andthen_assoc)

section \<open>Schedules\<close>

definition advance :: "nat \<Rightarrow> proc list \<times> db \<Rightarrow> proc list \<times> db" where
  "advance k w = (case w of (ps, s) \<Rightarrow>
     if k < length ps
     then (case ps ! k of Stop _ \<Rightarrow> (ps, s) | Atomic m \<Rightarrow> (case m s of (p, t) \<Rightarrow> (ps[k := p], t)))
     else (ps, s))"

text \<open>A schedule names, step by step, the process that runs next.\<close>

definition interleave :: "nat list \<Rightarrow> proc list \<times> db \<Rightarrow> proc list \<times> db" where
  "interleave ks w = fold advance ks w"

lemma interleave_simps [simp]: "interleave [] w = w" "interleave (k # ks) w = interleave ks (advance k w)"
  by (simp_all add: interleave_def)

lemma advance_cases:
  obtains (same) "advance k (ps, s) = (ps, s)"
  | (moved) m where "k < length ps" "ps ! k = Atomic m" "advance k (ps, s) = (ps[k := fst (m s)], snd (m s))"
  by (cases "ps ! k"; cases "k < length ps") (auto simp: advance_def case_prod_unfold)

section \<open>Every interleaving leaves the books in order\<close>

inductive proc_keeps :: "(db \<Rightarrow> db \<Rightarrow> bool) \<Rightarrow> proc \<Rightarrow> bool" for R where
  keeps_stop: "proc_keeps R (Stop r)"
| keeps_atomic: "(\<And>s. R s (snd (m s))) \<Longrightarrow> (\<And>s. proc_keeps R (fst (m s))) \<Longrightarrow> proc_keeps R (Atomic m)"

inductive_cases proc_keeps_Atomic: "proc_keeps R (Atomic m)"

lemma proc_keeps_step:
  "keeps R m \<Longrightarrow> (\<And>x. proc_keeps R (bad x)) \<Longrightarrow> (\<And>y. proc_keeps R (ok y)) \<Longrightarrow> proc_keeps R (step m bad ok)"
  unfolding step_def keeps_def by (rule keeps_atomic) (auto simp: case_prod_unfold split: sum.split)

lemma proc_keeps_plain: "proc_keeps R (halt x)" "proc_keeps R p \<Longrightarrow> proc_keeps R (demand b x p)"
  by (simp_all add: halt_def demand_def keeps_stop)

lemmas proc_intros = keeps_stop proc_keeps_plain proc_keeps_step

context change
begin

lemma interleave_keeps:
  assumes "list_all (proc_keeps R) ps"
  shows "R s (snd (interleave ks (ps, s)))"
  using assms
proof (induction ks arbitrary: ps s)
  case Nil
  show ?case by (simp add: change_refl)
next
  case (Cons k ks)
  show ?case
  proof (cases k ps s rule: advance_cases)
    case same
    with Cons show ?thesis by simp
  next
    case (moved m)
    have "proc_keeps R (Atomic m)" using Cons.prems moved(1,2) by (metis list_all_length)
    then have m: "R s (snd (m s))" "proc_keeps R (fst (m s))" by (auto elim: proc_keeps_Atomic)
    have "list_all (proc_keeps R) (ps[k := fst (m s)])"
      using Cons.prems m(2) set_update_subset_insert [of ps k "fst (m s)"] by (auto simp: list_all_iff)
    from change_trans [OF m(1) Cons.IH [OF this]] show ?thesis by (simp only: interleave_simps moved(3))
  qed
qed

lemma process_keeps:
  assumes "\<And>c i d due row rows. keeps R (finalize_tx e c i d due row rows)"
    and "\<And>c i d pay n ls b. keeps R (payment_tx e c i d pay n ls b)"
    and "\<And>c t. keeps R (ClaimBankTxn c t)" and "\<And>c t. keeps R (UnclaimBankTxn c t)"
    and "\<And>c t v i. keeps R (MarkBankTxnBooked c t v i)"
    and "\<And>c sr d ds ls i. keeps R (post_verification e c sr d ds ls i)"
    and "\<And>c a tt ti dt. keeps R (log_audit e c a tt ti dt)"
    and "\<And>q. keeps R (serve e q)"
  shows "proc_keeps R (process e p)"
proof -
  have pay: "proc_keeps R (payment_proc e c i d acct x bad ok)"
    if "\<And>x. proc_keeps R (bad x)" "\<And>v. proc_keeps R (ok v)" for c i d acct x bad ok
    unfolding payment_proc_def
    by (intro proc_keeps_step keeps_reading that)
      (auto intro!: that proc_keeps_step keeps_InvoiceForRender assms(2) split: sum.split)
  have after: "proc_keeps R (release_proc c t x)" "proc_keeps R (mark_proc c t i v)" for c t x i v
    unfolding release_proc_def mark_proc_def by (intro proc_intros assms)+
  have book: "keeps R (book_tx e c t acct txn)" for c t acct txn
    unfolding book_tx_def by (intro keeps_rules assms)
  show ?thesis
    by (cases p; simp only: process.simps finalize_proc_def account_proc_def match_proc_def claim_proc_def)
      (intro proc_intros pay after book keeps_reading assms)+
qed

end

lemma process_sound: "proc_keeps (sound e) (process e p)"
proof (rule sound.process_keeps)
  show "keeps (sound e) (payment_tx e c i d pay n ls b)" for c i d pay n ls b
    unfolding payment_tx_def by (rule sound_parts | (rule sound_quiet; rule keeps_intros))+
qed (rule finalize_tx_sound post_sound log_audit_sound serve_sound | (rule sound_quiet; rule keeps_intros))+

lemma process_schema: "proc_keeps keeps_schema (process e p)"
proof (rule schema.process_keeps)
  show "keeps keeps_schema (finalize_tx e c i d due row rows)" for c i d due row rows
    unfolding finalize_tx_def Let_def by (rule schema.parts schema.helpers)+
  show "keeps keeps_schema (payment_tx e c i d pay n ls b)" for c i d pay n ls b
    unfolding payment_tx_def by (rule schema.parts schema.helpers)+
qed (rule schema.parts schema.helpers schema.serve_keeps)+

lemma same_process_sound: "same_process e f \<Longrightarrow> sound f = sound e"
  using same_process_chain by (simp add: sound_def keeps_chain_def fun_eq_iff)

lemma process_sound_in: "same_process e f \<Longrightarrow> proc_keeps (sound e) (process f p)"
  using process_sound [of f p] same_process_sound [of e f] by simp


text \<open>A new installation, on which two browsers send the same requests at once.\<close>

definition double_clicks :: "(env \<times> operation) list" where
  "double_clicks = [(sample_env, Do_Finalize 3 7 (e_now sample_env) zero_time), (sample_env, Do_Finalize 3 7 (e_now sample_env) zero_time),
     (sample_env, Do_Match 3 8 7), (sample_env, Do_Account 3 8 ''6110'')]"


end
