(* ===== verification/Concurrency_Laws.thy ===== *)
theory Concurrency_Laws
  imports Concurrency
begin

text \<open>
  What the guards of the queries achieve between concurrent requests, and what they do not: the claim on a
  bank transaction lets at most one match of it post, while nothing stops two finalizations of one draft.
\<close>

section \<open>A transaction is matched once\<close>

definition open_txn :: "uuid \<Rightarrow> uuid \<Rightarrow> db \<Rightarrow> bool" where
  "open_txn c t s \<longleftrightarrow> list_ex (txn_in c t [Unmatched]) (bank_txns s)"

lemma open_txn_same: "bank_txns u = bank_txns s \<Longrightarrow> open_txn c t u = open_txn c t s"
  by (simp add: open_txn_def)

lemma txn_update_closes:
  assumes "Unmatched \<in> set sts" and "\<And>r. bt_status (f r) \<noteq> Unmatched" and "\<And>r. bt_id (f r) = bt_id r \<and> bt_company (f r) = bt_company r"
  shows "\<not> open_txn c t (put_bank (map (\<lambda>r. if txn_in c t sts r then f r else r) (bank_txns s)) s)"
  using assms by (auto simp: open_txn_def list_ex_iff txn_in_def)

lemma claim_result:
  obtains (won) n u where "ClaimBankTxn c t s = (Inr n, u)" "n \<noteq> 0" "open_txn c t s" "\<not> open_txn c t u" "verifications u = verifications s"
  | (lost) "ClaimBankTxn c t s = (Inr 0, s)" "\<not> open_txn c t s"
proof (cases "open_txn c t s")
  case True
  let ?u = "put_bank (map (\<lambda>r. if txn_in c t [Unmatched] r then r\<lparr>bt_status := Booking\<rparr> else r) (bank_txns s)) s"
  have "ClaimBankTxn c t s = (Inr (length (filter (txn_in c t [Unmatched]) (bank_txns s))), ?u)"
    by (simp add: ClaimBankTxn_def update_rows_def)
  moreover have "filter (txn_in c t [Unmatched]) (bank_txns s) \<noteq> []"
    using True by (auto simp: open_txn_def list_ex_iff filter_empty_conv)
  then have "length (filter (txn_in c t [Unmatched]) (bank_txns s)) \<noteq> 0" by simp
  moreover have "\<not> open_txn c t ?u" by (rule txn_update_closes) simp_all
  ultimately show thesis using won True by simp
next
  case False
  then have none: "\<not> txn_in c t [Unmatched] r" if "r \<in> set (bank_txns s)" for r
    using that by (auto simp: open_txn_def list_ex_iff)
  then have "map (\<lambda>r. if txn_in c t [Unmatched] r then r\<lparr>bt_status := Booking\<rparr> else r) (bank_txns s) = bank_txns s"
    by (intro map_idI) simp
  moreover have "filter (txn_in c t [Unmatched]) (bank_txns s) = []" using none by simp
  ultimately show thesis using lost False by (simp add: ClaimBankTxn_def update_rows_def)
qed

lemma mark_result:
  "\<exists>n u. MarkBankTxnBooked c t v i s = (Inr n, u) \<and> \<not> open_txn c t u \<and> verifications u = verifications s"
proof -
  let ?u = "put_bank (map (\<lambda>r. if txn_in c t [Unmatched, Booking] r
      then r\<lparr>bt_status := Booked, bt_verification := v, bt_invoice := i\<rparr> else r) (bank_txns s)) s"
  have "\<not> open_txn c t ?u" by (rule txn_update_closes) simp_all
  then show ?thesis by (simp add: MarkBankTxnBooked_def update_rows_def)
qed

lemma release_result: "\<exists>n u. UnclaimBankTxn c t s = (Inr n, u) \<and> verifications u = verifications s"
  by (simp add: UnclaimBankTxn_def update_rows_def)

text \<open>A process that matches the transaction is before its claim or stopped with an error, or it holds the
  claim and has not posted, or it has posted and not marked.\<close>

inductive waiting :: "uuid \<Rightarrow> uuid \<Rightarrow> proc \<Rightarrow> bool" for c t where
  "waiting c t (Stop (Some x))"
| "waiting c t (match_proc e c t i)"
| "waiting c t (claim_proc e c t i txn)"

definition ledger_size :: "db \<Rightarrow> nat" where
  "ledger_size s = length (verifications s)"

inductive paying :: "uuid \<Rightarrow> uuid \<Rightarrow> proc \<Rightarrow> bool" for c t where
  paying_reads: "(\<And>s. snd (m s) = s) \<Longrightarrow> (\<And>s. paying c t (fst (m s))) \<Longrightarrow> paying c t (Atomic m)"
| paying_posts: "(\<And>s. bank_txns (snd (m s)) = bank_txns s) \<Longrightarrow>
    (\<And>s. ledger_size (snd (m s)) = ledger_size s \<and> (\<exists>x. fst (m s) = release_proc c t x) \<or>
         ledger_size (snd (m s)) = Suc (ledger_size s) \<and> (\<exists>i v. fst (m s) = mark_proc c t i v)) \<Longrightarrow> paying c t (Atomic m)"
| paying_releases: "paying c t (release_proc c t x)"

inductive_cases paying_Atomic: "paying c t (Atomic m)"

lemma atomic_procs:
  "match_proc e c t i = Atomic (\<lambda>s. case GetBankTxn t s of (Inl x, u) \<Rightarrow> (halt x, u) | (Inr txn, u) \<Rightarrow>
     (demand (bt_company txn = c) ErrForeignCompany (
      demand (bt_status txn = Unmatched \<and> 0 < sint (bt_amount txn)) ErrTxnNotOpen (claim_proc e c t i txn)), u))"
  "mark_proc c t i v = Atomic (\<lambda>s. case MarkBankTxnBooked c t (pg_uuid v) (pg_uuid i) s of
     (Inl x, u) \<Rightarrow> (halt x, u) | (Inr n, u) \<Rightarrow> (demand (n \<noteq> 0) ErrTxnNotOpen (Stop None), u))"
  "release_proc c t x = Atomic (\<lambda>s. case UnclaimBankTxn c t s of (Inl y, u) \<Rightarrow> (halt x, u) | (Inr n, u) \<Rightarrow> (halt x, u))"
  by (simp_all only: match_proc_def mark_proc_def release_proc_def step_def)

lemma paying_moves:
  assumes "paying c t (Atomic m)"
  obtains (stays) "paying c t (fst (m s))" "bank_txns (snd (m s)) = bank_txns s" "ledger_size (snd (m s)) = ledger_size s"
  | (posts) i v where "fst (m s) = mark_proc c t i v" "bank_txns (snd (m s)) = bank_txns s" "ledger_size (snd (m s)) = Suc (ledger_size s)"
  | (releases) "waiting c t (fst (m s))" "ledger_size (snd (m s)) = ledger_size s"
  using assms
proof (rule paying_Atomic)
  assume "\<And>s. snd (m s) = s" and "\<And>s. paying c t (fst (m s))"
  then show thesis by (intro stays) simp_all
next
  assume bank: "\<And>s. bank_txns (snd (m s)) = bank_txns s"
    and next_proc: "\<And>s. ledger_size (snd (m s)) = ledger_size s \<and> (\<exists>x. fst (m s) = release_proc c t x) \<or>
         ledger_size (snd (m s)) = Suc (ledger_size s) \<and> (\<exists>i v. fst (m s) = mark_proc c t i v)"
  from next_proc [of s] show thesis
  proof (elim disjE conjE exE)
    fix x
    assume "ledger_size (snd (m s)) = ledger_size s" and "fst (m s) = release_proc c t x"
    then show thesis by (intro stays) (simp_all add: bank paying_releases)
  next
    fix i v
    assume "ledger_size (snd (m s)) = Suc (ledger_size s)" and "fst (m s) = mark_proc c t i v"
    then show thesis by (intro posts) (simp_all add: bank)
  qed
next
  fix x
  assume m: "Atomic m = release_proc c t x"
  obtain n u where "UnclaimBankTxn c t s = (Inr n, u)" "verifications u = verifications s" using release_result by blast
  then have "fst (m s) = halt x" "ledger_size (snd (m s)) = ledger_size s"
    using m by (simp_all add: atomic_procs ledger_size_def)
  then show thesis using releases by (simp add: halt_def waiting.intros)
qed

text \<open>The payment of a claimed transaction.\<close>

definition same_bank :: "db \<Rightarrow> db \<Rightarrow> bool" where
  "same_bank s u \<longleftrightarrow> bank_txns u = bank_txns s"

interpretation same_bank: change same_bank
  by unfold_locales (simp_all add: same_bank_def)

interpretation unmoved: change "(=) :: db \<Rightarrow> db \<Rightarrow> bool"
  by unfold_locales simp_all

lemma log_audit_same_bank: "keeps same_bank (log_audit e c a tt ti d)"
  unfolding log_audit_def Let_def InsertAuditLog_def
  by (simp only: split_def) ((intro same_bank.keeps_rules same_bank.keeps_reading; simp add: same_bank_def)+)

lemma payment_tx_same_bank: "keeps same_bank (payment_tx e c i d pay n ls b)"
  unfolding payment_tx_def post_verification_def InsertVerification_def InsertVerificationLine_def AddInvoicePayment_def
    MarkInvoicePaid_def Let_def
  by (rule same_bank.keeps_rules same_bank.keeps_reading log_audit_same_bank | simp add: same_bank_def)+

lemma payment_tx_posts:
  "case payment_tx e c i d pay n ls b s of
     (Inl x, u) \<Rightarrow> u = s | (Inr v, u) \<Rightarrow> ledger_size u = Suc (ledger_size s)"
proof (cases "payment_tx e c i d pay n ls b s")
  case (Pair r u)
  show ?thesis
  proof (cases r)
    case (Inl x)
    with Pair have "u = s" unfolding payment_tx_def by (simp only: in_tx_error)
    with Pair Inl show ?thesis by simp
  next
    case (Inr v)
    with Pair payment_tx_ok(2) [of e c i d pay n ls b s v u] show ?thesis by (simp add: ledger_size_def)
  qed
qed

lemma payment_pays: "paying c t (payment_proc e c i d acct pay (release_proc c t) (mark_proc c t j))"
proof -
  have reads: "paying c t (step m (release_proc c t) ok)"
    if "keeps (=) m" and "\<And>y. paying c t (ok y)" for m and ok
    unfolding step_def
  proof (rule paying_reads)
    fix s
    have "snd (m s) = s" using that(1) by (simp add: keeps_def)
    then show "snd (case m s of (Inl x, u) \<Rightarrow> (release_proc c t x, u) | (Inr y, u) \<Rightarrow> (ok y, u)) = s"
      by (simp add: case_prod_unfold split: sum.split)
    show "paying c t (fst (case m s of (Inl x, u) \<Rightarrow> (release_proc c t x, u) | (Inr y, u) \<Rightarrow> (ok y, u)))"
      using that(2) paying_releases by (simp add: case_prod_unfold split: sum.split)
  qed
  have posts: "paying c t (step (payment_tx e c i d pay n ls b) (release_proc c t) (mark_proc c t j))" for n ls b
    unfolding step_def
  proof (rule paying_posts)
    fix s
    show "bank_txns (snd (case payment_tx e c i d pay n ls b s of (Inl x, u) \<Rightarrow> (release_proc c t x, u)
        | (Inr y, u) \<Rightarrow> (mark_proc c t j y, u))) = bank_txns s"
      using payment_tx_same_bank [of e c i d pay n ls b] unfolding keeps_def same_bank_def
      by (simp add: case_prod_unfold split: sum.split)
    let ?r = "case payment_tx e c i d pay n ls b s of (Inl x, u) \<Rightarrow> (release_proc c t x, u) | (Inr y, u) \<Rightarrow> (mark_proc c t j y, u)"
    show "ledger_size (snd ?r) = ledger_size s \<and> (\<exists>x. fst ?r = release_proc c t x) \<or>
        ledger_size (snd ?r) = Suc (ledger_size s) \<and> (\<exists>i v. fst ?r = mark_proc c t i v)"
      using payment_tx_posts [where e = e and c = c and i = i and d = d and pay = pay and n = n and ls = ls and b = b and s = s] by (auto split: prod.splits sum.splits)
  qed
  have view: "keeps (=) (InvoiceForRender e c i)" by (rule unmoved.keeps_InvoiceForRender)
  have plan: "paying c t (case r of Inl x \<Rightarrow> release_proc c t x | Inr (ls, b) \<Rightarrow>
      step (payment_tx e c i d pay n ls b) (release_proc c t) (mark_proc c t j))" for r n
    using posts paying_releases by (auto split: sum.split)
  have reading: "paying c t (step (InvoiceForRender e c i) (release_proc c t) (\<lambda>view.
      case payment_plan cur paid (iw_total_sek view) acct pay of Inl x \<Rightarrow> release_proc c t x | Inr (ls, b) \<Rightarrow>
      step (payment_tx e c i d pay n ls b) (release_proc c t) (mark_proc c t j)))" for cur paid n
    using view plan by (rule reads)
  show ?thesis
    unfolding payment_proc_def by (rule reads) (use reading paying_releases in \<open>auto intro: unmoved.keeps_reading\<close>)
qed

text \<open>A step of a process that is waiting: it stays waiting and changes nothing, or it takes the claim.\<close>

lemma waiting_moves:
  assumes "waiting c t (Atomic m)"
  obtains (stays) "waiting c t (fst (m s))" "snd (m s) = s"
  | (claims) "open_txn c t s" "paying c t (fst (m s))" "\<not> open_txn c t (snd (m s))" "ledger_size (snd (m s)) = ledger_size s"
proof -
  from assms consider e i where "Atomic m = match_proc e c t i" | e i txn where "Atomic m = claim_proc e c t i txn"
    by (cases rule: waiting.cases) auto
  then show thesis
  proof cases
    case 1
    have "waiting c t (fst (m s)) \<and> snd (m s) = s"
      using 1 by (auto simp: atomic_procs demand_def halt_def GetBankTxn_def fetch_def reads_def
          intro: waiting.intros split: list.splits)
    then show ?thesis using stays by blast
  next
    case 2
    show ?thesis
    proof (cases rule: claim_result [where c = c and t = t and s = s])
      case (won n u)
      then show ?thesis
        using 2 payment_pays by (intro claims) (simp_all add: claim_proc_def step_def demand_def ledger_size_def)
    next
      case lost
      then show ?thesis
        using 2 by (intro stays) (simp_all add: claim_proc_def step_def demand_def halt_def waiting.intros)
    qed
  qed
qed

text \<open>
  Nobody holds the claim and nothing is posted; or one process holds it, has posted at most one
  verification, and the transaction is closed to all others.
\<close>

definition holds_claim :: "uuid \<Rightarrow> uuid \<Rightarrow> nat \<Rightarrow> proc \<Rightarrow> db \<Rightarrow> bool" where
  "holds_claim c t n p s \<longleftrightarrow> \<not> open_txn c t s \<and>
     (paying c t p \<and> ledger_size s = n \<or>
      ((\<exists>i v. p = mark_proc c t i v) \<or> (\<exists>r. p = Stop r)) \<and> ledger_size s = Suc n)"

definition one_claim :: "uuid \<Rightarrow> uuid \<Rightarrow> nat \<Rightarrow> proc list \<times> db \<Rightarrow> bool" where
  "one_claim c t n w \<longleftrightarrow> (case w of (ps, s) \<Rightarrow>
     (\<forall>j < length ps. waiting c t (ps ! j)) \<and> ledger_size s = n \<or>
     (\<exists>k < length ps. holds_claim c t n (ps ! k) s \<and> (\<forall>j < length ps. j \<noteq> k \<longrightarrow> waiting c t (ps ! j))))"

lemma holds_moves:
  assumes "holds_claim c t n (Atomic m) s"
  shows "holds_claim c t n (fst (m s)) (snd (m s)) \<or> waiting c t (fst (m s)) \<and> ledger_size (snd (m s)) = n"
proof -
  from assms have closed: "\<not> open_txn c t s" by (simp add: holds_claim_def)
  from assms consider "paying c t (Atomic m)" "ledger_size s = n"
    | i v where "Atomic m = mark_proc c t i v" "ledger_size s = Suc n"
    by (auto simp: holds_claim_def)
  then show ?thesis
  proof cases
    case 1
    from 1(1) show ?thesis
    proof (cases rule: paying_moves [where s = s])
      case stays
      with 1 closed open_txn_same [OF stays(2)] show ?thesis by (simp add: holds_claim_def)
    next
      case (posts i v)
      with 1 closed open_txn_same [OF posts(2)] show ?thesis by (auto simp: holds_claim_def)
    next
      case releases
      with 1 show ?thesis by simp
    qed
  next
    case 2
    obtain k u where "MarkBankTxnBooked c t (pg_uuid v) (pg_uuid i) s = (Inr k, u)" "\<not> open_txn c t u" "verifications u = verifications s"
      using mark_result by blast
    then show ?thesis using 2 by (simp add: atomic_procs holds_claim_def demand_def halt_def ledger_size_def)
  qed
qed

lemma one_claim_advance:
  assumes "one_claim c t n (ps, s)"
  shows "one_claim c t n (advance k (ps, s))"
proof (cases k ps s rule: advance_cases)
  case same
  with assms show ?thesis by simp
next
  case (moved m)
  from assms consider (free) "\<forall>j < length ps. waiting c t (ps ! j)" "ledger_size s = n"
    | (held) h where "h < length ps" "holds_claim c t n (ps ! h) s" "\<forall>j < length ps. j \<noteq> h \<longrightarrow> waiting c t (ps ! j)"
    by (auto simp: one_claim_def)
  then show ?thesis
  proof cases
    case free
    then have "waiting c t (Atomic m)" using moved(1,2) by metis
    then show ?thesis
    proof (cases rule: waiting_moves [where s = s])
      case stays
      with free moved show ?thesis by (simp add: one_claim_def nth_list_update)
    next
      case claims
      with free moved show ?thesis
        by (auto simp: one_claim_def holds_claim_def nth_list_update intro!: exI [of _ k])
    qed
  next
    case (held h)
    show ?thesis
    proof (cases "k = h")
      case True
      then have "holds_claim c t n (Atomic m) s" using held(2) moved(2) by simp
      from holds_moves [OF this] held True moved show ?thesis
        by (auto simp: one_claim_def nth_list_update intro!: exI [of _ h])
    next
      case False
      then have "waiting c t (Atomic m)" using held(3) moved(1,2) by metis
      then show ?thesis
      proof (cases rule: waiting_moves [where s = s])
        case stays
        with held False moved show ?thesis
          by (auto simp: one_claim_def nth_list_update intro!: exI [of _ h])
      next
        case claims
        with held(2) show ?thesis by (simp add: holds_claim_def)
      qed
    qed
  qed
qed

lemma one_claim_interleave: "one_claim c t n w \<Longrightarrow> one_claim c t n (interleave ks w)"
  by (induction ks arbitrary: w) (auto simp: one_claim_advance split: prod.splits, metis one_claim_advance prod.collapse)

fun succeeded :: "proc \<Rightarrow> bool" where
  "succeeded (Stop r) = (r = None)"
| "succeeded (Atomic m) = False"

lemma waiting_not_succeeded: "waiting c t p \<Longrightarrow> \<not> succeeded p"
  by (erule waiting.cases) (simp_all add: match_proc_def claim_proc_def step_def)

lemma paying_not_succeeded: "paying c t p \<Longrightarrow> \<not> succeeded p"
  by (erule paying.cases) (simp_all add: release_proc_def step_def)

lemma at_most_one:
  assumes "\<forall>j < length ps. j \<noteq> k \<longrightarrow> \<not> P (ps ! j)"
  shows "length (filter P ps) \<le> 1"
proof -
  have "{i. i < length ps \<and> P (ps ! i)} \<subseteq> {k}" using assms by auto
  then have "card {i. i < length ps \<and> P (ps ! i)} \<le> card {k}" by (rule card_mono [rotated]) simp
  then show ?thesis by (simp add: length_filter_conv_card)
qed

text \<open>C17. A bank transaction is matched with an invoice at most once: however many requests match it at the same
  time, with whichever invoices and in whatever interleaving of their statements and transactions, at most
  one verification is posted, and no more requests report success than verifications were posted.\<close>

theorem matched_at_most_once:
  "case interleave ks (map (\<lambda>(f, i). match_proc f c t i) ops, s) of (ps, u) \<Rightarrow>
     length (verifications s) + length (filter succeeded ps) \<le> length (verifications u) \<and>
     length (verifications u) \<le> Suc (length (verifications s))"
proof -
  let ?n = "ledger_size s"
  have "one_claim c t ?n (map (\<lambda>(f, i). match_proc f c t i) ops, s)"
    by (auto simp: one_claim_def intro: waiting.intros split: prod.split)
  from one_claim_interleave [OF this] obtain ps u where
    run: "interleave ks (map (\<lambda>(f, i). match_proc f c t i) ops, s) = (ps, u)" and inv: "one_claim c t ?n (ps, u)"
    by (metis prod.exhaust)
  from inv consider "\<forall>j < length ps. waiting c t (ps ! j)" "ledger_size u = ?n"
    | k where "k < length ps" "holds_claim c t ?n (ps ! k) u" "\<forall>j < length ps. j \<noteq> k \<longrightarrow> waiting c t (ps ! j)"
    by (auto simp: one_claim_def)
  then show ?thesis
  proof cases
    case 1
    then have "filter succeeded ps = []" using waiting_not_succeeded by (metis (mono_tags, lifting) filter_empty_conv in_set_conv_nth)
    with 1 run show ?thesis by (simp add: ledger_size_def)
  next
    case (2 k)
    have "length (filter succeeded ps) \<le> 1" using 2(3) waiting_not_succeeded by (intro at_most_one [of ps k]) blast
    moreover have "filter succeeded ps = []" if "paying c t (ps ! k)"
      using that 2 waiting_not_succeeded paying_not_succeeded by (metis (mono_tags, lifting) filter_empty_conv in_set_conv_nth)
    ultimately show ?thesis using 2(2) run by (auto simp: holds_claim_def ledger_size_def)
  qed
qed

section \<open>A draft is finalized twice\<close>

lemma advance_step:
  "k < length ps \<Longrightarrow> ps ! k = step m bad ok \<Longrightarrow> m s = (Inr y, t) \<Longrightarrow> advance k (ps, s) = (ps[k := ok y], t)"
  by (simp add: advance_def step_def)

text \<open>The transaction of a finalization, run with the draft as it was read, on the books of the sample company:
  it succeeds whatever the status of the invoice has become.\<close>

definition sample_date :: gotime where
  "sample_date = midnight (Date 2026 3 4)"

lemma stale_finalize_tx:
  assumes seq: "invoice_seq s = [((3, 2026), n)]" "n < 9000" and company: "companies s = companies sample_company" "accounts s = accounts sample_company"
    and inv: "invoices s = [r]" "iv_id r = 0" and nums: "next_number 3 ''F'' s \<le> 2147483647"
    and chain: "last_hash [] (company_audit 3 s) \<notin> set (map au_prev (company_audit 3 s))"
    and number: "invoice_number 2026 (n + 1) = number" "no_nul number"
    and lines: "verification_lines (db_invoice number sample_date zero_time sample_draft sample_draft_lines) =
        [debit_line ''1510'' 1000000, \<lparr>account = ''3001'', debit = 0, credit = 800000, vat_code = SE25\<rparr>, credit_line ''2611'' 200000]"
    and gross: "gross_sek (db_invoice number sample_date zero_time sample_draft sample_draft_lines) = 1000000"
  shows "\<exists>v w x. finalize_tx sample_env 3 0 sample_date zero_time sample_draft sample_draft_lines s = (Inr (v, number), w) \<and>
    companies w = companies s \<and> accounts w = accounts s \<and> invoice_seq w = [((3, 2026), n + 1)] \<and>
    verifications w = verifications s @ [posted_row sample_env 3 ''F'' sample_date (''Faktura '' @ number) 0 s] \<and>
    invoices w = [if finalizable 3 0 r then finalized_row number sample_date zero_time v r else r] \<and>
    audit_log w = audit_log s @ [x] \<and> au_company x = 3 \<and> au_prev x = last_hash [] (company_audit 3 s) \<and> au_hash x \<noteq> []"
proof -
  define iv where "iv = db_invoice number sample_date zero_time sample_draft sample_draft_lines"
  define ls where "ls = verification_lines iv"
  note ls = lines [folded iv_def, folded ls_def]
  define s1 where "s1 = s\<lparr>invoice_seq := [((3, 2026), n + 1)]\<rparr>"
  have alloc: "AllocInvoiceNumber 3 2026 s = (Inr (n + 1), s1)"
    using seq by (simp add: AllocInvoiceNumber_def s1_def)
  obtain co where co: "companies s1 = [co]" "co_id co = 3" "locked_through co = None"
    using company sample_company_facts(1,2) by (cases "companies s") (auto simp: s1_def)
  have val: "validate (bare ls) = None" unfolding ls validate_None_iff by (simp add: bare_def double_entry_def line_ok_def)
  have "company_accounts 3 s1 = company_accounts 3 sample_company" using company by (simp add: s1_def company_accounts_def)
  with sample_company_facts(6) core_chart_invoice have acc: "find (\<lambda>l. account l \<notin> company_accounts 3 s1) ls = None"
    by (auto simp: find_None_iff ls)
  have nums1: "next_number 3 ''F'' s1 = next_number 3 ''F'' s" by (simp add: next_number_def series_numbers_def s1_def)
  define p where "p = posted sample_env 3 ''F'' sample_date (''Faktura '' @ number) ls 0 s1"
  have post: "post_verification sample_env 3 ''F'' sample_date (''Faktura '' @ number) ls 0 s1 = (Inr (next_id s1), p)"
    using nums nums1 by (simp add: post_verification_eq val co period_open_def acc pg_uuid_def p_def)
  define u where "u = p\<lparr>invoices := [if finalizable 3 0 r then finalized_row number sample_date zero_time (next_id s1) r else r]\<rparr>"
  have pinv: "invoices p = [r]" by (simp add: p_def posted_def s1_def inv)
  have fin: "q_FinalizeInvoice 3 0 number (Some (date_of sample_date)) (pg_date_or_null zero_time) (pg_uuid (next_id s1)) p = (Inr (), u)"
    using inv(2) by (simp add: q_FinalizeInvoice_def andthen_def reads_def update_rows_def pinv u_def finalized_row_def)
  have uco: "companies u = companies s" "audit_log u = audit_log s" "verifications u = verifications p"
    "accounts u = accounts s" "invoice_seq u = [((3, 2026), n + 1)]" by (simp_all add: u_def p_def posted_def s1_def)
  have ex: "company_exists 3 u" using uco(1) company fresh_company_exists [of u] by simp
  have aud: "company_audit 3 u = company_audit 3 s" by (simp add: company_audit_def uco)
  define dt where "dt = number @ '' '' @ amount_string (gross_sek iv) @ '' SEK''"
  have "no_nul (amount_string (gross_sek iv))" unfolding iv_def gross by (simp add: no_nul_amount)
  then have nn: "list_all no_nul [''kim'', ''finalize_invoice'', ''invoice'', fmt_nat 0, dt]"
    using no_nul_fmt_nat [of 0] number(2) by (simp add: dt_def) (simp add: no_nul_def)
  define x where "x = audit_entry_row sample_env 3 ''finalize_invoice'' ''invoice'' (fmt_nat 0) dt u"
  define w where "w = u\<lparr>audit_log := audit_log u @ [x], next_id := Suc (next_id u)\<rparr>"
  have log: "log_audit sample_env 3 ''finalize_invoice'' ''invoice'' (fmt_nat 0) dt u = (Inr (), w)"
    unfolding w_def x_def by (rule log_audit_fresh [OF ex]) (use chain nn aud in \<open>simp_all add: actor_from_def\<close>)
  have x: "au_company x = 3" "au_prev x = last_hash [] (company_audit 3 s)" "au_hash x \<noteq> []"
    by (simp_all add: x_def audit_entry_row_def Let_def actor_from_def aud sample_hash_nonempty)
  have y: "year (date_of sample_date) = 2026" by (simp add: sample_date_def)
  have "finalize_tx sample_env 3 0 sample_date zero_time sample_draft sample_draft_lines s = (Inr (next_id s1, number), w)"
    unfolding finalize_tx_def in_tx_ok Let_def y sample_env_simps
    by (rule andthen_okI, rule alloc, unfold number(1) iv_def [symmetric] ls_def [symmetric], rule andthen_okI, rule post,
        rule andthen_okI, rule fin, rule andthen_okI, rule log [unfolded dt_def]) simp
  moreover have "verifications w = verifications s @ [posted_row sample_env 3 ''F'' sample_date (''Faktura '' @ number) 0 s]"
    using nums1 by (simp add: w_def uco p_def posted_def s1_def posted_row_def)
  moreover have "invoices w = [if finalizable 3 0 r then finalized_row number sample_date zero_time (next_id s1) r else r]"
    by (simp add: w_def u_def)
  ultimately show ?thesis using x uco by (intro exI [of _ "next_id s1"] exI [of _ w] exI [of _ x]) (simp add: w_def)
qed

text \<open>Two requests finalize the same draft. Each reads it, and each runs its transaction: both succeed, the
  invoice is on the books twice and keeps the number of the first.\<close>

definition twice :: "proc list" where
  "twice = [finalize_proc sample_env 3 0 sample_date zero_time, finalize_proc sample_env 3 0 sample_date zero_time]"

theorem draft_finalized_twice:
  "\<exists>t. interleave [0, 1, 0, 1, 0, 1] (twice, draft_books) = ([Stop None, Stop None], t) \<and>
    map v_description (verifications t) = [''Faktura 2026-0009'', ''Faktura 2026-0010''] \<and>
    map iv_number (invoices t) = [''2026-0009''] \<and> invoice_seq t = [((3, 2026), 10)]"
proof -
  let ?p = "\<lambda>rows. step (finalize_tx sample_env 3 0 sample_date zero_time sample_draft rows) halt (\<lambda>_. Stop None)"
  let ?q = "step (ListInvoiceLines 0) halt ?p"
  have get: "GetInvoice 0 draft_books = (Inr sample_draft, draft_books)"
    by (simp add: GetInvoice_def fetch_def draft_books_def sample_draft_def)
  have rows: "ListInvoiceLines 0 draft_books = (Inr sample_draft_lines, draft_books)"
    by (simp add: ListInvoiceLines_def fetch_all_def draft_books_def)
  have books: "invoice_seq draft_books = [((3, 2026), 8)]" "companies draft_books = companies sample_company"
    "accounts draft_books = accounts sample_company" "invoices draft_books = [sample_draft]"
    "verifications draft_books = []" "audit_log draft_books = []"
    using sample_company_facts by (simp_all add: draft_books_def)
  have draft: "iv_id sample_draft = 0" "iv_company sample_draft = 3" "iv_status sample_draft = Draft" "finalizable 3 0 sample_draft"
    by (simp_all add: sample_draft_def finalizable_def)
  have numbers: "invoice_number 2026 9 = ''2026-0009''" "invoice_number 2026 10 = ''2026-0010''" by code_simp+
  have no_nuls: "no_nul ''2026-0009''" "no_nul ''2026-0010''" by (simp_all add: no_nul_def)
  have lines: "verification_lines (db_invoice m sample_date zero_time sample_draft sample_draft_lines) =
      [debit_line ''1510'' 1000000, \<lparr>account = ''3001'', debit = 0, credit = 800000, vat_code = SE25\<rparr>, credit_line ''2611'' 200000]"
    "gross_sek (db_invoice m sample_date zero_time sample_draft sample_draft_lines) = 1000000"
    if "m \<in> {''2026-0009'', ''2026-0010''}" for m
    using that by (elim insertE emptyE; hypsubst; code_simp)+
  obtain v1 t1 x1 where one: "finalize_tx sample_env 3 0 sample_date zero_time sample_draft sample_draft_lines draft_books = (Inr (v1, ''2026-0009''), t1)"
    "companies t1 = companies draft_books" "accounts t1 = accounts draft_books" "invoice_seq t1 = [((3, 2026), 9)]"
    "verifications t1 = [posted_row sample_env 3 ''F'' sample_date (''Faktura '' @ ''2026-0009'') 0 draft_books]"
    "invoices t1 = [finalized_row ''2026-0009'' sample_date zero_time v1 sample_draft]"
    "audit_log t1 = [x1]" "au_company x1 = 3" "au_prev x1 = []" "au_hash x1 \<noteq> []"
    using stale_finalize_tx [OF books(1) _ books(2,3,4) draft(1), of "''2026-0009''"] numbers no_nuls lines draft books
    by (auto simp: next_number_def series_numbers_def company_audit_def last_hash_def)
  obtain v2 t2 x2 where two: "finalize_tx sample_env 3 0 sample_date zero_time sample_draft sample_draft_lines t1 = (Inr (v2, ''2026-0010''), t2)"
    "invoice_seq t2 = [((3, 2026), 10)]"
    "verifications t2 = verifications t1 @ [posted_row sample_env 3 ''F'' sample_date (''Faktura '' @ ''2026-0010'') 0 t1]"
    "invoices t2 = invoices t1"
    using stale_finalize_tx [OF one(4) _ _ _ one(6), of "''2026-0010''"] numbers no_nuls lines draft books one
    by (auto simp: next_number_def series_numbers_def company_audit_def last_hash_def finalized_row_def finalizable_def posted_row_def)
  note moves = advance_step [where m = "GetInvoice 0" and s = draft_books, OF _ _ get]
    advance_step [where m = "ListInvoiceLines 0" and s = draft_books, OF _ _ rows]
    advance_step [where m = "finalize_tx sample_env 3 0 sample_date zero_time sample_draft sample_draft_lines" and s = draft_books, OF _ _ one(1)]
    advance_step [where m = "finalize_tx sample_env 3 0 sample_date zero_time sample_draft sample_draft_lines" and s = t1, OF _ _ two(1)]
  have "interleave [0, 1, 0, 1, 0, 1] (twice, draft_books) = ([Stop None, Stop None], t2)"
    unfolding interleave_simps twice_def finalize_proc_def by (simp add: moves demand_def draft)
  then show ?thesis using two(2-4) one(5,6) by (intro exI [of _ t2]) (simp add: posted_row_def finalized_row_def)
qed

text \<open>The claim does not keep out \<open>BookBankTxnToAccount\<close>: having read the row before the claim, it can mark it booked,
  and the mark of the request that holds the claim then finds nothing to mark, after its payment is posted.\<close>

lemma account_books_claimed:
  assumes "ClaimBankTxn c t s = (Inr k, u)" and "k \<noteq> 0"
  shows "\<exists>n w. MarkBankTxnBooked c t v None u = (Inr n, w) \<and> n \<noteq> 0 \<and> fst (MarkBankTxnBooked c t v' i w) = Inr 0"
proof -
  let ?claim = "\<lambda>r. if txn_in c t [Unmatched] r then r\<lparr>bt_status := Booking\<rparr> else r"
  from assms have u: "u = put_bank (map ?claim (bank_txns s)) s" and "filter (txn_in c t [Unmatched]) (bank_txns s) \<noteq> []"
    by (auto simp: ClaimBankTxn_def update_rows_def)
  then obtain r where "r \<in> set (bank_txns s)" "txn_in c t [Unmatched] r" by (auto simp: filter_empty_conv)
  then have "?claim r \<in> set (bank_txns u)" "txn_in c t [Unmatched, Booking] (?claim r)" by (auto simp: u txn_in_def)
  then have "filter (txn_in c t [Unmatched, Booking]) (bank_txns u) \<noteq> []" by (auto simp: filter_empty_conv)
  moreover have "filter (txn_in c t [Unmatched, Booking]) (map (\<lambda>r. if txn_in c t [Unmatched, Booking] r
      then r\<lparr>bt_status := Booked, bt_verification := v, bt_invoice := None\<rparr> else r) xs) = []" for xs
    by (induction xs) (auto simp: txn_in_def)
  ultimately show ?thesis by (simp add: MarkBankTxnBooked_def update_rows_def)
qed

end
