(* ===== verification/Spec2Isabelle.thy ===== *)
theory Spec2Isabelle
  imports Year_Laws Erasure_Laws Mcp_Laws Go_Float_Laws Flare_Laws Boot_Laws Concurrency_Laws
begin

text \<open>
  Pare is a bookkeeping program for small Swedish companies: a double-entry ledger in PostgreSQL, an operator
  UI over HTTP, and an endpoint through which an assistant reads and, within limits, writes the books. This
  library models the Go program and states what makes it correct.

  \<^bold>\<open>The parts of the program.\<close> \<open>internal/ledger\<close>, \<open>moms\<close>, \<open>invoice\<close>, \<open>bank\<close> and \<open>sie\<close> are pure: verifications
  and reports, VAT, invoice amounts, statements, SIE files. \<open>internal/store\<close> runs them on the database through
  the queries of \<open>internal/db/generated\<close>, encrypts identities with \<open>internal/crypto\<close> and writes a chained
  audit log. \<open>internal/handler\<close> (with \<open>internal/auth\<close>, \<open>render\<close>, \<open>email\<close>) and \<open>internal/mcp\<close> (with
  \<open>internal/shield\<close>) call the store for the operator and the assistant; \<open>internal/flarereport\<close> ships logs;
  \<open>cmd/server\<close> puts them together from \<open>internal/config\<close>.

  \<^bold>\<open>The library of Go.\<close> \<open>Pare_Prelude\<close> (64-bit words, division and rounding), \<open>Go_Strings\<close>, \<open>Go_Decimal\<close>,
  \<open>Go_Time\<close> and \<open>Go_Float\<close> model what the source uses of the standard library. Text is a list of bytes; Go's
  \<open>int64\<close> is a 64-bit word that wraps; Go's \<open>float64\<close> is a sign, a mantissa and an exponent with rounding to
  nearest, ties to even.

  \<^bold>\<open>The pure parts.\<close> \<open>Ledger\<close> (\<open>ledger.go\<close>, \<open>money.go\<close>, \<open>chart.go\<close>), \<open>Reports\<close> (\<open>reports.go\<close>), \<open>Moms\<close>
  (\<open>moms.go\<close>, \<open>purchase.go\<close>), \<open>Invoice\<close> (\<open>invoice.go\<close>), \<open>Bank\<close> with \<open>Bank_Laws\<close> (\<open>bank.go\<close>, \<open>csv.go\<close>,
  \<open>camt.go\<close>), \<open>Sie\<close> with \<open>Sie_Laws\<close> (\<open>sie.go\<close>). Their lemmas are about values: validation is exact double
  entry in spite of wrap-around, reversal cancels, reports tie out, VAT is rounded to the nearest ore, an
  accepted amount is what its digits denote, what is written is read back.

  \<^bold>\<open>The database and the store.\<close> \<open>Db\<close> has the tables as one record of lists of rows and the database programs
  as functions on it that return an error or a value; \<open>Queries\<close> has one definition per query, with the
  constraints it can violate; \<open>Crypto\<close> the envelope encryption over an environment record that holds the
  clock, the actor, the keys and the primitives. \<open>Audit_Trail\<close>, \<open>Store\<close>, \<open>Store_Invoice\<close>, \<open>Store_Purchase\<close>,
  \<open>Store_Bank\<close>, \<open>Store_Document\<close> and \<open>Store_Sie\<close> have the operations of the files \<open>store*.go\<close> under their Go
  names (a suffix or the prefix \<open>q_\<close> where a name is taken by a query or by HOL), and \<open>Posting\<close> and
  \<open>Receivables\<close> what each leaves of the books. \<open>Service\<close> makes the operations one type of requests with the
  states they reach. The locale \<open>change\<close> of \<open>Db\<close> is the interface between programs and what is claimed of
  them: a reflexive and transitive relation on the tables that each step keeps is kept by the program. Its
  extension \<open>query_laws\<close> (\<open>Query_Laws\<close>) needs it of the queries alone and gives it for every operation, every
  HTTP request and every run. \<open>Posting_Laws\<close>, \<open>Ledger_Laws\<close>, \<open>Invoice_Laws\<close> and \<open>Year_Laws\<close> hold the
  functional properties of posting, undo, balances, invoices, payments and the year-end close;
  \<open>Erasure_Laws\<close> shows what is left of an erased counterparty; \<open>Schema\<close> shows that the constraints of the
  schema hold in every state of a program in use.

  \<^bold>\<open>Concurrent requests.\<close> \<open>Concurrency\<close> cuts the operations of \<open>store_invoice.go\<close>, \<open>store_payment.go\<close> and
  \<open>store_bank.go\<close> that read outside their transaction into atomic steps, shows that a process run alone is the
  operation, and that every interleaving leaves the books in order; \<open>Concurrency_Laws\<close> shows what the claim on
  a bank transaction achieves and that a draft can be finalized twice.

  \<^bold>\<open>The front ends.\<close> \<open>Auth\<close> has accounts, sessions and the configuration (\<open>auth.go\<close>, \<open>config.go\<close>). \<open>Web_Forms\<close>,
  \<open>Web_Pages\<close>, \<open>Web_Reports\<close>, \<open>Web_Actions\<close>, \<open>Web_Books\<close> and \<open>Web_Router\<close> have every handler of \<open>web.go\<close>, the
  guards and the table of routes of \<open>server.go\<close> and the check of \<open>csrf.go\<close>; \<open>Web_Laws\<close> and \<open>Web_Samples\<close> show
  who can change what. \<open>Render\<close> and \<open>Render_Laws\<close> have the invoice template, the PDF conversion and the mail.
  \<open>Shield\<close>, \<open>Mcp\<close> and their laws have the endpoint of the assistant and what it can see and do; the locale
  \<open>vault\<close> is the token store, with the database and the memory store as its instances. \<open>Flare\<close> and
  \<open>Flare_Laws\<close> have the log shipper, \<open>Boot\<close> and \<open>Boot_Laws\<close> the start of the program. \<open>Go_Float_Laws\<close> shows
  that amounts survive the forms.

  \<^bold>\<open>Bounds and termination.\<close> All recursion terminates without fuel: loops are recursive over the list they read,
  scanners over the length of the text left, the walk of the shield and of log attributes over the size of the
  value. The only counter is that of the PDF conversion, which the code bounds at three attempts.

  \<^bold>\<open>Parameters.\<close> AES-GCM, HMAC, SHA-256, randomness, bcrypt, the text of a UUID, the HTTP responses of the PDF
  service, mail delivery, MIME and XML decoding and JSON parsing are functions or inputs of the model. Where a
  property relies on one (\<open>aead_ok\<close>: what is sealed opens to itself, and draws have the length asked for), this
  is a hypothesis of it, and its witness instantiates it with the functions of \<open>Sample\<close>.

  \<^bold>\<open>Not modelled.\<close> Transactions are atomic: the isolation level of PostgreSQL, locks and deadlocks are not
  modelled, and a transaction that the database would abort is not distinguished from one that never ran.
  The templates of the UI are named with their data, not rendered. The migrations are represented by the
  constraints of the queries, their runner and the test database (\<open>migrate.go\<close>, \<open>testdb.go\<close>) call libraries
  only. The heartbeat (\<open>heartbeat.go\<close>) and the setup of the reporting SDK (\<open>flarereport.go\<close>) are I/O without
  state. Goroutines are represented by the steps they take: one sweep, one receive or tick of the shipper.
  Cancellation of contexts and panics of the runtime are left out.
\<close>

end
